(* ===== verification/Prelude.thy ===== *)
theory Prelude
  imports Main "HOL-Library.Char_ord" "HOL-Library.List_Lexorder"
begin

text \<open>
  Shared vocabulary of the development: Go error values, the parts of Go's standard library
  that the modelled code calls (package strings, package strconv, package sort, int64
  arithmetic), association lists standing for Go maps whose iteration order is visible, and two
  generic interfaces, encoder/decoder pairs and state machines with an invariant.
\<close>

named_theorems alist_simps \<open>lookup rules for association lists standing for Go maps\<close>

section \<open>Errors\<close>

text \<open>
  An error value is a fresh error, an error of the Kubernetes API, or an error wrapped with a
  message by \<^verbatim>\<open>errors.Wrap\<close>. \<^verbatim>\<open>IsNotFound\<close> and \<^verbatim>\<open>IsAlreadyExists\<close> of the API machinery
  look through wrapping.
\<close>

datatype api_error = NotFound | AlreadyExists | OtherApi string

datatype err = Errorf string | Api api_error | Wrap string err

type_synonym 'a res = "err + 'a"

fun IsNotFound :: "err \<Rightarrow> bool" where
  "IsNotFound (Errorf _) = False"
| "IsNotFound (Api a) = (a = NotFound)"
| "IsNotFound (Wrap _ e) = IsNotFound e"

fun IsAlreadyExists :: "err \<Rightarrow> bool" where
  "IsAlreadyExists (Errorf _) = False"
| "IsAlreadyExists (Api a) = (a = AlreadyExists)"
| "IsAlreadyExists (Wrap _ e) = IsAlreadyExists e"

text \<open>The text of an error, for the code that looks into it.\<close>

fun err_text :: "err \<Rightarrow> string" where
  "err_text (Errorf s) = s"
| "err_text (Api NotFound) = ''not found''"
| "err_text (Api AlreadyExists) = ''already exists''"
| "err_text (Api (OtherApi s)) = s"
| "err_text (Wrap m e) = m @ '': '' @ err_text e"

section \<open>Signed 64-bit integers\<close>

text \<open>Go's \<^verbatim>\<open>int\<close> on the supported platforms: two's complement with 64 bits.\<close>

definition int64_ok :: "int \<Rightarrow> bool" where
  "int64_ok i \<longleftrightarrow> - (2 ^ 63) \<le> i \<and> i < 2 ^ 63"

definition s64 :: "int \<Rightarrow> int" where
  "s64 i = (i + 2 ^ 63) mod 2 ^ 64 - 2 ^ 63"

lemma s64_id [simp]: "int64_ok i \<Longrightarrow> s64 i = i"
  by (auto simp: int64_ok_def s64_def)

lemma s64_range: "int64_ok (s64 i)"
proof -
  have "0 \<le> (i + 2 ^ 63) mod 2 ^ 64 \<and> (i + 2 ^ 63) mod 2 ^ 64 < 2 ^ 64" by simp
  then show ?thesis by (simp add: int64_ok_def s64_def)
qed

text \<open>Go's \<^verbatim>\<open>int32\<close>.\<close>

definition s32 :: "int \<Rightarrow> int" where
  "s32 i = (i + 2 ^ 31) mod 2 ^ 32 - 2 ^ 31"

lemma s32_id [simp]: "- (2 ^ 31) \<le> i \<Longrightarrow> i < 2 ^ 31 \<Longrightarrow> s32 i = i"
  by (simp add: s32_def)

text \<open>Division and remainder of Go round towards zero.\<close>

definition go_div :: "int \<Rightarrow> int \<Rightarrow> int" where
  "go_div a b = sgn a * sgn b * (\<bar>a\<bar> div \<bar>b\<bar>)"

definition go_rem :: "int \<Rightarrow> int \<Rightarrow> int" where
  "go_rem a b = a - b * go_div a b"

lemma go_div_nonneg [simp]: "0 \<le> a \<Longrightarrow> 0 < b \<Longrightarrow> go_div a b = a div b"
  by (cases "a = 0") (simp_all add: go_div_def)

lemma go_rem_nonneg [simp]: "0 \<le> a \<Longrightarrow> 0 < b \<Longrightarrow> go_rem a b = a mod b"
  by (simp add: go_rem_def minus_mult_div_eq_mod)

section \<open>Package strings\<close>

text \<open>\<^verbatim>\<open>strings.Split\<close> with a separator of one character: never the empty list.\<close>

fun split_on :: "char \<Rightarrow> string \<Rightarrow> string list" where
  "split_on c [] = [[]]"
| "split_on c (x # xs) =
     (if x = c then [] # split_on c xs
      else case split_on c xs of [] \<Rightarrow> [[x]] | p # ps \<Rightarrow> (x # p) # ps)"

fun join :: "string \<Rightarrow> string list \<Rightarrow> string" where
  "join sep [] = []"
| "join sep [s] = s"
| "join sep (s # t # ss) = s @ sep @ join sep (t # ss)"

definition has_prefix :: "string \<Rightarrow> string \<Rightarrow> bool" where
  "has_prefix p s \<longleftrightarrow> take (length p) s = p"

definition has_suffix :: "string \<Rightarrow> string \<Rightarrow> bool" where
  "has_suffix p s \<longleftrightarrow> length p \<le> length s \<and> drop (length s - length p) s = p"

definition trim_prefix :: "string \<Rightarrow> string \<Rightarrow> string" where
  "trim_prefix p s = (if has_prefix p s then drop (length p) s else s)"

definition trim_left :: "string \<Rightarrow> string \<Rightarrow> string" where
  "trim_left cutset s = dropWhile (\<lambda>c. c \<in> set cutset) s"

definition trim_right :: "string \<Rightarrow> string \<Rightarrow> string" where
  "trim_right cutset s = rev (dropWhile (\<lambda>c. c \<in> set cutset) (rev s))"

fun contains_sub :: "string \<Rightarrow> string \<Rightarrow> bool" where
  "contains_sub [] p = (p = [])"
| "contains_sub (x # xs) p = (has_prefix p (x # xs) \<or> contains_sub xs p)"

lemma split_on_nonempty [simp]: "split_on c s \<noteq> []"
  by (induction s) (auto split: list.splits)

lemma split_on_notin: "c \<notin> set s \<Longrightarrow> split_on c s = [s]"
  by (induction s) auto

lemma split_on_app: "c \<notin> set p \<Longrightarrow> split_on c (p @ c # s) = p # split_on c s"
  by (induction p) auto

lemma split_on_join:
  assumes "\<forall>x\<in>set xs. c \<notin> set x" and "xs \<noteq> []"
  shows "split_on c (join [c] xs) = xs"
  using assms
proof (induction "[c]" xs rule: join.induct)
  case 1
  then show ?case by simp
next
  case (2 s)
  then show ?case by (simp add: split_on_notin)
next
  case (3 s t ss)
  then show ?case by (simp add: split_on_app)
qed

lemma set_split_on: "p \<in> set (split_on c s) \<Longrightarrow> c \<notin> set p \<and> set p \<subseteq> set s"
proof (induction s arbitrary: p)
  case Nil
  then show ?case by simp
next
  case (Cons x xs)
  obtain q qs where q: "split_on c xs = q # qs"
    by (cases "split_on c xs") auto
  show ?case
  proof (cases "x = c")
    case True
    with Cons show ?thesis by auto
  next
    case False
    with Cons.prems q have "p = x # q \<or> p \<in> set qs" by simp
    then show ?thesis
    proof
      assume p: "p = x # q"
      with q have "q \<in> set (split_on c xs)" by simp
      from Cons.IH [OF this] p False show ?thesis by auto
    next
      assume "p \<in> set qs"
      with q have "p \<in> set (split_on c xs)" by simp
      from Cons.IH [OF this] show ?thesis by auto
    qed
  qed
qed

lemma has_prefix_append [simp]: "has_prefix p (p @ s)"
  by (simp add: has_prefix_def)

lemma has_prefixE: "has_prefix p s \<Longrightarrow> (\<And>t. s = p @ t \<Longrightarrow> P) \<Longrightarrow> P"
  by (metis append_take_drop_id has_prefix_def)

lemma trim_prefix_append [simp]: "trim_prefix p (p @ s) = s"
  by (simp add: trim_prefix_def)

lemma set_trim_left: "set (trim_left cs s) \<subseteq> set s"
  by (simp add: trim_left_def set_dropWhileD subsetI)

lemma set_trim_right: "set (trim_right cs s) \<subseteq> set s"
proof -
  have "set (dropWhile (\<lambda>c. c \<in> set cs) (rev s)) \<subseteq> set (rev s)"
    by (meson set_dropWhileD subsetI)
  then show ?thesis by (simp add: trim_right_def)
qed

lemma trim_left_hd: "trim_left cs s \<noteq> [] \<Longrightarrow> hd (trim_left cs s) \<notin> set cs"
  using hd_dropWhile unfolding trim_left_def by blast

lemma trim_right_last: "trim_right cs s \<noteq> [] \<Longrightarrow> last (trim_right cs s) \<notin> set cs"
  using hd_dropWhile [of "\<lambda>c. c \<in> set cs" "rev s"] by (simp add: trim_right_def last_rev)

lemma trim_right_hd:
  assumes "trim_right cs s \<noteq> []" shows "hd (trim_right cs s) = hd s"
proof -
  define d where "d = dropWhile (\<lambda>c. c \<in> set cs) (rev s)"
  from assms have ne: "d \<noteq> []" by (auto simp: trim_right_def d_def)
  have "rev s = takeWhile (\<lambda>c. c \<in> set cs) (rev s) @ d" by (simp add: d_def)
  then have "s = rev d @ rev (takeWhile (\<lambda>c. c \<in> set cs) (rev s))"
    by (metis rev_append rev_rev_ident)
  with ne have "hd s = hd (rev d)" by (metis hd_append2 rev_is_Nil_conv)
  then show ?thesis by (simp add: trim_right_def d_def)
qed

section \<open>Package strconv\<close>

text \<open>\<^verbatim>\<open>strconv.Itoa\<close> and \<^verbatim>\<open>strconv.Atoi\<close>: base ten, an optional sign, 64 bits.\<close>

definition digit_char :: "int \<Rightarrow> char" where
  "digit_char d = ''0123456789'' ! nat d"

definition is_digit :: "char \<Rightarrow> bool" where
  "is_digit c \<longleftrightarrow> c \<in> set ''0123456789''"

definition digit_val :: "char \<Rightarrow> int" where
  "digit_val c = of_char c - 48"

function digits :: "int \<Rightarrow> string" where
  "digits n = (if n < 10 then [digit_char n] else digits (n div 10) @ [digit_char (n mod 10)])"
  by pat_completeness auto
termination
  by (relation "measure nat") auto

declare digits.simps [simp del]

definition Itoa :: "int \<Rightarrow> string" where
  "Itoa i = (if i < 0 then CHR ''-'' # digits (- i) else digits i)"

definition digits_val :: "string \<Rightarrow> int" where
  "digits_val s = foldl (\<lambda>v c. 10 * v + digit_val c) 0 s"

definition parse_digits :: "string \<Rightarrow> int option" where
  "parse_digits s = (if s \<noteq> [] \<and> list_all is_digit s then Some (digits_val s) else None)"

definition split_sign :: "string \<Rightarrow> bool \<times> string" where
  "split_sign s = (case s of [] \<Rightarrow> (False, []) | c # cs \<Rightarrow>
     if c = CHR ''-'' then (True, cs) else if c = CHR ''+'' then (False, cs) else (False, s))"

definition Atoi :: "string \<Rightarrow> int option" where
  "Atoi s =
     (let (neg, body) = split_sign s
      in case parse_digits body of
           None \<Rightarrow> None
         | Some v \<Rightarrow> (let i = (if neg then - v else v)
                      in if int64_ok i then Some i else None))"

text \<open>
  The integer that \<^verbatim>\<open>strconv.Atoi\<close> returns next to its error: 0 for a malformed number, the
  nearest 64-bit integer for one out of range.
\<close>

definition Atoi_val :: "string \<Rightarrow> int" where
  "Atoi_val s =
     (case Atoi s of
        Some i \<Rightarrow> i
      | None \<Rightarrow> (let (neg, body) = split_sign s
                 in if parse_digits body = None then 0 else if neg then - (2 ^ 63) else 2 ^ 63 - 1))"

lemma int_lt_10: "0 \<le> (d::int) \<Longrightarrow> d < 10 \<Longrightarrow> d \<in> {0, 1, 2, 3, 4, 5, 6, 7, 8, 9}"
  by (simp add: insert_iff) arith

lemma digit_char_simps [simp]:
  assumes "0 \<le> d" and "d < 10"
  shows "is_digit (digit_char d)" and "digit_val (digit_char d) = d"
  using int_lt_10 [OF assms] by (auto simp: digit_char_def is_digit_def digit_val_def)

lemma digits_nonempty [simp]: "digits n \<noteq> []"
  by (subst digits.simps) simp

lemma digits_all: "0 \<le> n \<Longrightarrow> list_all is_digit (digits n)"
proof (induction n rule: digits.induct)
  case (1 n)
  then show ?case by (subst digits.simps) (auto simp: list_all_iff)
qed

lemma digits_val_snoc: "digits_val (s @ [c]) = 10 * digits_val s + digit_val c"
  by (simp add: digits_val_def)

lemma digits_val_digits: "0 \<le> n \<Longrightarrow> digits_val (digits n) = n"
proof (induction n rule: digits.induct)
  case (1 n)
  show ?case
  proof (cases "n < 10")
    case True
    with 1 show ?thesis by (subst digits.simps) (simp add: digits_val_def)
  next
    case False
    with 1 show ?thesis by (subst digits.simps) (simp add: digits_val_snoc)
  qed
qed

lemma parse_digits_digits [simp]: "0 \<le> n \<Longrightarrow> parse_digits (digits n) = Some n"
  by (simp add: parse_digits_def digits_all digits_val_digits)

lemma is_digit_notin:
  assumes "list_all is_digit s" and "\<not> is_digit c" shows "c \<notin> set s"
  using assms by (auto simp: list_all_iff)

lemma not_digits [simp]:
  "\<not> is_digit CHR ''-''" "\<not> is_digit CHR ''.''" "\<not> is_digit CHR ''+''"
  "\<not> is_digit CHR '',''" "\<not> is_digit CHR ''=''" "\<not> is_digit CHR '' ''" "\<not> is_digit CHR ''(''"
  by (simp_all add: is_digit_def)

lemma digits_notin: "\<not> is_digit c \<Longrightarrow> 0 \<le> n \<Longrightarrow> c \<notin> set (digits n)"
  using is_digit_notin [OF digits_all] .

lemma split_sign_digits: "s \<noteq> [] \<Longrightarrow> list_all is_digit s \<Longrightarrow> split_sign s = (False, s)"
  by (cases s) (auto simp: split_sign_def)

lemma Itoa_nonneg: "0 \<le> i \<Longrightarrow> Itoa i = digits i"
  by (simp add: Itoa_def)

lemma Itoa_notin: "\<not> is_digit c \<Longrightarrow> c \<noteq> CHR ''-'' \<Longrightarrow> c \<notin> set (Itoa i)"
  by (auto simp: Itoa_def digits_notin)

lemma Atoi_Itoa:
  assumes "int64_ok i" shows "Atoi (Itoa i) = Some i"
proof (cases "i < 0")
  case True
  with assms show ?thesis by (simp add: Atoi_def Itoa_def split_sign_def)
next
  case False
  with assms show ?thesis by (simp add: Atoi_def Itoa_def split_sign_digits digits_all)
qed

lemma Atoi_ok: "Atoi s = Some i \<Longrightarrow> int64_ok i"
  by (auto simp: Atoi_def Let_def split: prod.splits option.splits if_splits)

section \<open>Package sort and sets of strings\<close>

text \<open>
  \<^verbatim>\<open>sets.List\<close> returns the members of a set of strings in increasing byte order.
\<close>

definition sets_List :: "string set \<Rightarrow> string list" where
  "sets_List S = sorted_list_of_set S"

lemma sets_List_props [simp]:
  assumes "finite S"
  shows "set (sets_List S) = S" and "sorted (sets_List S)" and "distinct (sets_List S)"
  using assms by (simp_all add: sets_List_def)

lemma sets_List_set_code [code]: "sets_List (set xs) = sort (remdups xs)"
  by (simp add: sets_List_def sorted_list_of_set_sort_remdups)

section \<open>Maps\<close>

text \<open>Reading an absent key of a map of strings gives the empty string.\<close>

definition mget :: "('k \<rightharpoonup> string) \<Rightarrow> 'k \<Rightarrow> string" where
  "mget m k = (case m k of None \<Rightarrow> [] | Some v \<Rightarrow> v)"

lemma mget_upd [simp]: "mget (m(k \<mapsto> v)) k' = (if k' = k then v else mget m k')"
  "mget (m(k := None)) k' = (if k' = k then [] else mget m k')"
  by (simp_all add: mget_def)

section \<open>Association lists as Go maps\<close>

text \<open>
  Go ranges over a map in an unspecified order. Where that order is visible, the map is an
  association list with distinct keys; its order stands for the order of the iteration, and a
  theorem about all such lists holds for every order.
\<close>

type_synonym 'v gomap = "(string \<times> 'v) list"

definition keys :: "'v gomap \<Rightarrow> string list" where
  "keys m = map fst m"

definition wf_map :: "'v gomap \<Rightarrow> bool" where
  "wf_map m \<longleftrightarrow> distinct (keys m)"

fun put :: "string \<Rightarrow> 'v \<Rightarrow> 'v gomap \<Rightarrow> 'v gomap" where
  "put k v [] = [(k, v)]"
| "put k v ((k', v') # m) = (if k = k' then (k, v) # m else (k', v') # put k v m)"

definition del :: "string \<Rightarrow> 'v gomap \<Rightarrow> 'v gomap" where
  "del k m = filter (\<lambda>(k', _). k' \<noteq> k) m"

lemma map_of_put [simp, alist_simps]: "map_of (put k v m) = (map_of m)(k \<mapsto> v)"
  by (induction k v m rule: put.induct) (auto simp: fun_eq_iff)

lemma map_of_del [simp, alist_simps]: "map_of (del k m) = (map_of m)(k := None)"
  by (induction m) (auto simp: del_def fun_eq_iff)

lemma set_keys_put [simp, alist_simps]: "set (keys (put k v m)) = insert k (set (keys m))"
  by (induction k v m rule: put.induct) (auto simp: keys_def)

lemma set_keys_del [simp, alist_simps]: "set (keys (del k m)) = set (keys m) - {k}"
  by (induction m) (auto simp: del_def keys_def)

lemma wf_map_put [simp, intro]: "wf_map m \<Longrightarrow> wf_map (put k v m)"
proof (induction k v m rule: put.induct)
  case (2 k v k' v' m)
  then have k': "k' \<notin> set (keys m)" and m: "wf_map m"
    by (auto simp: wf_map_def keys_def)
  show ?case
  proof (cases "k = k'")
    case True
    with k' m show ?thesis by (simp add: wf_map_def keys_def)
  next
    case False
    with 2 m have "wf_map (put k v m)" by simp
    moreover from False k' have "k' \<notin> set (keys (put k v m))" by simp
    ultimately show ?thesis using False by (simp add: wf_map_def keys_def)
  qed
qed (simp add: wf_map_def keys_def)

lemma wf_map_del [simp, intro]: "wf_map m \<Longrightarrow> wf_map (del k m)"
  by (induction m) (auto simp: wf_map_def del_def keys_def)

lemma wf_map_Nil [simp]: "wf_map []"
  by (simp add: wf_map_def keys_def)

lemma keys_map_of: "k \<in> set (keys m) \<longleftrightarrow> map_of m k \<noteq> None"
  by (simp add: keys_def map_of_eq_None_iff)

lemma map_of_mem: "wf_map m \<Longrightarrow> (k, v) \<in> set m \<Longrightarrow> map_of m k = Some v"
  by (simp add: wf_map_def keys_def)

lemma length_del:
  assumes "wf_map m" shows "length (del k m) = (if k \<in> set (keys m) then length m - 1 else length m)"
  using assms
proof (induction m)
  case Nil
  then show ?case by (simp add: del_def keys_def)
next
  case (Cons a m)
  have len: "0 < length m" if "k \<in> set (keys m)" using that by (cases m) (auto simp: keys_def)
  have nin: "k \<notin> set (keys m) \<Longrightarrow> del k m = m"
    unfolding del_def keys_def by (rule filter_True) force
  from Cons have IH: "length (del k m) = (if k \<in> set (keys m) then length m - 1 else length m)"
    by (simp add: wf_map_def keys_def)
  from Cons.prems have a: "fst a \<notin> set (keys m)" by (simp add: wf_map_def keys_def)
  show ?case
  proof (cases "fst a = k")
    case True
    with a nin have "del k (a # m) = m" by (cases a) (simp add: del_def)
    with True show ?thesis by (simp add: keys_def)
  next
    case False
    then have "del k (a # m) = a # del k m" by (cases a) (simp add: del_def)
    with False IH len show ?thesis by (auto simp: keys_def)
  qed
qed

lemma length_put:
  "length (put k v m) = (if k \<in> set (keys m) then length m else Suc (length m))"
  by (induction k v m rule: put.induct) (auto simp: keys_def)

lemma put_notin: "k \<notin> set (keys m) \<Longrightarrow> put k v m = m @ [(k, v)]"
  by (induction k v m rule: put.induct) (auto simp: keys_def)

lemma fold_put:
  assumes "wf_map m" "set (keys m) \<inter> set (keys acc) = {}"
  shows "fold (\<lambda>(k, v). put k v) m acc = acc @ m"
  using assms
proof (induction m arbitrary: acc)
  case (Cons kv m)
  obtain k v where kv: "kv = (k, v)" by fastforce
  from Cons.prems have "k \<notin> set (keys acc)" "wf_map m" "set (keys m) \<inter> set (keys (acc @ [(k, v)])) = {}"
    by (auto simp: kv wf_map_def keys_def)
  with Cons.IH show ?case by (simp add: kv put_notin)
qed simp

lemma wf_map_sort: "wf_map m \<Longrightarrow> wf_map (sort_key fst m)"
  by (simp add: wf_map_def keys_def distinct_map inj_on_def)

lemma map_of_sort: "wf_map s \<Longrightarrow> map_of (sort_key fst s) = map_of s"
  using map_of_inject_set [of "sort_key fst s" s] by (simp add: wf_map_def keys_def distinct_map inj_on_def)

lemma card_keys: "wf_map m \<Longrightarrow> card (set (keys m)) = length m"
  using distinct_card [of "keys m"] by (simp add: wf_map_def keys_def)

section \<open>Encoder/decoder pairs\<close>

text \<open>
  The interface of a pair of functions that write a value to a string and read it back, for the
  values in a domain. The code has several: mon indices and letter names, versions in the status
  of a key, mon endpoints in a config map.
\<close>

locale codec =
  fixes encode :: "'a \<Rightarrow> 'b" and decode :: "'b \<Rightarrow> 'c option" and view :: "'a \<Rightarrow> 'c"
    and dom_ok :: "'a \<Rightarrow> bool"
  assumes decode_encode: "dom_ok x \<Longrightarrow> decode (encode x) = Some (view x)"
begin

lemma encode_separates: "dom_ok x \<Longrightarrow> dom_ok y \<Longrightarrow> encode x = encode y \<Longrightarrow> view x = view y"
  using decode_encode by (metis option.inject)

lemma encode_inj: "inj_on view {x. dom_ok x} \<Longrightarrow> inj_on encode {x. dom_ok x}"
  by (auto simp: inj_on_def dest: encode_separates)

lemma decode_range: "dom_ok x \<Longrightarrow> decode (encode x) \<noteq> None"
  by (simp add: decode_encode)

end

interpretation itoa: codec Itoa Atoi "\<lambda>i. i" int64_ok
  by unfold_locales (rule Atoi_Itoa)

lemma inj_Itoa: "inj_on Itoa {i. int64_ok i}"
  by (rule itoa.encode_inj) (simp add: inj_on_def)

section \<open>State machines with an invariant\<close>

text \<open>
  The interface of a component that is driven by a sequence of events, each handled to
  completion: one step per event, an invariant of the state that every step keeps, and a
  relation between the state before and after (a history constraint such as a counter that
  never decreases) that every step satisfies.
\<close>

locale machine =
  fixes step :: "'e \<Rightarrow> 's \<Rightarrow> 's" and ok :: "'e \<Rightarrow> bool" and inv :: "'s \<Rightarrow> bool"
    and hist :: "'s \<Rightarrow> 's \<Rightarrow> bool"
  assumes step_inv: "inv s \<Longrightarrow> ok e \<Longrightarrow> inv (step e s)"
    and step_hist: "inv s \<Longrightarrow> ok e \<Longrightarrow> hist s (step e s)"
    and hist_refl: "hist s s"
    and hist_trans: "hist s t \<Longrightarrow> hist t u \<Longrightarrow> hist s u"
begin

lemma run_inv: "inv s \<Longrightarrow> list_all ok es \<Longrightarrow> inv (fold step es s)"
  by (induction es arbitrary: s) (auto intro: step_inv)

lemma run_hist: "inv s \<Longrightarrow> list_all ok es \<Longrightarrow> hist s (fold step es s)"
proof (induction es arbitrary: s)
  case Nil
  then show ?case by (simp add: hist_refl)
next
  case (Cons e es)
  then have "hist s (step e s)" and "hist (step e s) (fold step es (step e s))"
    by (auto intro: step_hist step_inv)
  then show ?case by (auto intro: hist_trans)
qed

end

end
