(* ===== verification/Kube.thy ===== *)
theory Kube
  imports Prelude
begin

text \<open>
  The Kubernetes API as the operator sees it. The client is a parameter of every definition that uses
  it: a record of the four operations on the objects of one kind, acting on an abstract world. What
  the operator relies on is the locale \<open>kube_api\<close>: a successful or refused call agrees with the stored
  objects, a call changes no other object than the one it names, and a call that fails in any other
  way may or may not have been carried out. No other writer touches the objects during a reconcile.
  The locale is interpreted on a reference server that keeps the objects in memory and fails by a
  schedule; the examples run on it.
\<close>

section \<open>Clients\<close>

text \<open>An object is named by its namespace and its name.\<close>

type_synonym key = "string \<times> string"

record ('o, 'w) kube =
  kget :: "key \<Rightarrow> 'w \<Rightarrow> 'o res \<times> 'w"
  kcreate :: "key \<Rightarrow> 'o \<Rightarrow> 'w \<Rightarrow> err option \<times> 'w"
  kupdate :: "key \<Rightarrow> 'o \<Rightarrow> 'w \<Rightarrow> err option \<times> 'w"
  kdelete :: "key \<Rightarrow> 'w \<Rightarrow> err option \<times> 'w"

section \<open>A reference server\<close>

text \<open>
  Each call takes the next entry of the schedule. An entry \<open>Some (msg, done)\<close> makes the call fail with
  a server error after it was carried out, or not; an exhausted schedule never fails.
\<close>

record 'o server =
  objs :: "(key \<times> 'o) list"
  faults :: "(string \<times> bool) option list"

definition next_fault :: "'o server \<Rightarrow> (string \<times> bool) option \<times> 'o server" where
  "next_fault w = (case faults w of [] \<Rightarrow> (None, w) | f # fs \<Rightarrow> (f, w\<lparr>faults := fs\<rparr>))"

definition store_put :: "key \<Rightarrow> 'o \<Rightarrow> (key \<times> 'o) list \<Rightarrow> (key \<times> 'o) list" where
  "store_put k ob xs = (k, ob) # filter (\<lambda>e. fst e \<noteq> k) xs"

definition store_del :: "key \<Rightarrow> (key \<times> 'o) list \<Rightarrow> (key \<times> 'o) list" where
  "store_del k xs = filter (\<lambda>e. fst e \<noteq> k) xs"

text \<open>Carry out a write, unless its turn in the schedule says otherwise.\<close>

definition commit :: "(key \<times> 'o) list \<Rightarrow> 'o server \<Rightarrow> err option \<times> 'o server" where
  "commit xs w =
     (case next_fault w of
        (None, w') \<Rightarrow> (None, w'\<lparr>objs := xs\<rparr>)
      | (Some (msg, carried_out), w') \<Rightarrow>
          (Some (Api (OtherApi msg)), if carried_out then w'\<lparr>objs := xs\<rparr> else w'))"

definition server_get :: "key \<Rightarrow> 'o server \<Rightarrow> 'o res \<times> 'o server" where
  "server_get k w =
     (case next_fault w of
        (Some (msg, _), w') \<Rightarrow> (Inl (Api (OtherApi msg)), w')
      | (None, w') \<Rightarrow> (case map_of (objs w) k of None \<Rightarrow> Inl (Api NotFound) | Some ob \<Rightarrow> Inr ob, w'))"

definition server_create :: "key \<Rightarrow> 'o \<Rightarrow> 'o server \<Rightarrow> err option \<times> 'o server" where
  "server_create k ob w =
     (if map_of (objs w) k \<noteq> None then (Some (Api AlreadyExists), w) else commit (store_put k ob (objs w)) w)"

definition server_update :: "key \<Rightarrow> 'o \<Rightarrow> 'o server \<Rightarrow> err option \<times> 'o server" where
  "server_update k ob w =
     (if map_of (objs w) k = None then (Some (Api NotFound), w) else commit (store_put k ob (objs w)) w)"

definition server_delete :: "key \<Rightarrow> 'o server \<Rightarrow> err option \<times> 'o server" where
  "server_delete k w =
     (if map_of (objs w) k = None then (Some (Api NotFound), w) else commit (store_del k (objs w)) w)"

definition server_api :: "('o, 'o server) kube" where
  "server_api = \<lparr>kget = server_get, kcreate = server_create, kupdate = server_update, kdelete = server_delete\<rparr>"

definition server_store :: "'o server \<Rightarrow> key \<rightharpoonup> 'o" where
  "server_store w = map_of (objs w)"

section \<open>The contract\<close>

locale kube_api =
  fixes api :: "('o, 'w) kube" and store :: "'w \<Rightarrow> key \<rightharpoonup> 'o"
  assumes get_frame: "kget api k w = (r, w') \<Longrightarrow> store w' = store w"
    and get_ok: "kget api k w = (Inr ob, w') \<Longrightarrow> store w k = Some ob"
    and get_not_found: "kget api k w = (Inl e, w') \<Longrightarrow> IsNotFound e \<Longrightarrow> store w k = None"
    and create_ok: "kcreate api k ob w = (None, w') \<Longrightarrow> store w k = None \<and> store w' = (store w)(k \<mapsto> ob)"
    and create_exists: "kcreate api k ob w = (Some e, w') \<Longrightarrow> IsAlreadyExists e \<Longrightarrow>
      store w k \<noteq> None \<and> store w' = store w"
    and create_err: "kcreate api k ob w = (Some e, w') \<Longrightarrow>
      store w' = store w \<or> store w k = None \<and> store w' = (store w)(k \<mapsto> ob)"
    and update_ok: "kupdate api k ob w = (None, w') \<Longrightarrow> store w k \<noteq> None \<and> store w' = (store w)(k \<mapsto> ob)"
    and update_err: "kupdate api k ob w = (Some e, w') \<Longrightarrow>
      store w' = store w \<or> store w k \<noteq> None \<and> store w' = (store w)(k \<mapsto> ob)"
    and delete_ok: "kdelete api k w = (None, w') \<Longrightarrow> store w' = (store w)(k := None)"
    and delete_not_found: "kdelete api k w = (Some e, w') \<Longrightarrow> IsNotFound e \<Longrightarrow>
      store w k = None \<and> store w' = store w"
    and delete_err: "kdelete api k w = (Some e, w') \<Longrightarrow>
      store w' = store w \<or> store w' = (store w)(k := None)"
begin

lemma get_cases:
  obtains (found) ob w' where "kget api k w = (Inr ob, w')" "store w' = store w" "store w k = Some ob"
  | (absent) e w' where "kget api k w = (Inl e, w')" "IsNotFound e" "store w' = store w" "store w k = None"
  | (failed) e w' where "kget api k w = (Inl e, w')" "\<not> IsNotFound e" "store w' = store w"
proof -
  obtain r w' where g: "kget api k w = (r, w')" by fastforce
  note fr = get_frame [OF g]
  show ?thesis
  proof (cases r)
    case (Inr ob)
    with g fr get_ok show ?thesis by (metis found)
  next
    case (Inl e)
    show ?thesis
    proof (cases "IsNotFound e")
      case True
      with Inl g fr get_not_found show ?thesis by (metis absent)
    next
      case False
      with Inl g fr show ?thesis by (metis failed)
    qed
  qed
qed

lemma create_frame: "kcreate api k ob w = (r, w') \<Longrightarrow> k' \<noteq> k \<Longrightarrow> store w' k' = store w k'"
  by (cases r) (auto dest: create_ok create_err)

lemma update_frame: "kupdate api k ob w = (r, w') \<Longrightarrow> k' \<noteq> k \<Longrightarrow> store w' k' = store w k'"
  by (cases r) (auto dest: update_ok update_err)

lemma delete_frame: "kdelete api k w = (r, w') \<Longrightarrow> k' \<noteq> k \<Longrightarrow> store w' k' = store w k'"
  by (cases r) (auto dest: delete_ok delete_err)

end

section \<open>The reference server keeps the contract\<close>

lemma map_of_filter_key:
  "map_of (filter (\<lambda>e. fst e \<noteq> k) xs) k' = (if k' = k then None else map_of xs k')"
  by (induction xs) auto

lemma map_of_store_put [simp]: "map_of (store_put k ob xs) = (map_of xs)(k \<mapsto> ob)"
  by (rule ext) (simp add: store_put_def map_of_filter_key)

lemma map_of_store_del [simp]: "map_of (store_del k xs) = (map_of xs)(k := None)"
  by (rule ext) (simp add: store_del_def map_of_filter_key)

lemma next_fault_objs: "next_fault w = (f, w') \<Longrightarrow> objs w' = objs w"
  by (auto simp: next_fault_def split: list.splits)

lemma commit_None: "commit xs w = (None, w') \<Longrightarrow> objs w' = xs"
  by (auto simp: commit_def split: prod.splits option.splits)

lemma commit_Some:
  assumes "commit xs w = (Some e, w')"
  shows "(\<exists>msg. e = Api (OtherApi msg)) \<and> (objs w' = xs \<or> objs w' = objs w)"
proof -
  obtain f w0 where f: "next_fault w = (f, w0)" by fastforce
  with assms show ?thesis
    using next_fault_objs [OF f] by (cases f) (auto simp: commit_def split: if_splits)
qed

lemmas server_defs = server_api_def server_store_def server_create_def server_update_def server_delete_def

lemma server_get_cases:
  assumes "server_get k w = (r, w')"
  shows "objs w' = objs w" and "\<And>ob. r = Inr ob \<Longrightarrow> map_of (objs w) k = Some ob"
    and "\<And>e. r = Inl e \<Longrightarrow> IsNotFound e \<Longrightarrow> map_of (objs w) k = None"
  using assms by (auto simp: server_get_def dest: next_fault_objs split: prod.splits option.splits)

interpretation memory: kube_api server_api server_store
proof
  fix k :: key and ob :: 'a and w w' :: "'a server" and r :: "'a res" and e :: err
  show "kget server_api k w = (r, w') \<Longrightarrow> server_store w' = server_store w"
    and "kget server_api k w = (Inr ob, w') \<Longrightarrow> server_store w k = Some ob"
    and "kget server_api k w = (Inl e, w') \<Longrightarrow> IsNotFound e \<Longrightarrow> server_store w k = None"
    by (auto simp: server_defs dest: server_get_cases)
  show "kcreate server_api k ob w = (None, w') \<Longrightarrow>
      server_store w k = None \<and> server_store w' = (server_store w)(k \<mapsto> ob)"
    and "kupdate server_api k ob w = (None, w') \<Longrightarrow>
      server_store w k \<noteq> None \<and> server_store w' = (server_store w)(k \<mapsto> ob)"
    and "kdelete server_api k w = (None, w') \<Longrightarrow> server_store w' = (server_store w)(k := None)"
    by (auto simp: server_defs dest!: commit_None split: if_splits)
  show "kcreate server_api k ob w = (Some e, w') \<Longrightarrow> IsAlreadyExists e \<Longrightarrow>
      server_store w k \<noteq> None \<and> server_store w' = server_store w"
    and "kdelete server_api k w = (Some e, w') \<Longrightarrow> IsNotFound e \<Longrightarrow>
      server_store w k = None \<and> server_store w' = server_store w"
    by (auto simp: server_defs dest!: commit_Some split: if_splits)
  show "kcreate server_api k ob w = (Some e, w') \<Longrightarrow>
      server_store w' = server_store w \<or> server_store w k = None \<and> server_store w' = (server_store w)(k \<mapsto> ob)"
    and "kupdate server_api k ob w = (Some e, w') \<Longrightarrow>
      server_store w' = server_store w \<or> server_store w k \<noteq> None \<and> server_store w' = (server_store w)(k \<mapsto> ob)"
    and "kdelete server_api k w = (Some e, w') \<Longrightarrow>
      server_store w' = server_store w \<or> server_store w' = (server_store w)(k := None)"
    by (auto simp: server_defs dest!: commit_Some split: if_splits)
qed

end
