(* ===== verification/Names.thy ===== *)
theory Names
  imports Prelude
begin

text \<open>
  Names of Kubernetes resources and daemons: \<^verbatim>\<open>pkg/operator/k8sutil/name.go\<close> (indices as letter
  names), the naming helpers and the deletion loop of \<^verbatim>\<open>pkg/operator/k8sutil/k8sutil.go\<close>, and the
  mon resource names of \<^verbatim>\<open>mon.go\<close> and \<^verbatim>\<open>controller/cluster_info.go\<close>. Letter names are shown to
  be a bijective numeration that survives the round trip at 64 bits; truncated names to respect the
  length limit; sanitised label values to be well formed up to the cut at the length limit.
\<close>

section \<open>Indices and letter names\<close>

definition maxPerChar :: int where "maxPerChar = 26"

text \<open>The character \<^verbatim>\<open>'z' - maxPerChar + i + 1\<close> and its inverse.\<close>

definition letter :: "int \<Rightarrow> char" where
  "letter i = char_of (nat (122 - maxPerChar + i + 1))"

definition charVal :: "char \<Rightarrow> int" where
  "charVal c = maxPerChar - (122 - int (of_char c))"

function IndexToName_loop :: "int \<Rightarrow> string \<Rightarrow> string" where
  "IndexToName_loop index result =
     (let i = go_rem index maxPerChar;
          result' = letter i # result
      in if index < maxPerChar then result'
         else IndexToName_loop (go_div index maxPerChar - 1) result')"
  by pat_completeness auto
termination
  by (relation "measure (\<lambda>(i, r). nat i)") (auto simp: maxPerChar_def)

declare IndexToName_loop.simps [simp del]

definition IndexToName :: "int \<Rightarrow> string" where
  "IndexToName index = IndexToName_loop index []"

fun name_factor :: "nat \<Rightarrow> int" where
  "name_factor 0 = 1"
| "name_factor (Suc n) = s64 (name_factor n * maxPerChar)"

fun NameToIndex_loop :: "string \<Rightarrow> int \<Rightarrow> int \<Rightarrow> int res" where
  "NameToIndex_loop [] factor result = Inr result"
| "NameToIndex_loop (c # cs) factor result =
     (let v = charVal c
      in if v < 1 \<or> v > maxPerChar then Inl (Errorf ''invalid char'')
         else let result' = (if factor = 1 then s64 (result + (v - 1))
                             else s64 (result + s64 (v * factor)))
              in NameToIndex_loop cs (go_div factor maxPerChar) result')"

definition NameToIndex :: "string \<Rightarrow> int res" where
  "NameToIndex name = NameToIndex_loop name (name_factor (length name - 1)) 0"

section \<open>Mon resource names\<close>

definition MonAppName :: string where "MonAppName = ''rook-ceph-mon''"

definition resourceName :: "string \<Rightarrow> string" where
  "resourceName name = (if has_prefix MonAppName name then name else MonAppName @ ''-'' @ name)"

definition fullNameToIndex :: "string \<Rightarrow> int res" where
  "fullNameToIndex name = NameToIndex (trim_prefix ''-'' (trim_prefix MonAppName name))"

section \<open>Hashed names\<close>

text \<open>
  The digest of \<^verbatim>\<open>crypto/sha256\<close> is a parameter: 32 bytes for every input. A format string with
  one \<^verbatim>\<open>%s\<close> is the pair of the texts before and after it.
\<close>

definition hex_digit :: "nat \<Rightarrow> char" where
  "hex_digit n = ''0123456789abcdef'' ! n"

definition EncodeToString :: "nat list \<Rightarrow> string" where
  "EncodeToString bs = concat (map (\<lambda>b. [hex_digit (b div 16), hex_digit (b mod 16)]) bs)"

definition Hash :: "(string \<Rightarrow> nat list) \<Rightarrow> string \<Rightarrow> string" where
  "Hash sum256 s = EncodeToString (take 16 (sum256 s))"

type_synonym format = "string \<times> string"

definition Sprintf1 :: "format \<Rightarrow> string \<Rightarrow> string" where
  "Sprintf1 f x = fst f @ x @ snd f"

definition DNS1035LabelMaxLength :: nat where "DNS1035LabelMaxLength = 63"

definition truncateNodeName_max :: "(string \<Rightarrow> nat list) \<Rightarrow> format \<Rightarrow> string \<Rightarrow> nat \<Rightarrow> string" where
  "truncateNodeName_max sum256 format nodeName maxLength =
     (let nodeName' = (if length nodeName + length (Sprintf1 format []) > maxLength
                       then Hash sum256 nodeName else nodeName)
      in Sprintf1 format nodeName')"

definition TruncateNodeName :: "(string \<Rightarrow> nat list) \<Rightarrow> format \<Rightarrow> string \<Rightarrow> string" where
  "TruncateNodeName sum256 format nodeName =
     truncateNodeName_max sum256 format nodeName DNS1035LabelMaxLength"

definition TruncateNodeNameForJob :: "(string \<Rightarrow> nat list) \<Rightarrow> format \<Rightarrow> string \<Rightarrow> string" where
  "TruncateNodeNameForJob sum256 format nodeName =
     truncateNodeName_max sum256 format nodeName (DNS1035LabelMaxLength - 10)"

section \<open>Label values\<close>

definition in_range :: "char \<Rightarrow> char \<Rightarrow> char \<Rightarrow> bool" where
  "in_range a b c \<longleftrightarrow> (of_char a :: nat) \<le> of_char c \<and> (of_char c :: nat) \<le> of_char b"

definition alnum :: "char \<Rightarrow> bool" where
  "alnum c \<longleftrightarrow> in_range CHR ''a'' CHR ''z'' c \<or> in_range CHR ''0'' CHR ''9'' c \<or>
     in_range CHR ''A'' CHR ''Z'' c"

definition label_char :: "char \<Rightarrow> bool" where
  "label_char c \<longleftrightarrow> alnum c \<or> c = CHR ''.'' \<or> c = CHR ''_'' \<or> c = CHR ''-''"

definition validateLabelValue :: "nat \<Rightarrow> string \<Rightarrow> string" where
  "validateLabelValue maxlen val =
     (let sanitized = map (\<lambda>c. if label_char c then c else CHR ''-'') val;
          sanitized' = trim_right ''.-_'' (trim_left ''.-_'' sanitized)
      in if length sanitized' > maxlen then take maxlen sanitized' else sanitized')"

section \<open>Deleting a resource and waiting\<close>

text \<open>
  The actions act on the outside world \<open>'w\<close>; sleeping is left to the world's own clock. The
  loop runs at most 45 times.
\<close>

fun wait_deleted :: "nat \<Rightarrow> ('w \<Rightarrow> err option \<times> 'w) \<Rightarrow> 'w \<Rightarrow> err option \<times> 'w" where
  "wait_deleted 0 getAction w = (Some (Errorf ''gave up waiting for pods to be terminated''), w)"
| "wait_deleted (Suc n) getAction w =
     (case getAction w of
        (Some e, w') \<Rightarrow> (if IsNotFound e then (None, w') else (Some (Errorf ''failed to get''), w'))
      | (None, w') \<Rightarrow> wait_deleted n getAction w')"

definition deleteResourceAndWait ::
  "('w \<Rightarrow> err option \<times> 'w) \<Rightarrow> ('w \<Rightarrow> err option \<times> 'w) \<Rightarrow> 'w \<Rightarrow> err option \<times> 'w" where
  "deleteResourceAndWait deleteAction getAction w =
     (case deleteAction w of
        (Some e, w') \<Rightarrow> (if \<not> IsNotFound e then (Some (Errorf ''failed to delete''), w') else (None, w'))
      | (None, w') \<Rightarrow> wait_deleted 45 getAction w')"

definition index_ok :: "int \<Rightarrow> bool" where
  "index_ok i \<longleftrightarrow> 0 \<le> i \<and> i < 2 ^ 63 - 1"

section \<open>Letter names are a bijective numeration\<close>

definition lower :: "char \<Rightarrow> bool" where
  "lower c \<longleftrightarrow> 1 \<le> charVal c \<and> charVal c \<le> 26"

text \<open>The number a name stands for when its letters count from 1.\<close>

fun letters_val :: "string \<Rightarrow> int" where
  "letters_val [] = 0"
| "letters_val (c # cs) = charVal c * 26 ^ length cs + letters_val cs"

lemma charVal_letter: "0 \<le> i \<Longrightarrow> i < 26 \<Longrightarrow> charVal (letter i) = i + 1"
  by (simp add: charVal_def letter_def maxPerChar_def nat_less_iff)

lemma letter_charVal: "lower c \<Longrightarrow> letter (charVal c - 1) = c"
  by (simp add: charVal_def letter_def maxPerChar_def lower_def)

lemma lower_letter [simp]: "0 \<le> i \<Longrightarrow> i < 26 \<Longrightarrow> lower (letter i)"
  by (simp add: lower_def charVal_letter)

lemma letters_val_append: "letters_val (a @ b) = letters_val a * 26 ^ length b + letters_val b"
  by (induction a) (auto simp: algebra_simps power_add)

lemma letters_val_ge: "list_all lower w \<Longrightarrow> w \<noteq> [] \<Longrightarrow> 26 ^ (length w - 1) \<le> letters_val w"
proof (induction w)
  case Nil
  then show ?case by simp
next
  case (Cons c cs)
  have "0 \<le> letters_val cs"
  proof (cases "cs = []")
    case False
    with Cons have "26 ^ (length cs - 1) \<le> letters_val cs" by simp
    then show ?thesis by (meson order_trans zero_le_numeral zero_le_power)
  qed simp
  moreover have "1 * 26 ^ length cs \<le> charVal c * 26 ^ length cs"
    using Cons.prems by (intro mult_right_mono) (simp_all add: lower_def)
  ultimately have "26 ^ length cs \<le> charVal c * 26 ^ length cs + letters_val cs" by linarith
  then show ?case by simp
qed

lemma letters_val_pos: "list_all lower w \<Longrightarrow> 0 \<le> letters_val w"
  by (induction w) (auto simp: lower_def)

lemma IndexToName_loop_append: "IndexToName_loop i (r @ s) = IndexToName_loop i r @ s"
proof (induction i r rule: IndexToName_loop.induct)
  case (1 i r)
  then show ?case
    by (simp add: IndexToName_loop.simps [of i r] IndexToName_loop.simps [of i "r @ s"] Let_def)
qed

lemma IndexToName_small: "0 \<le> i \<Longrightarrow> i < 26 \<Longrightarrow> IndexToName i = [letter i]"
  by (simp add: IndexToName_def IndexToName_loop.simps [of i] maxPerChar_def)

lemma IndexToName_large:
  assumes "26 \<le> i"
  shows "IndexToName i = IndexToName (i div 26 - 1) @ [letter (i mod 26)]"
  using assms IndexToName_loop_append [of "i div 26 - 1" "[]" "[letter (i mod 26)]"]
  by (simp add: IndexToName_def IndexToName_loop.simps [of i] maxPerChar_def Let_def)

lemma index_induct [consumes 1, case_names small large]:
  assumes "0 \<le> (i :: int)"
    and "\<And>i. 0 \<le> i \<Longrightarrow> i < 26 \<Longrightarrow> P i"
    and "\<And>i. 26 \<le> i \<Longrightarrow> P (i div 26 - 1) \<Longrightarrow> P i"
  shows "P i"
  using assms(1)
proof (induction "nat i" arbitrary: i rule: less_induct)
  case less
  show ?case
  proof (cases "i < 26")
    case True
    with less.prems show ?thesis by (rule assms(2))
  next
    case False
    then have "0 \<le> i div 26 - 1" "nat (i div 26 - 1) < nat i" by auto
    with less.hyps have "P (i div 26 - 1)" by blast
    with False show ?thesis by (simp add: assms(3))
  qed
qed

lemma IndexToName_lower: "0 \<le> i \<Longrightarrow> list_all lower (IndexToName i) \<and> IndexToName i \<noteq> []"
  by (induction i rule: index_induct) (simp_all add: IndexToName_small IndexToName_large)

lemma letters_val_IndexToName: "0 \<le> i \<Longrightarrow> letters_val (IndexToName i) = i + 1"
  by (induction i rule: index_induct)
    (simp_all add: IndexToName_small IndexToName_large letters_val_append charVal_letter)

lemma IndexToName_letters_val:
  "list_all lower w \<Longrightarrow> w \<noteq> [] \<Longrightarrow> IndexToName (letters_val w - 1) = w"
proof (induction w rule: rev_induct)
  case Nil
  then show ?case by simp
next
  case (snoc c w)
  then have c: "1 \<le> charVal c" "charVal c \<le> 26" by (simp_all add: lower_def)
  have val: "letters_val (w @ [c]) - 1 = 26 * letters_val w + (charVal c - 1)"
    by (simp add: letters_val_append)
  show ?case
  proof (cases "w = []")
    case True
    with snoc.prems c show ?thesis
      by (simp add: IndexToName_small letter_charVal)
  next
    case False
    have pos: "1 \<le> letters_val w"
      using letters_val_ge [of w] snoc.prems False
      by (auto intro: order_trans [of 1 "26 ^ (length w - 1)"])
    have "(26 * letters_val w + (charVal c - 1)) div 26 = letters_val w"
      "(26 * letters_val w + (charVal c - 1)) mod 26 = charVal c - 1"
      using c by auto
    with pos snoc False c show ?thesis
      unfolding val by (subst IndexToName_large) (simp_all add: letter_charVal)
  qed
qed

text \<open>The 64-bit loop computes that number as long as it fits.\<close>

lemma name_factor_pow: "(26 :: int) ^ n \<le> 2 ^ 63 - 1 \<Longrightarrow> name_factor n = 26 ^ n"
proof (induction n)
  case (Suc n)
  have "(26 :: int) ^ n \<le> 26 ^ Suc n" by simp
  with Suc.prems have "(26 :: int) ^ n \<le> 2 ^ 63 - 1" by linarith
  with Suc have IH: "name_factor n = 26 ^ n" by blast
  have "s64 (26 ^ Suc n) = 26 ^ Suc n"
    using Suc.prems by (intro s64_id) (auto simp: int64_ok_def intro: order_trans [of _ 0])
  with IH show ?case by (simp add: maxPerChar_def mult.commute)
qed simp

lemma pow26_neq_1: "0 < n \<Longrightarrow> (26 :: int) ^ n \<noteq> 1"
  by (rule one_less_power [THEN less_imp_neq, symmetric]) simp_all

lemma pow26_div: "(26 :: int) ^ Suc n div 26 = 26 ^ n"
  by simp

lemma NameToIndex_loop_val:
  assumes "list_all lower w" "w \<noteq> []" "0 \<le> acc" "acc + letters_val w \<le> 2 ^ 63 - 1"
  shows "NameToIndex_loop w (26 ^ (length w - 1)) acc = Inr (acc + letters_val w - 1)"
  using assms
proof (induction w arbitrary: acc)
  case (Cons c cs)
  have c: "1 \<le> charVal c" "charVal c \<le> 26" using Cons.prems by (simp_all add: lower_def)
  have nn: "0 \<le> letters_val cs" using Cons.prems by (simp add: letters_val_pos)
  show ?case
  proof (cases "cs = []")
    case True
    have "s64 (acc + (charVal c - 1)) = acc + (charVal c - 1)"
      using Cons.prems c True by (intro s64_id) (simp add: int64_ok_def)
    with c True show ?thesis by (simp add: maxPerChar_def Let_def)
  next
    case False
    let ?d = "charVal c * 26 ^ length cs"
    have d: "0 \<le> ?d" using c by simp
    have "acc + ?d + letters_val cs \<le> 2 ^ 63 - 1" using Cons.prems by simp
    with nn d Cons.prems(3) have s: "s64 ?d = ?d" "s64 (acc + ?d) = acc + ?d"
      by (auto intro!: s64_id simp: int64_ok_def)
    obtain n where n: "length cs = Suc n" using False by (cases cs) auto
    have f: "(26 :: int) ^ Suc n \<noteq> 1" "go_div (26 ^ Suc n) 26 = 26 ^ n"
      by (rule pow26_neq_1) (simp_all del: power_Suc add: pow26_div)
    have "NameToIndex_loop cs (26 ^ (length cs - 1)) (acc + ?d) = Inr (acc + ?d + letters_val cs - 1)"
      using Cons.prems False d by (intro Cons.IH) auto
    with c s f n show ?thesis by (simp del: power_Suc add: maxPerChar_def Let_def)
  qed
qed simp

lemma NameToIndex_val:
  assumes "list_all lower w" "w \<noteq> []" "letters_val w \<le> 2 ^ 63 - 1"
  shows "NameToIndex w = Inr (letters_val w - 1)"
proof -
  have "(26 :: int) ^ (length w - 1) \<le> 2 ^ 63 - 1"
    using letters_val_ge [OF assms(1,2)] assms(3) by linarith
  with NameToIndex_loop_val [of w 0] assms show ?thesis
    by (simp add: NameToIndex_def name_factor_pow)
qed

section \<open>Round trips\<close>

lemma NameToIndex_IndexToName: "index_ok i \<Longrightarrow> NameToIndex (IndexToName i) = Inr i"
  by (simp add: index_ok_def NameToIndex_val IndexToName_lower letters_val_IndexToName)

lemma lower_plain: "list_all lower w \<Longrightarrow> CHR ''-'' \<notin> set w"
  by (induction w) (auto simp: lower_def charVal_def maxPerChar_def)

lemma resourceName_plain:
  assumes "list_all lower w" shows "resourceName w = MonAppName @ CHR ''-'' # w"
proof -
  have "\<not> has_prefix MonAppName w"
    using lower_plain [OF assms] by (auto simp: MonAppName_def elim!: has_prefixE)
  then show ?thesis by (simp add: resourceName_def)
qed

lemma fullNameToIndex_resourceName:
  "index_ok i \<Longrightarrow> fullNameToIndex (resourceName (IndexToName i)) = Inr i"
  by (simp add: resourceName_plain IndexToName_lower index_ok_def fullNameToIndex_def
      NameToIndex_IndexToName trim_prefix_append [of "''-''", simplified])

interpretation letters: codec IndexToName "\<lambda>s. case NameToIndex s of Inl _ \<Rightarrow> None | Inr i \<Rightarrow> Some i"
    "\<lambda>i. i" index_ok
  by unfold_locales (simp add: NameToIndex_IndexToName)

interpretation mon_names: codec "\<lambda>i. resourceName (IndexToName i)"
    "\<lambda>s. case fullNameToIndex s of Inl _ \<Rightarrow> None | Inr i \<Rightarrow> Some i" "\<lambda>i. i" index_ok
  by unfold_locales (simp add: fullNameToIndex_resourceName)

lemma NameToIndex_loop_lower: "NameToIndex_loop w f r = Inr i \<Longrightarrow> list_all lower w"
  by (induction w f r rule: NameToIndex_loop.induct)
    (auto simp: Let_def lower_def maxPerChar_def split: if_splits)

lemma letters_val_less: "list_all lower w \<Longrightarrow> letters_val w \<le> 26 ^ Suc (length w) - 1"
proof (induction w)
  case (Cons c cs)
  have "charVal c * 26 ^ length cs \<le> 26 * 26 ^ length cs"
    using Cons.prems by (intro mult_right_mono) (simp_all add: lower_def)
  moreover have "letters_val cs \<le> 26 * 26 ^ length cs - 1" using Cons by simp
  moreover have "(0 :: int) \<le> 26 ^ length cs" by simp
  ultimately have "charVal c * 26 ^ length cs + letters_val cs \<le> 676 * 26 ^ length cs - 1" by linarith
  then show ?case by simp
qed simp

text \<open>C29. The index of every mon survives its name: for every non-negative index below the largest
  64-bit integer, reading back the letter name gives the index, and so does reading back the full
  resource name that \<open>resourceName\<close> makes of it; two indices never share a resource name.\<close>

theorem mon_name_roundtrip:
  assumes "index_ok i"
  shows "NameToIndex (IndexToName i) = Inr i \<and> fullNameToIndex (resourceName (IndexToName i)) = Inr i \<and>
    (\<forall>j. index_ok j \<and> j \<noteq> i \<longrightarrow> resourceName (IndexToName j) \<noteq> resourceName (IndexToName i))"
  using assms NameToIndex_IndexToName fullNameToIndex_resourceName mon_names.encode_separates by blast

theorem mon_name_roundtrip_witness:
  "IndexToName 27 = ''ab'' \<and> fullNameToIndex ''rook-ceph-mon-ab'' = Inr 27"
proof -
  have "index_ok 27" by (simp add: index_ok_def)
  moreover have "IndexToName 27 = ''ab''" and "resourceName ''ab'' = ''rook-ceph-mon-ab''" by code_simp+
  ultimately show ?thesis using mon_name_roundtrip [of 27] by simp
qed

text \<open>Conversely every non-empty name of at most twelve letters that \<open>NameToIndex\<close> accepts is the
  name of the index it returns, and the index is in range: no two short names share an index.\<close>

theorem index_name_roundtrip:
  assumes "NameToIndex w = Inr i" and "w \<noteq> []" and "length w \<le> 12"
  shows "IndexToName i = w \<and> index_ok i"
proof -
  have l: "list_all lower w" using assms(1) by (auto simp: NameToIndex_def dest: NameToIndex_loop_lower)
  have "(26 :: int) ^ Suc (length w) \<le> 26 ^ 13"
    using assms(3) by (intro power_increasing) simp_all
  with letters_val_less [OF l] have v: "letters_val w \<le> 26 ^ 13 - 1" by linarith
  have "1 \<le> letters_val w"
    using letters_val_ge [OF l assms(2)] by (auto intro: order_trans [of 1 "26 ^ (length w - 1)"])
  moreover have "i = letters_val w - 1"
    using NameToIndex_val [OF l assms(2)] v assms(1) by simp
  ultimately show ?thesis using IndexToName_letters_val [OF l assms(2)] v by (simp add: index_ok_def)
qed

theorem index_name_roundtrip_witness: "NameToIndex ''zz'' = Inr 701 \<and> IndexToName 701 = ''zz''"
proof -
  have "NameToIndex ''zz'' = Inr 701" by code_simp
  with index_name_roundtrip [of "''zz''" 701] show ?thesis by simp
qed

section \<open>Lengths and label values\<close>

lemma length_EncodeToString: "length (EncodeToString bs) = 2 * length bs"
  by (induction bs) (simp_all add: EncodeToString_def)

text \<open>A truncated node name never exceeds its limit when the format leaves room for the 32 digits
  of the hash, it is the formatted node name itself whenever that one fits, and the job variant leaves
  ten more characters for the suffixes of job pods.\<close>

theorem truncated_name_fits:
  assumes "\<forall>s. length (sum256 s) = 32" and "length (fst f) + length (snd f) \<le> 21"
  shows "length (TruncateNodeName sum256 f n) \<le> 63 \<and> length (TruncateNodeNameForJob sum256 f n) \<le> 53 \<and>
    (length (Sprintf1 f n) \<le> 63 \<longrightarrow> TruncateNodeName sum256 f n = Sprintf1 f n) \<and>
    (length (Sprintf1 f n) \<le> 53 \<longrightarrow> TruncateNodeNameForJob sum256 f n = Sprintf1 f n)"
  using assms
  by (simp add: TruncateNodeName_def TruncateNodeNameForJob_def truncateNodeName_max_def Sprintf1_def
      Hash_def length_EncodeToString DNS1035LabelMaxLength_def)

theorem truncated_name_fits_witness:
  "length (TruncateNodeName (\<lambda>s. replicate 32 (length s mod 256)) (''rook-ceph-osd-'', []) (replicate 60 CHR ''n'')) \<le> 63"
  using truncated_name_fits [of "\<lambda>s. replicate 32 (length s mod 256)" "(''rook-ceph-osd-'', [])"
    "replicate 60 CHR ''n''"] by simp

lemma label_char_cut: "label_char c \<Longrightarrow> c \<notin> set ''.-_'' \<Longrightarrow> alnum c"
  by (auto simp: label_char_def)

lemma alnum_a_b [simp]: "alnum CHR ''a''" "alnum CHR ''b''"
  by (simp_all add: alnum_def in_range_def)

lemma trim_right_snoc: "c \<notin> set cs \<Longrightarrow> trim_right cs (s @ [c]) = s @ [c]"
  by (simp add: trim_right_def)

text \<open>A sanitised label value has only label characters, respects the length limit, starts with a
  letter or digit, and ends with one when it is shorter than the limit; the cut at the limit comes
  after the trimming and can leave a value that ends with a dash.\<close>

theorem label_value_valid:
  fixes v :: string and m :: nat
  defines "r \<equiv> validateLabelValue m v"
  shows "list_all label_char r \<and> length r \<le> m \<and> (r \<noteq> [] \<longrightarrow> alnum (hd r)) \<and>
    (r \<noteq> [] \<and> length r < m \<longrightarrow> alnum (last r)) \<and>
    last (validateLabelValue 63 (replicate 62 CHR ''a'' @ ''-b'')) = CHR ''-''"
proof -
  define t where "t = trim_left ''.-_'' (map (\<lambda>c. if label_char c then c else CHR ''-'') v)"
  define u where "u = trim_right ''.-_'' t"
  have r: "r = (if length u > m then take m u else u)"
    by (simp add: r_def validateLabelValue_def t_def u_def Let_def)
  have "set u \<subseteq> set (map (\<lambda>c. if label_char c then c else CHR ''-'') v)"
    unfolding u_def t_def using set_trim_left set_trim_right by (meson subset_trans)
  then have u: "\<forall>c \<in> set u. label_char c" by (auto simp: label_char_def split: if_splits)
  have l: "list_all label_char r" using u by (auto simp: r list_all_iff dest: in_set_takeD)
  have h: "alnum (hd u)" if "u \<noteq> []"
  proof (rule label_char_cut)
    show "label_char (hd u)" using that u by simp
    have "hd u = hd t" using that trim_right_hd unfolding u_def by blast
    moreover have "t \<noteq> []" using that by (auto simp: u_def trim_right_def)
    ultimately show "hd u \<notin> set ''.-_''" unfolding t_def using trim_left_hd by metis
  qed
  have "alnum (last u)" if "u \<noteq> []"
    using that u trim_right_last [of "''.-_''" t] by (intro label_char_cut) (auto simp: u_def)
  moreover have "last (validateLabelValue 63 (replicate 62 CHR ''a'' @ ''-b'')) = CHR ''-''"
    by code_simp
  ultimately show ?thesis using l h by (auto simp: r hd_take split: if_splits)
qed

theorem label_value_valid_witness:
  "validateLabelValue 63 ''v1.2+dirty!'' = ''v1.2-dirty'' \<and> alnum (last ''v1.2-dirty'')"
proof -
  have "validateLabelValue 63 ''v1.2+dirty!'' = ''v1.2-dirty''" by code_simp
  with label_value_valid [of 63 "''v1.2+dirty!''"] show ?thesis by simp
qed

section \<open>Waiting for a deletion\<close>

text \<open>The world after the first \<open>k\<close> polls.\<close>

definition polled :: "('w \<Rightarrow> err option \<times> 'w) \<Rightarrow> nat \<Rightarrow> 'w \<Rightarrow> 'w" where
  "polled getAction k w = ((\<lambda>w. snd (getAction w)) ^^ k) w"

lemma polled_Suc: "getAction w = (a, w') \<Longrightarrow> polled getAction (Suc k) w = polled getAction k w'"
  by (simp add: polled_def funpow_Suc_right del: funpow.simps)

lemma wait_deleted_iff:
  "fst (wait_deleted n getAction w) = None \<longleftrightarrow>
   (\<exists>k < n. (\<forall>j < k. fst (getAction (polled getAction j w)) = None) \<and>
      (\<exists>e. fst (getAction (polled getAction k w)) = Some e \<and> IsNotFound e))"
proof (induction n arbitrary: w)
  case (Suc n)
  obtain a w' where g: "getAction w = (a, w')" by fastforce
  have z: "polled getAction 0 w = w" by (simp add: polled_def)
  show ?case
  proof (cases a)
    case None
    then show ?thesis
      using g Suc by (simp add: Ex_less_Suc2 All_less_Suc2 z polled_Suc)
  next
    case (Some e)
    then show ?thesis using g by (auto simp: Ex_less_Suc2 All_less_Suc2 z)
  qed
qed simp

text \<open>Deleting a resource succeeds exactly when the server reports it as gone: the delete call
  itself says it is not found, or it is accepted and one of the next 45 polls says so, after polls
  that all still saw the resource. Any other error of a poll, and 45 polls that still see it, are
  reported.\<close>

theorem delete_waits_until_gone:
  "fst (deleteResourceAndWait deleteAction getAction w) = None \<longleftrightarrow>
   (\<exists>e. fst (deleteAction w) = Some e \<and> IsNotFound e) \<or>
   fst (deleteAction w) = None \<and>
   (\<exists>k < 45. (\<forall>j < k. fst (getAction (polled getAction j (snd (deleteAction w)))) = None) \<and>
      (\<exists>e. fst (getAction (polled getAction k (snd (deleteAction w)))) = Some e \<and> IsNotFound e))"
  using wait_deleted_iff [of 45 getAction "snd (deleteAction w)"]
  by (auto simp: deleteResourceAndWait_def split: prod.splits option.splits)

text \<open>The resource disappears at the third poll.\<close>

theorem delete_waits_until_gone_witness:
  "fst (deleteResourceAndWait (\<lambda>w. (None, w)) (\<lambda>w. (if w < 3 then None else Some (Api NotFound), w + 1)) (1 :: nat)) = None"
  using delete_waits_until_gone
    [of "\<lambda>w. (None, w)" "\<lambda>w. (if w < 3 then None else Some (Api NotFound), w + 1)" "1 :: nat"]
  by (auto simp: polled_def numeral_eq_Suc intro!: exI [of _ 2])

end
