(* ===== verification/Topology.thy ===== *)
theory Topology
  imports Prelude
begin

text \<open>
  The CRUSH location of an OSD from the labels of its node and the validation of the labels of all
  nodes: \<^verbatim>\<open>pkg/operator/ceph/cluster/osd/topology/topology.go\<close>, with \<^verbatim>\<open>NormalizeCrushName\<close> of
  \<^verbatim>\<open>pkg/daemon/ceph/client/crush.go\<close> and \<^verbatim>\<open>LabelHostname\<close> of \<^verbatim>\<open>pkg/operator/k8sutil/labels.go\<close>. The
  extraction and the validation loops are related to what they mean, and a node whose labels were
  validated is shown to get a location with distinct names.
\<close>

section \<open>Labels and levels\<close>

type_synonym labels = "string \<rightharpoonup> string"

record Node =
  NodeName :: string
  NodeLabels :: labels

definition KubernetesTopologyLabels :: "string list" where
  "KubernetesTopologyLabels = [''zone'', ''region'']"

definition CRUSHTopologyLabels :: "string list" where
  "CRUSHTopologyLabels = [''chassis'', ''rack'', ''row'', ''pdu'', ''pod'', ''room'', ''datacenter'']"

definition CRUSHMapLevelsOrdered :: "string list" where
  "CRUSHMapLevelsOrdered = ''host'' # CRUSHTopologyLabels @ KubernetesTopologyLabels"

definition topologyLabelPrefix :: string where "topologyLabelPrefix = ''topology.rook.io/''"

text \<open>The well-known labels of Kubernetes.\<close>

definition LabelTopologyRegion :: string where "LabelTopologyRegion = ''topology.kubernetes.io/region''"
definition LabelTopologyZone :: string where "LabelTopologyZone = ''topology.kubernetes.io/zone''"

text \<open>\<^verbatim>\<open>LabelHostname\<close> reads an environment variable; its value is the argument.\<close>

definition LabelHostname :: "string \<Rightarrow> string" where
  "LabelHostname env = (if env \<noteq> [] then env else ''kubernetes.io/hostname'')"

definition NormalizeCrushName :: "string \<Rightarrow> string" where
  "NormalizeCrushName name = map (\<lambda>c. if c = CHR ''.'' then CHR ''-'' else c) name"

definition label_value :: "labels \<Rightarrow> string \<Rightarrow> string" where
  "label_value labels k = (case labels k of None \<Rightarrow> [] | Some v \<Rightarrow> v)"

definition rookTopologyLabelsOrdered :: "string list" where
  "rookTopologyLabelsOrdered = map (\<lambda>l. topologyLabelPrefix @ l) (rev CRUSHTopologyLabels)"

definition allKubernetesTopologyLabelsOrdered :: "string \<Rightarrow> string list" where
  "allKubernetesTopologyLabelsOrdered env =
     [LabelTopologyRegion, LabelTopologyZone] @ rookTopologyLabelsOrdered @ [LabelHostname env]"

definition kubernetesTopologyLabelToCRUSHLabel :: "string \<Rightarrow> string \<Rightarrow> string" where
  "kubernetesTopologyLabelToCRUSHLabel env label =
     (if label = LabelHostname env then ''host'' else last (split_on CHR ''/'' label))"

definition formatTopologyAffinity :: "string \<Rightarrow> string \<Rightarrow> string" where
  "formatTopologyAffinity label value = label @ ''='' @ value"

definition GetDefaultTopologyLabels :: "string \<Rightarrow> string" where
  "GetDefaultTopologyLabels env =
     join '','' ([LabelHostname env, LabelTopologyRegion, LabelTopologyZone] @
       map (\<lambda>l. topologyLabelPrefix @ l) CRUSHTopologyLabels)"

section \<open>The location of a node\<close>

type_synonym topology = "string \<rightharpoonup> string"

fun topology_collect :: "string \<Rightarrow> labels \<Rightarrow> string list \<Rightarrow> topology \<times> string \<Rightarrow> topology \<times> string" where
  "topology_collect env labels [] st = st"
| "topology_collect env labels (label # rest) (topology, affinity) =
     (let topologyID = kubernetesTopologyLabelToCRUSHLabel env label
      in case labels label of
           None \<Rightarrow> topology_collect env labels rest (topology, affinity)
         | Some value \<Rightarrow>
             if value = [] then topology_collect env labels rest (topology, affinity)
             else topology_collect env labels rest
                    (topology(topologyID \<mapsto> value),
                     if topologyID \<noteq> ''host'' then formatTopologyAffinity label value else affinity))"

fun topology_dedup ::
  "string \<Rightarrow> labels \<Rightarrow> string list \<Rightarrow> topology \<Rightarrow> (string \<rightharpoonup> string list) \<Rightarrow> topology \<times> (string \<rightharpoonup> string list)" where
  "topology_dedup env labels [] topology dup = (topology, dup)"
| "topology_dedup env labels (label # rest) topology dup =
     (case labels label of
        None \<Rightarrow> topology_dedup env labels rest topology dup
      | Some value \<Rightarrow>
          topology_dedup env labels rest
            (if dup value \<noteq> None
             then topology(kubernetesTopologyLabelToCRUSHLabel env label := None) else topology)
            (dup(value \<mapsto> (case dup value of None \<Rightarrow> [] | Some ls \<Rightarrow> ls) @ [label])))"

definition extractTopologyFromLabels :: "string \<Rightarrow> labels \<Rightarrow> topology \<times> string" where
  "extractTopologyFromLabels env labels =
     (let all = allKubernetesTopologyLabelsOrdered env;
          (topology, affinity) = topology_collect env labels all (Map.empty, []);
          (topology', dup) = topology_dedup env labels (rev all) topology Map.empty
      in (topology', affinity))"

definition ExtractOSDTopologyFromLabels :: "string \<Rightarrow> labels \<Rightarrow> topology \<times> string" where
  "ExtractOSDTopologyFromLabels env labels =
     (let (topology, affinity) = extractTopologyFromLabels env labels
      in (\<lambda>name. map_option NormalizeCrushName (topology name), affinity))"

section \<open>Validation of all nodes\<close>

definition hierarchy :: "string \<Rightarrow> string list" where
  "hierarchy env = filter (\<lambda>l. l \<noteq> LabelHostname env) (allKubernetesTopologyLabelsOrdered env)"

type_synonym label_values = "string \<Rightarrow> string set"

fun gather_labels :: "labels \<Rightarrow> string list \<Rightarrow> label_values \<Rightarrow> label_values res" where
  "gather_labels labels [] values = Inr values"
| "gather_labels labels (key # ks) values =
     (if labels key = Some [] then Inl (Errorf ''invalid topology: empty value'')
      else let crushName = NormalizeCrushName (label_value labels key)
           in gather_labels labels ks
                (if crushName \<noteq> [] then values(key := insert crushName (values key)) else values))"

fun gather_values :: "string list \<Rightarrow> Node list \<Rightarrow> label_values \<Rightarrow> label_values res" where
  "gather_values hier [] values = Inr values"
| "gather_values hier (node # nodes) values =
     (case gather_labels (NodeLabels node) hier values of
        Inl e \<Rightarrow> Inl e
      | Inr values' \<Rightarrow> gather_values hier nodes values')"

fun numeric_label :: "labels \<Rightarrow> string list \<Rightarrow> bool" where
  "numeric_label labels [] = False"
| "numeric_label labels (key # ks) =
     (if label_value labels key = [] then numeric_label labels ks
      else Atoi (NormalizeCrushName (label_value labels key)) \<noteq> None \<or> numeric_label labels ks)"

fun nearest_parent :: "labels \<Rightarrow> string list \<Rightarrow> string option" where
  "nearest_parent labels [] = None"
| "nearest_parent labels (parKey # ks) =
     (let pv = NormalizeCrushName (label_value labels parKey)
      in if pv \<noteq> [] then Some pv else nearest_parent labels ks)"

fun seen_parents :: "string \<Rightarrow> string \<Rightarrow> string list \<Rightarrow> Node list \<Rightarrow> string set" where
  "seen_parents key v parents [] = {}"
| "seen_parents key v parents (node # nodes) =
     (if NormalizeCrushName (label_value (NodeLabels node) key) \<noteq> v then seen_parents key v parents nodes
      else case nearest_parent (NodeLabels node) parents of
             None \<Rightarrow> seen_parents key v parents nodes
           | Some pv \<Rightarrow> insert pv (seen_parents key v parents nodes))"

text \<open>The levels below the first, each with the levels above it from the nearest one up.\<close>

fun parent_conflict :: "string list \<Rightarrow> string list \<Rightarrow> label_values \<Rightarrow> Node list \<Rightarrow> bool" where
  "parent_conflict parents [] values nodes = False"
| "parent_conflict parents (key # ks) values nodes =
     (parents \<noteq> [] \<and> list_ex (\<lambda>v. card (seen_parents key v parents nodes) > 1) (sets_List (values key)) \<or>
      parent_conflict (key # parents) ks values nodes)"

fun cross_values :: "string \<Rightarrow> string list \<Rightarrow> (string \<rightharpoonup> string) \<Rightarrow> (string \<rightharpoonup> string) res" where
  "cross_values key [] seenKey = Inr seenKey"
| "cross_values key (v # vs) seenKey =
     (if seenKey v \<noteq> None then Inl (Errorf ''invalid topology: value appears under two labels'')
      else cross_values key vs (seenKey(v \<mapsto> key)))"

fun cross_keys :: "string list \<Rightarrow> label_values \<Rightarrow> (string \<rightharpoonup> string) \<Rightarrow> err option" where
  "cross_keys [] values seenKey = None"
| "cross_keys (key # ks) values seenKey =
     (case cross_values key (sets_List (values key)) seenKey of
        Inl e \<Rightarrow> Some e
      | Inr seenKey' \<Rightarrow> cross_keys ks values seenKey')"

definition CheckTopologyConflicts :: "string \<Rightarrow> Node list \<Rightarrow> err option" where
  "CheckTopologyConflicts env nodes =
     (let hier = hierarchy env
      in case gather_values hier nodes (\<lambda>_. {}) of
           Inl e \<Rightarrow> Some e
         | Inr values \<Rightarrow>
             if list_ex (\<lambda>n. numeric_label (NodeLabels n) hier) nodes
             then Some (Errorf ''invalid topology: numeric value'')
             else if parent_conflict [] hier values nodes
             then Some (Errorf ''invalid topology: value appears under two parents'')
             else cross_keys hier values Map.empty)"

section \<open>What the validation means\<close>

text \<open>The normalised value of a label on a node, empty when the label is absent.\<close>

definition crush_value :: "Node \<Rightarrow> string \<Rightarrow> string" where
  "crush_value node key = NormalizeCrushName (label_value (NodeLabels node) key)"

text \<open>Some value of a label has two different parents.\<close>

definition parents_differ :: "string \<Rightarrow> string list \<Rightarrow> string set \<Rightarrow> Node list \<Rightarrow> bool" where
  "parents_differ key parents vs nodes \<longleftrightarrow>
     (\<exists>v \<in> vs. \<exists>p \<in> seen_parents key v parents nodes. \<exists>q \<in> seen_parents key v parents nodes. p \<noteq> q)"

definition host_label_ok :: "string \<Rightarrow> bool" where
  "host_label_ok env \<longleftrightarrow> LabelHostname env \<notin> set ([LabelTopologyRegion, LabelTopologyZone] @ rookTopologyLabelsOrdered)"

definition topology_valid :: "string \<Rightarrow> Node list \<Rightarrow> bool" where
  "topology_valid env nodes \<longleftrightarrow>
     (\<forall>n \<in> set nodes. \<forall>k \<in> set (hierarchy env). NodeLabels n k \<noteq> Some [] \<and>
        (crush_value n k \<noteq> [] \<longrightarrow> Atoi (crush_value n k) = None)) \<and>
     (\<forall>i < length (hierarchy env). \<forall>n \<in> set nodes. \<forall>n' \<in> set nodes. \<forall>p p'.
        crush_value n (hierarchy env ! i) \<noteq> [] \<and>
        crush_value n (hierarchy env ! i) = crush_value n' (hierarchy env ! i) \<and>
        nearest_parent (NodeLabels n) (rev (take i (hierarchy env))) = Some p \<and>
        nearest_parent (NodeLabels n') (rev (take i (hierarchy env))) = Some p' \<longrightarrow> p = p') \<and>
     (\<forall>k \<in> set (hierarchy env). \<forall>k' \<in> set (hierarchy env). \<forall>n \<in> set nodes. \<forall>n' \<in> set nodes.
        crush_value n k \<noteq> [] \<and> crush_value n k = crush_value n' k' \<longrightarrow> k = k')"

text \<open>The labels below a label in the hierarchy, the host label included.\<close>

definition lower_labels :: "string \<Rightarrow> string \<Rightarrow> string list" where
  "lower_labels env l = takeWhile (\<lambda>x. x \<noteq> l) (rev (allKubernetesTopologyLabelsOrdered env))"

definition sample_labels :: labels where
  "sample_labels = [LabelTopologyZone \<mapsto> ''a'', ''topology.rook.io/rack'' \<mapsto> ''a'']"

definition sample_node :: Node where
  "sample_node = \<lparr>NodeName = ''n1'', NodeLabels = [LabelTopologyZone \<mapsto> ''z.1'', ''topology.rook.io/rack'' \<mapsto> ''r1'']\<rparr>"

section \<open>The validation loops\<close>

lemma NormalizeCrushName_Nil [simp]: "NormalizeCrushName v = [] \<longleftrightarrow> v = []"
  by (simp add: NormalizeCrushName_def)

lemma level_labels_distinct:
  "distinct ([LabelTopologyRegion, LabelTopologyZone] @ rookTopologyLabelsOrdered)"
  by code_simp

lemma hierarchy_eq:
  "hierarchy env = filter (\<lambda>l. l \<noteq> LabelHostname env)
     ([LabelTopologyRegion, LabelTopologyZone] @ rookTopologyLabelsOrdered)"
  by (simp add: hierarchy_def allKubernetesTopologyLabelsOrdered_def)

lemma distinct_hierarchy: "distinct (hierarchy env)"
  unfolding hierarchy_eq by (intro distinct_filter level_labels_distinct)

lemma gather_labels_eq:
  "gather_labels labels ks values =
     (if \<exists>k \<in> set ks. labels k = Some [] then Inl (Errorf ''invalid topology: empty value'')
      else Inr (\<lambda>k. values k \<union> {v. k \<in> set ks \<and> v \<noteq> [] \<and> v = NormalizeCrushName (label_value labels k)}))"
  by (induction labels ks "values" rule: gather_labels.induct) (auto simp: Let_def fun_eq_iff)

lemma gather_values_eq:
  "gather_values hier nodes values =
     (if \<exists>n \<in> set nodes. \<exists>k \<in> set hier. NodeLabels n k = Some []
      then Inl (Errorf ''invalid topology: empty value'')
      else Inr (\<lambda>k. values k \<union> {crush_value n k | n. n \<in> set nodes \<and> k \<in> set hier \<and> crush_value n k \<noteq> []}))"
proof (induction nodes arbitrary: "values")
  case (Cons node nodes)
  show ?case
  proof (cases "\<exists>k \<in> set hier. NodeLabels node k = Some []")
    case False
    define w where "w = (\<lambda>k. values k \<union> {v. k \<in> set hier \<and> v \<noteq> [] \<and> v = crush_value node k})"
    have "w k \<union> {crush_value n k |n. n \<in> set nodes \<and> k \<in> set hier \<and> crush_value n k \<noteq> []} =
      values k \<union> {crush_value n k |n. n \<in> set (node # nodes) \<and> k \<in> set hier \<and> crush_value n k \<noteq> []}" for k
      by (auto simp: w_def)
    moreover have "gather_values hier (node # nodes) values = gather_values hier nodes w"
      using False by (simp add: gather_labels_eq crush_value_def w_def)
    ultimately show ?thesis using False by (simp add: Cons.IH)
  qed (simp add: gather_labels_eq)
qed simp

lemma numeric_label_iff:
  "numeric_label (NodeLabels n) ks \<longleftrightarrow> (\<exists>k \<in> set ks. crush_value n k \<noteq> [] \<and> Atoi (crush_value n k) \<noteq> None)"
  by (induction ks) (auto simp: crush_value_def)

lemma seen_parents_eq:
  "seen_parents key v parents nodes =
     {p. \<exists>n \<in> set nodes. crush_value n key = v \<and> nearest_parent (NodeLabels n) parents = Some p}"
  by (induction key v parents nodes rule: seen_parents.induct) (auto simp: crush_value_def split: option.splits)

lemma finite_seen_parents [simp]: "finite (seen_parents key v parents nodes)"
  by (induction key v parents nodes rule: seen_parents.induct) (auto split: option.splits)

lemma card_gt_1_iff: "finite S \<Longrightarrow> card S > 1 \<longleftrightarrow> (\<exists>p \<in> S. \<exists>q \<in> S. p \<noteq> q)"
  using card_le_Suc0_iff_eq [of S] by (auto simp: not_less_eq_eq)

lemma parent_conflict_iff:
  assumes "\<And>k. finite (values k)"
  shows "parent_conflict parents ks values nodes \<longleftrightarrow>
    (\<exists>i < length ks. parents_differ (ks ! i) (rev (take i ks) @ parents) (values (ks ! i)) nodes)"
proof (induction ks arbitrary: parents)
  case (Cons key ks)
  have "\<not> parents_differ key [] (values key) nodes"
    by (auto simp: parents_differ_def seen_parents_eq)
  then have "parents \<noteq> [] \<and> list_ex (\<lambda>v. card (seen_parents key v parents nodes) > 1) (sets_List (values key)) \<longleftrightarrow>
      parents_differ key parents (values key) nodes"
    using assms [of key] by (cases "parents = []")
      (auto simp: parents_differ_def list_ex_iff card_gt_1_iff simp del: One_nat_def)
  then show ?case
    by (simp add: Cons Ex_less_Suc2 del: One_nat_def)
qed simp

lemma cross_values_eq:
  "distinct vs \<Longrightarrow> cross_values key vs seen =
     (if set vs \<inter> dom seen = {} then Inr (\<lambda>v. if v \<in> set vs then Some key else seen v)
      else Inl (Errorf ''invalid topology: value appears under two labels''))"
  by (induction key vs seen rule: cross_values.induct) (auto simp: fun_eq_iff)

lemma cross_keys_iff:
  assumes "\<And>k. finite (values k)" and "distinct ks"
  shows "cross_keys ks values seen = None \<longleftrightarrow>
    (\<forall>k \<in> set ks. values k \<inter> dom seen = {}) \<and>
    (\<forall>k \<in> set ks. \<forall>k' \<in> set ks. k \<noteq> k' \<longrightarrow> values k \<inter> values k' = {})"
  using assms(2)
proof (induction ks arbitrary: seen)
  case (Cons key ks)
  have d: "dom (\<lambda>v. if v \<in> values key then Some key else seen v) = values key \<union> dom seen"
    by (auto split: if_splits)
  have "cross_keys (key # ks) values seen = None \<longleftrightarrow> values key \<inter> dom seen = {} \<and>
      cross_keys ks values (\<lambda>v. if v \<in> values key then Some key else seen v) = None"
    using assms(1) [of key] by (simp add: cross_values_eq)
  also have "\<dots> \<longleftrightarrow> values key \<inter> dom seen = {} \<and>
      (\<forall>k \<in> set ks. values k \<inter> values key = {} \<and> values k \<inter> dom seen = {}) \<and>
      (\<forall>k \<in> set ks. \<forall>k' \<in> set ks. k \<noteq> k' \<longrightarrow> values k \<inter> values k' = {})"
    using Cons by (simp add: d Int_Un_distrib)
  also have "\<dots> \<longleftrightarrow> (\<forall>k \<in> set (key # ks). values k \<inter> dom seen = {}) \<and>
      (\<forall>k \<in> set (key # ks). \<forall>k' \<in> set (key # ks). k \<noteq> k' \<longrightarrow> values k \<inter> values k' = {})"
    unfolding disjnt_def [symmetric] using Cons.prems disjnt_sym [of "values _" "values key"] by force
  finally show ?case .
qed simp

text \<open>The values the first loop has gathered when it finds no empty label.\<close>

lemma gathered:
  assumes "\<forall>n \<in> set nodes. \<forall>k \<in> set hier. NodeLabels n k \<noteq> Some []"
  obtains vals where "gather_values hier nodes (\<lambda>_. {}) = Inr vals" and "\<And>k. finite (vals k)"
    and "\<And>k v. k \<in> set hier \<Longrightarrow> v \<in> vals k \<longleftrightarrow> v \<noteq> [] \<and> (\<exists>n \<in> set nodes. crush_value n k = v)"
proof (rule that)
  let ?vals = "\<lambda>k. {} \<union> {crush_value n k | n. n \<in> set nodes \<and> k \<in> set hier \<and> crush_value n k \<noteq> []}"
  show "gather_values hier nodes (\<lambda>_. {}) = Inr ?vals" using assms by (auto simp: gather_values_eq)
  show "finite (?vals k)" for k by simp
qed auto

lemma parents_unique_iff:
  assumes "\<And>k v. k \<in> set hier \<Longrightarrow> v \<in> vals k \<longleftrightarrow> v \<noteq> [] \<and> (\<exists>n \<in> set nodes. crush_value n k = v)"
    and "i < length hier"
  shows "\<not> parents_differ (hier ! i) ps (vals (hier ! i)) nodes \<longleftrightarrow>
    (\<forall>n \<in> set nodes. \<forall>n' \<in> set nodes. \<forall>p p'. crush_value n (hier ! i) \<noteq> [] \<and>
       crush_value n (hier ! i) = crush_value n' (hier ! i) \<and>
       nearest_parent (NodeLabels n) ps = Some p \<and> nearest_parent (NodeLabels n') ps = Some p' \<longrightarrow> p = p')"
proof -
  have v: "v \<in> vals (hier ! i) \<longleftrightarrow> v \<noteq> [] \<and> (\<exists>n \<in> set nodes. crush_value n (hier ! i) = v)" for v
    using assms by simp
  have "parents_differ (hier ! i) ps (vals (hier ! i)) nodes" (is ?L)
    if "n \<in> set nodes" "n' \<in> set nodes" "crush_value n (hier ! i) \<noteq> []"
      "crush_value n (hier ! i) = crush_value n' (hier ! i)" "nearest_parent (NodeLabels n) ps = Some p"
      "nearest_parent (NodeLabels n') ps = Some p'" "p \<noteq> p'" for n n' p p'
  proof -
    have "crush_value n (hier ! i) \<in> vals (hier ! i)" using that v by blast
    moreover have "p \<in> seen_parents (hier ! i) (crush_value n (hier ! i)) ps nodes"
      and "p' \<in> seen_parents (hier ! i) (crush_value n (hier ! i)) ps nodes"
      using that by (auto simp: seen_parents_eq)
    ultimately show ?L using that(7) unfolding parents_differ_def by blast
  qed
  moreover have "\<exists>n \<in> set nodes. \<exists>n' \<in> set nodes. \<exists>p p'. crush_value n (hier ! i) \<noteq> [] \<and>
       crush_value n (hier ! i) = crush_value n' (hier ! i) \<and>
       nearest_parent (NodeLabels n) ps = Some p \<and> nearest_parent (NodeLabels n') ps = Some p' \<and> p \<noteq> p'"
    if "parents_differ (hier ! i) ps (vals (hier ! i)) nodes"
  proof -
    from that obtain w p p' n n' where "w \<in> vals (hier ! i)" "p \<noteq> p'"
      "n \<in> set nodes" "crush_value n (hier ! i) = w" "nearest_parent (NodeLabels n) ps = Some p"
      "n' \<in> set nodes" "crush_value n' (hier ! i) = w" "nearest_parent (NodeLabels n') ps = Some p'"
      unfolding parents_differ_def seen_parents_eq by blast
    then show ?thesis using v [of w] by metis
  qed
  ultimately show ?thesis by blast
qed

lemma values_disjoint_iff:
  assumes "\<And>k v. k \<in> set hier \<Longrightarrow> v \<in> vals k \<longleftrightarrow> v \<noteq> [] \<and> (\<exists>n \<in> set nodes. crush_value n k = v)"
    and "k \<in> set hier" and "k' \<in> set hier"
  shows "vals k \<inter> vals k' = {} \<longleftrightarrow>
    (\<forall>n \<in> set nodes. \<forall>n' \<in> set nodes. \<not> (crush_value n k \<noteq> [] \<and> crush_value n k = crush_value n' k'))"
  unfolding disjoint_iff assms(1) [OF assms(2)] assms(1) [OF assms(3)] by metis

lemma CheckTopologyConflicts_iff: "CheckTopologyConflicts env nodes = None \<longleftrightarrow> topology_valid env nodes"
proof (cases "\<forall>n \<in> set nodes. \<forall>k \<in> set (hierarchy env). NodeLabels n k \<noteq> Some []")
  case False
  then show ?thesis
    by (auto simp: CheckTopologyConflicts_def gather_values_eq topology_valid_def Let_def)
next
  case True
  let ?h = "hierarchy env"
  obtain vals where g: "gather_values ?h nodes (\<lambda>_. {}) = Inr vals" and fin: "\<And>k. finite (vals k)"
    and vals: "\<And>k v. k \<in> set ?h \<Longrightarrow> v \<in> vals k \<longleftrightarrow> v \<noteq> [] \<and> (\<exists>n \<in> set nodes. crush_value n k = v)"
    by (rule gathered [OF True]) (rule that)
  have "CheckTopologyConflicts env nodes = None \<longleftrightarrow>
      \<not> list_ex (\<lambda>n. numeric_label (NodeLabels n) ?h) nodes \<and> \<not> parent_conflict [] ?h vals nodes \<and>
      cross_keys ?h vals Map.empty = None"
    by (simp add: CheckTopologyConflicts_def g Let_def)
  moreover have "\<not> parent_conflict [] ?h vals nodes \<longleftrightarrow>
      (\<forall>i < length ?h. \<not> parents_differ (?h ! i) (rev (take i ?h)) (vals (?h ! i)) nodes)"
    using parent_conflict_iff [OF fin] by simp
  moreover have "cross_keys ?h vals Map.empty = None \<longleftrightarrow>
      (\<forall>k \<in> set ?h. \<forall>k' \<in> set ?h. k \<noteq> k' \<longrightarrow> vals k \<inter> vals k' = {})"
    using cross_keys_iff [OF fin distinct_hierarchy] by simp
  moreover have "\<not> list_ex (\<lambda>n. numeric_label (NodeLabels n) ?h) nodes \<longleftrightarrow>
      (\<forall>n \<in> set nodes. \<forall>k \<in> set ?h. crush_value n k \<noteq> [] \<longrightarrow> Atoi (crush_value n k) = None)"
    unfolding list_ex_iff numeric_label_iff by metis
  moreover have "(\<forall>k \<in> set ?h. \<forall>k' \<in> set ?h. k \<noteq> k' \<longrightarrow> vals k \<inter> vals k' = {}) \<longleftrightarrow>
      (\<forall>k \<in> set ?h. \<forall>k' \<in> set ?h. \<forall>n \<in> set nodes. \<forall>n' \<in> set nodes.
        crush_value n k \<noteq> [] \<and> crush_value n k = crush_value n' k' \<longrightarrow> k = k')"
    by (simp add: values_disjoint_iff [OF vals]) metis
  ultimately show ?thesis
    unfolding topology_valid_def using True by (simp add: parents_unique_iff [OF vals])
qed

section \<open>The extracted location\<close>

text \<open>A label counts when it is present and not empty.\<close>

lemma topology_collect_level:
  assumes "inj_on (kubernetesTopologyLabelToCRUSHLabel env) A" and "set ls \<subseteq> A" and "l \<in> A"
  shows "fst (topology_collect env labels ls (t, a)) (kubernetesTopologyLabelToCRUSHLabel env l) =
    (if l \<in> set ls \<and> label_value labels l \<noteq> [] then Some (label_value labels l)
     else t (kubernetesTopologyLabelToCRUSHLabel env l))"
  using assms(2)
proof (induction ls arbitrary: t a)
  case (Cons x xs)
  have "kubernetesTopologyLabelToCRUSHLabel env l = kubernetesTopologyLabelToCRUSHLabel env x \<longleftrightarrow> l = x"
    using assms(1,3) Cons.prems by (auto simp: inj_on_def)
  with Cons show ?case by (auto simp: Let_def label_value_def split: option.splits)
qed simp

lemma topology_collect_dom:
  "dom (fst (topology_collect env labels ls (t, a))) \<subseteq> dom t \<union> kubernetesTopologyLabelToCRUSHLabel env ` set ls"
proof (induction ls arbitrary: t a)
  case (Cons x xs)
  let ?i = "kubernetesTopologyLabelToCRUSHLabel env x"
  show ?case
  proof (cases "label_value labels x = []")
    case True
    with Cons.IH [of t a] show ?thesis by (auto simp: Let_def label_value_def split: option.splits)
  next
    case False
    then obtain v where "labels x = Some v" "v \<noteq> []" by (auto simp: label_value_def split: option.splits)
    with Cons.IH [of "t(?i \<mapsto> v)"] show ?thesis by (fastforce simp: Let_def)
  qed
qed simp

lemma topology_collect_affinity:
  "snd (topology_collect env labels ls (t, a)) =
     (case find (\<lambda>l. kubernetesTopologyLabelToCRUSHLabel env l \<noteq> ''host'' \<and> label_value labels l \<noteq> []) (rev ls) of
        None \<Rightarrow> a | Some l \<Rightarrow> formatTopologyAffinity l (label_value labels l))"
proof (induction ls arbitrary: t a)
  case (Cons x xs)
  have app: "find P (ys @ [x]) = (case find P ys of None \<Rightarrow> if P x then Some x else None | Some y \<Rightarrow> Some y)"
    for P ys by (induction ys) simp_all
  show ?case
    by (cases "labels x") (auto simp: Cons app Let_def label_value_def split: option.splits)
qed simp

text \<open>A level is removed when a label visited before it has the same value.\<close>

lemma topology_dedup_level:
  assumes "inj_on (kubernetesTopologyLabelToCRUSHLabel env) A" and "l \<in> A" and "set ls \<subseteq> A" and "distinct ls"
  shows "fst (topology_dedup env labels ls t dup) (kubernetesTopologyLabelToCRUSHLabel env l) =
    (if l \<in> set ls \<and> (\<exists>v. labels l = Some v \<and>
         (dup v \<noteq> None \<or> (\<exists>l' \<in> set (takeWhile (\<lambda>x. x \<noteq> l) ls). labels l' = Some v)))
     then None else t (kubernetesTopologyLabelToCRUSHLabel env l))"
  using assms(3,4)
proof (induction ls arbitrary: t dup)
  case (Cons x xs)
  have i: "kubernetesTopologyLabelToCRUSHLabel env l = kubernetesTopologyLabelToCRUSHLabel env x \<longleftrightarrow> l = x"
    using assms(1,2) Cons.prems by (auto simp: inj_on_def)
  show ?case
  proof (cases "l = x")
    case True
    with Cons i show ?thesis by (cases "labels x") auto
  next
    case False
    with Cons i show ?thesis by (cases "labels x") auto
  qed
qed simp

lemma topology_dedup_le: "fst (topology_dedup env labels ls t dup) i \<in> {None, t i}"
proof (induction ls arbitrary: t dup)
  case (Cons x xs)
  show ?case
  proof (cases "labels x")
    case None
    with Cons show ?thesis by simp
  next
    case (Some v)
    define t' where "t' = (if dup v \<noteq> None then t(kubernetesTopologyLabelToCRUSHLabel env x := None) else t)"
    define d' where "d' = dup(v \<mapsto> (case dup v of None \<Rightarrow> [] | Some ls \<Rightarrow> ls) @ [x])"
    have "topology_dedup env labels (x # xs) t dup = topology_dedup env labels xs t' d'"
      using Some by (simp add: t'_def d'_def)
    moreover have "t' i \<in> {None, t i}" by (simp add: t'_def)
    ultimately show ?thesis using Cons [of t' d'] by auto
  qed
qed simp

text \<open>The levels have different CRUSH names as long as the host label is not one of the other labels.\<close>

lemma level_names:
  assumes "host_label_ok env"
  shows "map (kubernetesTopologyLabelToCRUSHLabel env) (allKubernetesTopologyLabelsOrdered env) = rev CRUSHMapLevelsOrdered"
proof -
  have "map (\<lambda>l. last (split_on CHR ''/'' l)) ([LabelTopologyRegion, LabelTopologyZone] @ rookTopologyLabelsOrdered) =
      rev (CRUSHTopologyLabels @ KubernetesTopologyLabels)"
    by code_simp
  moreover have "map (kubernetesTopologyLabelToCRUSHLabel env) ([LabelTopologyRegion, LabelTopologyZone] @ rookTopologyLabelsOrdered) =
      map (\<lambda>l. last (split_on CHR ''/'' l)) ([LabelTopologyRegion, LabelTopologyZone] @ rookTopologyLabelsOrdered)"
    using assms unfolding host_label_ok_def kubernetesTopologyLabelToCRUSHLabel_def
    by (intro map_cong refl) auto
  ultimately show ?thesis
    by (simp add: allKubernetesTopologyLabelsOrdered_def CRUSHMapLevelsOrdered_def
        kubernetesTopologyLabelToCRUSHLabel_def)
qed

lemma distinct_levels: "distinct CRUSHMapLevelsOrdered"
  by code_simp

lemma all_labels_distinct:
  assumes "host_label_ok env"
  shows "distinct (allKubernetesTopologyLabelsOrdered env)"
    and "inj_on (kubernetesTopologyLabelToCRUSHLabel env) (set (allKubernetesTopologyLabelsOrdered env))"
  using level_names [OF assms] distinct_levels by (metis distinct_map distinct_rev)+

lemma extract_fst:
  "fst (extractTopologyFromLabels env labels) =
     fst (topology_dedup env labels (rev (allKubernetesTopologyLabelsOrdered env))
       (fst (topology_collect env labels (allKubernetesTopologyLabelsOrdered env) (Map.empty, []))) Map.empty)"
  by (simp add: extractTopologyFromLabels_def Let_def split: prod.split)

lemma extract_snd:
  "snd (extractTopologyFromLabels env labels) =
     snd (topology_collect env labels (allKubernetesTopologyLabelsOrdered env) (Map.empty, []))"
  by (simp add: extractTopologyFromLabels_def Let_def split: prod.split)

lemma not_host_iff:
  assumes "host_label_ok env" and "l \<in> set (hierarchy env)"
  shows "kubernetesTopologyLabelToCRUSHLabel env l \<noteq> ''host''"
proof -
  have "kubernetesTopologyLabelToCRUSHLabel env (LabelHostname env) = ''host''"
    by (simp add: kubernetesTopologyLabelToCRUSHLabel_def)
  moreover have "l \<noteq> LabelHostname env" "l \<in> set (allKubernetesTopologyLabelsOrdered env)"
    using assms(2) by (auto simp: hierarchy_def)
  moreover have "LabelHostname env \<in> set (allKubernetesTopologyLabelsOrdered env)"
    by (simp add: allKubernetesTopologyLabelsOrdered_def)
  ultimately show ?thesis using all_labels_distinct(2) [OF assms(1)] by (metis inj_onD)
qed

lemma extract_affinity:
  assumes "host_label_ok env"
  shows "snd (extractTopologyFromLabels env labels) =
    (case find (\<lambda>l. label_value labels l \<noteq> []) (rev (hierarchy env)) of
       None \<Rightarrow> [] | Some l \<Rightarrow> formatTopologyAffinity l (label_value labels l))"
proof -
  have all: "allKubernetesTopologyLabelsOrdered env = hierarchy env @ [LabelHostname env]"
    using assms by (auto simp: hierarchy_eq host_label_ok_def allKubernetesTopologyLabelsOrdered_def
        intro!: filter_True [symmetric])
  have host: "kubernetesTopologyLabelToCRUSHLabel env (LabelHostname env) = ''host''"
    by (simp add: kubernetesTopologyLabelToCRUSHLabel_def)
  have "find (\<lambda>l. kubernetesTopologyLabelToCRUSHLabel env l \<noteq> ''host'' \<and> label_value labels l \<noteq> []) (rev (hierarchy env)) =
      find (\<lambda>l. label_value labels l \<noteq> []) (rev (hierarchy env))"
    using not_host_iff [OF assms] by (intro find_cong refl) auto
  then show ?thesis by (simp add: extract_snd topology_collect_affinity all host)
qed

lemma extract_level:
  assumes "host_label_ok env" and "l \<in> set (allKubernetesTopologyLabelsOrdered env)"
  shows "fst (extractTopologyFromLabels env labels) (kubernetesTopologyLabelToCRUSHLabel env l) = Some v \<longleftrightarrow>
    labels l = Some v \<and> v \<noteq> [] \<and> (\<forall>l' \<in> set (lower_labels env l). labels l' \<noteq> Some v)"
proof -
  let ?all = "allKubernetesTopologyLabelsOrdered env" and ?id = "kubernetesTopologyLabelToCRUSHLabel env l"
  define t where "t = fst (topology_collect env labels ?all (Map.empty, []))"
  have t: "t ?id = (if label_value labels l \<noteq> [] then Some (label_value labels l) else None)"
    using topology_collect_level [OF all_labels_distinct(2) [OF assms(1)] subset_refl assms(2)] assms(2)
    by (simp add: t_def)
  have "fst (extractTopologyFromLabels env labels) ?id =
      (if \<exists>v. labels l = Some v \<and> (\<exists>l' \<in> set (lower_labels env l). labels l' = Some v) then None else t ?id)"
    unfolding extract_fst t_def [symmetric] lower_labels_def
    using all_labels_distinct(1) [OF assms(1)] assms(2)
    by (subst topology_dedup_level [OF all_labels_distinct(2) [OF assms(1)] assms(2)]) simp_all
  then show ?thesis by (cases "labels l") (auto simp: t label_value_def)
qed

lemma extract_dom:
  "dom (fst (extractTopologyFromLabels env labels)) \<subseteq>
    kubernetesTopologyLabelToCRUSHLabel env ` set (allKubernetesTopologyLabelsOrdered env)"
proof
  fix i assume "i \<in> dom (fst (extractTopologyFromLabels env labels))"
  then have "i \<in> dom (fst (topology_collect env labels (allKubernetesTopologyLabelsOrdered env) (Map.empty, [])))"
    using topology_dedup_le [of env labels "rev (allKubernetesTopologyLabelsOrdered env)"] unfolding extract_fst
    by (metis (no_types, lifting) domIff insertE singletonD)
  then show "i \<in> kubernetesTopologyLabelToCRUSHLabel env ` set (allKubernetesTopologyLabelsOrdered env)"
    using topology_collect_dom [of env labels "allKubernetesTopologyLabelsOrdered env" Map.empty "[]"] by auto
qed

lemma set_all_labels:
  "set (allKubernetesTopologyLabelsOrdered env) = insert (LabelHostname env) (set (hierarchy env))"
  by (auto simp: hierarchy_eq allKubernetesTopologyLabelsOrdered_def)

section \<open>Properties\<close>

text \<open>C18. The validation of the topology accepts exactly the valid topologies: no node has an empty or
  a purely numeric value at a level, every value at a level lies under one value of the levels above
  it on all nodes, and no value is used at two levels, all after normalisation for CRUSH.\<close>

theorem topology_check_iff: "CheckTopologyConflicts env nodes = None \<longleftrightarrow> topology_valid env nodes"
  by (rule CheckTopologyConflicts_iff)

text \<open>The extracted location of a node: a level has a value exactly when the node's label for it is
  present and not empty and no lower level, the host included, has a label with the same value; no
  other level appears. So the lowest of the levels that share a value is kept and, before
  normalisation, no two levels share a name. The affinity is the lowest non-empty label other than
  the host.\<close>

theorem extract_topology_spec:
  assumes "host_label_ok env"
  shows "(\<forall>l \<in> set (allKubernetesTopologyLabelsOrdered env). \<forall>v.
      fst (extractTopologyFromLabels env labels) (kubernetesTopologyLabelToCRUSHLabel env l) = Some v \<longleftrightarrow>
      labels l = Some v \<and> v \<noteq> [] \<and> (\<forall>l' \<in> set (lower_labels env l). labels l' \<noteq> Some v)) \<and>
    dom (fst (extractTopologyFromLabels env labels)) \<subseteq> set CRUSHMapLevelsOrdered \<and>
    snd (extractTopologyFromLabels env labels) =
      (case find (\<lambda>l. label_value labels l \<noteq> []) (rev (hierarchy env)) of
         None \<Rightarrow> [] | Some l \<Rightarrow> formatTopologyAffinity l (label_value labels l))"
proof -
  have "kubernetesTopologyLabelToCRUSHLabel env ` set (allKubernetesTopologyLabelsOrdered env) = set CRUSHMapLevelsOrdered"
    using level_names [OF assms] by (metis list.set_map set_rev)
  then have "dom (fst (extractTopologyFromLabels env labels)) \<subseteq> set CRUSHMapLevelsOrdered"
    using extract_dom by metis
  then show ?thesis using extract_level [OF assms] extract_affinity [OF assms] by auto
qed

theorem extract_topology_spec_witness:
  "fst (extractTopologyFromLabels [] sample_labels) ''rack'' = Some ''a'' \<and>
   fst (extractTopologyFromLabels [] sample_labels) ''zone'' \<noteq> Some ''a'' \<and>
   snd (extractTopologyFromLabels [] sample_labels) = ''topology.rook.io/rack=a''"
proof -
  have "host_label_ok []" by code_simp
  note spec = extract_topology_spec [OF this, of sample_labels]
  have lev: "fst (extractTopologyFromLabels [] sample_labels) (kubernetesTopologyLabelToCRUSHLabel [] l) = Some v \<longleftrightarrow>
      sample_labels l = Some v \<and> v \<noteq> [] \<and> (\<forall>l' \<in> set (lower_labels [] l). sample_labels l' \<noteq> Some v)"
    if "l \<in> set (allKubernetesTopologyLabelsOrdered [])" for l v using spec that by blast
  have "''topology.rook.io/rack'' \<in> set (allKubernetesTopologyLabelsOrdered [])" and
    "sample_labels ''topology.rook.io/rack'' = Some ''a''" and
    "kubernetesTopologyLabelToCRUSHLabel [] ''topology.rook.io/rack'' = ''rack''" and
    "\<forall>l' \<in> set (lower_labels [] ''topology.rook.io/rack''). sample_labels l' \<noteq> Some ''a''"
    by code_simp+
  with lev [of "''topology.rook.io/rack''" "''a''"]
  have r: "fst (extractTopologyFromLabels [] sample_labels) ''rack'' = Some ''a''" by simp
  have "LabelTopologyZone \<in> set (allKubernetesTopologyLabelsOrdered [])" and
    "kubernetesTopologyLabelToCRUSHLabel [] LabelTopologyZone = ''zone''" and
    "\<not> (\<forall>l' \<in> set (lower_labels [] LabelTopologyZone). sample_labels l' \<noteq> Some ''a'')"
    by code_simp+
  with lev [of LabelTopologyZone "''a''"]
  have z: "fst (extractTopologyFromLabels [] sample_labels) ''zone'' \<noteq> Some ''a''" by simp
  have "find (\<lambda>l. label_value sample_labels l \<noteq> []) (rev (hierarchy [])) = Some ''topology.rook.io/rack''" and
    "formatTopologyAffinity ''topology.rook.io/rack'' (label_value sample_labels ''topology.rook.io/rack'') =
      ''topology.rook.io/rack=a''"
    by code_simp+
  with spec have "snd (extractTopologyFromLabels [] sample_labels) = ''topology.rook.io/rack=a''" by simp
  with r z show ?thesis by blast
qed

text \<open>C19. A location that has passed the validation is unambiguous between the root and the host: for a node among the
  validated ones no two of the levels above the host, which are those of the topology labels, have the same CRUSH name, also
  after normalisation, and every topology label of the node is used, except one whose value is the node's host name.
  The label of the host itself is not validated, so the host may have the CRUSH name of another level.\<close>

theorem validated_location:
  assumes "host_label_ok env" and "CheckTopologyConflicts env nodes = None" and "n \<in> set nodes"
  shows "(\<forall>l \<in> set (hierarchy env). \<forall>l' \<in> set (hierarchy env). \<forall>x.
      fst (ExtractOSDTopologyFromLabels env (NodeLabels n)) (kubernetesTopologyLabelToCRUSHLabel env l) = Some x \<and>
      fst (ExtractOSDTopologyFromLabels env (NodeLabels n)) (kubernetesTopologyLabelToCRUSHLabel env l') = Some x \<longrightarrow> l = l') \<and>
    (\<forall>l \<in> set (hierarchy env). \<forall>v. NodeLabels n l = Some v \<and> NodeLabels n (LabelHostname env) \<noteq> Some v \<longrightarrow>
      fst (ExtractOSDTopologyFromLabels env (NodeLabels n)) (kubernetesTopologyLabelToCRUSHLabel env l) =
        Some (NormalizeCrushName v))"
proof -
  note valid = assms(2) [unfolded CheckTopologyConflicts_iff topology_valid_def]
  have uniq: "l = l'" if "l \<in> set (hierarchy env)" "l' \<in> set (hierarchy env)" "NodeLabels n l = Some v"
    "NodeLabels n l' = Some v'" "NormalizeCrushName v = NormalizeCrushName v'" "v \<noteq> []" for l l' v v'
  proof -
    have "crush_value n l \<noteq> []"
      using that(3,6) by (simp add: crush_value_def label_value_def)
    moreover have "crush_value n l = crush_value n l'"
      using that(3-5) by (simp add: crush_value_def label_value_def)
    moreover note valid assms(3) that(1,2)
    ultimately show ?thesis by blast
  qed
  have osd: "fst (ExtractOSDTopologyFromLabels env (NodeLabels n)) i = Some x \<longleftrightarrow>
      (\<exists>v. fst (extractTopologyFromLabels env (NodeLabels n)) i = Some v \<and> x = NormalizeCrushName v)" for i x
    by (auto simp: ExtractOSDTopologyFromLabels_def Let_def split: prod.splits)
  note level = extract_level [OF assms(1)]
  have "l = l'" if "l \<in> set (hierarchy env)" "l' \<in> set (hierarchy env)"
    "fst (ExtractOSDTopologyFromLabels env (NodeLabels n)) (kubernetesTopologyLabelToCRUSHLabel env l) = Some x"
    "fst (ExtractOSDTopologyFromLabels env (NodeLabels n)) (kubernetesTopologyLabelToCRUSHLabel env l') = Some x"
    for l l' x
    using that uniq unfolding osd by (metis insertCI level set_all_labels)
  moreover have "fst (ExtractOSDTopologyFromLabels env (NodeLabels n)) (kubernetesTopologyLabelToCRUSHLabel env l) =
        Some (NormalizeCrushName v)"
    if "l \<in> set (hierarchy env)" "NodeLabels n l = Some v" "NodeLabels n (LabelHostname env) \<noteq> Some v" for l v
  proof -
    have ne: "v \<noteq> []" using valid assms(3) that by blast
    have "NodeLabels n l' \<noteq> Some v" if "l' \<in> set (lower_labels env l)" for l'
    proof -
      have "l' \<noteq> l" "l' \<in> set (allKubernetesTopologyLabelsOrdered env)"
        using that by (auto simp: lower_labels_def dest: set_takeWhileD)
      then show ?thesis using uniq \<open>l \<in> _\<close> \<open>NodeLabels n l = _\<close> \<open>NodeLabels n (LabelHostname env) \<noteq> _\<close> ne
        by (metis insertE set_all_labels)
    qed
    with ne that show ?thesis unfolding osd by (metis insertCI level set_all_labels)
  qed
  ultimately show ?thesis by blast
qed

theorem validated_location_witness:
  "fst (ExtractOSDTopologyFromLabels [] (NodeLabels sample_node)) (kubernetesTopologyLabelToCRUSHLabel [] LabelTopologyZone) =
     Some ''z-1''"
proof -
  have "host_label_ok []" and "CheckTopologyConflicts [] [sample_node] = None" and
    "LabelTopologyZone \<in> set (hierarchy [])" and "NodeLabels sample_node LabelTopologyZone = Some ''z.1''" and
    "NodeLabels sample_node (LabelHostname []) = None" and "NormalizeCrushName ''z.1'' = ''z-1''"
    by code_simp+
  with validated_location [of "[]" "[sample_node]" sample_node, THEN conjunct2]
  show ?thesis by simp
qed

end
