(* ===== verification/CephClient.thy ===== *)
theory CephClient
  imports Prelude
begin

text \<open>
  What the operator reads off the answers of the Ceph commands: cluster and PG health and MDS states
  of \<^verbatim>\<open>pkg/daemon/ceph/client/status.go\<close>, OSD flags and OSD states of
  \<^verbatim>\<open>pkg/daemon/ceph/client/osd.go\<close>. The commands themselves are parameters: their decoded answers are
  arguments, and the two commands that change flags act on an abstract Ceph cluster.
\<close>

section \<open>Status\<close>

record PgStateEntry =
  StateName :: string
  PgCount :: int

record RankEntry =
  RankName :: string
  RankStatus :: string

record CephStatus =
  Health :: string
  NumPgs :: int
  PgsByState :: "PgStateEntry list"
  ByRank :: "RankEntry list"
  UpStandby :: int

text \<open>
  The default expression for healthy PGs, \<^verbatim>\<open>^active(\+(clean|deep|scrubbing|snaptrim|snaptrim_wait))+$\<close>:
  no alternative contains a plus sign, so the text is split at the plus signs.
\<close>

definition defaultPgHealthyRegex :: "string \<Rightarrow> bool" where
  "defaultPgHealthyRegex s =
     (case split_on CHR ''+'' s of
        [] \<Rightarrow> False
      | a # flags \<Rightarrow> a = ''active'' \<and> flags \<noteq> [] \<and>
          list_all (\<lambda>x. x \<in> {''clean'', ''deep'', ''scrubbing'', ''snaptrim'', ''snaptrim_wait''}) flags)"

fun clean_pgs :: "(string \<Rightarrow> bool) \<Rightarrow> PgStateEntry list \<Rightarrow> int \<Rightarrow> int" where
  "clean_pgs healthy [] cleanPGs = cleanPGs"
| "clean_pgs healthy (pg # pgs) cleanPGs =
     clean_pgs healthy pgs (if healthy (StateName pg) then s64 (cleanPGs + PgCount pg) else cleanPGs)"

definition isClusterClean :: "CephStatus \<Rightarrow> (string \<Rightarrow> bool) \<Rightarrow> string \<times> bool" where
  "isClusterClean status healthy =
     (if NumPgs status = 0 then (''cluster has no PGs'', True)
      else if clean_pgs healthy (PgsByState status) 0 = NumPgs status
      then (''all PGs in cluster are clean'', True)
      else (''cluster is not fully clean'', False))"

text \<open>The status and the compiler of regular expressions are arguments.\<close>

definition IsClusterClean ::
  "CephStatus res \<Rightarrow> (string \<Rightarrow> (string \<Rightarrow> bool) res) \<Rightarrow> string \<Rightarrow> (string \<times> bool) res" where
  "IsClusterClean status compile pgHealthyRegex =
     (case status of
        Inl e \<Rightarrow> Inl e
      | Inr st \<Rightarrow>
          if pgHealthyRegex \<noteq> []
          then (case compile pgHealthyRegex of Inl e \<Rightarrow> Inl e | Inr healthy \<Rightarrow> Inr (isClusterClean st healthy))
          else Inr (isClusterClean st defaultPgHealthyRegex))"

definition isCephHealthy :: "CephStatus \<Rightarrow> bool" where
  "isCephHealthy status \<longleftrightarrow> Health status = ''HEALTH_WARN'' \<or> Health status = ''HEALTH_OK''"

definition IsCephHealthy :: "CephStatus res \<Rightarrow> bool" where
  "IsCephHealthy status = (case status of Inl _ \<Rightarrow> False | Inr st \<Rightarrow> isCephHealthy st)"

fun mds_rank_loop :: "string \<Rightarrow> RankEntry list \<Rightarrow> int \<Rightarrow> int \<Rightarrow> int" where
  "mds_rank_loop fsName [] r mdsRank = mdsRank"
| "mds_rank_loop fsName (e # es) r mdsRank =
     mds_rank_loop fsName es (r + 1) (if RankName e = fsName then r else mdsRank)"

definition getMDSRank :: "CephStatus \<Rightarrow> string \<Rightarrow> int res" where
  "getMDSRank status fsName =
     (let mdsRank = mds_rank_loop fsName (ByRank status) 0 (- 1000)
      in if mdsRank < 0 \<and> UpStandby status < 1 then Inl (Errorf ''mds not found in fsmap'') else Inr mdsRank)"

definition MdsActiveOrStandbyReplay :: "CephStatus res \<Rightarrow> string \<Rightarrow> err option" where
  "MdsActiveOrStandbyReplay status fsName =
     (case status of
        Inl e \<Rightarrow> Some (Wrap ''failed to get ceph status'' e)
      | Inr st \<Rightarrow>
          (case getMDSRank st fsName of
             Inl e \<Rightarrow> Some e
           | Inr mdsRank \<Rightarrow>
               if mdsRank < 0 then None
               else if RankStatus (ByRank st ! nat mdsRank) \<in>
                   {''up:active'', ''up:standby-replay'', ''up:standby''}
               then None else Some (Errorf ''mds is in a bad state'')))"

section \<open>Flags on CRUSH units\<close>

record OSDEntry =
  OsdNum :: int
  OsdUp :: int
  OsdIn :: int

record OSDDump =
  OSDs :: "OSDEntry list"
  CrushNodeFlags :: "string \<rightharpoonup> string list"

record OSDMetadata =
  OsdId :: int
  HostName :: string

definition IsFlagSetOnCrushUnit :: "OSDDump \<Rightarrow> string \<Rightarrow> string \<Rightarrow> bool" where
  "IsFlagSetOnCrushUnit dump checkFlag crushUnit =
     (case CrushNodeFlags dump crushUnit of None \<Rightarrow> False | Some flags \<Rightarrow> checkFlag \<in> set flags)"

text \<open>The commands \<^verbatim>\<open>osd set-group\<close> and \<^verbatim>\<open>osd unset-group\<close>: set or unset, flag, unit.\<close>

type_synonym 'f flag_cmd = "bool \<Rightarrow> string \<Rightarrow> string \<Rightarrow> 'f \<Rightarrow> err option \<times> 'f"

definition SetFlagOnCrushUnit :: "'f flag_cmd \<Rightarrow> string \<Rightarrow> string \<Rightarrow> 'f \<Rightarrow> err option \<times> 'f" where
  "SetFlagOnCrushUnit cmd crushUnit flag w =
     (case cmd True flag crushUnit w of
        (Some e, w') \<Rightarrow> (Some (Wrap ''failed to set flag'' e), w') | (None, w') \<Rightarrow> (None, w'))"

definition UnsetFlagOnCrushUnit :: "'f flag_cmd \<Rightarrow> string \<Rightarrow> string \<Rightarrow> 'f \<Rightarrow> err option \<times> 'f" where
  "UnsetFlagOnCrushUnit cmd crushUnit flag w =
     (case cmd False flag crushUnit w of
        (Some e, w') \<Rightarrow> (Some (Wrap ''failed to unset flag'' e), w') | (None, w') \<Rightarrow> (None, w'))"

definition UpdateFlagOnCrushUnit ::
  "'f flag_cmd \<Rightarrow> OSDDump \<Rightarrow> bool \<Rightarrow> string \<Rightarrow> string \<Rightarrow> 'f \<Rightarrow> (bool \<times> err option) \<times> 'f" where
  "UpdateFlagOnCrushUnit cmd dump set_it crushUnit flag w =
     (let flagSet = IsFlagSetOnCrushUnit dump flag crushUnit
      in if flagSet \<and> \<not> set_it
         then (case UnsetFlagOnCrushUnit cmd crushUnit flag w of (e, w') \<Rightarrow> ((True, e), w'))
         else if \<not> flagSet \<and> set_it
         then (case SetFlagOnCrushUnit cmd crushUnit flag w of (e, w') \<Rightarrow> ((True, e), w'))
         else ((False, None), w))"

section \<open>Properties\<close>

lemma clean_pgs_sum:
  assumes "\<forall>pg \<in> set pgs. 0 \<le> PgCount pg" and "0 \<le> n" and "n + sum_list (map PgCount pgs) < 2 ^ 63"
  shows "clean_pgs healthy pgs n = n + sum_list (map PgCount (filter (\<lambda>pg. healthy (StateName pg)) pgs))"
  using assms
proof (induction pgs arbitrary: n)
  case (Cons pg pgs)
  have "0 \<le> sum_list (map PgCount pgs)" using Cons.prems by (intro sum_list_nonneg) auto
  with Cons.prems have "s64 (n + PgCount pg) = n + PgCount pg"
    by (intro s64_id) (auto simp: int64_ok_def)
  moreover have "n + sum_list (map PgCount pgs) < 2 ^ 63" using Cons.prems by simp
  ultimately show ?case using Cons by simp
qed simp

lemma filter_sum_eq_iff:
  fixes f :: "'a \<Rightarrow> int"
  assumes "\<forall>x \<in> set xs. 0 \<le> f x"
  shows "sum_list (map f (filter P xs)) = sum_list (map f xs) \<longleftrightarrow> (\<forall>x \<in> set xs. P x \<or> f x = 0)"
  using assms
proof (induction xs)
  case (Cons x xs)
  have "sum_list (map f (filter P xs)) \<le> sum_list (map f xs)"
    using Cons.prems by (induction xs) auto
  with Cons show ?case by auto
qed simp

text \<open>The cluster counts as clean exactly when every state that some PG is in is healthy, provided
  the status is consistent: counts are not negative, add up to the number of PGs and fit in 64 bits.\<close>

theorem cluster_clean_iff:
  assumes "\<forall>pg \<in> set (PgsByState st). 0 \<le> PgCount pg"
    and "sum_list (map PgCount (PgsByState st)) = NumPgs st" and "NumPgs st < 2 ^ 63"
  shows "snd (isClusterClean st healthy) \<longleftrightarrow>
    (\<forall>pg \<in> set (PgsByState st). healthy (StateName pg) \<or> PgCount pg = 0)"
proof -
  let ?pgs = "PgsByState st"
  have c: "clean_pgs healthy ?pgs 0 = sum_list (map PgCount (filter (\<lambda>pg. healthy (StateName pg)) ?pgs))"
    using clean_pgs_sum [OF assms(1), of 0] assms(2,3) by simp
  note f = filter_sum_eq_iff [OF assms(1), of "\<lambda>pg. healthy (StateName pg)", unfolded assms(2)]
  show ?thesis
  proof (cases "NumPgs st = 0")
    case True
    have "\<forall>pg \<in> set ?pgs. PgCount pg = 0"
      using filter_sum_eq_iff [OF assms(1), of "\<lambda>_. False"] assms(2) True by simp
    with True show ?thesis by (auto simp: isClusterClean_def)
  next
    case False
    with c f show ?thesis by (simp add: isClusterClean_def)
  qed
qed

theorem cluster_clean_iff_witness:
  "\<not> snd (isClusterClean \<lparr>Health = ''HEALTH_WARN'', NumPgs = 33,
     PgsByState = [\<lparr>StateName = ''active+clean'', PgCount = 32\<rparr>, \<lparr>StateName = ''peering'', PgCount = 1\<rparr>],
     ByRank = [], UpStandby = 0\<rparr> defaultPgHealthyRegex)"
proof -
  have "\<not> defaultPgHealthyRegex ''peering''" by code_simp
  then show ?thesis by (subst cluster_clean_iff) simp_all
qed

end
