(* ===== verification/Disruption.thy ===== *)
theory Disruption
  imports Kube Names Topology CephClient
begin

text \<open>
  The controller of pod disruption budgets: \<^verbatim>\<open>osd.go\<close>, \<^verbatim>\<open>static_pdb.go\<close>, \<^verbatim>\<open>pools.go\<close> and \<^verbatim>\<open>reconcile.go\<close>
  of \<^verbatim>\<open>pkg/operator/ceph/disruption/clusterdisruption\<close>. Budgets and config maps live behind clients of
  the Kubernetes API (theory \<^verbatim>\<open>Kube\<close>); lists of objects, Ceph commands, regular expressions, the clock and
  the RFC 3339 format of times are parameters, collected in the record \<open>denv\<close>. One reading of the clock
  serves a whole reconcile. This theory holds the definitions; \<^verbatim>\<open>DisruptionProps\<close> their properties.
\<close>

section \<open>Objects\<close>

record Requirement =
  ReqKey :: string
  ReqOperator :: string
  ReqValues :: "string list"

record PDB =
  MaxUnavailable :: "int option"
  MinAvailable :: "int option"
  MatchLabels :: "(string \<times> string) list"
  MatchExpressions :: "Requirement list"
  PdbOwner :: "string list"
  DisruptionsAllowed :: int

record ConfigMap =
  Data :: "string \<rightharpoonup> string"

record Deployment =
  DepName :: string
  DepLabels :: "string \<rightharpoonup> string"
  DepAnnotations :: "string \<rightharpoonup> string"
  ReadyReplicas :: int

record CephCluster =
  ClusterName :: string
  ManagePodBudgets :: bool
  OSDMaintenanceTimeout :: int
  PGHealthyRegex :: string

record CephFilesystem =
  FsName :: string
  FsNamespace :: string
  FsMetadataPool :: string
  FsDataPools :: "string list"
  ActiveCount :: int
  ActiveStandby :: bool

record CephObjectStore =
  OsName :: string
  OsNamespace :: string
  OsMetadataPool :: string
  OsDataPool :: string
  Instances :: int

record Result =
  Requeue :: bool
  RequeueAfter :: int

definition second :: int where "second = 1000000000"
definition minute :: int where "minute = 60 * second"

definition no_requeue :: Result where "no_requeue = \<lparr>Requeue = False, RequeueAfter = 0\<rparr>"
definition WaitForRequeueIfOperatorNotInitialized :: Result where
  "WaitForRequeueIfOperatorNotInitialized = \<lparr>Requeue = True, RequeueAfter = 10 * second\<rparr>"
definition WaitForRequeueIfCephClusterNotReady :: Result where
  "WaitForRequeueIfCephClusterNotReady = \<lparr>Requeue = True, RequeueAfter = 10 * second\<rparr>"
definition UninitializedCephConfigError :: string where
  "UninitializedCephConfigError = ''error calling conf_read_file''"

definition osdPDBAppName :: string where "osdPDBAppName = ''rook-ceph-osd''"
definition osdPDBOsdIdLabel :: string where "osdPDBOsdIdLabel = ''osd''"
definition drainingFailureDomainKey :: string where "drainingFailureDomainKey = ''draining-failure-domain''"
definition drainingFailureDomainDurationKey :: string where
  "drainingFailureDomainDurationKey = ''draining-failure-domain-duration''"
definition setNoOut :: string where "setNoOut = ''set-no-out''"
definition DefaultMaintenanceTimeout :: int where "DefaultMaintenanceTimeout = 30 * minute"
definition nooutFlag :: string where "nooutFlag = ''noout''"
definition pdbStateMapName :: string where "pdbStateMapName = ''rook-ceph-pdbstatemap''"
definition DefaultFailureDomain :: string where "DefaultFailureDomain = ''host''"
definition AppAttr :: string where "AppAttr = ''app''"
definition OsdIdLabelKey :: string where "OsdIdLabelKey = ''ceph-osd-id''"
definition ReplaceInProgressOSDAnnotationKey :: string where
  "ReplaceInProgressOSDAnnotationKey = ''osd.rook.io/replace-in-progress''"
definition TopologyLocationLabel :: "string \<Rightarrow> string" where
  "TopologyLocationLabel level = ''topology-location-'' @ level"

section \<open>Environment and state\<close>

record ('p, 'c, 'f) denv =
  pdb_api :: "(PDB, 'p) kube"
  cm_api :: "(ConfigMap, 'c) kube"
  set_owner :: "CephCluster \<Rightarrow> PDB \<Rightarrow> PDB res"
  ceph_status :: "'f \<Rightarrow> CephStatus res"
  ceph_osd_dump :: "'f \<Rightarrow> OSDDump res"
  ceph_osd_metadata :: "'f \<Rightarrow> OSDMetadata list res"
  flag_command :: "'f flag_cmd"
  regexp_compile :: "string \<Rightarrow> (string \<Rightarrow> bool) res"
  list_osd_deployments :: "string \<Rightarrow> Deployment list res"
  get_node_unschedulable :: "string \<Rightarrow> bool res"
  list_clusters :: "string \<Rightarrow> CephCluster list res"
  list_block_pools :: "string \<Rightarrow> string list res"
  list_filesystems :: "string \<Rightarrow> CephFilesystem list res"
  list_object_stores :: "string \<Rightarrow> CephObjectStore list res"
  delete_canaries :: "string \<Rightarrow> err option"
  sum256 :: "string \<Rightarrow> nat list"
  time_format :: "int \<Rightarrow> string"
  time_parse :: "string \<Rightarrow> int res"
  time_now :: int

record ('p, 'c, 'f) dstate =
  pdbs :: 'p
  cms :: 'c
  ceph :: 'f
  clusterMap :: "string \<rightharpoonup> CephCluster"
  deleteLegacyResources :: bool
  maintenanceTimeout :: int

section \<open>Budgets of the OSDs\<close>

definition createPDB :: "(PDB, 'p) kube \<Rightarrow> key \<Rightarrow> PDB \<Rightarrow> 'p \<Rightarrow> err option \<times> 'p" where
  "createPDB api k pdb w =
     (case kcreate api k pdb w of
        (Some e, w') \<Rightarrow> (if \<not> IsAlreadyExists e then Some (Wrap ''failed to create pdb'' e) else None, w')
      | (None, w') \<Rightarrow> (None, w'))"

definition deletePDB :: "(PDB, 'p) kube \<Rightarrow> key \<Rightarrow> 'p \<Rightarrow> err option \<times> 'p" where
  "deletePDB api k w =
     (case kdelete api k w of
        (Some e, w') \<Rightarrow> (if \<not> IsNotFound e then Some (Wrap ''failed to delete pdb'' e) else None, w')
      | (None, w') \<Rightarrow> (None, w'))"

definition new_pdb :: PDB where
  "new_pdb = \<lparr>MaxUnavailable = None, MinAvailable = None, MatchLabels = [], MatchExpressions = [],
     PdbOwner = [], DisruptionsAllowed = 0\<rparr>"

definition default_pdb :: "int list \<Rightarrow> PDB" where
  "default_pdb excludeOSDs =
     (let app = \<lparr>ReqKey = AppAttr, ReqOperator = ''In'', ReqValues = [osdPDBAppName]\<rparr>;
          exclude = \<lparr>ReqKey = osdPDBOsdIdLabel, ReqOperator = ''NotIn'', ReqValues = map Itoa excludeOSDs\<rparr>
      in new_pdb\<lparr>MaxUnavailable := Some 1,
           MatchExpressions := (if length excludeOSDs > 0 then [app, exclude] else [app])\<rparr>)"

definition createDefaultPDBforOSD ::
  "('p, 'c, 'f) denv \<Rightarrow> (string \<rightharpoonup> CephCluster) \<Rightarrow> string \<Rightarrow> int list \<Rightarrow> 'p \<Rightarrow> err option \<times> 'p" where
  "createDefaultPDBforOSD env clusters namespace excludeOSDs w =
     (case clusters namespace of
        None \<Rightarrow> (Some (Errorf ''failed to find the namespace in the clustermap''), w)
      | Some cephCluster \<Rightarrow>
          (case set_owner env cephCluster (default_pdb excludeOSDs) of
             Inl e \<Rightarrow> (Some (Wrap ''failed to set owner reference to pdb'' e), w)
           | Inr pdb \<Rightarrow>
               (case kget (pdb_api env) (namespace, osdPDBAppName) w of
                  (Inl e, w1) \<Rightarrow>
                    (if IsNotFound e then createPDB (pdb_api env) (namespace, osdPDBAppName) pdb w1
                     else (Some (Wrap ''failed to get pdb'' e), w1))
                | (Inr existingPDB, w1) \<Rightarrow>
                    (case kupdate (pdb_api env) (namespace, osdPDBAppName)
                            (existingPDB\<lparr>MaxUnavailable := MaxUnavailable pdb, MinAvailable := MinAvailable pdb,
                               MatchLabels := MatchLabels pdb, MatchExpressions := MatchExpressions pdb\<rparr>) w1 of
                       (Some e, w2) \<Rightarrow> (Some (Wrap ''failed to update existing pdb'' e), w2)
                     | (None, w2) \<Rightarrow> (None, w2)))))"

text \<open>Both functions that remove a budget look for it first.\<close>

definition delete_if_present :: "(PDB, 'p) kube \<Rightarrow> key \<Rightarrow> 'p \<Rightarrow> err option \<times> 'p" where
  "delete_if_present api k w =
     (case kget api k w of
        (Inl e, w1) \<Rightarrow> (if IsNotFound e then None else Some (Wrap ''failed to get pdb'' e), w1)
      | (Inr _, w1) \<Rightarrow> deletePDB api k w1)"

definition deleteDefaultPDBforOSD :: "('p, 'c, 'f) denv \<Rightarrow> string \<Rightarrow> 'p \<Rightarrow> err option \<times> 'p" where
  "deleteDefaultPDBforOSD env namespace w = delete_if_present (pdb_api env) (namespace, osdPDBAppName) w"

definition getPDBName :: "(string \<Rightarrow> nat list) \<Rightarrow> string \<Rightarrow> string \<Rightarrow> string" where
  "getPDBName sha failureDomainType failureDomainName =
     TruncateNodeName sha (osdPDBAppName @ ''-'' @ failureDomainType @ ''-'', []) failureDomainName"

definition blocking_pdb :: "string \<Rightarrow> string \<Rightarrow> PDB" where
  "blocking_pdb failureDomainType failureDomainName =
     new_pdb\<lparr>MaxUnavailable := Some 0,
       MatchLabels := [(TopologyLocationLabel failureDomainType, failureDomainName)]\<rparr>"

definition createBlockingPDBForOSD ::
  "('p, 'c, 'f) denv \<Rightarrow> (string \<rightharpoonup> CephCluster) \<Rightarrow> string \<Rightarrow> string \<Rightarrow> string \<Rightarrow> 'p \<Rightarrow> err option \<times> 'p" where
  "createBlockingPDBForOSD env clusters namespace failureDomainType failureDomainName w =
     (case clusters namespace of
        None \<Rightarrow> (Some (Errorf ''failed to find the namespace in the clustermap''), w)
      | Some cephCluster \<Rightarrow>
          (let k = (namespace, getPDBName (sum256 env) failureDomainType failureDomainName)
           in case set_owner env cephCluster (blocking_pdb failureDomainType failureDomainName) of
                Inl e \<Rightarrow> (Some (Wrap ''failed to set owner reference to pdb'' e), w)
              | Inr pdb \<Rightarrow>
                  (case kget (pdb_api env) k w of
                     (Inl e, w1) \<Rightarrow>
                       (if IsNotFound e then createPDB (pdb_api env) k pdb w1
                        else (Some (Wrap ''failed to get pdb'' e), w1))
                   | (Inr _, w1) \<Rightarrow> (None, w1))))"

definition deleteBlockingPDBForOSD ::
  "('p, 'c, 'f) denv \<Rightarrow> string \<Rightarrow> string \<Rightarrow> string \<Rightarrow> 'p \<Rightarrow> err option \<times> 'p" where
  "deleteBlockingPDBForOSD env namespace failureDomainType failureDomainName w =
     delete_if_present (pdb_api env) (namespace, getPDBName (sum256 env) failureDomainType failureDomainName) w"

section \<open>The state map\<close>

definition initializePDBState :: "('p, 'c, 'f) denv \<Rightarrow> string \<Rightarrow> 'c \<Rightarrow> ConfigMap res \<times> 'c" where
  "initializePDBState env namespace w =
     (case kget (cm_api env) (namespace, pdbStateMapName) w of
        (Inr cm, w1) \<Rightarrow> (Inr cm, w1)
      | (Inl e, w1) \<Rightarrow>
          if IsNotFound e
          then let cm = \<lparr>Data = [drainingFailureDomainKey \<mapsto> [], setNoOut \<mapsto> []]\<rparr>
               in (case kcreate (cm_api env) (namespace, pdbStateMapName) cm w1 of
                     (Some e', w2) \<Rightarrow> (Inl (Wrap ''failed to create the PDB state map'' e'), w2)
                   | (None, w2) \<Rightarrow> (Inr cm, w2))
          else (Inl (Wrap ''failed to get the pdbStateMap'' e), w1))"

definition resetPDBConfig :: "(string \<rightharpoonup> string) \<Rightarrow> (string \<rightharpoonup> string)" where
  "resetPDBConfig d =
     (d(drainingFailureDomainKey \<mapsto> [], drainingFailureDomainDurationKey := None))(setNoOut \<mapsto> [])"

text \<open>The last argument is the current time in RFC 3339.\<close>

definition setPDBConfig ::
  "(string \<rightharpoonup> string) \<Rightarrow> string list \<Rightarrow> string list \<Rightarrow> string \<Rightarrow> (string \<rightharpoonup> string)" where
  "setPDBConfig d osdDownFailureDomains nodeDrainFailureDomains now_text =
     (if mget d drainingFailureDomainKey = []
      then (case nodeDrainFailureDomains of
              n # _ \<Rightarrow> d(drainingFailureDomainKey \<mapsto> n, setNoOut \<mapsto> ''true'')
            | [] \<Rightarrow> (case osdDownFailureDomains of
                       o' # _ \<Rightarrow> d(drainingFailureDomainKey \<mapsto> o', setNoOut \<mapsto> [])
                     | [] \<Rightarrow> d))(drainingFailureDomainDurationKey \<mapsto> now_text)
      else (if nodeDrainFailureDomains \<noteq> [] \<and>
                mget d drainingFailureDomainKey \<notin> set nodeDrainFailureDomains
            then d(drainingFailureDomainKey \<mapsto> hd nodeDrainFailureDomains, setNoOut \<mapsto> ''true'')
            else if osdDownFailureDomains \<noteq> [] \<and>
                mget d drainingFailureDomainKey \<notin> set osdDownFailureDomains
            then d(drainingFailureDomainKey \<mapsto> hd osdDownFailureDomains, setNoOut \<mapsto> [])
            else d)(drainingFailureDomainDurationKey \<mapsto> now_text))"

definition getLastNodeDrainTimeStamp ::
  "('p, 'c, 'f) denv \<Rightarrow> (string \<rightharpoonup> string) \<Rightarrow> string \<Rightarrow> int res \<times> (string \<rightharpoonup> string)" where
  "getLastNodeDrainTimeStamp env d k =
     (if mget d k = [] then (Inr (time_now env), d(k \<mapsto> time_format env (time_now env)))
      else case time_parse env (mget d k) of
             Inl e \<Rightarrow> (Inl (Wrap ''failed to parse timestamp'' e), d)
           | Inr t \<Rightarrow> (Inr t, d))"

section \<open>Drains\<close>

fun active_drain_loop ::
  "('p, 'c, 'f) denv \<Rightarrow> (string \<rightharpoonup> CephCluster) \<Rightarrow> string list \<Rightarrow> string \<Rightarrow> string \<Rightarrow> string \<Rightarrow> 'p \<Rightarrow> err option \<times> 'p" where
  "active_drain_loop env clusters [] draining ftype namespace w = (None, w)"
| "active_drain_loop env clusters (d # ds) draining ftype namespace w =
     (if d \<noteq> draining
      then (case createBlockingPDBForOSD env clusters namespace ftype d w of
              (Some e, w') \<Rightarrow> (Some (Wrap ''failed to create blocking pdb'' e), w')
            | (None, w') \<Rightarrow> active_drain_loop env clusters ds draining ftype namespace w')
      else (case deleteBlockingPDBForOSD env namespace ftype d w of
              (Some e, w') \<Rightarrow> (Some (Wrap ''failed to delete blocking pdb'' e), w')
            | (None, w') \<Rightarrow> active_drain_loop env clusters ds draining ftype namespace w'))"

definition handleActiveDrains ::
  "('p, 'c, 'f) denv \<Rightarrow> (string \<rightharpoonup> CephCluster) \<Rightarrow> string list \<Rightarrow> string \<Rightarrow> string \<Rightarrow> string \<Rightarrow> 'p \<Rightarrow> err option \<times> 'p" where
  "handleActiveDrains env clusters allFailureDomains draining ftype namespace w =
     (case active_drain_loop env clusters allFailureDomains draining ftype namespace w of
        (Some e, w') \<Rightarrow> (Some e, w')
      | (None, w') \<Rightarrow>
          (case deleteDefaultPDBforOSD env namespace w' of
             (Some e, w'') \<Rightarrow> (Some (Wrap ''failed to delete the default osd pdb'' e), w'')
           | (None, w'') \<Rightarrow> (None, w'')))"

fun inactive_drain_loop ::
  "('p, 'c, 'f) denv \<Rightarrow> string list \<Rightarrow> string \<Rightarrow> string \<Rightarrow> 'p \<Rightarrow> err option \<times> 'p" where
  "inactive_drain_loop env [] ftype namespace w = (None, w)"
| "inactive_drain_loop env (d # ds) ftype namespace w =
     (case deleteBlockingPDBForOSD env namespace ftype d w of
        (Some e, w') \<Rightarrow> (Some (Wrap ''failed to delete pdb'' e), w')
      | (None, w') \<Rightarrow> inactive_drain_loop env ds ftype namespace w')"

definition handleInactiveDrains ::
  "('p, 'c, 'f) denv \<Rightarrow> (string \<rightharpoonup> CephCluster) \<Rightarrow> string list \<Rightarrow> string \<Rightarrow> string \<Rightarrow> int list \<Rightarrow> 'p \<Rightarrow> err option \<times> 'p" where
  "handleInactiveDrains env clusters allFailureDomains ftype namespace excludeOSDs w =
     (case createDefaultPDBforOSD env clusters namespace excludeOSDs w of
        (Some e, w') \<Rightarrow> (Some (Wrap ''failed to create default pdb'' e), w')
      | (None, w') \<Rightarrow> inactive_drain_loop env allFailureDomains ftype namespace w')"

section \<open>The noout flag\<close>

definition noout_key :: "string \<Rightarrow> string" where
  "noout_key failureDomainName = failureDomainName @ ''-noout-last-set-at''"

text \<open>Only the error of the update matters to the caller.\<close>

definition update_flag :: "('p, 'c, 'f) denv \<Rightarrow> OSDDump \<Rightarrow> bool \<Rightarrow> string \<Rightarrow> 'f \<Rightarrow> err option \<times> 'f" where
  "update_flag env dump set_it unit_name w =
     (case UpdateFlagOnCrushUnit (flag_command env) dump set_it unit_name nooutFlag w of
        ((_, Some e), w') \<Rightarrow> (Some (Wrap ''failed to update flag on crush unit'' e), w')
      | ((_, None), w') \<Rightarrow> (None, w'))"

fun noout_loop ::
  "('p, 'c, 'f) denv \<Rightarrow> int \<Rightarrow> OSDDump \<Rightarrow> string list \<Rightarrow> (string \<rightharpoonup> string) \<Rightarrow> 'f \<Rightarrow> err option \<times> (string \<rightharpoonup> string) \<times> 'f" where
  "noout_loop env timeout dump [] d w = (None, d, w)"
| "noout_loop env timeout dump (fd # fds) d w =
     (if mget d drainingFailureDomainKey = fd \<and> mget d setNoOut = ''true''
      then let d' = (if mget d (noout_key fd) = []
                     then d(noout_key fd \<mapsto> time_format env (time_now env)) else d)
           in case time_parse env (mget d' (noout_key fd)) of
                Inl e \<Rightarrow> (Some (Wrap ''failed to parse timestamp'' e), d', w)
              | Inr t \<Rightarrow>
                  (case update_flag env dump (\<not> time_now env - t \<ge> timeout) fd w of
                     (Some e, w') \<Rightarrow> (Some e, d', w')
                   | (None, w') \<Rightarrow> noout_loop env timeout dump fds d' w')
      else (case update_flag env dump False fd w of
              (Some e, w') \<Rightarrow> (Some e, d, w')
            | (None, w') \<Rightarrow> noout_loop env timeout dump fds (d(noout_key fd := None)) w'))"

definition updateNoout ::
  "('p, 'c, 'f) denv \<Rightarrow> int \<Rightarrow> (string \<rightharpoonup> string) \<Rightarrow> string list \<Rightarrow> 'f \<Rightarrow> err option \<times> (string \<rightharpoonup> string) \<times> 'f" where
  "updateNoout env timeout d allFailureDomains w =
     (case ceph_osd_dump env w of
        Inl e \<Rightarrow> (Some (Wrap ''failed to get osddump'' e), d, w)
      | Inr dump \<Rightarrow> noout_loop env timeout dump allFailureDomains d w)"

section \<open>Requeueing\<close>

definition pdbExcludesOSDs :: "PDB \<Rightarrow> bool" where
  "pdbExcludesOSDs pdb = list_ex (\<lambda>r. ReqKey r = osdPDBOsdIdLabel) (MatchExpressions pdb)"

definition requeuePDBController :: "('p, 'c, 'f) denv \<Rightarrow> string \<Rightarrow> 'p \<Rightarrow> Result res \<times> 'p" where
  "requeuePDBController env namespace w =
     (case kget (pdb_api env) (namespace, osdPDBAppName) w of
        (Inl e, w1) \<Rightarrow>
          (if IsNotFound e then Inr \<lparr>Requeue = True, RequeueAfter = 15 * second\<rparr>
           else Inl (Wrap ''failed to get allowed disruptions count'' e), w1)
      | (Inr defaultPDB, w1) \<Rightarrow>
          (if DisruptionsAllowed defaultPDB = 0 \<or> pdbExcludesOSDs defaultPDB
           then Inr \<lparr>Requeue = True, RequeueAfter = 30 * second\<rparr> else Inr no_requeue, w1))"

section \<open>One reconcile of the OSD budgets\<close>

text \<open>The switch that updates the state map: the new map and the OSDs to exclude.\<close>

definition pdb_state_switch ::
  "('p, 'c, 'f) denv \<Rightarrow> bool \<Rightarrow> string list \<Rightarrow> string list \<Rightarrow> int list \<Rightarrow> (string \<rightharpoonup> string) \<Rightarrow>
   ((string \<rightharpoonup> string) \<times> int list) res" where
  "pdb_state_switch env pgClean osdDownFailureDomains nodeDrainFailureDomains downOSDs d =
     (let osdDown = (downOSDs \<noteq> [])
      in if \<not> osdDown \<and> pgClean then Inr (resetPDBConfig d, [])
         else if osdDown \<and> pgClean
         then (if nodeDrainFailureDomains \<noteq> []
               then (case getLastNodeDrainTimeStamp env d drainingFailureDomainDurationKey of
                       (Inl e, d') \<Rightarrow> Inl (Wrap ''failed to get last node drain timestamp'' e)
                     | (Inr t, d') \<Rightarrow>
                         if time_now env - t < 60 * second then Inr (d', []) else Inr (d', downOSDs))
               else Inr (resetPDBConfig d, downOSDs))
         else if osdDown \<and> \<not> pgClean
         then Inr (setPDBConfig d osdDownFailureDomains nodeDrainFailureDomains
                     (time_format env (time_now env)), [])
         else Inr (d, []))"

fun is_canceled :: "err \<Rightarrow> bool" where
  "is_canceled (Errorf s) = (s = ''context canceled'')"
| "is_canceled (Api _) = False"
| "is_canceled (Wrap _ e) = is_canceled e"

text \<open>The budgets for the state map as it now is.\<close>

definition handle_drains ::
  "('p, 'c, 'f) denv \<Rightarrow> (string \<rightharpoonup> CephCluster) \<Rightarrow> string \<Rightarrow> string \<Rightarrow> string list \<Rightarrow> (string \<rightharpoonup> string) \<Rightarrow>
   int list \<Rightarrow> 'p \<Rightarrow> err option \<times> 'p" where
  "handle_drains env clusters namespace ftype allFailureDomains d excludeOSDs w =
     (if mget d drainingFailureDomainKey \<noteq> []
      then (case handleActiveDrains env clusters allFailureDomains (mget d drainingFailureDomainKey) ftype namespace w of
              (Some e, w') \<Rightarrow> (Some (Wrap ''failed to handle active drains'' e), w')
            | (None, w') \<Rightarrow> (None, w'))
      else (case handleInactiveDrains env clusters allFailureDomains ftype namespace excludeOSDs w of
              (Some e, w') \<Rightarrow> (Some (Wrap ''failed to handle inactive drains'' e), w')
            | (None, w') \<Rightarrow> (None, w')))"

definition reconcilePDBsForOSDs ::
  "('p, 'c, 'f) denv \<Rightarrow> string \<Rightarrow> ConfigMap \<Rightarrow> string \<Rightarrow> string list \<Rightarrow> string list \<Rightarrow> string list \<Rightarrow> int list \<Rightarrow>
   string \<Rightarrow> ('p, 'c, 'f) dstate \<Rightarrow> Result res \<times> ('p, 'c, 'f) dstate" where
  "reconcilePDBsForOSDs env namespace pdbStateMap ftype allFailureDomains osdDownFailureDomains
       nodeDrainFailureDomains downOSDs pgHealthyRegex st =
     (case IsClusterClean (ceph_status env (ceph st)) (regexp_compile env) pgHealthyRegex of
        Inl e \<Rightarrow>
          (if contains_sub (err_text e) UninitializedCephConfigError
           then Inr WaitForRequeueIfOperatorNotInitialized else Inr WaitForRequeueIfCephClusterNotReady, st)
      | Inr (_, pgClean) \<Rightarrow>
          (case pdb_state_switch env pgClean osdDownFailureDomains nodeDrainFailureDomains downOSDs (Data pdbStateMap) of
             Inl e \<Rightarrow> (Inl e, st)
           | Inr (d, excludeOSDs) \<Rightarrow>
               (case handle_drains env (clusterMap st) namespace ftype allFailureDomains d excludeOSDs (pdbs st) of
                  (Some e, p1) \<Rightarrow> (Inl e, st\<lparr>pdbs := p1\<rparr>)
                | (None, p1) \<Rightarrow>
                    (case updateNoout env (maintenanceTimeout st) d allFailureDomains (ceph st) of
                       (nooutUpdateErr, d', f1) \<Rightarrow>
                         (case kupdate (cm_api env) (namespace, pdbStateMapName) (pdbStateMap\<lparr>Data := d'\<rparr>) (cms st) of
                            (Some e, c1) \<Rightarrow>
                              (if is_canceled e then Inr no_requeue
                               else Inl (Wrap ''failed to update configMap'' e), st\<lparr>pdbs := p1, ceph := f1, cms := c1\<rparr>)
                          | (None, c1) \<Rightarrow>
                              (case nooutUpdateErr of
                                 Some e \<Rightarrow>
                                   (Inl (Wrap ''failed to update maintenance noout'' e), st\<lparr>pdbs := p1, ceph := f1, cms := c1\<rparr>)
                               | None \<Rightarrow>
                                   (case requeuePDBController env namespace p1 of
                                      (r, p2) \<Rightarrow> (r, st\<lparr>pdbs := p2, ceph := f1, cms := c1\<rparr>))))))))"

section \<open>Failure domains of the OSDs\<close>

definition GetOSDID :: "Deployment \<Rightarrow> int res" where
  "GetOSDID dep =
     (case Atoi (mget (DepLabels dep) OsdIdLabelKey) of
        None \<Rightarrow> Inl (Errorf ''failed to parse label ceph-osd-id'')
      | Some i \<Rightarrow> Inr i)"

definition shouldIgnoreOSD :: "Deployment \<Rightarrow> bool" where
  "shouldIgnoreOSD dep \<longleftrightarrow> mget (DepAnnotations dep) ReplaceInProgressOSDAnnotationKey = ''true''"

definition getNode :: "('p, 'c, 'f) denv \<Rightarrow> string \<Rightarrow> bool res" where
  "getNode env nodeName =
     (case get_node_unschedulable env nodeName of
        Inl e \<Rightarrow> Inl (Wrap ''failed to get node'' e) | Inr u \<Rightarrow> Inr u)"

definition hasOSDNodeDrained :: "('p, 'c, 'f) denv \<Rightarrow> string \<Rightarrow> bool res" where
  "hasOSDNodeDrained env osdNodeName =
     (case getNode env osdNodeName of
        Inl e \<Rightarrow> if IsNotFound e then Inr True else Inl (Wrap ''failed to get node'' e)
      | Inr unschedulable \<Rightarrow> Inr unschedulable)"

fun osd_node_name :: "int \<Rightarrow> OSDMetadata list \<Rightarrow> string \<Rightarrow> string" where
  "osd_node_name osdID [] n = n"
| "osd_node_name osdID (m # ms) n = osd_node_name osdID ms (if OsdId m = osdID then HostName m else n)"

record osd_domains =
  allFD :: "string set"
  drainFD :: "string set"
  downFD :: "string set"
  downOSDs :: "int list"

definition osd_deployment_domain ::
  "('p, 'c, 'f) denv \<Rightarrow> OSDMetadata list \<Rightarrow> string \<Rightarrow> Deployment \<Rightarrow> osd_domains \<Rightarrow> osd_domains res" where
  "osd_deployment_domain env metadata poolFailureDomain dep acc =
     (let fd = mget (DepLabels dep) (TopologyLocationLabel poolFailureDomain)
      in if fd = [] then Inl (Errorf ''failed to get the topology location label'')
         else if shouldIgnoreOSD dep then Inr (acc\<lparr>allFD := insert fd (allFD acc)\<rparr>)
         else if ReadyReplicas dep < 1
         then let acc1 = acc\<lparr>downFD := insert fd (downFD acc)\<rparr>
              in case GetOSDID dep of
                   Inl e \<Rightarrow> Inl (Wrap ''failed to get ID for the OSD deployment'' e)
                 | Inr osdID \<Rightarrow>
                     let acc2 = acc1\<lparr>downOSDs := downOSDs acc1 @ [osdID]\<rparr>;
                         osdNodeName = osd_node_name osdID metadata []
                     in if osdNodeName = [] then Inr acc2
                        else case hasOSDNodeDrained env osdNodeName of
                               Inl e \<Rightarrow> Inl (Wrap ''failed to check if osd node is drained'' e)
                             | Inr isDrained \<Rightarrow>
                                 let acc3 = (if isDrained then acc2\<lparr>drainFD := insert fd (drainFD acc2)\<rparr> else acc2)
                                 in Inr (acc3\<lparr>allFD := insert fd (allFD acc3)\<rparr>)
         else Inr (acc\<lparr>allFD := insert fd (allFD acc)\<rparr>))"

fun osd_domains_loop ::
  "('p, 'c, 'f) denv \<Rightarrow> OSDMetadata list \<Rightarrow> string \<Rightarrow> Deployment list \<Rightarrow> osd_domains \<Rightarrow> osd_domains res" where
  "osd_domains_loop env metadata poolFailureDomain [] acc = Inr acc"
| "osd_domains_loop env metadata poolFailureDomain (dep # deps) acc =
     (case osd_deployment_domain env metadata poolFailureDomain dep acc of
        Inl e \<Rightarrow> Inl e
      | Inr acc' \<Rightarrow> osd_domains_loop env metadata poolFailureDomain deps acc')"

definition getOSDFailureDomains ::
  "('p, 'c, 'f) denv \<Rightarrow> string \<Rightarrow> string \<Rightarrow> 'f \<Rightarrow> (string list \<times> string list \<times> string list \<times> int list) res" where
  "getOSDFailureDomains env namespace poolFailureDomain f =
     (case list_osd_deployments env namespace of
        Inl e \<Rightarrow> Inl (Wrap ''failed to list osd deployments'' e)
      | Inr deps \<Rightarrow>
          (case ceph_osd_metadata env f of
             Inl e \<Rightarrow> Inl (Wrap ''failed to get OSD status'' e)
           | Inr metadata \<Rightarrow>
               (case osd_domains_loop env metadata poolFailureDomain deps
                       \<lparr>allFD = {}, drainFD = {}, downFD = {}, downOSDs = []\<rparr> of
                  Inl e \<Rightarrow> Inl e
                | Inr acc \<Rightarrow>
                    Inr (sets_List (allFD acc), sets_List (drainFD acc), sets_List (downFD acc), downOSDs acc))))"

section \<open>Pools\<close>

text \<open>A pool enters with its failure domain only.\<close>

fun min_level_loop :: "string \<Rightarrow> string list \<Rightarrow> int \<Rightarrow> int \<Rightarrow> bool \<Rightarrow> int \<times> bool" where
  "min_level_loop fd [] index m matched = (m, matched)"
| "min_level_loop fd (level # levels) index m matched =
     (if index > m then (m, matched)
      else if fd = level then min_level_loop fd levels (index + 1) index True
      else min_level_loop fd levels (index + 1) m matched)"

fun min_domain_loop :: "string list \<Rightarrow> int \<Rightarrow> bool \<Rightarrow> int \<times> bool" where
  "min_domain_loop [] m matched = (m, matched)"
| "min_domain_loop (pool # pools) m matched =
     (case min_level_loop pool CRUSHMapLevelsOrdered 0 m matched of
        (m', matched') \<Rightarrow> min_domain_loop pools m' matched')"

definition getMinimumFailureDomain :: "string list \<Rightarrow> string" where
  "getMinimumFailureDomain poolList =
     (if poolList = [] then DefaultFailureDomain
      else case min_domain_loop poolList (int (length CRUSHMapLevelsOrdered) - 1) False of
             (m, matched) \<Rightarrow> if \<not> matched then DefaultFailureDomain else CRUSHMapLevelsOrdered ! nat m)"

definition processPools ::
  "('p, 'c, 'f) denv \<Rightarrow> string \<Rightarrow> (CephObjectStore list \<times> CephFilesystem list \<times> string \<times> int) res" where
  "processPools env namespace =
     (case list_block_pools env namespace of
        Inl e \<Rightarrow> Inl (Wrap ''could not list the CephBlockpools'' e)
      | Inr blockPools \<Rightarrow>
          (case list_filesystems env namespace of
             Inl e \<Rightarrow> Inl (Wrap ''could not list the CephFilesystems'' e)
           | Inr filesystems \<Rightarrow>
               (case list_object_stores env namespace of
                  Inl e \<Rightarrow> Inl (Wrap ''could not list the CephObjectStores'' e)
                | Inr stores \<Rightarrow>
                    (let poolSpecs = blockPools @ concat (map (\<lambda>fs. FsMetadataPool fs # FsDataPools fs) filesystems) @
                           concat (map (\<lambda>os. [OsMetadataPool os, OsDataPool os]) stores)
                     in Inr (stores, filesystems, getMinimumFailureDomain poolSpecs,
                          int (length blockPools) + int (length filesystems) + int (length stores))))))"

section \<open>Static budgets\<close>

definition createStaticPDB :: "(PDB, 'p) kube \<Rightarrow> key \<Rightarrow> PDB \<Rightarrow> 'p \<Rightarrow> err option \<times> 'p" where
  "createStaticPDB api k pdb w =
     (case kcreate api k pdb w of
        (Some e, w') \<Rightarrow> (Some (Wrap ''failed to create pdb'' e), w') | (None, w') \<Rightarrow> (None, w'))"

definition reconcileStaticPDB :: "(PDB, 'p) kube \<Rightarrow> key \<Rightarrow> PDB \<Rightarrow> 'p \<Rightarrow> err option \<times> 'p" where
  "reconcileStaticPDB api k pdb w =
     (case kget api k w of
        (Inl e, w1) \<Rightarrow>
          (if IsNotFound e then createStaticPDB api k pdb w1 else (Some (Wrap ''failed to get pdb'' e), w1))
      | (Inr _, w1) \<Rightarrow> (None, w1))"

text \<open>One service with its budget: name and labels, the number of pods to keep available.\<close>

definition reconcile_service_pdb ::
  "(PDB, 'p) kube \<Rightarrow> key \<Rightarrow> (string \<times> string) list \<Rightarrow> string \<Rightarrow> int \<Rightarrow> 'p \<Rightarrow> err option \<times> 'p" where
  "reconcile_service_pdb api k labels owner minAvailable w =
     (if minAvailable < 1
      then (case deletePDB api k w of
              (Some e, w') \<Rightarrow> (Some (Wrap ''failed to delete stale pdb'' e), w') | (None, w') \<Rightarrow> (None, w'))
      else (case reconcileStaticPDB api k
                   (new_pdb\<lparr>MinAvailable := Some minAvailable, MatchLabels := labels, PdbOwner := [owner]\<rparr>) w of
              (Some e, w') \<Rightarrow> (Some (Wrap ''failed to reconcile pdb'' e), w') | (None, w') \<Rightarrow> (None, w')))"

fun reconcileCephObjectStore :: "(PDB, 'p) kube \<Rightarrow> CephObjectStore list \<Rightarrow> 'p \<Rightarrow> err option \<times> 'p" where
  "reconcileCephObjectStore api [] w = (None, w)"
| "reconcileCephObjectStore api (os # stores) w =
     (case reconcile_service_pdb api (OsNamespace os, ''rook-ceph-rgw-'' @ OsName os) [(''rgw'', OsName os)]
             (OsName os) (s32 (Instances os - 1)) w of
        (Some e, w') \<Rightarrow> (Some e, w')
      | (None, w') \<Rightarrow> reconcileCephObjectStore api stores w')"

definition mds_min_available :: "CephFilesystem \<Rightarrow> int" where
  "mds_min_available fs =
     (if ActiveStandby fs then s32 (s32 (ActiveCount fs - 1) + 1) else s32 (ActiveCount fs - 1))"

fun reconcileCephFilesystem :: "(PDB, 'p) kube \<Rightarrow> CephFilesystem list \<Rightarrow> 'p \<Rightarrow> err option \<times> 'p" where
  "reconcileCephFilesystem api [] w = (None, w)"
| "reconcileCephFilesystem api (fs # filesystems) w =
     (case reconcile_service_pdb api (FsNamespace fs, ''rook-ceph-mds-'' @ FsName fs)
             [(''rook_file_system'', FsName fs)] (FsName fs) (mds_min_available fs) w of
        (Some e, w') \<Rightarrow> (Some e, w')
      | (None, w') \<Rightarrow> reconcileCephFilesystem api filesystems w')"

section \<open>The reconcile loop\<close>

definition UpdateClusterMap :: "string \<Rightarrow> CephCluster \<Rightarrow> (string \<rightharpoonup> CephCluster) \<Rightarrow> (string \<rightharpoonup> CephCluster)" where
  "UpdateClusterMap namespace cluster m = m(namespace \<mapsto> cluster)"

text \<open>Of the cluster info the reconcile uses the name only.\<close>

definition GetClusterInfo :: "string \<Rightarrow> (string \<rightharpoonup> CephCluster) \<Rightarrow> string option" where
  "GetClusterInfo namespace m = map_option ClusterName (m namespace)"

definition GetCluster :: "string \<Rightarrow> (string \<rightharpoonup> CephCluster) \<Rightarrow> CephCluster option" where
  "GetCluster namespace m = m namespace"

definition deleteDrainCanaryPods :: "('p, 'c, 'f) denv \<Rightarrow> string \<Rightarrow> err option" where
  "deleteDrainCanaryPods env namespace =
     (case delete_canaries env namespace of
        None \<Rightarrow> None
      | Some e \<Rightarrow> if IsNotFound e then None
                   else Some (Wrap ''failed to delete all the legacy drain-canary pods'' e))"

text \<open>The part of a reconcile that follows the deletion of legacy resources.\<close>

definition reconcile_budgets ::
  "('p, 'c, 'f) denv \<Rightarrow> string \<Rightarrow> CephCluster \<Rightarrow> ('p, 'c, 'f) dstate \<Rightarrow> Result res \<times> ('p, 'c, 'f) dstate" where
  "reconcile_budgets env namespace cephCluster st =
     (case processPools env namespace of
        Inl e \<Rightarrow> (Inl e, st)
      | Inr (stores, filesystems, poolFailureDomain, poolCount) \<Rightarrow>
          (case reconcileCephObjectStore (pdb_api env) stores (pdbs st) of
             (Some e, p1) \<Rightarrow> (Inl e, st\<lparr>pdbs := p1\<rparr>)
           | (None, p1) \<Rightarrow>
               (case reconcileCephFilesystem (pdb_api env) filesystems p1 of
                  (Some e, p2) \<Rightarrow> (Inl e, st\<lparr>pdbs := p2\<rparr>)
                | (None, p2) \<Rightarrow>
                    (let st2 = st\<lparr>pdbs := p2\<rparr>
                     in if poolCount < 1 then (Inr no_requeue, st2)
                        else case getOSDFailureDomains env namespace poolFailureDomain (ceph st2) of
                               Inl e \<Rightarrow> (Inl e, st2)
                             | Inr (allFDs, drainFDs, downFDs, down) \<Rightarrow>
                                 (case initializePDBState env namespace (cms st2) of
                                    (Inl e, c1) \<Rightarrow> (Inl e, st2\<lparr>cms := c1\<rparr>)
                                  | (Inr pdbStateMap, c1) \<Rightarrow>
                                      reconcilePDBsForOSDs env namespace pdbStateMap poolFailureDomain allFDs downFDs
                                        drainFDs down (PGHealthyRegex cephCluster) (st2\<lparr>cms := c1\<rparr>))))))"

definition reconcile ::
  "('p, 'c, 'f) denv \<Rightarrow> string \<Rightarrow> ('p, 'c, 'f) dstate \<Rightarrow> Result res \<times> ('p, 'c, 'f) dstate" where
  "reconcile env namespace st =
     (if namespace = [] then (Inl (Errorf ''request did not have namespace''), st)
      else case list_clusters env namespace of
             Inl e \<Rightarrow> (Inl (Wrap ''could not get cephclusters in namespace'' e), st)
           | Inr [] \<Rightarrow> (Inr no_requeue, st)
           | Inr (cephCluster # _) \<Rightarrow>
               (let st1 = st\<lparr>clusterMap := UpdateClusterMap namespace cephCluster (clusterMap st)\<rparr>
                in case GetClusterInfo namespace (clusterMap st1) of
                     None \<Rightarrow> (Inl (Errorf ''clusterName for this namespace not yet known''), st1)
                   | Some _ \<Rightarrow>
                       if \<not> ManagePodBudgets cephCluster then (Inr no_requeue, st1)
                       else (let canary = (if deleteLegacyResources st1 then deleteDrainCanaryPods env namespace else None)
                             in case canary of
                                  Some e \<Rightarrow> (Inl e, st1)
                                | None \<Rightarrow>
                                    (let timeout = s64 (OSDMaintenanceTimeout cephCluster * minute);
                                         st2 = st1\<lparr>deleteLegacyResources := False,
                                           maintenanceTimeout := (if timeout = 0 then DefaultMaintenanceTimeout else timeout)\<rparr>
                                     in reconcile_budgets env namespace cephCluster st2))))"

end
