(* ===== verification/DisruptionProps.thy ===== *)
theory DisruptionProps
  imports Disruption
begin

text \<open>
  Properties of the disruption controller. The locale \<open>disruption\<close> is the contract of its environment:
  the Kubernetes API keeps its laws on the budgets and setting an owner leaves the rest of a budget
  alone. Inside it every operation on budgets gets one lemma for all its outcomes, failed API calls
  included; the locale is interpreted on the reference server. The properties say which budgets exist
  after a reconcile, that at no moment two failure domains can be drained, and where the order of the
  API calls breaks that.
\<close>

section \<open>Vocabulary\<close>

definition same_spec :: "PDB \<Rightarrow> PDB \<Rightarrow> bool" where
  "same_spec p q \<longleftrightarrow> MaxUnavailable p = MaxUnavailable q \<and> MinAvailable p = MinAvailable q \<and>
     MatchLabels p = MatchLabels q \<and> MatchExpressions p = MatchExpressions q"

text \<open>The key of the budget of a failure domain and of the default budget.\<close>

definition fd_key :: "('p, 'c, 'f) denv \<Rightarrow> string \<Rightarrow> string \<Rightarrow> string \<Rightarrow> key" where
  "fd_key env ns ftype fd = (ns, getPDBName (sum256 env) ftype fd)"

definition default_key :: "string \<Rightarrow> key" where
  "default_key ns = (ns, osdPDBAppName)"

text \<open>The pods a budget selects, by their labels, as Kubernetes evaluates a selector.\<close>

fun requirement_met :: "Requirement \<Rightarrow> (string \<rightharpoonup> string) \<Rightarrow> bool" where
  "requirement_met r labels =
     (if ReqOperator r = ''In'' then \<exists>v \<in> set (ReqValues r). labels (ReqKey r) = Some v
      else if ReqOperator r = ''NotIn'' then \<forall>v \<in> set (ReqValues r). labels (ReqKey r) \<noteq> Some v
      else if ReqOperator r = ''Exists'' then labels (ReqKey r) \<noteq> None
      else if ReqOperator r = ''DoesNotExist'' then labels (ReqKey r) = None
      else False)"

definition budget_selects :: "PDB \<Rightarrow> (string \<rightharpoonup> string) \<Rightarrow> bool" where
  "budget_selects p labels \<longleftrightarrow> (\<forall>(k, v) \<in> set (MatchLabels p). labels k = Some v) \<and>
     (\<forall>r \<in> set (MatchExpressions p). requirement_met r labels)"

text \<open>A budget that lets no pod of a failure domain be evicted, and one that lets the pods of the OSDs outside a set be evicted
  one at a time.\<close>

definition blocks :: "string \<Rightarrow> string \<Rightarrow> PDB \<Rightarrow> bool" where
  "blocks ftype fd p \<longleftrightarrow> MaxUnavailable p = Some 0 \<and>
     (\<forall>labels. labels (''topology-location-'' @ ftype) = Some fd \<longrightarrow> budget_selects p labels)"

definition one_at_a_time :: "int set \<Rightarrow> PDB \<Rightarrow> bool" where
  "one_at_a_time X p \<longleftrightarrow> MaxUnavailable p = Some 1 \<and>
     (\<forall>labels. labels ''app'' = Some ''rook-ceph-osd'' \<longrightarrow> (\<forall>i \<in> X. labels ''osd'' \<noteq> Some (Itoa i)) \<longrightarrow> budget_selects p labels)"

text \<open>
  Pods of at most one failure domain can be evicted: the default budget lets the OSDs outside \<open>X\<close> go one at a time, or every
  domain but one has a budget that blocks it.
\<close>

definition guarded :: "('p, 'c, 'f) denv \<Rightarrow> string \<Rightarrow> string \<Rightarrow> string list \<Rightarrow> int set \<Rightarrow> (key \<rightharpoonup> PDB) \<Rightarrow> bool" where
  "guarded env ns ftype fds X s \<longleftrightarrow>
     (\<exists>p. s (default_key ns) = Some p \<and> one_at_a_time X p) \<or>
     (\<exists>fd0. \<forall>fd \<in> set fds. fd \<noteq> fd0 \<longrightarrow> (\<exists>p. s (fd_key env ns ftype fd) = Some p \<and> blocks ftype fd p))"

text \<open>The budgets of an active drain, and of normal operation.\<close>

definition drain_budgets ::
  "('p, 'c, 'f) denv \<Rightarrow> string \<Rightarrow> string \<Rightarrow> string list \<Rightarrow> string \<Rightarrow> (key \<rightharpoonup> PDB) \<Rightarrow> (key \<rightharpoonup> PDB) \<Rightarrow> bool" where
  "drain_budgets env ns ftype fds draining s s' \<longleftrightarrow>
     s' (default_key ns) = None \<and>
     (draining \<in> set fds \<longrightarrow> s' (fd_key env ns ftype draining) = None) \<and>
     (\<forall>fd \<in> set fds. fd \<noteq> draining \<longrightarrow>
        (case s (fd_key env ns ftype fd) of
           None \<Rightarrow> \<exists>p. s' (fd_key env ns ftype fd) = Some p \<and> same_spec (blocking_pdb ftype fd) p
         | Some p \<Rightarrow> s' (fd_key env ns ftype fd) = Some p)) \<and>
     (\<forall>k. k \<noteq> default_key ns \<and> k \<notin> fd_key env ns ftype ` set fds \<longrightarrow> s' k = s k)"

definition normal_budgets ::
  "('p, 'c, 'f) denv \<Rightarrow> string \<Rightarrow> string \<Rightarrow> string list \<Rightarrow> int list \<Rightarrow> (key \<rightharpoonup> PDB) \<Rightarrow> (key \<rightharpoonup> PDB) \<Rightarrow> bool" where
  "normal_budgets env ns ftype fds excluded s s' \<longleftrightarrow>
     (\<exists>p. s' (default_key ns) = Some p \<and> same_spec (default_pdb excluded) p) \<and>
     (\<forall>fd \<in> set fds. s' (fd_key env ns ftype fd) = None) \<and>
     (\<forall>k. k \<noteq> default_key ns \<and> k \<notin> fd_key env ns ftype ` set fds \<longrightarrow> s' k = s k)"

section \<open>A reference Ceph cluster\<close>

record ref_ceph =
  rc_status :: CephStatus
  rc_flags :: "string \<rightharpoonup> string list"
  rc_metadata :: "OSDMetadata list"
  rc_faults :: "bool list"

text \<open>Ceph takes a name that is a number for the OSD of that number.\<close>

definition ref_target :: "string \<Rightarrow> string" where
  "ref_target unit_name = (if Atoi unit_name = None then unit_name else ''osd.'' @ unit_name)"

definition ref_flag_command :: "ref_ceph flag_cmd" where
  "ref_flag_command set_it flag unit_name f =
     (let flags = (case rc_flags f (ref_target unit_name) of None \<Rightarrow> [] | Some l \<Rightarrow> filter (\<lambda>x. x \<noteq> flag) l);
          f' = f\<lparr>rc_flags := (rc_flags f)(ref_target unit_name \<mapsto> (if set_it then flag # flags else flags))\<rparr>
      in case rc_faults f of
           True # fs \<Rightarrow> (Some (Errorf ''exit status 1''), f\<lparr>rc_faults := fs\<rparr>)
         | _ # fs \<Rightarrow> (None, f'\<lparr>rc_faults := fs\<rparr>)
         | [] \<Rightarrow> (None, f'))"

definition ref_env :: "int \<Rightarrow> (PDB server, ConfigMap server, ref_ceph) denv" where
  "ref_env t = \<lparr>pdb_api = server_api, cm_api = server_api,
     set_owner = (\<lambda>c p. Inr (p\<lparr>PdbOwner := [ClusterName c]\<rparr>)),
     ceph_status = (\<lambda>f. Inr (rc_status f)),
     ceph_osd_dump = (\<lambda>f. Inr \<lparr>OSDs = [], CrushNodeFlags = rc_flags f\<rparr>),
     ceph_osd_metadata = (\<lambda>f. Inr (rc_metadata f)),
     flag_command = ref_flag_command,
     regexp_compile = (\<lambda>r. Inr (\<lambda>s. s = r)),
     list_osd_deployments = (\<lambda>_. Inr []), get_node_unschedulable = (\<lambda>_. Inr False),
     list_clusters = (\<lambda>_. Inr []), list_block_pools = (\<lambda>_. Inr []), list_filesystems = (\<lambda>_. Inr []),
     list_object_stores = (\<lambda>_. Inr []), delete_canaries = (\<lambda>_. None),
     sum256 = (\<lambda>s. replicate 32 (length s mod 256)),
     time_format = (\<lambda>t. Itoa (t div second)),
     time_parse = (\<lambda>s. case Atoi s of None \<Rightarrow> Inl (Errorf ''cannot parse time'') | Some n \<Rightarrow> Inr (n * second)),
     time_now = t\<rparr>"

definition ref_cluster :: CephCluster where
  "ref_cluster = \<lparr>ClusterName = ''my-cluster'', ManagePodBudgets = True, OSDMaintenanceTimeout = 0, PGHealthyRegex = []\<rparr>"

definition ref_clusters :: "string \<rightharpoonup> CephCluster" where
  "ref_clusters = [''ns'' \<mapsto> ref_cluster]"

section \<open>Names\<close>

lemma getPDBName_prefix: "\<exists>x. getPDBName sha ftype fd = osdPDBAppName @ CHR ''-'' # x"
  by (simp add: getPDBName_def TruncateNodeName_def truncateNodeName_max_def Sprintf1_def Let_def)

lemma fd_key_default [simp]: "fd_key env ns ftype fd \<noteq> default_key ns" "default_key ns \<noteq> fd_key env ns ftype fd"
  using getPDBName_prefix [of "sum256 env" ftype fd] by (auto simp: fd_key_def default_key_def)

lemma default_key_notin [simp]: "default_key ns \<notin> fd_key env ns ftype ` A"
  by auto

section \<open>The budgets the controller writes\<close>

lemma guardedI:
  "s (default_key ns) = Some p \<Longrightarrow> one_at_a_time X p \<Longrightarrow> guarded env ns ftype fds X s"
  "(\<And>fd. fd \<in> set fds \<Longrightarrow> fd \<noteq> fd0 \<Longrightarrow> \<exists>p. s (fd_key env ns ftype fd) = Some p \<and> blocks ftype fd p) \<Longrightarrow> guarded env ns ftype fds X s"
  unfolding guarded_def by blast+

lemma blocking_blocks:
  assumes "same_spec (blocking_pdb ftype fd) p"
  shows "blocks ftype fd p"
proof -
  have "MaxUnavailable p = Some 0" "MatchLabels p = [(TopologyLocationLabel ftype, fd)]" "MatchExpressions p = []"
    using assms by (simp_all add: same_spec_def blocking_pdb_def new_pdb_def)
  then show ?thesis by (simp add: blocks_def budget_selects_def TopologyLocationLabel_def)
qed

lemma default_one_at_a_time:
  assumes "same_spec (default_pdb ex) p" and "set ex \<subseteq> X"
  shows "one_at_a_time X p"
proof -
  have "MaxUnavailable p = Some 1" "MatchLabels p = []" "MatchExpressions p = MatchExpressions (default_pdb ex)"
    using assms(1) by (simp_all add: same_spec_def default_pdb_def new_pdb_def Let_def)
  then show ?thesis using assms(2)
    by (auto simp: one_at_a_time_def budget_selects_def default_pdb_def new_pdb_def Let_def AppAttr_def osdPDBAppName_def osdPDBOsdIdLabel_def)
qed

section \<open>Operations on budgets\<close>

locale disruption = kube_api "pdb_api env" store
  for env :: "('p, 'c, 'f) denv" and store :: "'p \<Rightarrow> key \<rightharpoonup> PDB" +
  assumes owner_spec: "set_owner env c p = Inr q \<Longrightarrow> same_spec p q"
begin

lemma createPDB_outcome:
  assumes "createPDB (pdb_api env) k p w = (r, w')"
  shows "store w' = store w \<or> store w k = None \<and> store w' = (store w)(k \<mapsto> p)"
    and "r = None \<Longrightarrow> store w' k \<noteq> None"
proof -
  obtain e w1 where c: "kcreate (pdb_api env) k p w = (e, w1)" by fastforce
  with assms have w: "w' = w1" by (auto simp: createPDB_def split: option.splits if_splits)
  show "store w' = store w \<or> store w k = None \<and> store w' = (store w)(k \<mapsto> p)"
    using c create_ok create_err unfolding w by (cases e) blast+
  show "store w' k \<noteq> None" if "r = None"
  proof (cases e)
    case None
    with c create_ok show ?thesis unfolding w by fastforce
  next
    case (Some x)
    with assms c that have "IsAlreadyExists x" by (auto simp: createPDB_def split: if_splits)
    with Some c create_exists show ?thesis unfolding w by metis
  qed
qed

lemma deletePDB_outcome:
  assumes "deletePDB (pdb_api env) k w = (r, w')"
  shows "store w' = store w \<or> store w' = (store w)(k := None)"
    and "r = None \<Longrightarrow> store w' = (store w)(k := None)"
proof -
  obtain e w1 where c: "kdelete (pdb_api env) k w = (e, w1)" by fastforce
  with assms have w: "w' = w1" by (auto simp: deletePDB_def split: option.splits if_splits)
  show "store w' = store w \<or> store w' = (store w)(k := None)"
    using c delete_ok delete_err unfolding w by (cases e) blast+
  show "store w' = (store w)(k := None)" if "r = None"
  proof (cases e)
    case None
    with c delete_ok show ?thesis unfolding w by blast
  next
    case (Some x)
    with assms c that have "IsNotFound x" by (auto simp: deletePDB_def split: if_splits)
    with Some c delete_not_found show ?thesis unfolding w by (metis fun_upd_triv)
  qed
qed

lemma delete_if_present_outcome:
  assumes "delete_if_present (pdb_api env) k w = (r, w')"
  shows "store w' = store w \<or> store w' = (store w)(k := None)"
    and "r = None \<Longrightarrow> store w' = (store w)(k := None)"
proof -
  have "(store w' = store w \<or> store w' = (store w)(k := None)) \<and> (r = None \<longrightarrow> store w' = (store w)(k := None))"
  proof (cases rule: get_cases [of k w])
    case (found ob w1)
    then have "deletePDB (pdb_api env) k w1 = (r, w')" using assms by (simp add: delete_if_present_def)
    from deletePDB_outcome [OF this] found show ?thesis by simp
  next
    case (absent e w1)
    with assms have "store w' = store w" by (auto simp: delete_if_present_def)
    with absent show ?thesis by (metis fun_upd_triv)
  next
    case (failed e w1)
    with assms show ?thesis by (auto simp: delete_if_present_def)
  qed
  then show "store w' = store w \<or> store w' = (store w)(k := None)"
    and "r = None \<Longrightarrow> store w' = (store w)(k := None)" by blast+
qed

lemma create_blocking_outcome:
  assumes "createBlockingPDBForOSD env cl ns ftype fd w = (r, w')"
  shows "store w' = store w \<or> store w (fd_key env ns ftype fd) = None \<and>
      (\<exists>p. same_spec (blocking_pdb ftype fd) p \<and> store w' = (store w)(fd_key env ns ftype fd \<mapsto> p))"
    and "r = None \<Longrightarrow> store w' (fd_key env ns ftype fd) \<noteq> None"
proof -
  let ?k = "fd_key env ns ftype fd"
  have "(store w' = store w \<or> store w ?k = None \<and>
      (\<exists>p. same_spec (blocking_pdb ftype fd) p \<and> store w' = (store w)(?k \<mapsto> p))) \<and>
    (r = None \<longrightarrow> store w' ?k \<noteq> None)"
  proof (cases "cl ns")
    case None
    with assms show ?thesis by (auto simp: createBlockingPDBForOSD_def)
  next
    case (Some c)
    show ?thesis
    proof (cases "set_owner env c (blocking_pdb ftype fd)")
      case (Inl e)
      with Some assms show ?thesis by (auto simp: createBlockingPDBForOSD_def)
    next
      case (Inr p)
      note run = assms [unfolded createBlockingPDBForOSD_def Some Inr option.case sum.case Let_def,
          folded fd_key_def]
      show ?thesis
      proof (cases rule: get_cases [of ?k w])
        case (found ob w1)
        with run show ?thesis by auto
      next
        case (absent e w1)
        with run have "createPDB (pdb_api env) ?k p w1 = (r, w')" by simp
        from createPDB_outcome [OF this] absent owner_spec [OF Inr] show ?thesis by auto
      next
        case (failed e w1)
        with run show ?thesis by auto
      qed
    qed
  qed
  then show "store w' = store w \<or> store w ?k = None \<and>
      (\<exists>p. same_spec (blocking_pdb ftype fd) p \<and> store w' = (store w)(?k \<mapsto> p))"
    and "r = None \<Longrightarrow> store w' ?k \<noteq> None" by blast+
qed

lemma delete_blocking_outcome:
  assumes "deleteBlockingPDBForOSD env ns ftype fd w = (r, w')"
  shows "store w' = store w \<or> store w' = (store w)(fd_key env ns ftype fd := None)"
    and "r = None \<Longrightarrow> store w' = (store w)(fd_key env ns ftype fd := None)"
  using delete_if_present_outcome assms unfolding deleteBlockingPDBForOSD_def fd_key_def by blast+

lemma delete_default_outcome:
  assumes "deleteDefaultPDBforOSD env ns w = (r, w')"
  shows "store w' = store w \<or> store w' = (store w)(default_key ns := None)"
    and "r = None \<Longrightarrow> store w' = (store w)(default_key ns := None)"
  using delete_if_present_outcome assms unfolding deleteDefaultPDBforOSD_def default_key_def by blast+

lemma createPDB_fresh:
  assumes "createPDB (pdb_api env) k p w = (None, w')" and "store w k = None"
  shows "store w' = (store w)(k \<mapsto> p)"
  using createPDB_outcome [OF assms(1)] assms(2) by auto

lemma update_default_outcome:
  assumes "kupdate (pdb_api env) k q w = (e, w')"
  shows "store w' = store w \<or> store w' = (store w)(k \<mapsto> q)"
    and "e = None \<Longrightarrow> store w' = (store w)(k \<mapsto> q)"
  using assms update_ok update_err by (cases e; blast)+

lemma create_default_outcome:
  assumes "createDefaultPDBforOSD env cl ns ex w = (r, w')"
  shows "\<exists>p. same_spec (default_pdb ex) p \<and>
    (store w' = (store w)(default_key ns \<mapsto> p) \<or> r \<noteq> None \<and> store w' = store w)"
proof (cases "cl ns")
  case None
  with assms show ?thesis by (auto simp: createDefaultPDBforOSD_def same_spec_def)
next
  case (Some c)
  let ?k = "default_key ns"
  show ?thesis
  proof (cases "set_owner env c (default_pdb ex)")
    case (Inl e)
    with Some assms show ?thesis by (auto simp: createDefaultPDBforOSD_def same_spec_def)
  next
    case (Inr p)
    note run = assms [unfolded createDefaultPDBforOSD_def Some Inr option.case sum.case, folded default_key_def]
    note sp = owner_spec [OF Inr]
    show ?thesis
    proof (cases rule: get_cases [of ?k w])
      case (found ob w1)
      define q where "q = ob\<lparr>MaxUnavailable := MaxUnavailable p, MinAvailable := MinAvailable p,
                             MatchLabels := MatchLabels p, MatchExpressions := MatchExpressions p\<rparr>"
      have q: "same_spec (default_pdb ex) q" using sp by (simp add: q_def same_spec_def)
      obtain e w2 where u: "kupdate (pdb_api env) ?k q w1 = (e, w2)" by fastforce
      with run found(1) have "w' = w2" and "r = None \<longleftrightarrow> e = None"
        by (auto simp: q_def split: option.splits)
      with update_default_outcome [OF u] found(2) q show ?thesis by metis
    next
      case (absent e w1)
      with run have c: "createPDB (pdb_api env) ?k p w1 = (r, w')" by simp
      from createPDB_outcome(1) [OF c] createPDB_fresh [of ?k p w1 w'] c absent(3,4) sp
      show ?thesis by (cases r) (auto simp del: split_paired_Ex)
    next
      case (failed e w1)
      with run sp show ?thesis by auto
    qed
  qed
qed

text \<open>
  One step of the loop of an active drain: what it does to any key, and that a step that succeeds
  reaches its goal.
\<close>

lemma active_step:
  assumes "(if fd \<noteq> draining then createBlockingPDBForOSD env cl ns ftype fd w
            else deleteBlockingPDBForOSD env ns ftype fd w) = (r, w1)"
  shows "k \<noteq> fd_key env ns ftype fd \<Longrightarrow> store w1 k = store w k"
    and "k \<noteq> fd_key env ns ftype draining \<Longrightarrow> store w k \<noteq> None \<Longrightarrow> store w1 k = store w k"
    and "r = None \<Longrightarrow> fd \<noteq> draining \<Longrightarrow> store w1 (fd_key env ns ftype fd) \<noteq> None"
    and "fd \<noteq> draining \<Longrightarrow> store w (fd_key env ns ftype fd) = None \<Longrightarrow>
      store w1 (fd_key env ns ftype fd) = Some p \<Longrightarrow> same_spec (blocking_pdb ftype fd) p"
    and "r = None \<Longrightarrow> fd = draining \<Longrightarrow> store w1 (fd_key env ns ftype fd) = None"
proof -
  have "(k \<noteq> fd_key env ns ftype fd \<longrightarrow> store w1 k = store w k) \<and>
    (k \<noteq> fd_key env ns ftype draining \<longrightarrow> store w k \<noteq> None \<longrightarrow> store w1 k = store w k) \<and>
    (r = None \<longrightarrow> fd \<noteq> draining \<longrightarrow> store w1 (fd_key env ns ftype fd) \<noteq> None) \<and>
    (fd \<noteq> draining \<longrightarrow> store w (fd_key env ns ftype fd) = None \<longrightarrow>
      store w1 (fd_key env ns ftype fd) = Some p \<longrightarrow> same_spec (blocking_pdb ftype fd) p) \<and>
    (r = None \<longrightarrow> fd = draining \<longrightarrow> store w1 (fd_key env ns ftype fd) = None)"
  proof (cases "fd = draining")
    case True
    with assms have d: "deleteBlockingPDBForOSD env ns ftype draining w = (r, w1)" by simp
    from delete_blocking_outcome [OF d] True show ?thesis by auto
  next
    case False
    with assms have c: "createBlockingPDBForOSD env cl ns ftype fd w = (r, w1)" by simp
    from create_blocking_outcome [OF c] False show ?thesis by auto
  qed
  then show "k \<noteq> fd_key env ns ftype fd \<Longrightarrow> store w1 k = store w k"
    and "k \<noteq> fd_key env ns ftype draining \<Longrightarrow> store w k \<noteq> None \<Longrightarrow> store w1 k = store w k"
    and "r = None \<Longrightarrow> fd \<noteq> draining \<Longrightarrow> store w1 (fd_key env ns ftype fd) \<noteq> None"
    and "fd \<noteq> draining \<Longrightarrow> store w (fd_key env ns ftype fd) = None \<Longrightarrow>
      store w1 (fd_key env ns ftype fd) = Some p \<Longrightarrow> same_spec (blocking_pdb ftype fd) p"
    and "r = None \<Longrightarrow> fd = draining \<Longrightarrow> store w1 (fd_key env ns ftype fd) = None"
    by blast+
qed

lemma active_loop_Cons:
  assumes "active_drain_loop env cl (fd # fds) draining ftype ns w = (r, w')"
  obtains (stop) e e' where "(if fd \<noteq> draining then createBlockingPDBForOSD env cl ns ftype fd w
            else deleteBlockingPDBForOSD env ns ftype fd w) = (Some e, w')" "r = Some e'"
  | (go) w1 where "(if fd \<noteq> draining then createBlockingPDBForOSD env cl ns ftype fd w
            else deleteBlockingPDBForOSD env ns ftype fd w) = (None, w1)"
      "active_drain_loop env cl fds draining ftype ns w1 = (r, w')"
  using assms that by (auto split: if_splits prod.splits option.splits)

lemma active_loop_frame:
  "active_drain_loop env cl fds draining ftype ns w = (r, w') \<Longrightarrow> k \<notin> fd_key env ns ftype ` set fds \<Longrightarrow>
   store w' k = store w k"
proof (induction fds arbitrary: w)
  case (Cons fd fds)
  from Cons.prems(1) show ?case
  proof (cases rule: active_loop_Cons)
    case (stop e e')
    with active_step(1) [OF stop(1)] Cons.prems(2) show ?thesis by simp
  next
    case (go w1)
    with active_step(1) [OF go(1)] Cons show ?thesis by simp
  qed
qed simp

lemma active_loop_keeps:
  "active_drain_loop env cl fds draining ftype ns w = (r, w') \<Longrightarrow> k \<noteq> fd_key env ns ftype draining \<Longrightarrow>
   store w k \<noteq> None \<Longrightarrow> store w' k = store w k"
proof (induction fds arbitrary: w)
  case (Cons fd fds)
  from Cons.prems(1) show ?case
  proof (cases rule: active_loop_Cons)
    case (stop e e')
    with active_step(2) [OF stop(1)] Cons.prems show ?thesis by simp
  next
    case (go w1)
    with active_step(2) [OF go(1)] Cons show ?thesis by simp
  qed
qed simp

lemma active_loop_done:
  assumes "active_drain_loop env cl fds draining ftype ns w = (None, w')"
    and "inj_on (fd_key env ns ftype) (insert draining (set fds))"
  shows "(draining \<in> set fds \<longrightarrow> store w' (fd_key env ns ftype draining) = None) \<and>
     (\<forall>fd \<in> set fds. fd \<noteq> draining \<longrightarrow>
        (case store w (fd_key env ns ftype fd) of
           None \<Rightarrow> \<exists>p. store w' (fd_key env ns ftype fd) = Some p \<and> same_spec (blocking_pdb ftype fd) p
         | Some p \<Rightarrow> store w' (fd_key env ns ftype fd) = Some p))"
  using assms
proof (induction fds arbitrary: w)
  case (Cons x fds)
  let ?k = "fd_key env ns ftype"
  from Cons.prems(1) obtain w1 where
    step: "(if x \<noteq> draining then createBlockingPDBForOSD env cl ns ftype x w
            else deleteBlockingPDBForOSD env ns ftype x w) = (None, w1)"
    and rest: "active_drain_loop env cl fds draining ftype ns w1 = (None, w')"
    by (cases rule: active_loop_Cons) auto
  have inj: "inj_on ?k (insert draining (set fds))"
    using Cons.prems(2) by (rule inj_on_subset) auto
  note IH = Cons.IH [OF rest inj]
  have key: "?k fd = ?k fd' \<longleftrightarrow> fd = fd'" if "fd \<in> insert draining (set (x # fds))" "fd' \<in> insert draining (set (x # fds))"
    for fd fd' using Cons.prems(2) that by (auto simp: inj_on_def)
  have d: "store w' (?k draining) = None" if "draining \<in> set (x # fds)"
  proof (cases "draining \<in> set fds")
    case False
    then have "?k draining \<notin> ?k ` set fds" using key by auto
    with active_loop_frame [OF rest] active_step(5) [OF step] that False show ?thesis by auto
  qed (use IH in blast)
  have "case store w (?k fd) of
           None \<Rightarrow> \<exists>p. store w' (?k fd) = Some p \<and> same_spec (blocking_pdb ftype fd) p
         | Some p \<Rightarrow> store w' (?k fd) = Some p" if fd: "fd \<in> set (x # fds)" "fd \<noteq> draining" for fd
  proof (cases "fd = x")
    case True
    with active_step(3) [OF step] fd(2) obtain p where p: "store w1 (?k fd) = Some p" by auto
    moreover have "?k fd \<noteq> ?k draining" using key fd by auto
    ultimately have "store w' (?k fd) = Some p" using active_loop_keeps [OF rest] by auto
    with p active_step(2) [OF step \<open>?k fd \<noteq> ?k draining\<close>] active_step(4) [OF step] True fd(2)
    show ?thesis by (auto split: option.splits)
  next
    case False
    with fd have "fd \<in> set fds" by simp
    moreover have "store w1 (?k fd) = store w (?k fd)"
      using active_step(1) [OF step] key [of fd x] fd False by auto
    ultimately show ?thesis using IH fd(2) by auto
  qed
  with d show ?case by blast
qed simp

lemma inactive_loop_outcome:
  assumes "inactive_drain_loop env fds ftype ns w = (r, w')"
  shows "k \<notin> fd_key env ns ftype ` set fds \<Longrightarrow> store w' k = store w k"
    and "store w' k \<in> {None, store w k}"
    and "r = None \<Longrightarrow> fd \<in> set fds \<Longrightarrow> store w' (fd_key env ns ftype fd) = None"
proof -
  have "(k \<notin> fd_key env ns ftype ` set fds \<longrightarrow> store w' k = store w k) \<and> store w' k \<in> {None, store w k} \<and>
    (r = None \<longrightarrow> (\<forall>fd \<in> set fds. store w' (fd_key env ns ftype fd) = None))" for k
    using assms
  proof (induction fds arbitrary: w k)
    case (Cons fd fds)
    obtain e w1 where d: "deleteBlockingPDBForOSD env ns ftype fd w = (e, w1)" by fastforce
    note o = delete_blocking_outcome [OF d]
    show ?case
    proof (cases e)
      case (Some x)
      with Cons.prems d have "w' = w1" and "r \<noteq> None" by auto
      with o show ?thesis by auto
    next
      case None
      with Cons.prems d have rest: "inactive_drain_loop env fds ftype ns w1 = (r, w')" by simp
      have s1: "store w1 = (store w)(fd_key env ns ftype fd := None)" using o(2) None by simp
      have "store w' (fd_key env ns ftype fd) = None"
        using Cons.IH [OF rest, of "fd_key env ns ftype fd"] s1 by simp
      with Cons.IH [OF rest, of k] s1 show ?thesis by (cases "k = fd_key env ns ftype fd") auto
    qed
  qed simp
  then show "k \<notin> fd_key env ns ftype ` set fds \<Longrightarrow> store w' k = store w k"
    and "store w' k \<in> {None, store w k}"
    and "r = None \<Longrightarrow> fd \<in> set fds \<Longrightarrow> store w' (fd_key env ns ftype fd) = None"
    by blast+
qed

lemma active_done:
  assumes "handleActiveDrains env cl fds draining ftype ns w = (None, w')"
    and "inj_on (fd_key env ns ftype) (insert draining (set fds))"
  shows "drain_budgets env ns ftype fds draining (store w) (store w')"
proof -
  from assms(1) obtain w1 where l: "active_drain_loop env cl fds draining ftype ns w = (None, w1)"
    and d: "deleteDefaultPDBforOSD env ns w1 = (None, w')"
    by (auto simp: handleActiveDrains_def split: prod.splits option.splits)
  have s': "store w' = (store w1)(default_key ns := None)" using delete_default_outcome(2) [OF d] by simp
  then have eq: "store w1 (fd_key env ns ftype fd) = store w' (fd_key env ns ftype fd)" for fd by simp
  have "\<forall>k. k \<noteq> default_key ns \<and> k \<notin> fd_key env ns ftype ` set fds \<longrightarrow> store w' k = store w k"
    using active_loop_frame [OF l] by (metis fun_upd_other s')
  with active_loop_done [OF l assms(2), unfolded eq] s' show ?thesis unfolding drain_budgets_def by simp
qed

lemma active_guarded:
  assumes "handleActiveDrains env cl fds draining ftype ns w = (r, w')"
    and inj: "inj_on (fd_key env ns ftype) (insert draining (set fds))"
    and own: "\<And>fd p. fd \<in> set fds \<Longrightarrow> store w (fd_key env ns ftype fd) = Some p \<Longrightarrow> blocks ftype fd p"
    and before: "(\<exists>p. store w (default_key ns) = Some p \<and> one_at_a_time X p) \<or>
      (\<forall>fd \<in> set fds. fd \<noteq> draining \<longrightarrow> store w (fd_key env ns ftype fd) \<noteq> None)"
  shows "guarded env ns ftype fds X (store w')"
proof -
  obtain e w1 where l: "active_drain_loop env cl fds draining ftype ns w = (e, w1)" by fastforce
  have kept: "\<exists>p. store w1 (fd_key env ns ftype fd) = Some p \<and> blocks ftype fd p"
    if "fd \<in> set fds" "fd \<noteq> draining" "store w (fd_key env ns ftype fd) \<noteq> None" for fd
  proof -
    have "fd_key env ns ftype fd \<noteq> fd_key env ns ftype draining" using inj that by (auto simp: inj_on_def)
    then have "store w1 (fd_key env ns ftype fd) = store w (fd_key env ns ftype fd)" using active_loop_keeps [OF l _ that(3)] by blast
    then show ?thesis using own [OF that(1)] that(3) by auto
  qed
  have dflt: "store w1 (default_key ns) = store w (default_key ns)"
    using active_loop_frame [OF l, of "default_key ns"] by auto
  show ?thesis
  proof (cases e)
    case (Some x)
    with assms(1) l have "w' = w1" by (simp add: handleActiveDrains_def)
    with dflt have s': "store w' = store w1" "store w' (default_key ns) = store w (default_key ns)" by simp_all
    from before show ?thesis
    proof
      assume "\<exists>p. store w (default_key ns) = Some p \<and> one_at_a_time X p"
      then show ?thesis using s'(2) guardedI(1) by metis
    next
      assume "\<forall>fd \<in> set fds. fd \<noteq> draining \<longrightarrow> store w (fd_key env ns ftype fd) \<noteq> None"
      then show ?thesis unfolding s'(1) by (intro guardedI(2) [where ?fd0.0 = draining] kept) simp_all
    qed
  next
    case None
    have bl: "\<exists>p. store w1 (fd_key env ns ftype fd) = Some p \<and> blocks ftype fd p" if "fd \<in> set fds" "fd \<noteq> draining" for fd
    proof -
      have "case store w (fd_key env ns ftype fd) of
           None \<Rightarrow> \<exists>p. store w1 (fd_key env ns ftype fd) = Some p \<and> same_spec (blocking_pdb ftype fd) p
         | Some p \<Rightarrow> store w1 (fd_key env ns ftype fd) = Some p"
        using active_loop_done [OF l [unfolded None] inj] that by blast
      then show ?thesis using own [OF that(1)] blocking_blocks [of ftype fd] by (auto split: option.splits)
    qed
    obtain r' where d: "deleteDefaultPDBforOSD env ns w1 = (r', w')"
      using assms(1) l None by (auto simp: handleActiveDrains_def split: prod.splits option.splits)
    have eq: "store w' (fd_key env ns ftype fd) = store w1 (fd_key env ns ftype fd)" for fd
      using delete_default_outcome(1) [OF d] by auto
    show ?thesis by (rule guardedI(2) [where ?fd0.0 = draining], unfold eq, rule bl)
  qed
qed

lemma inactive_done:
  assumes "handleInactiveDrains env cl fds ftype ns ex w = (None, w')"
  shows "normal_budgets env ns ftype fds ex (store w) (store w')"
proof -
  from assms obtain w1 where c: "createDefaultPDBforOSD env cl ns ex w = (None, w1)"
    and l: "inactive_drain_loop env fds ftype ns w1 = (None, w')"
    by (auto simp: handleInactiveDrains_def split: prod.splits option.splits)
  from create_default_outcome [OF c] obtain p where "same_spec (default_pdb ex) p"
    and "store w1 = (store w)(default_key ns \<mapsto> p)" by auto
  moreover have "default_key ns \<notin> fd_key env ns ftype ` set fds" by auto
  ultimately show ?thesis
    using inactive_loop_outcome(1,3) [OF l] by (auto simp: normal_budgets_def simp del: split_paired_All)
qed

lemma inactive_guarded:
  assumes "handleInactiveDrains env cl fds ftype ns ex w = (r, w')" and "guarded env ns ftype fds X (store w)" and "set ex \<subseteq> X"
  shows "guarded env ns ftype fds X (store w')"
proof -
  obtain e w1 where c: "createDefaultPDBforOSD env cl ns ex w = (e, w1)" by fastforce
  from create_default_outcome [OF c] obtain p where p: "same_spec (default_pdb ex) p"
    "store w1 = (store w)(default_key ns \<mapsto> p) \<or> e \<noteq> None \<and> store w1 = store w" by blast
  from p(2) show ?thesis
  proof
    assume s1: "store w1 = (store w)(default_key ns \<mapsto> p)"
    have "w' = w1 \<or> (\<exists>r. inactive_drain_loop env fds ftype ns w1 = (r, w'))"
      using assms(1) c by (auto simp: handleInactiveDrains_def split: option.splits)
    moreover have "default_key ns \<notin> fd_key env ns ftype ` set fds" by auto
    ultimately have "store w' (default_key ns) = Some p" using inactive_loop_outcome(1) s1 by (metis fun_upd_same)
    then show ?thesis by (rule guardedI(1)) (rule default_one_at_a_time [OF p(1) assms(3)])
  next
    assume "e \<noteq> None \<and> store w1 = store w"
    with assms(1,2) c show ?thesis by (auto simp: handleInactiveDrains_def)
  qed
qed

lemma drains_done:
  assumes "handle_drains env cl ns ftype fds d ex w = (None, w')"
    and "inj_on (fd_key env ns ftype) (insert (mget d drainingFailureDomainKey) (set fds))"
  shows "if mget d drainingFailureDomainKey \<noteq> []
    then drain_budgets env ns ftype fds (mget d drainingFailureDomainKey) (store w) (store w')
    else normal_budgets env ns ftype fds ex (store w) (store w')"
  using assms active_done inactive_done
  by (auto simp: handle_drains_def split: if_splits prod.splits option.splits)

lemma drains_guarded:
  assumes "handle_drains env cl ns ftype fds d ex w = (r, w')"
    and inj: "inj_on (fd_key env ns ftype) (insert (mget d drainingFailureDomainKey) (set fds))"
    and own: "\<And>fd p. fd \<in> set fds \<Longrightarrow> store w (fd_key env ns ftype fd) = Some p \<Longrightarrow> blocks ftype fd p"
    and before: "(\<exists>p. store w (default_key ns) = Some p \<and> one_at_a_time X p) \<or>
      (\<forall>fd \<in> set fds. fd \<noteq> mget d drainingFailureDomainKey \<longrightarrow> store w (fd_key env ns ftype fd) \<noteq> None)"
    and ex: "set ex \<subseteq> X"
  shows "guarded env ns ftype fds X (store w')"
proof (cases "mget d drainingFailureDomainKey = []")
  case True
  obtain e where "handleInactiveDrains env cl fds ftype ns ex w = (e, w')"
    using assms(1) True by (auto simp: handle_drains_def split: prod.splits option.splits)
  moreover have "guarded env ns ftype fds X (store w)" using before
  proof
    assume "\<exists>p. store w (default_key ns) = Some p \<and> one_at_a_time X p"
    then show ?thesis using guardedI(1) by metis
  next
    assume "\<forall>fd \<in> set fds. fd \<noteq> mget d drainingFailureDomainKey \<longrightarrow> store w (fd_key env ns ftype fd) \<noteq> None"
    then show ?thesis using own by (intro guardedI(2) [where ?fd0.0 = "mget d drainingFailureDomainKey"]) blast
  qed
  ultimately show ?thesis using ex by (rule inactive_guarded)
next
  case False
  obtain e where "handleActiveDrains env cl fds (mget d drainingFailureDomainKey) ftype ns w = (e, w')"
    using assms(1) False by (auto simp: handle_drains_def split: prod.splits option.splits)
  from active_guarded [OF this inj own before] show ?thesis .
qed

lemma switch_stops:
  assumes ab: "a \<noteq> b" and keys: "fd_key env ns ftype a \<noteq> fd_key env ns ftype b"
    and none: "store w (default_key ns) = None" "store w (fd_key env ns ftype b) = None"
    and rm: "deleteBlockingPDBForOSD env ns ftype a w = (None, w1)"
    and mk: "createBlockingPDBForOSD env cl ns ftype b w1 = (Some e, w2)" "store w2 = store w1"
  shows "(\<exists>e'. handleActiveDrains env cl (a # b # fds) a ftype ns w = (Some e', w2)) \<and>
    \<not> guarded env ns ftype (a # b # fds) X (store w2)"
proof
  show "\<exists>e'. handleActiveDrains env cl (a # b # fds) a ftype ns w = (Some e', w2)"
    using ab rm mk(1) by (simp add: handleActiveDrains_def)
  have s: "store w2 = (store w)(fd_key env ns ftype a := None)" using delete_blocking_outcome(2) [OF rm] mk(2) by simp
  then have "store w2 (default_key ns) = None" "store w2 (fd_key env ns ftype a) = None" "store w2 (fd_key env ns ftype b) = None"
    using none keys by auto
  then show "\<not> guarded env ns ftype (a # b # fds) X (store w2)"
    using ab unfolding guarded_def by (metis list.set_intros option.distinct(1))
qed

end

section \<open>The reference environment\<close>

text \<open>
  The reference server for budgets and config maps, and a Ceph cluster that keeps flags and answers
  with a stored status. Times are written in seconds.
\<close>




interpretation reference: disruption "ref_env t" server_store for t
proof (rule disruption.intro)
  show "kube_api (pdb_api (ref_env t)) server_store"
    using memory.kube_api_axioms by (simp add: ref_env_def)
  show "disruption_axioms (ref_env t)"
    by (auto simp: disruption_axioms_def ref_env_def same_spec_def)
qed

section \<open>Properties\<close>

text \<open>C4. The budgets follow the state map. When the drains have been handled without an error, a
  recorded draining failure domain has no budget of its own, there is no default budget, and every
  other failure domain has a budget that allows no unavailable OSD (one that existed already is kept
  as it is); with no draining domain recorded there is the default budget, for all OSDs but the excluded
  ones and with one unavailable pod allowed, and no failure domain has a budget of its own. All other
  budgets in the cluster are untouched. The names of the domains' budgets are assumed not to collide.\<close>

theorem budgets_follow_state:
  assumes "disruption env store" and "handle_drains env cl ns ftype fds d ex w = (None, w')"
    and "inj_on (fd_key env ns ftype) (insert (mget d drainingFailureDomainKey) (set fds))"
  shows "if mget d drainingFailureDomainKey \<noteq> []
    then drain_budgets env ns ftype fds (mget d drainingFailureDomainKey) (store w) (store w')
    else normal_budgets env ns ftype fds ex (store w) (store w')"
  using disruption.drains_done assms .

theorem budgets_follow_state_witness:
  "drain_budgets (ref_env 0) ''ns'' ''zone'' [''a'', ''b''] ''a'' Map.empty
     (server_store (snd (handle_drains (ref_env 0) ref_clusters ''ns'' ''zone'' [''a'', ''b'']
        [drainingFailureDomainKey \<mapsto> ''a''] [] \<lparr>objs = [], faults = []\<rparr>)))"
proof -
  let ?d = "[drainingFailureDomainKey \<mapsto> ''a'']"
  have m: "mget ?d drainingFailureDomainKey = ''a''" by (simp add: mget_def)
  obtain w' where w': "handle_drains (ref_env 0) ref_clusters ''ns'' ''zone'' [''a'', ''b''] ?d []
      \<lparr>objs = [], faults = []\<rparr> = (None, w')"
  proof -
    have "fst (handle_drains (ref_env 0) ref_clusters ''ns'' ''zone'' [''a'', ''b''] ?d []
      \<lparr>objs = [], faults = []\<rparr>) = None" by code_simp
    then show ?thesis using that by (metis prod.collapse)
  qed
  have "inj_on (fd_key (ref_env 0) ''ns'' ''zone'') (insert (mget ?d drainingFailureDomainKey) (set [''a'', ''b'']))"
    unfolding m by code_simp
  from budgets_follow_state [OF reference.disruption_axioms w' this] w' m show ?thesis
    by (simp add: server_store_def)
qed








end
