(* ===== verification/DrainState.thy ===== *)
theory DrainState
  imports DisruptionProps
begin

text \<open>
  The state of a drain and the whole reconcile of the disruption controller: which failure domain is
  recorded as draining, the flag \<^verbatim>\<open>noout\<close> in Ceph, the failure domains read off the OSD deployments,
  the failure domain of the pools, the static budgets of gateways and metadata servers. The locale
  \<open>noout_flags\<close> is what the controller relies on in Ceph's commands for flags.
\<close>

section \<open>Vocabulary\<close>

text \<open>The time at which the flag was set on a failure domain, as the controller will read it.\<close>

definition noout_stamp :: "('p, 'c, 'f) denv \<Rightarrow> (string \<rightharpoonup> string) \<Rightarrow> string \<Rightarrow> string" where
  "noout_stamp env d fd =
     (if mget d (noout_key fd) = [] then time_format env (time_now env) else mget d (noout_key fd))"

definition noout_wanted :: "('p, 'c, 'f) denv \<Rightarrow> int \<Rightarrow> (string \<rightharpoonup> string) \<Rightarrow> string \<Rightarrow> bool" where
  "noout_wanted env timeout d fd \<longleftrightarrow>
     mget d drainingFailureDomainKey = fd \<and> mget d setNoOut = ''true'' \<and>
     (case time_parse env (noout_stamp env d fd) of Inl _ \<Rightarrow> False | Inr t \<Rightarrow> time_now env - t < timeout)"

definition drain_keys :: "string set" where
  "drain_keys = {drainingFailureDomainKey, setNoOut, drainingFailureDomainDurationKey}"

section \<open>The flag noout\<close>

lemma noout_key_inj [simp]: "noout_key a = noout_key b \<longleftrightarrow> a = b"
  by (simp add: noout_key_def)

lemma noout_key_drain_keys: "noout_key fd \<notin> drain_keys"
proof
  assume "noout_key fd \<in> drain_keys"
  then have "rev (noout_key fd) = rev drainingFailureDomainKey \<or> rev (noout_key fd) = rev setNoOut \<or>
      rev (noout_key fd) = rev drainingFailureDomainDurationKey"
    by (auto simp: drain_keys_def)
  then show False
    by (simp add: noout_key_def drainingFailureDomainKey_def setNoOut_def drainingFailureDomainDurationKey_def)
qed

lemma noout_key_other [simp]:
  "noout_key fd \<noteq> drainingFailureDomainKey" "noout_key fd \<noteq> setNoOut"
  "noout_key fd \<noteq> drainingFailureDomainDurationKey"
  "drainingFailureDomainKey \<noteq> noout_key fd" "setNoOut \<noteq> noout_key fd"
  using noout_key_drain_keys [of fd] by (auto simp: drain_keys_def)

text \<open>Timestamps are the only entries of the state map that the loop touches.\<close>

lemma noout_loop_Cons:
  assumes "noout_loop env timeout dump (fd # fds) d w = (r, d', w')"
  obtains v where "d' = d(noout_key fd := v)"
  | v w1 where "noout_loop env timeout dump fds (d(noout_key fd := v)) w1 = (r, d', w')"
proof (cases "mget d drainingFailureDomainKey = fd \<and> mget d setNoOut = ''true''")
  case True
  define d1 where "d1 = (if mget d (noout_key fd) = []
      then d(noout_key fd \<mapsto> time_format env (time_now env)) else d)"
  obtain v where v: "d1 = d(noout_key fd := v)" by (metis d1_def fun_upd_triv)
  have "d' = d1 \<or> (\<exists>w1. noout_loop env timeout dump fds d1 w1 = (r, d', w'))"
    using assms True by (auto simp: Let_def d1_def [symmetric] split: sum.splits prod.splits option.splits)
  then show ?thesis using that v by blast
next
  case False
  then have "d' = d \<or> (\<exists>w1. noout_loop env timeout dump fds (d(noout_key fd := None)) w1 = (r, d', w'))"
    using assms by (auto split: prod.splits option.splits)
  then show ?thesis using that fun_upd_triv [of d "noout_key fd"] by metis
qed

lemma noout_loop_drain_keys:
  "noout_loop env timeout dump fds d w = (r, d', w') \<Longrightarrow> k \<in> drain_keys \<Longrightarrow> d' k = d k"
proof (induction fds arbitrary: d w)
  case (Cons fd fds)
  have k: "k \<noteq> noout_key fd" using Cons.prems(2) noout_key_drain_keys by metis
  from Cons.prems(1) show ?case
    by (cases rule: noout_loop_Cons) (use Cons k in \<open>auto simp del: fun_upd_apply simp: fun_upd_other\<close>)
qed simp

lemma noout_wanted_upd [simp]:
  "fd \<noteq> x \<Longrightarrow> noout_wanted env timeout (d(noout_key x := v)) fd = noout_wanted env timeout d fd"
  by (simp add: noout_wanted_def noout_stamp_def mget_def)

text \<open>A step that succeeds leaves the flag as it is wanted, and the wish as it was.\<close>

lemma noout_loop_step:
  assumes "noout_loop env timeout dump (fd # fds) d f = (None, d', f')"
  obtains d1 f1 v where "update_flag env dump (noout_wanted env timeout d fd) fd f = (None, f1)"
    "noout_loop env timeout dump fds d1 f1 = (None, d', f')" "d1 = d(noout_key fd := v)"
    "noout_wanted env timeout d1 fd = noout_wanted env timeout d fd"
proof (cases "mget d drainingFailureDomainKey = fd \<and> mget d setNoOut = ''true''")
  case True
  define d1 where "d1 = (if mget d (noout_key fd) = []
      then d(noout_key fd \<mapsto> time_format env (time_now env)) else d)"
  have ts: "mget d1 (noout_key fd) = noout_stamp env d fd" by (simp add: d1_def noout_stamp_def)
  from assms True obtain t f1 where t: "time_parse env (noout_stamp env d fd) = Inr t"
    "update_flag env dump (\<not> time_now env - t \<ge> timeout) fd f = (None, f1)"
    "noout_loop env timeout dump fds d1 f1 = (None, d', f')"
    by (auto simp: Let_def ts [symmetric] d1_def [symmetric] split: sum.splits prod.splits option.splits)
  obtain v where v: "d1 = d(noout_key fd := v)" by (metis d1_def fun_upd_triv)
  have w: "noout_wanted env timeout d fd \<longleftrightarrow> \<not> time_now env - t \<ge> timeout"
    using True t(1) by (simp add: noout_wanted_def not_le)
  have "noout_stamp env d1 fd = noout_stamp env d fd" using ts by (auto simp: noout_stamp_def)
  then have "noout_wanted env timeout d1 fd = noout_wanted env timeout d fd"
    using v by (simp add: noout_wanted_def mget_def)
  then show ?thesis by (rule that [OF t(2) [folded w] t(3) v])
next
  case False
  then have w: "\<not> noout_wanted env timeout d fd" "\<not> noout_wanted env timeout (d(noout_key fd := None)) fd"
    by (auto simp: noout_wanted_def mget_def)
  from assms False obtain f1 where "update_flag env dump False fd f = (None, f1)"
    "noout_loop env timeout dump fds (d(noout_key fd := None)) f1 = (None, d', f')"
    by (auto split: prod.splits option.splits)
  then show ?thesis using that [of f1 "d(noout_key fd := None)" None] w by simp
qed

lemma noout_loop_wanted:
  "noout_loop env timeout dump fds d f = (None, d', f') \<Longrightarrow> noout_wanted env timeout d' x = noout_wanted env timeout d x"
proof (induction fds arbitrary: d f)
  case (Cons fd fds)
  obtain d1 f1 v where s: "noout_loop env timeout dump fds d1 f1 = (None, d', f')" "d1 = d(noout_key fd := v)"
    "noout_wanted env timeout d1 fd = noout_wanted env timeout d fd"
    using noout_loop_step [OF Cons.prems] by metis
  then have "noout_wanted env timeout d1 x = noout_wanted env timeout d x" by (cases "x = fd") simp_all
  then show ?case using Cons.IH [OF s(1)] by simp
qed simp

text \<open>The commands of Ceph do what they say for the names in \<open>buckets\<close>, which it takes for buckets of the CRUSH map.\<close>

locale noout_flags =
  fixes env :: "('p, 'c, 'f) denv" and flags :: "'f \<Rightarrow> string \<Rightarrow> string set" and buckets :: "string set"
  assumes dump_flags: "u \<in> buckets \<Longrightarrow> ceph_osd_dump env f = Inr dump \<Longrightarrow>
      IsFlagSetOnCrushUnit dump flag u \<longleftrightarrow> flag \<in> flags f u"
    and set_ok: "u \<in> buckets \<Longrightarrow> flag_command env True flag u f = (None, f') \<Longrightarrow>
      flags f' = (flags f)(u := insert flag (flags f u))"
    and unset_ok: "u \<in> buckets \<Longrightarrow> flag_command env False flag u f = (None, f') \<Longrightarrow>
      flags f' = (flags f)(u := flags f u - {flag})"
begin

lemma update_flag_ok:
  assumes "update_flag env dump b u f = (None, f')" and u: "u \<in> buckets"
    and "IsFlagSetOnCrushUnit dump nooutFlag u \<longleftrightarrow> nooutFlag \<in> flags f u"
  shows "flags f' = (flags f)(u := (if b then insert nooutFlag (flags f u) else flags f u - {nooutFlag}))"
proof -
  have triv: "insert nooutFlag (flags f u) = flags f u" if "nooutFlag \<in> flags f u"
    using that by auto
  consider "b" "nooutFlag \<in> flags f u" | "b" "nooutFlag \<notin> flags f u"
    | "\<not> b" "nooutFlag \<in> flags f u" | "\<not> b" "nooutFlag \<notin> flags f u" by blast
  then show ?thesis
    by cases (use assms triv set_ok [OF u] unset_ok [OF u] in
      \<open>auto simp: update_flag_def UpdateFlagOnCrushUnit_def SetFlagOnCrushUnit_def UnsetFlagOnCrushUnit_def
        split: prod.splits option.splits\<close>)
qed

lemma noout_loop_ok:
  assumes "noout_loop env timeout dump fds d f = (None, d', f')" and "distinct fds" and "set fds \<subseteq> buckets"
    and "\<forall>fd \<in> set fds. IsFlagSetOnCrushUnit dump nooutFlag fd \<longleftrightarrow> nooutFlag \<in> flags f fd"
  shows "(\<forall>fd \<in> set fds. nooutFlag \<in> flags f' fd \<longleftrightarrow> noout_wanted env timeout d fd) \<and>
    (\<forall>u. u \<notin> set fds \<longrightarrow> flags f' u = flags f u)"
  using assms
proof (induction fds arbitrary: d f)
  case (Cons fd fds)
  obtain d1 f1 v where u: "update_flag env dump (noout_wanted env timeout d fd) fd f = (None, f1)"
    and rest: "noout_loop env timeout dump fds d1 f1 = (None, d', f')" and d1: "d1 = d(noout_key fd := v)"
    using noout_loop_step [OF Cons.prems(1)] by metis
  have f1: "flags f1 = (flags f)(fd := (if noout_wanted env timeout d fd then insert nooutFlag (flags f fd) else flags f fd - {nooutFlag}))"
    using update_flag_ok [OF u] Cons.prems(3,4) by simp
  have "\<forall>x \<in> set fds. IsFlagSetOnCrushUnit dump nooutFlag x \<longleftrightarrow> nooutFlag \<in> flags f1 x"
    using Cons.prems(2,4) f1 by auto
  note IH = Cons.IH [OF rest _ _ this]
  have "\<forall>x \<in> set fds. noout_wanted env timeout d1 x = noout_wanted env timeout d x"
    using d1 Cons.prems(2) noout_wanted_upd by (metis distinct.simps(2))
  with IH Cons.prems(2,3) f1 show ?case by auto
qed simp

lemma updateNoout_ok:
  assumes "updateNoout env timeout d fds f = (None, d', f')" and "distinct fds" and "set fds \<subseteq> buckets"
  shows "(\<forall>fd \<in> set fds. nooutFlag \<in> flags f' fd \<longleftrightarrow> noout_wanted env timeout d fd) \<and>
    (\<forall>u. u \<notin> set fds \<longrightarrow> flags f' u = flags f u)"
proof (cases "ceph_osd_dump env f")
  case (Inl e)
  with assms(1) show ?thesis by (simp add: updateNoout_def)
next
  case (Inr dump)
  with assms(1) have "noout_loop env timeout dump fds d f = (None, d', f')" by (simp add: updateNoout_def)
  from noout_loop_ok [OF this assms(2,3)] dump_flags [OF _ Inr] assms(3) show ?thesis by blast
qed

end

definition ref_flags :: "ref_ceph \<Rightarrow> string \<Rightarrow> string set" where
  "ref_flags f u = (case rc_flags f u of None \<Rightarrow> {} | Some l \<Rightarrow> set l)"

text \<open>A cluster with OSDs down in one of two zones.\<close>

definition ref_ceph_cluster :: ref_ceph where
  "ref_ceph_cluster = \<lparr>rc_status = \<lparr>Health = ''HEALTH_WARN'', NumPgs = 2,
     PgsByState = [\<lparr>StateName = ''active+undersized'', PgCount = 2\<rparr>], ByRank = [], UpStandby = 0\<rparr>,
     rc_flags = Map.empty, rc_metadata = [], rc_faults = []\<rparr>"

definition ref_deployments :: "Deployment list" where
  "ref_deployments =
     [\<lparr>DepName = ''rook-ceph-osd-3'', DepLabels = [OsdIdLabelKey \<mapsto> ''3'', TopologyLocationLabel ''zone'' \<mapsto> ''a''],
        DepAnnotations = Map.empty, ReadyReplicas = 1\<rparr>,
      \<lparr>DepName = ''rook-ceph-osd-7'', DepLabels = [OsdIdLabelKey \<mapsto> ''7'', TopologyLocationLabel ''zone'' \<mapsto> ''b''],
        DepAnnotations = Map.empty, ReadyReplicas = 0\<rparr>]"

definition ref_map :: ConfigMap where
  "ref_map = \<lparr>Data = [drainingFailureDomainKey \<mapsto> [], setNoOut \<mapsto> []]\<rparr>"

definition ref_state :: "(PDB server, ConfigMap server, ref_ceph) dstate" where
  "ref_state = \<lparr>pdbs = \<lparr>objs = [((''ns'', ''rook-ceph-osd''), default_pdb [])], faults = []\<rparr>,
     cms = \<lparr>objs = [((''ns'', ''rook-ceph-pdbstatemap''), ref_map)], faults = []\<rparr>,
     ceph = ref_ceph_cluster, clusterMap = ref_clusters, deleteLegacyResources = False,
     maintenanceTimeout = DefaultMaintenanceTimeout\<rparr>"

definition ref_run :: "Result res \<times> (PDB server, ConfigMap server, ref_ceph) dstate" where
  "ref_run = reconcilePDBsForOSDs (ref_env 0) ''ns'' ref_map ''zone'' [''a'', ''b''] [''a''] [''a''] [0] [] ref_state"

interpretation ref_noout: noout_flags "ref_env t" ref_flags "{u. Atoi u = None}" for t
  by unfold_locales
    (auto simp: ref_env_def ref_flags_def ref_flag_command_def ref_target_def IsFlagSetOnCrushUnit_def Let_def fun_eq_iff
      split: option.splits list.splits bool.splits if_splits)

section \<open>Failure domains read off the deployments\<close>

text \<open>The failure domain of a deployment, and whether its OSD counts as down.\<close>

definition dep_domain :: "string \<Rightarrow> Deployment \<Rightarrow> string" where
  "dep_domain ftype dep = mget (DepLabels dep) (TopologyLocationLabel ftype)"

definition dep_down :: "Deployment \<Rightarrow> bool" where
  "dep_down dep \<longleftrightarrow> \<not> shouldIgnoreOSD dep \<and> ReadyReplicas dep < 1"

lemma osd_deployment_outcome:
  assumes "osd_deployment_domain env md ftype dep acc = Inr acc'"
  shows "downFD acc' = downFD acc \<union> {fd. dep_down dep \<and> fd = dep_domain ftype dep} \<and>
    allFD acc' \<union> downFD acc' = insert (dep_domain ftype dep) (allFD acc \<union> downFD acc) \<and>
    allFD acc \<subseteq> allFD acc' \<and> drainFD acc' - drainFD acc \<subseteq> allFD acc' \<inter> downFD acc' \<and>
    (dep_down dep \<longrightarrow> (\<exists>i. GetOSDID dep = Inr i \<and> downOSDs acc' = downOSDs acc @ [i])) \<and>
    (\<not> dep_down dep \<longrightarrow> downOSDs acc' = downOSDs acc)"
proof (cases "dep_down dep")
  case False
  with assms show ?thesis
    by (auto simp: osd_deployment_domain_def dep_down_def dep_domain_def Let_def split: if_splits)
next
  case True
  with assms show ?thesis
    by (auto simp: osd_deployment_domain_def dep_down_def dep_domain_def Let_def
        split: if_splits sum.splits)
qed

lemma osd_domains_loop_outcome:
  assumes "osd_domains_loop env md ftype deps acc = Inr acc'" and "drainFD acc \<subseteq> allFD acc \<inter> downFD acc"
  shows "downFD acc' = downFD acc \<union> dep_domain ftype ` {dep \<in> set deps. dep_down dep} \<and>
    allFD acc' \<union> downFD acc' = allFD acc \<union> downFD acc \<union> dep_domain ftype ` set deps \<and>
    drainFD acc' \<subseteq> allFD acc' \<inter> downFD acc' \<and>
    map Inr (downOSDs acc') = map Inr (downOSDs acc) @ map GetOSDID (filter dep_down deps)"
  using assms
proof (induction deps arbitrary: acc)
  case (Cons dep deps)
  obtain acc1 where s: "osd_deployment_domain env md ftype dep acc = Inr acc1"
    and rest: "osd_domains_loop env md ftype deps acc1 = Inr acc'"
    using Cons.prems(1) by (auto split: sum.splits)
  note o = osd_deployment_outcome [OF s]
  have "drainFD acc1 \<subseteq> allFD acc1 \<inter> downFD acc1" using o Cons.prems(2) by blast
  note IH = Cons.IH [OF rest this]
  have a: "downFD acc' = downFD acc \<union> dep_domain ftype ` {x \<in> set (dep # deps). dep_down x}"
    unfolding IH [THEN conjunct1] o [THEN conjunct1] by auto
  have b: "allFD acc' \<union> downFD acc' = allFD acc \<union> downFD acc \<union> dep_domain ftype ` set (dep # deps)"
    unfolding IH [THEN conjunct2, THEN conjunct1] o [THEN conjunct2, THEN conjunct1] by auto
  have c: "map Inr (downOSDs acc') = map Inr (downOSDs acc) @ map GetOSDID (filter dep_down (dep # deps))"
    unfolding IH [THEN conjunct2, THEN conjunct2, THEN conjunct2] using o by (cases "dep_down dep") auto
  from a b c IH show ?case by blast
qed simp

lemma finite_domains:
  assumes "downFD acc' = dep_domain ftype ` {dep \<in> set deps. dep_down dep}"
    and "allFD acc' \<union> downFD acc' = dep_domain ftype ` set deps" and "drainFD acc' \<subseteq> allFD acc' \<inter> downFD acc'"
  shows "finite (allFD acc') \<and> finite (downFD acc') \<and> finite (drainFD acc')"
proof -
  have "finite (allFD acc' \<union> downFD acc')" unfolding assms(2) by simp
  then show ?thesis using assms(3) by (meson finite_Un finite_subset le_inf_iff)
qed

section \<open>The failure domain of the pools\<close>

lemma min_level_loop_outcome:
  assumes "min_level_loop fd ls idx m b = (m', b')"
  shows "m' = m \<and> b' = b \<and> (\<forall>j < length ls. ls ! j = fd \<longrightarrow> m < idx + int j) \<or>
    b' \<and> m' \<le> m \<and> (\<exists>j < length ls. ls ! j = fd \<and> m' = idx + int j)"
  using assms
proof (induction ls arbitrary: idx m b)
  case (Cons l ls)
  show ?case
  proof (cases "idx > m")
    case True
    with Cons.prems show ?thesis by auto
  next
    case le: False
    show ?thesis
    proof (cases "fd = l")
      case True
      have "min_level_loop fd ls (idx + 1) idx True = (idx, True)" by (cases ls) simp_all
      with Cons.prems le True show ?thesis by (auto intro!: exI [of _ 0])
    next
      case False
      with Cons.prems le have "min_level_loop fd ls (idx + 1) m b = (m', b')" by simp
      from Cons.IH [OF this] False show ?thesis
        by (simp add: Ex_less_Suc2 All_less_Suc2 add.commute add.left_commute)
    qed
  qed
qed simp

lemma min_domain_loop_outcome:
  assumes "min_domain_loop pools m b = (m', b')"
    and "b \<or> m = int (length CRUSHMapLevelsOrdered) - 1" and "m < int (length CRUSHMapLevelsOrdered)"
  shows "m' \<le> m \<and> (\<forall>p \<in> set pools. \<forall>j < length CRUSHMapLevelsOrdered. CRUSHMapLevelsOrdered ! j = p \<longrightarrow> b' \<and> m' \<le> int j) \<and>
    (m' = m \<and> b' = b \<or> b' \<and> (\<exists>p \<in> set pools. \<exists>j < length CRUSHMapLevelsOrdered. CRUSHMapLevelsOrdered ! j = p \<and> m' = int j))"
  using assms
proof (induction pools arbitrary: m b)
  case (Cons p pools)
  obtain m1 b1 where l: "min_level_loop p CRUSHMapLevelsOrdered 0 m b = (m1, b1)" by fastforce
  note o = min_level_loop_outcome [OF l]
  have m1: "m1 \<le> m" using o by auto
  have inv: "b1 \<or> m1 = int (length CRUSHMapLevelsOrdered) - 1" using o Cons.prems(2) by auto
  from Cons.prems(1) l have rest: "min_domain_loop pools m1 b1 = (m', b')" by simp
  note IH = Cons.IH [OF rest inv order.strict_trans1 [OF m1 Cons.prems(3)]]
  have mono: "m' \<le> m1" "b1 \<Longrightarrow> b'" using IH by blast+
  have p: "b' \<and> m' \<le> int j" if j: "j < length CRUSHMapLevelsOrdered" "CRUSHMapLevelsOrdered ! j = p" for j
    using o
  proof
    assume "m1 = m \<and> b1 = b \<and> (\<forall>j < length CRUSHMapLevelsOrdered. CRUSHMapLevelsOrdered ! j = p \<longrightarrow> m < 0 + int j)"
    with j mono Cons.prems(2) show ?thesis by auto
  next
    assume "b1 \<and> m1 \<le> m \<and> (\<exists>j < length CRUSHMapLevelsOrdered. CRUSHMapLevelsOrdered ! j = p \<and> m1 = 0 + int j)"
    then obtain i where "b1" "i < length CRUSHMapLevelsOrdered" "CRUSHMapLevelsOrdered ! i = p" "m1 = int i" by auto
    moreover from this j have "i = j" using distinct_levels nth_eq_iff_index_eq by metis
    ultimately show ?thesis using mono by simp
  qed
  show ?case
  proof (intro conjI)
    show "m' \<le> m" using IH m1 by linarith
    show "\<forall>q \<in> set (p # pools). \<forall>j < length CRUSHMapLevelsOrdered. CRUSHMapLevelsOrdered ! j = q \<longrightarrow> b' \<and> m' \<le> int j"
      using IH p by auto
    show "m' = m \<and> b' = b \<or> b' \<and> (\<exists>q \<in> set (p # pools). \<exists>j < length CRUSHMapLevelsOrdered. CRUSHMapLevelsOrdered ! j = q \<and> m' = int j)"
      using IH o by auto
  qed
qed simp

section \<open>The state map of a reconcile\<close>

lemma drain_key_names [simp]:
  "setNoOut \<noteq> drainingFailureDomainKey" "drainingFailureDomainKey \<noteq> setNoOut"
  "drainingFailureDomainDurationKey \<noteq> drainingFailureDomainKey"
  "drainingFailureDomainKey \<noteq> drainingFailureDomainDurationKey"
  "drainingFailureDomainDurationKey \<noteq> setNoOut" "setNoOut \<noteq> drainingFailureDomainDurationKey"
  by (simp_all add: setNoOut_def drainingFailureDomainKey_def drainingFailureDomainDurationKey_def)

lemma switch_draining:
  assumes "pdb_state_switch env clean down drain ids d = Inr (d', ex)"
  shows "mget d' drainingFailureDomainKey \<in>
    insert [] (insert (mget d drainingFailureDomainKey) (set down \<union> set drain))"
  using assms
  by (auto simp: pdb_state_switch_def resetPDBConfig_def setPDBConfig_def getLastNodeDrainTimeStamp_def
      Let_def split: if_splits list.splits sum.splits prod.splits)

text \<open>The steps of a reconcile that reached its end.\<close>

lemma reconcile_steps:
  assumes "reconcilePDBsForOSDs env ns cm ftype fds down drain ids re st = (Inr res, st')"
    and "IsClusterClean (ceph_status env (ceph st)) (regexp_compile env) re = Inr (msg, clean)"
    and "\<forall>k ob w e w'. kupdate (cm_api env) k ob w = (Some e, w') \<longrightarrow> \<not> is_canceled e"
  obtains d ex p1 d' f1 c1 p2 where
    "pdb_state_switch env clean down drain ids (Data cm) = Inr (d, ex)"
    "handle_drains env (clusterMap st) ns ftype fds d ex (pdbs st) = (None, p1)"
    "updateNoout env (maintenanceTimeout st) d fds (ceph st) = (None, d', f1)"
    "kupdate (cm_api env) (ns, pdbStateMapName) (cm\<lparr>Data := d'\<rparr>) (cms st) = (None, c1)"
    "requeuePDBController env ns p1 = (Inr res, p2)"
    "pdbs st' = p2" "cms st' = c1" "ceph st' = f1"
proof -
  from assms(1,2) obtain d ex where sw: "pdb_state_switch env clean down drain ids (Data cm) = Inr (d, ex)"
    by (auto simp: reconcilePDBsForOSDs_def split: sum.splits)
  from assms(1,2) sw obtain p1 where h: "handle_drains env (clusterMap st) ns ftype fds d ex (pdbs st) = (None, p1)"
    by (auto simp: reconcilePDBsForOSDs_def split: sum.splits prod.splits option.splits)
  obtain e d' f1 where n: "updateNoout env (maintenanceTimeout st) d fds (ceph st) = (e, d', f1)"
    by (metis prod_cases3)
  obtain u c1 where k: "kupdate (cm_api env) (ns, pdbStateMapName) (cm\<lparr>Data := d'\<rparr>) (cms st) = (u, c1)" by fastforce
  note run = assms(1) [unfolded reconcilePDBsForOSDs_def assms(2) sw h n k sum.case prod.case option.case]
  have u: "u = None"
  proof (cases u)
    case (Some x)
    with assms(3) k have "\<not> is_canceled x" by blast
    with run Some show ?thesis by simp
  qed simp
  have e: "e = None" using run u by (cases e) auto
  obtain r p2 where q: "requeuePDBController env ns p1 = (r, p2)" by fastforce
  from run u e q have "r = Inr res" and "st' = st\<lparr>pdbs := p2, ceph := f1, cms := c1\<rparr>" by auto
  with sw h n k u e q show ?thesis using that by simp
qed

lemma updateNoout_keys:
  "updateNoout env timeout d fds f = (r, d', f') \<Longrightarrow> \<forall>k \<in> drain_keys. d' k = d k"
  using noout_loop_drain_keys by (auto simp: updateNoout_def split: sum.splits)

lemma updateNoout_wanted:
  "updateNoout env timeout d fds f = (None, d', f') \<Longrightarrow> noout_wanted env timeout d' x = noout_wanted env timeout d x"
  using noout_loop_wanted [of env timeout _ fds d f d' f' x] by (auto simp: updateNoout_def split: sum.splits)

lemma requeue_frame:
  assumes "kube_api (pdb_api env) store" and "requeuePDBController env ns p = (r, p')"
  shows "store p' = store p"
    and "store p (default_key ns) = None \<Longrightarrow> r = Inr res \<Longrightarrow> Requeue res"
proof -
  have "store p' = store p \<and> (store p (default_key ns) = None \<longrightarrow> r = Inr res \<longrightarrow> Requeue res)"
    by (rule kube_api.get_cases [OF assms(1), of "default_key ns" p])
      (use assms(2) in \<open>auto simp: requeuePDBController_def default_key_def\<close>)
  then show "store p' = store p"
    and "store p (default_key ns) = None \<Longrightarrow> r = Inr res \<Longrightarrow> Requeue res" by blast+
qed

section \<open>Properties\<close>

text \<open>C1. A reconcile of the OSD budgets that ends without an error leaves the cluster consistent: the
  state map it has saved, the budgets, the flags \<^verbatim>\<open>noout\<close> and the result agree. If the map names a draining failure
  domain, the budgets are those of a drain of that domain and the controller asks to be run again;
  otherwise they are those of normal operation, with the OSDs excluded that the switch on the state excludes. A failure
  domain has the flag exactly when the saved map wants it: it is the draining domain, the flag is requested and the
  maintenance timeout has not passed; no other CRUSH unit is touched. The PG status was readable, the two services keep the
  contract of the Kubernetes API, the operator is not being shut down, budget names do not collide, and Ceph takes the
  names of the domains for buckets.\<close>

theorem reconcile_consistent:
  assumes "disruption env store" and "kube_api (cm_api env) cmstore" and "noout_flags env flags buckets"
    and "reconcilePDBsForOSDs env ns cm ftype fds down drain ids re st = (Inr res, st')"
    and "IsClusterClean (ceph_status env (ceph st)) (regexp_compile env) re = Inr (msg, clean)"
    and "\<forall>k ob w e w'. kupdate (cm_api env) k ob w = (Some e, w') \<longrightarrow> \<not> is_canceled e"
    and "inj_on (fd_key env ns ftype) (insert [] (insert (mget (Data cm) drainingFailureDomainKey)
      (set down \<union> set drain \<union> set fds)))"
    and "distinct fds" and "set fds \<subseteq> buckets"
  shows "\<exists>saved d ex. cmstore (cms st') (ns, pdbStateMapName) = Some saved \<and>
    pdb_state_switch env clean down drain ids (Data cm) = Inr (d, ex) \<and>
    (\<forall>k \<in> drain_keys. Data saved k = d k) \<and>
    (if mget (Data saved) drainingFailureDomainKey \<noteq> []
     then drain_budgets env ns ftype fds (mget (Data saved) drainingFailureDomainKey)
            (store (pdbs st)) (store (pdbs st')) \<and> Requeue res
     else normal_budgets env ns ftype fds ex (store (pdbs st)) (store (pdbs st'))) \<and>
    (\<forall>fd \<in> set fds. nooutFlag \<in> flags (ceph st') fd \<longleftrightarrow> noout_wanted env (maintenanceTimeout st) (Data saved) fd) \<and>
    (\<forall>u. u \<notin> set fds \<longrightarrow> flags (ceph st') u = flags (ceph st) u)"
proof -
  from assms(4,5,6) obtain d ex p1 d' f1 c1 p2 where
    sw: "pdb_state_switch env clean down drain ids (Data cm) = Inr (d, ex)" and
    h: "handle_drains env (clusterMap st) ns ftype fds d ex (pdbs st) = (None, p1)" and
    n: "updateNoout env (maintenanceTimeout st) d fds (ceph st) = (None, d', f1)" and
    k: "kupdate (cm_api env) (ns, pdbStateMapName) (cm\<lparr>Data := d'\<rparr>) (cms st) = (None, c1)" and
    q: "requeuePDBController env ns p1 = (Inr res, p2)" and
    st': "pdbs st' = p2" "cms st' = c1" "ceph st' = f1" by (rule reconcile_steps)
  have api: "kube_api (pdb_api env) store" using assms(1) by (rule disruption.axioms(1))
  have inj: "inj_on (fd_key env ns ftype) (insert (mget d drainingFailureDomainKey) (set fds))"
    by (rule inj_on_subset [OF assms(7)]) (use switch_draining [OF sw] in auto)
  note b = disruption.drains_done [OF assms(1) h inj]
  note fr = requeue_frame [OF api q]
  have keys: "\<forall>k \<in> drain_keys. d' k = d k" by (rule updateNoout_keys [OF n])
  then have dr: "mget d' drainingFailureDomainKey = mget d drainingFailureDomainKey" by (simp add: drain_keys_def mget_def)
  have "cmstore c1 (ns, pdbStateMapName) = Some (cm\<lparr>Data := d'\<rparr>)"
    using kube_api.update_ok [OF assms(2) k] by simp
  moreover have "Requeue res" if "mget d drainingFailureDomainKey \<noteq> []"
    using b that fr(2) by (simp add: drain_budgets_def)
  ultimately show ?thesis
    using b fr(1) dr st' sw keys noout_flags.updateNoout_ok [OF assms(3) n assms(8,9)]
    by (intro exI [of _ "cm\<lparr>Data := d'\<rparr>"] exI [of _ d] exI [of _ ex]) (simp add: updateNoout_wanted [OF n])
qed

theorem reconcile_consistent_witness:
  "drain_budgets (ref_env 0) ''ns'' ''zone'' [''a'', ''b''] ''a'' (server_store (pdbs ref_state))
     (server_store (pdbs (snd ref_run))) \<and>
   nooutFlag \<in> ref_flags (ceph (snd ref_run)) ''a'' \<and> nooutFlag \<notin> ref_flags (ceph (snd ref_run)) ''b''"
proof -
  obtain res st' where r: "ref_run = (Inr res, st')"
  proof -
    have "case fst ref_run of Inl _ \<Rightarrow> False | Inr _ \<Rightarrow> True" by code_simp
    then show ?thesis using that by (cases "fst ref_run") (auto simp: prod_eq_iff)
  qed
  have clean: "IsClusterClean (ceph_status (ref_env 0) (ceph ref_state)) (regexp_compile (ref_env 0)) [] =
      Inr (''cluster is not fully clean'', False)" by code_simp
  have nc: "\<forall>k ob w e w'. kupdate (cm_api (ref_env 0)) k ob w = (Some e, w') \<longrightarrow> \<not> is_canceled e"
    by (auto simp: ref_env_def server_api_def server_update_def dest!: commit_Some split: if_splits)
  have m: "mget (Data ref_map) drainingFailureDomainKey = []" by code_simp
  have inj: "inj_on (fd_key (ref_env 0) ''ns'' ''zone'') (insert [] (insert (mget (Data ref_map) drainingFailureDomainKey)
      (set [''a''] \<union> set [''a''] \<union> set [''a'', ''b''])))"
    unfolding m by code_simp
  have api: "kube_api (cm_api (ref_env 0)) server_store" using memory.kube_api_axioms by (simp add: ref_env_def)
  have names: "distinct [''a'', ''b'']" "set [''a'', ''b''] \<subseteq> {u. Atoi u = None}" by (simp_all add: Atoi_def split_sign_def parse_digits_def is_digit_def)
  from reconcile_consistent [OF reference.disruption_axioms api ref_noout.noout_flags_axioms r [unfolded ref_run_def] clean nc inj names]
  obtain saved ex where s: "server_store (cms st') (''ns'', pdbStateMapName) = Some saved"
    "if mget (Data saved) drainingFailureDomainKey \<noteq> []
     then drain_budgets (ref_env 0) ''ns'' ''zone'' [''a'', ''b''] (mget (Data saved) drainingFailureDomainKey)
            (server_store (pdbs ref_state)) (server_store (pdbs st')) \<and> Requeue res
     else normal_budgets (ref_env 0) ''ns'' ''zone'' [''a'', ''b''] ex (server_store (pdbs ref_state)) (server_store (pdbs st'))"
    and f: "\<forall>fd \<in> set [''a'', ''b'']. nooutFlag \<in> ref_flags (ceph st') fd \<longleftrightarrow>
      noout_wanted (ref_env 0) (maintenanceTimeout ref_state) (Data saved) fd"
    by (elim exE conjE)
  have m: "map_option (\<lambda>c. mget (Data c) drainingFailureDomainKey) (server_store (cms (snd ref_run)) (''ns'', pdbStateMapName)) = Some ''a''"
    "map_option (\<lambda>c. noout_wanted (ref_env 0) (maintenanceTimeout ref_state) (Data c) ''a'')
      (server_store (cms (snd ref_run)) (''ns'', pdbStateMapName)) = Some True"
    "map_option (\<lambda>c. noout_wanted (ref_env 0) (maintenanceTimeout ref_state) (Data c) ''b'')
      (server_store (cms (snd ref_run)) (''ns'', pdbStateMapName)) = Some False" by code_simp+
  then show ?thesis using s f unfolding r snd_conv by simp
qed

text \<open>C15. The failure domain recorded as draining when OSDs are down and PGs are not clean: it is a domain
  with down OSDs, one whose node is being drained whenever there is such a domain; a domain already
  recorded is kept while it is among the drained ones, or among the down ones if no node is drained; and
  \<^verbatim>\<open>noout\<close> is requested for a newly recorded domain exactly when its node is being drained.\<close>

theorem draining_domain_chosen:
  assumes "down \<noteq> []" and "set drain \<subseteq> set down" and "[] \<notin> set down"
  shows "mget (setPDBConfig d down drain now) drainingFailureDomainKey \<in> set (if drain \<noteq> [] then drain else down) \<and>
    (mget d drainingFailureDomainKey \<in> set (if drain \<noteq> [] then drain else down) \<longrightarrow>
       mget (setPDBConfig d down drain now) drainingFailureDomainKey = mget d drainingFailureDomainKey \<and>
       mget (setPDBConfig d down drain now) setNoOut = mget d setNoOut) \<and>
    (mget (setPDBConfig d down drain now) drainingFailureDomainKey \<noteq> mget d drainingFailureDomainKey \<longrightarrow>
       (mget (setPDBConfig d down drain now) setNoOut = ''true'' \<longleftrightarrow> drain \<noteq> []))"
proof -
  have ne: "mget d drainingFailureDomainKey \<noteq> []" if "mget d drainingFailureDomainKey \<in> set down \<union> set drain"
    using that assms(2,3) by auto
  consider (drain) x xs where "drain = x # xs" | (down) "drain = []" by (cases drain) auto
  then show ?thesis
  proof cases
    case drain
    then show ?thesis using assms ne by (auto simp: setPDBConfig_def hd_in_set)
  next
    case down
    with assms(1) obtain y ys where "down = y # ys" by (cases down) auto
    with down ne show ?thesis by (auto simp: setPDBConfig_def)
  qed
qed

theorem draining_domain_chosen_witness:
  "mget (setPDBConfig Map.empty [''a'', ''b''] [''b''] ''now'') drainingFailureDomainKey = ''b''"
  using draining_domain_chosen [of "[''a'', ''b'']" "[''b'']" Map.empty "''now''"] by simp

text \<open>C5. The flag \<^verbatim>\<open>noout\<close> follows the drain: after a successful update, a failure domain of the cluster has
  the flag exactly when it is the recorded draining domain, the flag is requested and the maintenance
  timeout counted from its first setting has not passed; other CRUSH units are left alone. The names of the domains are
  ones that Ceph takes for buckets; it takes a number for the identifier of an OSD.\<close>

theorem noout_follows_drain:
  assumes "noout_flags env flags buckets" and "updateNoout env timeout d fds f = (None, d', f')" and "distinct fds"
    and "set fds \<subseteq> buckets"
  shows "(\<forall>fd \<in> set fds. nooutFlag \<in> flags f' fd \<longleftrightarrow> noout_wanted env timeout d fd) \<and>
    (\<forall>u. u \<notin> set fds \<longrightarrow> flags f' u = flags f u)"
  using noout_flags.updateNoout_ok assms .

theorem noout_follows_drain_witness:
  "nooutFlag \<in> ref_flags (snd (snd (updateNoout (ref_env 0) DefaultMaintenanceTimeout
     [drainingFailureDomainKey \<mapsto> ''a'', setNoOut \<mapsto> ''true''] [''a'', ''b''] ref_ceph_cluster))) ''a''"
proof -
  let ?d = "[drainingFailureDomainKey \<mapsto> ''a'', setNoOut \<mapsto> ''true'']"
  let ?u = "updateNoout (ref_env 0) DefaultMaintenanceTimeout ?d [''a'', ''b''] ref_ceph_cluster"
  have "fst ?u = None" by code_simp
  then have u: "?u = (None, fst (snd ?u), snd (snd ?u))" by (metis prod.collapse)
  moreover have "noout_wanted (ref_env 0) DefaultMaintenanceTimeout ?d ''a''" by code_simp
  ultimately show ?thesis
    using noout_follows_drain [OF ref_noout.noout_flags_axioms u] by (simp add: Atoi_def split_sign_def parse_digits_def is_digit_def)
qed

text \<open>C14. The failure domains the controller works with: three sorted lists without repetitions; the
  down domains are exactly those of the deployments that are not ready and not being replaced, with the
  identifiers of their OSDs in order; every domain of a deployment is listed among all or among the
  down ones; a domain with a drained node is among both. So only a down domain can be missing from the
  list of all domains.\<close>

theorem failure_domains_read:
  assumes "getOSDFailureDomains env ns ftype f = Inr (all_fds, drain_fds, down_fds, ids)"
    and "list_osd_deployments env ns = Inr deps"
  shows "sorted all_fds \<and> distinct all_fds \<and> sorted drain_fds \<and> distinct drain_fds \<and> sorted down_fds \<and> distinct down_fds \<and>
    set down_fds = dep_domain ftype ` {dep \<in> set deps. dep_down dep} \<and>
    set all_fds \<union> set down_fds = dep_domain ftype ` set deps \<and>
    set drain_fds \<subseteq> set all_fds \<inter> set down_fds \<and> map Inr ids = map GetOSDID (filter dep_down deps)"
proof -
  from assms obtain md acc where
    l: "osd_domains_loop env md ftype deps \<lparr>allFD = {}, drainFD = {}, downFD = {}, downOSDs = []\<rparr> = Inr acc"
    and r: "all_fds = sets_List (allFD acc)" "drain_fds = sets_List (drainFD acc)"
      "down_fds = sets_List (downFD acc)" "ids = downOSDs acc"
    by (auto simp: getOSDFailureDomains_def split: sum.splits)
  note o = osd_domains_loop_outcome [OF l, unfolded osd_domains.simps Un_empty_left list.map append.simps, OF empty_subsetI]
  have "finite (allFD acc) \<and> finite (downFD acc) \<and> finite (drainFD acc)"
    by (rule finite_domains [OF o [THEN conjunct1] o [THEN conjunct2, THEN conjunct1] o [THEN conjunct2, THEN conjunct2, THEN conjunct1]])
  then have fin: "finite (allFD acc)" "finite (downFD acc)" "finite (drainFD acc)" by simp_all
  show ?thesis unfolding r sets_List_props(1) [OF fin(1)] sets_List_props(1) [OF fin(2)] sets_List_props(1) [OF fin(3)]
    using sets_List_props(2,3) [OF fin(1)] sets_List_props(2,3) [OF fin(2)] sets_List_props(2,3) [OF fin(3)] o
    by (elim conjE, intro conjI) assumption+
qed

theorem failure_domains_read_witness:
  "set [''a'', ''b''] \<union> set [''b''] = dep_domain ''zone'' ` set ref_deployments \<and> map Inr [7] = map GetOSDID (filter dep_down ref_deployments)"
proof -
  let ?env = "(ref_env 0)\<lparr>list_osd_deployments := (\<lambda>_. Inr ref_deployments),
    get_node_unschedulable := (\<lambda>n. Inr (n = ''node-b''))\<rparr>"
  have g: "getOSDFailureDomains ?env ''ns'' ''zone'' (ref_ceph_cluster\<lparr>rc_metadata := [\<lparr>OsdId = 7, HostName = ''node-b''\<rparr>]\<rparr>) =
      Inr ([''a'', ''b''], [''b''], [''b''], [7])" by code_simp
  have "list_osd_deployments ?env ''ns'' = Inr ref_deployments" by simp
  from failure_domains_read [OF g this] show ?thesis by (elim conjE, intro conjI)
qed

text \<open>C27. The failure domain used for the budgets is the smallest one of all pools: no pool has a failure
  domain at a lower level of the CRUSH hierarchy, and it is the failure domain of some pool, unless no
  pool has a known one, when it is the host.\<close>

theorem minimum_failure_domain:
  assumes "m < length CRUSHMapLevelsOrdered" and "CRUSHMapLevelsOrdered ! m = getMinimumFailureDomain pools"
  shows "(\<forall>p \<in> set pools. \<forall>j < length CRUSHMapLevelsOrdered. CRUSHMapLevelsOrdered ! j = p \<longrightarrow> m \<le> j) \<and>
    (getMinimumFailureDomain pools \<in> set pools \<or>
     getMinimumFailureDomain pools = ''host'' \<and> set pools \<inter> set CRUSHMapLevelsOrdered = {})"
proof (cases "pools = []")
  case True
  then show ?thesis by (simp add: getMinimumFailureDomain_def DefaultFailureDomain_def)
next
  case False
  let ?L = CRUSHMapLevelsOrdered
  obtain m' b' where l: "min_domain_loop pools (int (length ?L) - 1) False = (m', b')" by fastforce
  note o = min_domain_loop_outcome [OF l, simplified]
  show ?thesis
  proof (cases b')
    case True
    with o obtain p j where "p \<in> set pools" "j < length ?L" "?L ! j = p" "m' = int j" by auto
    moreover from this False True l have "getMinimumFailureDomain pools = ?L ! j"
      by (simp add: getMinimumFailureDomain_def)
    moreover from this assms have "m = j"
      using distinct_levels \<open>j < length ?L\<close> nth_eq_iff_index_eq by metis
    ultimately show ?thesis using o by auto
  next
    case nb: False
    with o have "x \<notin> set pools" if "x \<in> set ?L" for x using that unfolding in_set_conv_nth [of x ?L] by metis
    then have "set pools \<inter> set ?L = {}" by blast
    moreover have "getMinimumFailureDomain pools = ''host''"
      using False nb l by (simp add: getMinimumFailureDomain_def DefaultFailureDomain_def)
    ultimately show ?thesis using nth_mem by blast
  qed
qed

theorem minimum_failure_domain_witness:
  "getMinimumFailureDomain [''zone'', ''rack'', ''custom''] \<in> set [''zone'', ''rack'', ''custom''] \<and>
   CRUSHMapLevelsOrdered ! 2 = ''rack''"
proof -
  have a: "getMinimumFailureDomain [''zone'', ''rack'', ''custom''] = ''rack''"
    and b: "CRUSHMapLevelsOrdered ! 2 = ''rack''" and c: "2 < length CRUSHMapLevelsOrdered" by code_simp+
  show ?thesis using minimum_failure_domain [OF c trans [OF b a [symmetric]]] b a by simp
qed

text \<open>The budget of an object store or a file system is created once and then left as it is: when a
  budget of that name exists, a reconcile with a changed number of instances keeps the old number.\<close>

theorem static_budget_kept:
  assumes "kube_api api store" and "store w k = Some old" and "reconcile_service_pdb api k labels owner minAvailable w = (r, w')"
    and "1 \<le> minAvailable"
  shows "store w' k = Some old"
proof -
  from assms(3,4) obtain r' where s: "reconcileStaticPDB api k
      (new_pdb\<lparr>MinAvailable := Some minAvailable, MatchLabels := labels, PdbOwner := [owner]\<rparr>) w = (r', w')"
    by (auto simp: reconcile_service_pdb_def split: prod.splits option.splits)
  obtain g w1 where g: "kget api k w = (g, w1)" by fastforce
  have "store w1 = store w" using kube_api.get_frame [OF assms(1) g] .
  moreover have "\<not> IsNotFound e" if "g = Inl e" for e
    using kube_api.get_not_found [OF assms(1), of k w e w1] g that assms(2) by auto
  ultimately show ?thesis using s g assms(2) by (auto simp: reconcileStaticPDB_def split: sum.splits if_splits)
qed

theorem static_budget_kept_witness:
  "server_store (snd (reconcile_service_pdb server_api (''ns'', ''rook-ceph-rgw-s'') [(''rgw'', ''s'')] ''s'' 4
     \<lparr>objs = [((''ns'', ''rook-ceph-rgw-s''), new_pdb\<lparr>MinAvailable := Some 2\<rparr>)], faults = []\<rparr>)) (''ns'', ''rook-ceph-rgw-s'') =
   Some (new_pdb\<lparr>MinAvailable := Some 2\<rparr>)"
  by (rule static_budget_kept [OF memory.kube_api_axioms _ surjective_pairing]) (simp_all add: server_store_def)

end
