(* ===== verification/Json.thy ===== *)
theory Json
  imports Prelude
begin

text \<open>
  The part of Go's \<^verbatim>\<open>encoding/json\<close> that the operator relies on: the text that \<^verbatim>\<open>json.Marshal\<close> writes and the
  syntax that \<^verbatim>\<open>json.Unmarshal\<close> reads, as a printer and a parser of a type of JSON values. Strings are
  byte strings; bytes from 128 on are copied, as Go does for valid UTF-8. The theorem of the theory is
  that the parser reads back every printed value; the components that store structures as JSON text build
  their own codecs on it.
\<close>

section \<open>Values and their text\<close>

datatype json = JNull | JBool bool | JNum string | JStr string | JArr "json list" | JObj "(string \<times> json) list"

definition quote :: char where "quote = CHR 0x22"
definition backslash :: char where "backslash = CHR 0x5C"

definition hex_char :: "nat \<Rightarrow> char" where
  "hex_char n = ''0123456789abcdef'' ! n"

text \<open>How Go escapes a byte, HTML characters included.\<close>

definition esc :: "char \<Rightarrow> string" where
  "esc c =
     (let n = of_char c :: nat
      in if c = quote then [backslash, quote]
         else if c = backslash then [backslash, backslash]
         else if n = 8 then [backslash, CHR ''b'']
         else if n = 12 then [backslash, CHR ''f'']
         else if n = 10 then [backslash, CHR ''n'']
         else if n = 13 then [backslash, CHR ''r'']
         else if n = 9 then [backslash, CHR ''t'']
         else if n < 32 \<or> c = CHR ''<'' \<or> c = CHR ''>'' \<or> c = CHR ''&''
         then [backslash, CHR ''u'', CHR ''0'', CHR ''0'', hex_char (n div 16), hex_char (n mod 16)]
         else [c])"

definition print_str :: "string \<Rightarrow> string" where
  "print_str s = quote # concat (map esc s) @ [quote]"

fun print :: "json \<Rightarrow> string" where
  "print JNull = ''null''"
| "print (JBool b) = (if b then ''true'' else ''false'')"
| "print (JNum s) = s"
| "print (JStr s) = print_str s"
| "print (JArr js) = CHR ''['' # join '','' (map print js) @ '']''"
| "print (JObj ms) = CHR ''{'' # join '','' (map (\<lambda>(k, v). print_str k @ '':'' @ print v) ms) @ ''}''"

section \<open>Reading\<close>

definition is_ws :: "char \<Rightarrow> bool" where
  "is_ws c \<longleftrightarrow> of_char c \<in> {32, 9, 10, 13 :: nat}"

definition skip_ws :: "string \<Rightarrow> string" where "skip_ws = dropWhile is_ws"

definition hex_val :: "char \<Rightarrow> nat option" where
  "hex_val c =
     (let n = of_char c :: nat
      in if 48 \<le> n \<and> n \<le> 57 then Some (n - 48)
         else if 97 \<le> n \<and> n \<le> 102 then Some (n - 87)
         else if 65 \<le> n \<and> n \<le> 70 then Some (n - 55) else None)"

definition hex4 :: "string \<Rightarrow> (nat \<times> string) option" where
  "hex4 s =
     (case s of
        a # b # c # d # r \<Rightarrow>
          (case (hex_val a, hex_val b, hex_val c, hex_val d) of
             (Some x, Some y, Some z, Some w) \<Rightarrow> Some (x * 4096 + y * 256 + z * 16 + w, r)
           | _ \<Rightarrow> None)
      | _ \<Rightarrow> None)"

text \<open>The UTF-8 encoding of a code point; 65533 stands for an unpaired surrogate.\<close>

definition utf8 :: "nat \<Rightarrow> string" where
  "utf8 n =
     map char_of
       (if n < 128 then [n]
        else if n < 2048 then [192 + n div 64, 128 + n mod 64]
        else if n < 65536 then [224 + n div 4096, 128 + n div 64 mod 64, 128 + n mod 64]
        else [240 + n div 262144, 128 + n div 4096 mod 64, 128 + n div 64 mod 64, 128 + n mod 64])"

definition is_high :: "nat \<Rightarrow> bool" where "is_high n \<longleftrightarrow> 0xD800 \<le> n \<and> n < 0xDC00"
definition is_low :: "nat \<Rightarrow> bool" where "is_low n \<longleftrightarrow> 0xDC00 \<le> n \<and> n < 0xE000"

text \<open>A \<^verbatim>\<open>\u\<close> escape after its two first characters, with the second half of a surrogate pair.\<close>

definition unicode_escape :: "string \<Rightarrow> (string \<times> string) option" where
  "unicode_escape s =
     (case hex4 s of
        None \<Rightarrow> None
      | Some (n, r) \<Rightarrow>
          if is_high n
          then (case r of
                  b # u # r' \<Rightarrow>
                    (if b = backslash \<and> u = CHR ''u''
                     then (case hex4 r' of
                             Some (m, r'') \<Rightarrow>
                               if is_low m then Some (utf8 (65536 + (n - 0xD800) * 1024 + (m - 0xDC00)), r'')
                               else Some (utf8 65533, r)
                           | None \<Rightarrow> None)
                     else Some (utf8 65533, r))
                | _ \<Rightarrow> Some (utf8 65533, r))
          else Some (utf8 (if is_low n then 65533 else n), r))"

definition simple_escape :: "char \<Rightarrow> char option" where
  "simple_escape c =
     map_of [(quote, quote), (backslash, backslash), (CHR ''/'', CHR ''/''), (CHR ''b'', char_of (8::nat)),
       (CHR ''f'', char_of (12::nat)), (CHR ''n'', char_of (10::nat)), (CHR ''r'', char_of (13::nat)),
       (CHR ''t'', char_of (9::nat))] c"

text \<open>The rest of a string literal, whose opening quote has been read. The first argument bounds the
  number of characters.\<close>

fun parse_str :: "nat \<Rightarrow> string \<Rightarrow> (string \<times> string) option" where
  "parse_str 0 s = None"
| "parse_str (Suc n) [] = None"
| "parse_str (Suc n) (c # s) =
     (if c = quote then Some ([], s)
      else if of_char c < (32::nat) then None
      else if c = backslash
      then (case s of
              [] \<Rightarrow> None
            | e # s' \<Rightarrow>
                (case (if e = CHR ''u'' then unicode_escape s' else map_option (\<lambda>d. ([d], s')) (simple_escape e)) of
                   None \<Rightarrow> None
                 | Some (d, r) \<Rightarrow> map_option (\<lambda>(t, r'). (d @ t, r')) (parse_str n r)))
      else map_option (\<lambda>(t, r). (c # t, r)) (parse_str n s))"

definition num_char :: "char \<Rightarrow> bool" where
  "num_char c \<longleftrightarrow> is_digit c \<or> c \<in> {CHR ''-'', CHR ''+'', CHR ''.'', CHR ''e'', CHR ''E''}"

text \<open>The grammar of numbers.\<close>

definition is_exp :: "string \<Rightarrow> bool" where
  "is_exp s \<longleftrightarrow> s = [] \<or>
     hd s \<in> {CHR ''e'', CHR ''E''} \<and>
     (let r = (if tl s \<noteq> [] \<and> hd (tl s) \<in> {CHR ''-'', CHR ''+''} then tl (tl s) else tl s)
      in r \<noteq> [] \<and> list_all is_digit r)"

definition is_frac_exp :: "string \<Rightarrow> bool" where
  "is_frac_exp s \<longleftrightarrow>
     (if s \<noteq> [] \<and> hd s = CHR ''.''
      then takeWhile is_digit (tl s) \<noteq> [] \<and> is_exp (dropWhile is_digit (tl s)) else is_exp s)"

definition is_number :: "string \<Rightarrow> bool" where
  "is_number s \<longleftrightarrow>
     (let u = (if s \<noteq> [] \<and> hd s = CHR ''-'' then tl s else s); i = takeWhile is_digit u
      in i \<noteq> [] \<and> (hd i = CHR ''0'' \<longrightarrow> tl i = []) \<and> is_frac_exp (dropWhile is_digit u))"

definition literals :: "(string \<times> json) list" where
  "literals = [(''null'', JNull), (''true'', JBool True), (''false'', JBool False)]"

definition parse_scalar :: "string \<Rightarrow> (json \<times> string) option" where
  "parse_scalar s =
     (case find (\<lambda>(l, _). has_prefix l s) literals of
        Some (l, v) \<Rightarrow> Some (v, drop (length l) s)
      | None \<Rightarrow>
          (let t = takeWhile num_char s
           in if is_number t then Some (JNum t, dropWhile num_char s) else None))"

definition starts :: "char \<Rightarrow> string \<Rightarrow> bool" where
  "starts c s \<longleftrightarrow> s \<noteq> [] \<and> hd s = c"

text \<open>A value, the items of an array and the members of an object after their opening bracket.\<close>

fun parse_val :: "nat \<Rightarrow> string \<Rightarrow> (json \<times> string) option"
and parse_items :: "nat \<Rightarrow> string \<Rightarrow> (json list \<times> string) option"
and parse_members :: "nat \<Rightarrow> string \<Rightarrow> ((string \<times> json) list \<times> string) option" where
  "parse_val 0 s = None"
| "parse_val (Suc n) s =
     (let s = skip_ws s
      in if starts CHR ''{'' s
         then (let r = skip_ws (tl s)
               in if starts CHR ''}'' r then Some (JObj [], tl r)
                  else map_option (\<lambda>(ms, r'). (JObj ms, r')) (parse_members n r))
         else if starts CHR ''['' s
         then (let r = skip_ws (tl s)
               in if starts CHR '']'' r then Some (JArr [], tl r)
                  else map_option (\<lambda>(js, r'). (JArr js, r')) (parse_items n r))
         else if starts quote s
         then map_option (\<lambda>(t, r). (JStr t, r)) (parse_str (length s) (tl s))
         else parse_scalar s)"
| "parse_items 0 s = None"
| "parse_items (Suc n) s =
     (case parse_val n s of
        None \<Rightarrow> None
      | Some (v, r) \<Rightarrow>
          (let r = skip_ws r
           in if starts CHR '']'' r then Some ([v], tl r)
              else if starts CHR '','' r then map_option (\<lambda>(vs, r'). (v # vs, r')) (parse_items n (tl r))
              else None))"
| "parse_members 0 s = None"
| "parse_members (Suc n) s =
     (let s = skip_ws s
      in if \<not> starts quote s then None
         else (case parse_str (length s) (tl s) of
                 None \<Rightarrow> None
               | Some (k, r) \<Rightarrow>
                   (let r = skip_ws r
                    in if \<not> starts CHR '':'' r then None
                       else (case parse_val n (tl r) of
                               None \<Rightarrow> None
                             | Some (v, r) \<Rightarrow>
                                 (let r = skip_ws r
                                  in if starts CHR ''}'' r then Some ([(k, v)], tl r)
                                     else if starts CHR '','' r
                                     then map_option (\<lambda>(ms, r'). ((k, v) # ms, r')) (parse_members n (tl r))
                                     else None)))))"

text \<open>Each nested call has read a character, so the fuel is never the reason for a failure
  (lemma \<open>parse_fuel\<close> below).\<close>

definition parse :: "string \<Rightarrow> json option" where
  "parse s =
     (case parse_val (2 * length s + 2) s of
        Some (v, r) \<Rightarrow> if skip_ws r = [] then Some v else None
      | None \<Rightarrow> None)"

section \<open>String literals\<close>

lemma hex_val_digit [simp]: "k < 16 \<Longrightarrow> hex_val (hex_char k) = Some k"
proof -
  have "\<forall>k \<in> {..<16}. hex_val (hex_char k) = Some k" by code_simp
  then show "k < 16 \<Longrightarrow> hex_val (hex_char k) = Some k" by blast
qed

lemma hex_val_zero [simp]: "hex_val CHR ''0'' = Some 0"
  by (simp add: hex_val_def)

lemma hex4_esc: "n < 256 \<Longrightarrow> hex4 (CHR ''0'' # CHR ''0'' # hex_char (n div 16) # hex_char (n mod 16) # r) = Some (n, r)"
  by (simp add: hex4_def)

lemma unicode_escape_esc:
  "n < 128 \<Longrightarrow> unicode_escape (CHR ''0'' # CHR ''0'' # hex_char (n div 16) # hex_char (n mod 16) # r) = Some ([char_of n], r)"
  by (simp add: unicode_escape_def hex4_esc is_high_def is_low_def utf8_def)

text \<open>The three forms of an escaped byte.\<close>

lemma esc_cases:
  obtains (raw) "esc c = [c]" "c \<noteq> quote" "c \<noteq> backslash" "\<not> of_char c < (32::nat)"
  | (short) e where "esc c = [backslash, e]" "e \<noteq> CHR ''u''" "simple_escape e = Some c"
  | (hex) n where "n < 128" "c = char_of n"
      "esc c = [backslash, CHR ''u'', CHR ''0'', CHR ''0'', hex_char (n div 16), hex_char (n mod 16)]"
proof -
  let ?n = "of_char c :: nat"
  have c: "c = char_of ?n" by simp
  consider "c = quote" | "c = backslash" | "?n \<in> {8, 12, 10, 13, 9}"
    | "?n < 32 \<or> c = CHR ''<'' \<or> c = CHR ''>'' \<or> c = CHR ''&''" "?n \<notin> {8, 12, 10, 13, 9}" "c \<noteq> quote" "c \<noteq> backslash"
    | "\<not> ?n < 32" "c \<noteq> CHR ''<''" "c \<noteq> CHR ''>''" "c \<noteq> CHR ''&''" "c \<noteq> quote" "c \<noteq> backslash"
    by blast
  then show ?thesis
  proof cases
    case 3
    then consider "c = char_of (8::nat)" | "c = char_of (12::nat)" | "c = char_of (10::nat)" | "c = char_of (13::nat)"
      | "c = char_of (9::nat)" using c by (metis empty_iff insert_iff)
    then show ?thesis
      by cases (rule short [of "hd (tl (esc c))"]; simp add: esc_def simple_escape_def quote_def backslash_def)+
  next
    case 4
    then have "?n < 128" by auto
    with 4 show ?thesis by (intro hex [of ?n]) (simp_all add: esc_def Let_def)
  next
    case 5
    then show ?thesis by (intro raw) (simp_all add: esc_def Let_def)
  qed (rule short [of "hd (tl (esc c))"]; simp add: esc_def simple_escape_def quote_def backslash_def)+
qed

lemma parse_str_esc: "parse_str (Suc n) (esc c @ r) = map_option (\<lambda>(t, r'). (c # t, r')) (parse_str n r)"
proof (cases rule: esc_cases [of c])
  case (hex m)
  then show ?thesis using unicode_escape_esc [of m r] by (simp add: quote_def backslash_def)
qed (simp_all add: quote_def backslash_def)

lemma esc_nonempty [simp]: "esc c \<noteq> []"
  by (simp add: esc_def Let_def)

lemma parse_str_print: "length s < n \<Longrightarrow> parse_str n (concat (map esc s) @ quote # rest) = Some (s, rest)"
proof (induction s arbitrary: n)
  case Nil
  then show ?case by (cases n) simp_all
next
  case (Cons c s)
  then show ?case by (cases n) (simp_all add: parse_str_esc)
qed

lemma length_esc: "length s \<le> length (concat (map esc s))"
proof (induction s)
  case (Cons c s)
  have "0 < length (esc c)" by simp
  with Cons show ?case by (simp only: list.map concat.simps length_append list.size)
qed simp

section \<open>The fuel\<close>

lemma hex4_shorter: "hex4 s = Some (n, r) \<Longrightarrow> length r < length s"
  by (auto simp: hex4_def split: list.splits option.splits)

lemma unicode_escape_shorter: "unicode_escape s = Some (d, r) \<Longrightarrow> length r < length s"
  by (auto simp: unicode_escape_def split: option.splits if_splits list.splits dest!: hex4_shorter)

lemma parse_str_shorter: "parse_str n s = Some (t, r) \<Longrightarrow> length r < length s"
proof (induction n s arbitrary: t r rule: parse_str.induct)
  case (3 n c s)
  then show ?case
    by (fastforce split: if_splits list.splits option.splits dest: unicode_escape_shorter)
qed simp_all

lemma skip_ws_le: "length (skip_ws s) \<le> length s"
  by (simp add: skip_ws_def length_dropWhile_le)

lemma literal_nonempty: "find (\<lambda>(l, _). has_prefix l s) literals = Some (l, v) \<Longrightarrow> 0 < length l \<and> has_prefix l s"
  by (auto simp: literals_def split: if_splits)

lemma number_nonempty: "is_number t \<Longrightarrow> t \<noteq> []"
  by (auto simp: is_number_def Let_def split: if_splits)

lemma parse_scalar_shorter:
  assumes "parse_scalar s = Some (v, r)" shows "length r < length s"
proof (cases "find (\<lambda>(l, _). has_prefix l s) literals")
  case None
  with assms have "takeWhile num_char s \<noteq> []" "r = dropWhile num_char s"
    by (auto simp: parse_scalar_def Let_def dest: number_nonempty split: if_splits)
  then show ?thesis using takeWhile_dropWhile_id [of num_char s]
    by (metis length_append length_greater_0_conv less_add_same_cancel2)
next
  case (Some lv)
  obtain l v' where lv: "lv = (l, v')" by fastforce
  from literal_nonempty [OF Some [unfolded lv]] Some assms lv show ?thesis
    by (auto simp: parse_scalar_def elim!: has_prefixE)
qed

lemma starts_shorter: "starts c (skip_ws s) \<Longrightarrow> length (tl (skip_ws s)) < length s"
  using skip_ws_le [of s] by (cases "skip_ws s") (auto simp: starts_def)

lemma val_step:
  assumes "parse_val (Suc n) s = Some (v, r)"
    and "\<And>s ms r. parse_members n s = Some (ms, r) \<Longrightarrow> length r < length s"
    and "\<And>s js r. parse_items n s = Some (js, r) \<Longrightarrow> length r < length s"
  shows "length r < length s"
proof -
  let ?s = "skip_ws s"
  have t: "length (tl ?s) < length s" if "starts c ?s" for c using starts_shorter that .
  have u: "length (tl (skip_ws (tl ?s))) < length s" if "starts c ?s" "starts d (skip_ws (tl ?s))" for c d
    using starts_shorter [OF that(2)] t [OF that(1)] by linarith
  have w: "length (skip_ws (tl ?s)) < length s" if "starts c ?s" for c
    using t [OF that] skip_ws_le [of "tl ?s"] by linarith
  consider "starts CHR ''{'' ?s" | "starts CHR ''['' ?s" | "starts quote ?s"
    | "\<not> starts CHR ''{'' ?s" "\<not> starts CHR ''['' ?s" "\<not> starts quote ?s" by blast
  then show ?thesis
  proof cases
    case 1
    with assms(1) show ?thesis
      by (auto simp: Let_def split: if_splits dest!: assms(2) intro: u order.strict_trans [OF _ w])
  next
    case 2
    then have "\<not> starts CHR ''{'' ?s" by (auto simp: starts_def)
    with 2 assms(1) show ?thesis
      by (auto simp: Let_def split: if_splits dest!: assms(3) intro: u order.strict_trans [OF _ w])
  next
    case 3
    then have "\<not> starts CHR ''{'' ?s" "\<not> starts CHR ''['' ?s" by (auto simp: starts_def quote_def)
    with 3 assms(1) show ?thesis
      by (auto simp: Let_def dest!: parse_str_shorter intro: order.strict_trans [OF _ t])
  next
    case 4
    with assms(1) have "parse_scalar ?s = Some (v, r)" by (simp add: Let_def)
    from parse_scalar_shorter [OF this] skip_ws_le [of s] show ?thesis by linarith
  qed
qed

lemma items_step:
  assumes "parse_items (Suc n) s = Some (vs, r)" and "\<And>s v r. parse_val n s = Some (v, r) \<Longrightarrow> length r < length s"
    and "\<And>s js r. parse_items n s = Some (js, r) \<Longrightarrow> length r < length s"
  shows "length r < length s"
proof -
  from assms(1) obtain v r1 where v: "parse_val n s = Some (v, r1)" by (auto split: option.splits)
  note l = assms(2) [OF v]
  have t: "length (tl (skip_ws r1)) < length s" if "starts c (skip_ws r1)" for c
    using starts_shorter [OF that] l by linarith
  from assms(1) v show ?thesis
    by (auto simp: Let_def split: if_splits dest!: assms(3) intro: t order.strict_trans [OF _ t])
qed

lemma members_step:
  assumes "parse_members (Suc n) s = Some (ms, r)" and "\<And>s v r. parse_val n s = Some (v, r) \<Longrightarrow> length r < length s"
    and "\<And>s ms r. parse_members n s = Some (ms, r) \<Longrightarrow> length r < length s"
  shows "length r < length s"
proof -
  from assms(1) obtain k r1 v r2 where q: "starts quote (skip_ws s)"
    and k: "parse_str (length (skip_ws s)) (tl (skip_ws s)) = Some (k, r1)"
    and c: "starts CHR '':'' (skip_ws r1)" and v: "parse_val n (tl (skip_ws r1)) = Some (v, r2)"
    by (auto simp: Let_def split: option.splits if_splits)
  have l: "length r2 < length s"
    using starts_shorter [OF q] parse_str_shorter [OF k] starts_shorter [OF c] assms(2) [OF v] by linarith
  have t: "length (tl (skip_ws r2)) < length s" if "starts c (skip_ws r2)" for c
    using starts_shorter [OF that] l by linarith
  from assms(1) q k c v show ?thesis
    by (auto simp: Let_def split: if_splits dest!: assms(3) intro: t order.strict_trans [OF _ t])
qed

lemma parse_shorter:
  "(parse_val n s = Some (v, r) \<longrightarrow> length r < length s) \<and> (parse_items n s = Some (vs, r) \<longrightarrow> length r < length s) \<and>
   (parse_members n s = Some (ms, r) \<longrightarrow> length r < length s)"
proof (induction n arbitrary: s v vs ms r)
  case (Suc n)
  show ?case
    using val_step [of n s v r] items_step [of n s vs r] members_step [of n s ms r] Suc.IH by blast
qed simp

lemmas parse_val_shorter = parse_shorter [THEN conjunct1, rule_format]

text \<open>With at least \<open>2 * length s + 2\<close> the fuel does not matter.\<close>

lemma parse_fuel:
  "(2 * length s < n \<and> 2 * length s < m \<longrightarrow> parse_val n s = parse_val m s) \<and>
   (2 * length s + 1 < n \<and> 2 * length s + 1 < m \<longrightarrow> parse_items n s = parse_items m s) \<and>
   (2 * length s + 1 < n \<and> 2 * length s + 1 < m \<longrightarrow> parse_members n s = parse_members m s)"
proof (induction n arbitrary: m s)
  case (Suc n)
  have v: "parse_val n t = parse_val k t" if "2 * length t < n" "2 * length t < k" for k t using Suc.IH that by blast
  have i: "parse_items n t = parse_items k t" if "2 * length t + 1 < n" "2 * length t + 1 < k" for k t using Suc.IH that by blast
  have o: "parse_members n t = parse_members k t" if "2 * length t + 1 < n" "2 * length t + 1 < k" for k t
    using Suc.IH that by blast
  have "parse_val (Suc n) s = parse_val m s" if l: "2 * length s < Suc n" "2 * length s < m"
  proof -
    obtain k where m: "m = Suc k" using l(2) by (cases m) auto
    let ?r = "skip_ws (tl (skip_ws s))"
    have "2 * length ?r + 1 < n \<and> 2 * length ?r + 1 < k" if "starts c (skip_ws s)" for c
      using starts_shorter [OF that] skip_ws_le [of "tl (skip_ws s)"] l m by linarith
    then show ?thesis unfolding m by (auto simp: Let_def i [of ?r k] o [of ?r k])
  qed
  moreover have "parse_items (Suc n) s = parse_items m s" if l: "2 * length s + 1 < Suc n" "2 * length s + 1 < m"
  proof -
    obtain k where m: "m = Suc k" using l(2) by (cases m) auto
    have "parse_items n (tl (skip_ws r)) = parse_items k (tl (skip_ws r))"
      if "parse_val k s = Some (x, r)" "starts c (skip_ws r)" for x r c
      using parse_val_shorter [OF that(1)] starts_shorter [OF that(2)] l m by (intro i) linarith+
    moreover have "parse_val n s = parse_val k s" using l m by (intro v) auto
    ultimately show ?thesis unfolding m by (auto simp: Let_def split: option.splits)
  qed
  moreover have "parse_members (Suc n) s = parse_members m s" if l: "2 * length s + 1 < Suc n" "2 * length s + 1 < m"
  proof -
    obtain k where m: "m = Suc k" using l(2) by (cases m) auto
    have a: "parse_val n (tl (skip_ws r)) = parse_val k (tl (skip_ws r)) \<and> 2 * length (tl (skip_ws r)) + 1 < n \<and>
        2 * length (tl (skip_ws r)) + 1 < k"
      if "starts quote (skip_ws s)" "parse_str (length (skip_ws s)) (tl (skip_ws s)) = Some (x, r)"
        "starts CHR '':'' (skip_ws r)" for x r
      using parse_str_shorter [OF that(2)] starts_shorter [OF that(1)] starts_shorter [OF that(3)] l m
      by (intro conjI v) linarith+
    have b: "parse_members n (tl (skip_ws r')) = parse_members k (tl (skip_ws r'))"
      if "2 * length t + 1 < n" "2 * length t + 1 < k" "parse_val k t = Some (y, r')" "starts c (skip_ws r')" for t y r' c
      using parse_val_shorter [OF that(3)] that(1,2) starts_shorter [OF that(4)] by (intro o) linarith+
    have d: "parse_members n (tl (skip_ws r')) = parse_members k (tl (skip_ws r'))"
      if q: "starts quote (skip_ws s)" "parse_str (length (skip_ws s)) (tl (skip_ws s)) = Some (x, r)"
        "starts CHR '':'' (skip_ws r)" and "parse_val k (tl (skip_ws r)) = Some (y, r')" "starts c (skip_ws r')"
      for x r y r' c
      using b [OF a [OF q, THEN conjunct2, THEN conjunct1] a [OF q, THEN conjunct2, THEN conjunct2] that(4,5)] .
    show ?thesis unfolding m by (auto simp: Let_def a d split: option.splits)
  qed
  ultimately show ?case by blast
qed simp

section \<open>Round trip\<close>

text \<open>Only a number has a text of its own to be right about.\<close>

fun wf_json :: "json \<Rightarrow> bool" where
  "wf_json (JNum s) = (is_number s \<and> list_all num_char s)"
| "wf_json (JArr js) = list_all wf_json js"
| "wf_json (JObj ms) = list_all (\<lambda>(_, v). wf_json v) ms"
| "wf_json _ = True"

definition ends_num :: "string \<Rightarrow> bool" where
  "ends_num r \<longleftrightarrow> r = [] \<or> \<not> num_char (hd r)"

lemma ends_num_simps [simp]: "ends_num (CHR '','' # r)" "ends_num (CHR '']'' # r)" "ends_num (CHR ''}'' # r)" "ends_num []"
  by (simp_all add: ends_num_def num_char_def is_digit_def)

lemma skip_ws_Cons [simp]: "\<not> is_ws c \<Longrightarrow> skip_ws (c # s) = c # s"
  by (simp add: skip_ws_def)

lemma not_ws [simp]: "\<not> is_ws CHR '',''" "\<not> is_ws CHR '']''" "\<not> is_ws CHR ''}''" "\<not> is_ws CHR ''{''" "\<not> is_ws CHR ''[''"
  "\<not> is_ws CHR '':''" "\<not> is_ws quote"
  by (simp_all add: is_ws_def quote_def)

lemma starts_Cons [simp]: "starts c (d # s) \<longleftrightarrow> d = c"
  by (simp add: starts_def)

lemma number_hd: "is_number t \<Longrightarrow> hd t \<noteq> CHR ''-'' \<Longrightarrow> is_digit (hd t)"
  by (cases t) (auto simp: is_number_def Let_def split: if_splits)

lemma parse_scalar_num:
  assumes "is_number t" "list_all num_char t" "ends_num r"
  shows "parse_scalar (t @ r) = Some (JNum t, r)"
proof -
  obtain c u where t: "t = c # u" using number_nonempty [OF assms(1)] by (cases t) auto
  have "c = CHR ''-'' \<or> is_digit c" using number_hd [OF assms(1)] t by auto
  then have "find (\<lambda>(l, _). has_prefix l (t @ r)) literals = None"
    by (auto simp: literals_def has_prefix_def t is_digit_def)
  moreover have "takeWhile num_char (t @ r) = t" "dropWhile num_char (t @ r) = r"
    using assms(2,3) by (cases r; simp add: ends_num_def list_all_iff)+
  ultimately show ?thesis using assms(1) by (simp add: parse_scalar_def)
qed

lemma print_hd:
  assumes "wf_json j"
  obtains c s where "print j = c # s" "\<not> is_ws c" "c \<noteq> CHR '']''" "c \<noteq> CHR ''}''"
    "c \<noteq> CHR ''{'' \<or> (\<exists>ms. j = JObj ms)" "c \<noteq> CHR ''['' \<or> (\<exists>js. j = JArr js)" "c \<noteq> quote \<or> (\<exists>t. j = JStr t)"
proof (cases j)
  case (JNum t)
  with assms obtain c u where t: "t = c # u" by (cases t) (auto dest: number_nonempty)
  with assms JNum number_hd [of t] have "c = CHR ''-'' \<or> is_digit c" by auto
  with t JNum show ?thesis by (intro that [of c u]) (auto simp: is_ws_def is_digit_def quote_def)
next
  case (JBool b)
  then show ?thesis by (cases b; intro that) (auto simp: is_ws_def quote_def)
qed (auto intro!: that simp: is_ws_def print_str_def quote_def)

definition reads :: "json \<Rightarrow> bool" where
  "reads j \<longleftrightarrow> (\<forall>n rest. 2 * length (print j) < n \<longrightarrow> ends_num rest \<longrightarrow> parse_val n (print j @ rest) = Some (j, rest))"

lemma join_append: "xs \<noteq> [] \<Longrightarrow> join sep (x # xs) = x @ sep @ join sep xs"
  by (cases xs) simp_all

lemma items_print:
  assumes "js \<noteq> []" "list_all reads js" "2 * length (join '','' (map print js)) + 1 < n"
  shows "parse_items n (join '','' (map print js) @ CHR '']'' # rest) = Some (js, rest)"
  using assms
proof (induction js arbitrary: n)
  case (Cons j js)
  obtain k where n: "n = Suc k" using Cons.prems(3) by (cases n) auto
  have j: "parse_val k (print j @ r) = Some (j, r)" if "ends_num r" "2 * length (print j) < k" for r
    using Cons.prems(2) that by (simp add: reads_def)
  show ?case
  proof (cases "js = []")
    case True
    with Cons.prems(3) n j [of "CHR '']'' # rest"] show ?thesis by simp
  next
    case False
    then have e: "join '','' (map print (j # js)) = print j @ CHR '','' # join '','' (map print js)"
      by (simp add: join_append)
    have "parse_items k (join '','' (map print js) @ CHR '']'' # rest) = Some (js, rest)"
      using Cons.prems(2) Cons.prems(3) [unfolded e n] False by (intro Cons.IH) auto
    moreover have "2 * length (print j) < k" using Cons.prems(3) [unfolded e n] by simp
    ultimately show ?thesis unfolding e n using j by simp
  qed
qed simp

lemma key_print:
  "parse_str (length (print_str k @ r)) (tl (print_str k @ r)) = Some (k, r)"
proof -
  have "length k < length (print_str k @ r)" using length_esc [of k] by (simp add: print_str_def)
  from parse_str_print [OF this, of r] show ?thesis by (simp add: print_str_def)
qed

definition print_member :: "string \<times> json \<Rightarrow> string" where
  "print_member m = print_str (fst m) @ '':'' @ print (snd m)"

lemma member_print:
  assumes "reads v" "ends_num r" "2 * length (print_member (k, v)) < n"
  shows "parse_members (Suc n) (print_member (k, v) @ r) =
    (let r = skip_ws r
     in if starts CHR ''}'' r then Some ([(k, v)], tl r)
        else if starts CHR '','' r then map_option (\<lambda>(ms, r'). ((k, v) # ms, r')) (parse_members n (tl r)) else None)"
proof -
  let ?s = "print_str k @ CHR '':'' # print v @ r"
  have s: "skip_ws ?s = ?s" "starts quote ?s" by (simp_all add: print_str_def)
  have "parse_val n (print v @ r) = Some (v, r)" using assms by (auto simp: reads_def print_member_def)
  then show ?thesis using key_print [of k "CHR '':'' # print v @ r"] s
    by (simp add: print_member_def Let_def)
qed

lemma members_print:
  assumes "ms \<noteq> []" "list_all (\<lambda>m. reads (snd m)) ms" "2 * length (join '','' (map print_member ms)) + 1 < n"
  shows "parse_members n (join '','' (map print_member ms) @ CHR ''}'' # rest) = Some (ms, rest)"
  using assms
proof (induction ms arbitrary: n)
  case (Cons m ms)
  obtain k v where m: "m = (k, v)" by fastforce
  obtain l where n: "n = Suc l" using Cons.prems(3) by (cases n) auto
  have v: "reads v" using Cons.prems(2) m by simp
  show ?case
  proof (cases "ms = []")
    case True
    with Cons.prems(3) n member_print [OF v, of "CHR ''}'' # rest" k l] show ?thesis by (simp add: m)
  next
    case False
    then have e: "join '','' (map print_member (m # ms)) = print_member (k, v) @ CHR '','' # join '','' (map print_member ms)"
      by (simp add: join_append m)
    have "parse_members l (join '','' (map print_member ms) @ CHR ''}'' # rest) = Some (ms, rest)"
      using Cons.prems(2) Cons.prems(3) [unfolded e n] False by (intro Cons.IH) auto
    moreover have "2 * length (print_member (k, v)) < l" using Cons.prems(3) [unfolded e n] by simp
    ultimately show ?thesis unfolding e n using member_print [OF v] by (simp add: m)
  qed
qed simp

lemma parse_val_scalar:
  "0 < n \<Longrightarrow> \<not> is_ws c \<Longrightarrow> c \<noteq> CHR ''{'' \<Longrightarrow> c \<noteq> CHR ''['' \<Longrightarrow> c \<noteq> quote \<Longrightarrow>
   parse_val n (c # s) = parse_scalar (c # s)"
  by (cases n) (simp_all add: Let_def)

lemma print_reads: "wf_json j \<Longrightarrow> reads j"
proof (induction j)
  case (JNum t)
  obtain c u where t: "t = c # u" "\<not> is_ws c" "c \<noteq> CHR ''{''" "c \<noteq> CHR ''[''" "c \<noteq> quote"
    using JNum by (cases rule: print_hd) auto
  have "parse_val n (t @ r) = Some (JNum t, r)" if "2 * length t < n" "ends_num r" for n r
    using parse_scalar_num [of t r] JNum that t by (simp add: parse_val_scalar)
  then show ?case by (simp add: reads_def)
next
  case (JStr t)
  have "parse_val n (print_str t @ r) = Some (JStr t, r)" if l: "2 * length (print_str t) < n" for n r
  proof -
    obtain k where n: "n = Suc k" using l by (cases n) simp_all
    have s: "skip_ws (print_str t @ r) = print_str t @ r" "starts c (print_str t @ r) \<longleftrightarrow> c = quote" for c
      by (auto simp: print_str_def)
    then show ?thesis unfolding n using key_print [of t r] by (simp add: Let_def quote_def)
  qed
  then show ?case by (simp add: reads_def)
next
  case (JArr js)
  have "parse_val n (print (JArr js) @ r) = Some (JArr js, r)" if l: "2 * length (print (JArr js)) < n" for n r
  proof -
    obtain k where n: "n = Suc k" using l by (cases n) auto
    show ?thesis
    proof (cases js)
      case Nil
      then show ?thesis unfolding n by (simp add: Let_def)
    next
      case (Cons j js')
      have "wf_json j" using JArr.prems Cons by simp
      then obtain c s where c: "print j = c # s" "\<not> is_ws c" "c \<noteq> CHR '']''" by (rule print_hd)
      have "parse_items k (join '','' (map print js) @ CHR '']'' # r) = Some (js, r)"
        using l JArr Cons unfolding n by (intro items_print) (auto simp: list_all_iff)
      moreover obtain u where "join '','' (map print js) = c # u" using Cons c by (cases js') auto
      ultimately show ?thesis unfolding n using c by (simp add: Let_def)
    qed
  qed
  then show ?case by (simp add: reads_def)
next
  case (JObj ms)
  have p: "print (JObj ms) = CHR ''{'' # join '','' (map print_member ms) @ ''}''"
    by (simp add: print_member_def [abs_def] case_prod_beta')
  have "parse_val n (print (JObj ms) @ r) = Some (JObj ms, r)" if l: "2 * length (print (JObj ms)) < n" for n r
  proof -
    obtain k where n: "n = Suc k" using l by (cases n) auto
    show ?thesis
    proof (cases ms)
      case Nil
      then show ?thesis unfolding n by (simp add: Let_def)
    next
      case (Cons m ms')
      have "parse_members k (join '','' (map print_member ms) @ CHR ''}'' # r) = Some (ms, r)"
        using l JObj Cons unfolding n p by (intro members_print) (fastforce simp: list_all_iff)+
      moreover obtain u where "join '','' (map print_member ms) = quote # u"
        using Cons by (cases ms') (auto simp: print_member_def print_str_def)
      moreover have "quote \<noteq> CHR ''}''" by (simp add: quote_def)
      ultimately show ?thesis unfolding n p by (simp add: Let_def)
    qed
  qed
  then show ?case by (simp add: reads_def)
qed (auto simp: reads_def parse_val_scalar parse_scalar_def literals_def has_prefix_def is_ws_def quote_def)

lemma parse_print: "wf_json j \<Longrightarrow> parse (print j) = Some j"
proof -
  assume "wf_json j"
  then have "parse_val (2 * length (print j) + 2) (print j @ []) = Some (j, [])"
    using print_reads [of j] unfolding reads_def by (metis ends_num_simps(4) add_2_eq_Suc' lessI less_SucI)
  then show ?thesis by (simp add: parse_def skip_ws_def del: parse_val.simps)
qed

section \<open>Structures\<close>

text \<open>
  \<^verbatim>\<open>json.Unmarshal\<close> fills a structure member by member: names match up to case, a later member wins, \<^verbatim>\<open>null\<close>
  leaves a field alone, a value of another type leaves it alone too and is reported at the end. The second
  component says that nothing was to report.
\<close>

definition lower_char :: "char \<Rightarrow> char" where
  "lower_char c = (let n = of_char c :: nat in if 65 \<le> n \<and> n \<le> 90 then char_of (n + 32) else c)"

definition same_name :: "string \<Rightarrow> string \<Rightarrow> bool" where
  "same_name a b \<longleftrightarrow> map lower_char a = map lower_char b"

definition decode_string :: "json \<Rightarrow> string \<times> bool \<Rightarrow> string \<times> bool" where
  "decode_string v acc = (case v of JStr s \<Rightarrow> (s, snd acc) | JNull \<Rightarrow> acc | _ \<Rightarrow> (fst acc, False))"

definition str_field :: "string \<Rightarrow> (string \<times> json) list \<Rightarrow> string \<times> bool" where
  "str_field name ms = fold (\<lambda>(k, v) acc. if same_name k name then decode_string v acc else acc) ms ([], True)"

text \<open>A string field with the option \<^verbatim>\<open>omitempty\<close>.\<close>

definition omit_empty :: "string \<Rightarrow> string \<Rightarrow> (string \<times> json) list" where
  "omit_empty name s = (if s = [] then [] else [(name, JStr s)])"

lemma str_field_append:
  "str_field name (xs @ ys) = fold (\<lambda>(k, v) acc. if same_name k name then decode_string v acc else acc) ys (str_field name xs)"
  by (simp add: str_field_def)

lemma str_field_Nil [simp]: "str_field name [] = ([], True)"
  by (simp add: str_field_def)

lemma str_field_omit [simp]:
  "str_field name (xs @ omit_empty n s) =
     (if s \<noteq> [] \<and> same_name n name then (s, snd (str_field name xs)) else str_field name xs)"
  by (simp add: str_field_append omit_empty_def decode_string_def)

lemma str_field_first [simp]:
  "str_field name (omit_empty n s) = (if s \<noteq> [] \<and> same_name n name then s else [], True)"
  using str_field_omit [of name "[]" n s] by simp

lemma wf_json_omit [simp]: "list_all (\<lambda>(_, v). wf_json v) (omit_empty n s)"
  by (simp add: omit_empty_def)

end
