(* ===== verification/PeerMap.thy ===== *)
theory PeerMap
  imports Json Disruption
begin

text \<open>
  The mapping of cluster and pool identifiers between mirrored clusters that Ceph CSI reads after a failover:
  \<^verbatim>\<open>pkg/operator/ceph/csi/peermap/config.go\<close>. The secrets of the peers, the token in them and the pools that
  Ceph reports are parameters. A nil map or slice and an empty one are not told apart; both are written as
  \<^verbatim>\<open>null\<close>, which is what the code writes for the slices it leaves nil.
\<close>

section \<open>Mappings\<close>

type_synonym strmap = "string gomap"

record PeerIDMapping =
  ClusterIDMapping :: strmap
  RBDPoolIDMapping :: "strmap list"

text \<open>\<^verbatim>\<open>reflect.DeepEqual\<close> on maps of strings.\<close>

definition same_map :: "strmap \<Rightarrow> strmap \<Rightarrow> bool" where
  "same_map a b \<longleftrightarrow> length a = length b \<and> list_all (\<lambda>(k, v). map_of b k = Some v) a"

definition clusterIDMapIndex :: "PeerIDMapping list \<Rightarrow> strmap \<Rightarrow> int" where
  "clusterIDMapIndex m newClusterIDMap =
     (let i = length (takeWhile (\<lambda>mapping. \<not> same_map (ClusterIDMapping mapping) newClusterIDMap) m)
      in if i < length m then int i else -1)"

definition addClusterIDMapping :: "strmap \<Rightarrow> PeerIDMapping list \<Rightarrow> PeerIDMapping list" where
  "addClusterIDMapping newClusterIDMap m =
     (if clusterIDMapIndex m newClusterIDMap = -1
      then m @ [\<lparr>ClusterIDMapping = newClusterIDMap, RBDPoolIDMapping = []\<rparr>] else m)"

definition addRBDPoolIDMapping :: "strmap \<Rightarrow> strmap \<Rightarrow> PeerIDMapping list \<Rightarrow> PeerIDMapping list" where
  "addRBDPoolIDMapping clusterIDMap newPoolIDMap m =
     map (\<lambda>mp. if same_map (ClusterIDMapping mp) clusterIDMap
               then mp\<lparr>RBDPoolIDMapping := RBDPoolIDMapping mp @ [newPoolIDMap]\<rparr> else mp) m"

definition getMapKV :: "strmap \<Rightarrow> string \<times> string" where
  "getMapKV input = (case input of [] \<Rightarrow> ([], []) | kv # _ \<Rightarrow> kv)"

text \<open>The inner loop over the pool mappings of one cluster mapping.\<close>

definition set_pool :: "string \<Rightarrow> string \<Rightarrow> strmap list \<Rightarrow> strmap list \<times> bool" where
  "set_pool peerPoolID localPoolID pools =
     (map (\<lambda>p. if map_of p peerPoolID \<noteq> None then put peerPoolID localPoolID p else p) pools,
      list_ex (\<lambda>p. map_of p peerPoolID \<noteq> None) pools)"

text \<open>The mapping given has at least one pool mapping, of which only the first is used when the cluster
  mapping exists.\<close>

definition updateRBDPoolIDMapping :: "PeerIDMapping \<Rightarrow> PeerIDMapping list \<Rightarrow> PeerIDMapping list" where
  "updateRBDPoolIDMapping newMappings m =
     (let newClusterIDMap = ClusterIDMapping newMappings;
          newPoolIDMap = hd (RBDPoolIDMapping newMappings);
          (peerPoolID, localPoolID) = getMapKV newPoolIDMap
      in if m = [] then [newMappings]
         else if list_ex (\<lambda>mp. same_map (ClusterIDMapping mp) newClusterIDMap) m
         then map (\<lambda>mp. if same_map (ClusterIDMapping mp) newClusterIDMap
                        then (case set_pool peerPoolID localPoolID (RBDPoolIDMapping mp) of
                                (pools, updated) \<Rightarrow>
                                  mp\<lparr>RBDPoolIDMapping := (if updated then pools else pools @ [newPoolIDMap])\<rparr>)
                        else mp) m
         else m @ [newMappings])"

definition merge_mappings :: "PeerIDMapping list \<Rightarrow> PeerIDMapping list \<Rightarrow> PeerIDMapping list" where
  "merge_mappings newMappings existing =
     fold (\<lambda>mapping m. if RBDPoolIDMapping mapping = [] then m else updateRBDPoolIDMapping mapping m) newMappings existing"

section \<open>Text\<close>

definition strmap_json :: "strmap \<Rightarrow> json" where
  "strmap_json m = (if m = [] then JNull else JObj (map (\<lambda>(k, v). (k, JStr v)) (sort_key fst m)))"

definition mapping_json :: "PeerIDMapping \<Rightarrow> json" where
  "mapping_json mp = JObj [(''ClusterIDMapping'', strmap_json (ClusterIDMapping mp)),
     (''RBDPoolIDMapping'', if RBDPoolIDMapping mp = [] then JNull else JArr (map strmap_json (RBDPoolIDMapping mp)))]"

definition mappings_String :: "PeerIDMapping list \<Rightarrow> string" where
  "mappings_String m = print (JArr (map mapping_json m))"

definition decode_str_member :: "string \<times> json \<Rightarrow> strmap option \<Rightarrow> strmap option" where
  "decode_str_member kv acc =
     (case acc of
        None \<Rightarrow> None
      | Some m \<Rightarrow> (case snd kv of JStr s \<Rightarrow> Some (put (fst kv) s m) | JNull \<Rightarrow> Some (put (fst kv) [] m) | _ \<Rightarrow> None))"

fun decode_strmap :: "json \<Rightarrow> strmap \<Rightarrow> strmap option" where
  "decode_strmap JNull m = Some []"
| "decode_strmap (JObj ms) m = fold decode_str_member ms (Some m)"
| "decode_strmap _ m = None"

fun decode_pools :: "json \<Rightarrow> strmap list option" where
  "decode_pools JNull = Some []"
| "decode_pools (JArr js) =
     foldr (\<lambda>j acc. case (decode_strmap j [], acc) of (Some p, Some ps) \<Rightarrow> Some (p # ps) | _ \<Rightarrow> None) js (Some [])"
| "decode_pools _ = None"

definition decode_member :: "string \<times> json \<Rightarrow> PeerIDMapping option \<Rightarrow> PeerIDMapping option" where
  "decode_member kv acc =
     (case acc of
        None \<Rightarrow> None
      | Some mp \<Rightarrow>
          if same_name (fst kv) ''ClusterIDMapping''
          then map_option (\<lambda>m. mp\<lparr>ClusterIDMapping := m\<rparr>) (decode_strmap (snd kv) (ClusterIDMapping mp))
          else if same_name (fst kv) ''RBDPoolIDMapping''
          then map_option (\<lambda>ps. mp\<lparr>RBDPoolIDMapping := ps\<rparr>) (decode_pools (snd kv))
          else Some mp)"

fun decode_mapping :: "json \<Rightarrow> PeerIDMapping option" where
  "decode_mapping JNull = Some \<lparr>ClusterIDMapping = [], RBDPoolIDMapping = []\<rparr>"
| "decode_mapping (JObj ms) = fold decode_member ms (Some \<lparr>ClusterIDMapping = [], RBDPoolIDMapping = []\<rparr>)"
| "decode_mapping _ = None"

definition toObj :: "string \<Rightarrow> PeerIDMapping list res" where
  "toObj text =
     (case parse text of
        Some JNull \<Rightarrow> Inr []
      | Some (JArr js) \<Rightarrow>
          (case foldr (\<lambda>j acc. case (decode_mapping j, acc) of (Some m, Some ms) \<Rightarrow> Some (m # ms) | _ \<Rightarrow> None) js (Some []) of
             Some ms \<Rightarrow> Inr ms
           | None \<Rightarrow> Inl (Errorf ''failed to unmarshal peer cluster mapping config''))
      | _ \<Rightarrow> Inl (Errorf ''failed to unmarshal peer cluster mapping config''))"

definition UpdateExistingData :: "PeerIDMapping list \<Rightarrow> PeerIDMapping list \<Rightarrow> string" where
  "UpdateExistingData existingMappings newMappings = mappings_String (merge_mappings newMappings existingMappings)"

section \<open>The config map\<close>

definition mappingConfigName :: string where "mappingConfigName = ''rook-ceph-csi-mapping-config''"
definition mappingConfigkey :: string where "mappingConfigkey = ''csi-mapping-config-json''"

text \<open>The owner reference of the operator, of which only the errors matter here, is a parameter.\<close>

definition createConfig :: "(ConfigMap, 'c) kube \<Rightarrow> err option \<Rightarrow> key \<Rightarrow> string \<Rightarrow> 'c \<Rightarrow> err option \<times> 'c" where
  "createConfig api owner_error request data w =
     (case owner_error of
        Some e \<Rightarrow> (Some (Wrap ''failed to set owner reference on configMap'' e), w)
      | None \<Rightarrow>
          (case kcreate api request \<lparr>Data = [mappingConfigkey \<mapsto> data]\<rparr> w of
             (Some e, w') \<Rightarrow> (Some (Wrap ''failed to create mapping configMap'' e), w') | (None, w') \<Rightarrow> (None, w')))"

definition CreateOrUpdateConfig ::
  "(ConfigMap, 'c) kube \<Rightarrow> err option \<Rightarrow> string \<Rightarrow> PeerIDMapping list \<Rightarrow> 'c \<Rightarrow> err option \<times> 'c" where
  "CreateOrUpdateConfig api owner_error opNamespace mappings w =
     (let data = mappings_String mappings; request = (opNamespace, mappingConfigName)
      in case kget api request w of
           (Inl e, w1) \<Rightarrow>
             (if IsNotFound e then createConfig api owner_error request data w1
              else (Some (Wrap ''failed to get existing mapping config map'' e), w1))
         | (Inr cm, w1) \<Rightarrow>
             (let existing = mget (Data cm) mappingConfigkey;
                  updated = (if existing = ''[]'' then Inr data
                             else case toObj existing of
                                    Inl e \<Rightarrow> Inl (Wrap ''failed to extract existing mapping data from the config map'' e)
                                  | Inr existingMappings \<Rightarrow> Inr (UpdateExistingData existingMappings mappings))
              in case updated of
                   Inl e \<Rightarrow> (Some e, w1)
                 | Inr text \<Rightarrow>
                     (case kupdate api request (cm\<lparr>Data := (Data cm)(mappingConfigkey \<mapsto> text)\<rparr>) w1 of
                        (Some e, w2) \<Rightarrow> (Some (Wrap ''failed to update existing mapping config map'' e), w2)
                      | (None, w2) \<Rightarrow> (None, w2))))"

text \<open>For each secret of a peer: the namespace in its token and the number of the pool in the peer cluster.\<close>

fun peer_loop :: "(string \<Rightarrow> string res) \<Rightarrow> (string \<Rightarrow> int res) \<Rightarrow> string \<Rightarrow> int \<Rightarrow> string list \<Rightarrow> PeerIDMapping list \<Rightarrow> PeerIDMapping list res" where
  "peer_loop token_namespace peer_pool namespace localPool [] mappings = Inr mappings"
| "peer_loop token_namespace peer_pool namespace localPool (s # secrets) mappings =
     (case token_namespace s of
        Inl e \<Rightarrow> Inl e
      | Inr peerNamespace \<Rightarrow>
          (let clusterIDMapping = [(peerNamespace, namespace)];
               mappings1 = addClusterIDMapping clusterIDMapping mappings
           in case peer_pool s of
                Inl e \<Rightarrow> Inl (Wrap ''failed to get pool details from peer cluster'' e)
              | Inr n \<Rightarrow>
                  peer_loop token_namespace peer_pool namespace localPool secrets
                    (addRBDPoolIDMapping clusterIDMapping [(Itoa n, Itoa localPool)] mappings1)))"

definition getClusterPoolIDMap ::
  "int res \<Rightarrow> (string \<Rightarrow> string res) \<Rightarrow> (string \<Rightarrow> int res) \<Rightarrow> string \<Rightarrow> string list \<Rightarrow> PeerIDMapping list res" where
  "getClusterPoolIDMap local_pool token_namespace peer_pool namespace secretNames =
     (case local_pool of
        Inl e \<Rightarrow> Inl (Wrap ''failed to get details for the pool'' e)
      | Inr n \<Rightarrow> peer_loop token_namespace peer_pool namespace n secretNames [])"

definition ReconcilePoolIDMap ::
  "(ConfigMap, 'c) kube \<Rightarrow> err option \<Rightarrow> string \<Rightarrow> int res \<Rightarrow> (string \<Rightarrow> string res) \<Rightarrow> (string \<Rightarrow> int res) \<Rightarrow> string \<Rightarrow>
   string list option \<Rightarrow> 'c \<Rightarrow> err option \<times> 'c" where
  "ReconcilePoolIDMap api owner_error opNamespace local_pool token_namespace peer_pool namespace peers w =
     (case peers of
        None \<Rightarrow> (None, w)
      | Some secretNames \<Rightarrow>
          (case getClusterPoolIDMap local_pool token_namespace peer_pool namespace secretNames of
             Inl e \<Rightarrow> (Some (Wrap ''failed to get peer pool ID mappings for the pool'' e), w)
           | Inr mappings \<Rightarrow>
               (case CreateOrUpdateConfig api owner_error opNamespace mappings w of
                  (Some e, w') \<Rightarrow> (Some (Wrap ''failed to create or update peer pool ID mappings configMap'' e), w')
                | (None, w') \<Rightarrow> (None, w'))))"

text \<open>A stored mapping, and two peers whose clusters have the same namespace.\<close>

definition ref_peer_map :: "ConfigMap server" where
  "ref_peer_map = \<lparr>objs = [((''op'', mappingConfigName), \<lparr>Data = [mappingConfigkey \<mapsto>
     mappings_String [\<lparr>ClusterIDMapping = [(''peer'', ''rook-ceph'')], RBDPoolIDMapping = [[(''1'', ''2'')]]\<rparr>]]\<rparr>)], faults = []\<rparr>"

definition ref_peers :: "PeerIDMapping list res" where
  "ref_peers = getClusterPoolIDMap (Inr 3) (\<lambda>s. Inr ''rook-ceph'') (\<lambda>s. Inr (if s = ''first'' then 1 else 2)) ''rook-ceph''
     [''first'', ''second'']"

section \<open>Reading back\<close>

definition wf_mapping :: "PeerIDMapping \<Rightarrow> bool" where
  "wf_mapping mp \<longleftrightarrow> wf_map (ClusterIDMapping mp) \<and> list_all wf_map (RBDPoolIDMapping mp)"

text \<open>The order of the keys is the one thing the text changes.\<close>

definition sorted_mapping :: "PeerIDMapping \<Rightarrow> PeerIDMapping" where
  "sorted_mapping mp = \<lparr>ClusterIDMapping = sort_key fst (ClusterIDMapping mp), RBDPoolIDMapping = map (sort_key fst) (RBDPoolIDMapping mp)\<rparr>"

lemma wf_strmap_json [simp]: "wf_json (strmap_json m)"
  by (auto simp: strmap_json_def list_all_iff)

lemma decode_strings:
  "fold decode_str_member (map (\<lambda>(k, v). (k, JStr v)) m) (Some acc) = Some (fold (\<lambda>(k, v). put k v) m acc)"
  by (induction m arbitrary: acc) (auto simp: decode_str_member_def)

lemma decode_strmap_json: "wf_map m \<Longrightarrow> decode_strmap (strmap_json m) [] = Some (sort_key fst m)"
  using fold_put [OF wf_map_sort, of m "[]"] by (simp add: strmap_json_def decode_strings keys_def)

lemma decode_pools_json:
  "list_all wf_map ps \<Longrightarrow> decode_pools (if ps = [] then JNull else JArr (map strmap_json ps)) = Some (map (sort_key fst) ps)"
proof -
  have "foldr (\<lambda>j acc. case (decode_strmap j [], acc) of (Some p, Some ps) \<Rightarrow> Some (p # ps) | _ \<Rightarrow> None)
      (map strmap_json ps) (Some []) = Some (map (sort_key fst) ps)" if "list_all wf_map ps"
    using that by (induction ps) (simp_all add: decode_strmap_json)
  then show "list_all wf_map ps \<Longrightarrow> ?thesis" by simp
qed

lemma decode_mapping_json: "wf_mapping mp \<Longrightarrow> decode_mapping (mapping_json mp) = Some (sorted_mapping mp)"
  using decode_pools_json [of "RBDPoolIDMapping mp"]
  by (auto simp: mapping_json_def decode_member_def same_name_def lower_char_def decode_strmap_json wf_mapping_def sorted_mapping_def)

lemma toObj_String: "list_all wf_mapping ms \<Longrightarrow> toObj (mappings_String ms) = Inr (map sorted_mapping ms)"
proof -
  assume w: "list_all wf_mapping ms"
  have "wf_json (JArr (map mapping_json ms))" by (auto simp: list_all_iff mapping_json_def)
  then have "parse (mappings_String ms) = Some (JArr (map mapping_json ms))"
    unfolding mappings_String_def by (rule parse_print)
  moreover have "foldr (\<lambda>j acc. case (decode_mapping j, acc) of (Some m, Some ms) \<Rightarrow> Some (m # ms) | _ \<Rightarrow> None)
      (map mapping_json ms) (Some []) = Some (map sorted_mapping ms)"
    using w by (induction ms) (simp_all add: decode_mapping_json)
  ultimately show ?thesis by (simp add: toObj_def)
qed

interpretation peer_text: codec mappings_String "\<lambda>t. case toObj t of Inl _ \<Rightarrow> None | Inr m \<Rightarrow> Some m" "map sorted_mapping" "list_all wf_mapping"
  by unfold_locales (simp add: toObj_String)

section \<open>What an update maps\<close>

text \<open>A pool of the peer cluster mapped to a local pool, for a pair of clusters.\<close>

definition maps_to :: "PeerIDMapping list \<Rightarrow> strmap \<Rightarrow> string \<Rightarrow> string \<Rightarrow> bool" where
  "maps_to m c p l \<longleftrightarrow>
     (\<exists>mp \<in> set m. map_of (ClusterIDMapping mp) = map_of c \<and> (\<exists>pm \<in> set (RBDPoolIDMapping mp). map_of pm p = Some l))"

lemma same_map_iff: "wf_map a \<Longrightarrow> wf_map b \<Longrightarrow> same_map a b \<longleftrightarrow> map_of a = map_of b"
proof
  assume w: "wf_map a" "wf_map b" and s: "same_map a b"
  then have sub: "map_of b k = Some v" if "map_of a k = Some v" for k v
    using that by (fastforce simp: same_map_def list_all_iff dest: map_of_SomeD)
  then have "set (keys a) \<subseteq> set (keys b)" by (auto simp: keys_map_of)
  moreover have "card (set (keys a)) = card (set (keys b))" using w s by (simp add: card_keys same_map_def)
  ultimately have "set (keys a) = set (keys b)" by (simp add: card_subset_eq)
  then have "map_of a k = None \<longleftrightarrow> map_of b k = None" for k by (metis keys_map_of)
  then show "map_of a = map_of b" using sub by (metis ext not_None_eq)
next
  assume w: "wf_map a" "wf_map b" and m: "map_of a = map_of b"
  have "length a = length b" using card_keys [OF w(1)] card_keys [OF w(2)] m
    by (metis dom_map_of_conv_image_fst keys_def list.set_map)
  then show "same_map a b" using w m by (auto simp: same_map_def list_all_iff simp flip: map_of_mem m)
qed

lemma maps_to_sorted: "list_all wf_mapping m \<Longrightarrow> maps_to (map sorted_mapping m) c p l \<longleftrightarrow> maps_to m c p l"
  by (auto simp: maps_to_def sorted_mapping_def wf_mapping_def list_all_iff map_of_sort)

text \<open>A mapping as \<open>getClusterPoolIDMap\<close> builds it for one peer.\<close>

definition single :: "strmap \<Rightarrow> string \<Rightarrow> string \<Rightarrow> PeerIDMapping" where
  "single c p l = \<lparr>ClusterIDMapping = c, RBDPoolIDMapping = [[(p, l)]]\<rparr>"

lemma set_pool_maps:
  "snd (set_pool p l pools) \<longleftrightarrow> (\<exists>pm \<in> set pools. map_of pm p \<noteq> None)"
  "(\<exists>pm \<in> set (fst (set_pool p l pools)). map_of pm q = Some x) \<longleftrightarrow>
     (if q = p then x = l \<and> snd (set_pool p l pools) else \<exists>pm \<in> set pools. map_of pm q = Some x)"
proof -
  show s: "snd (set_pool p l pools) \<longleftrightarrow> (\<exists>pm \<in> set pools. map_of pm p \<noteq> None)" by (simp add: set_pool_def list_ex_iff)
  have "(\<exists>pm \<in> set (fst (set_pool p l pools)). map_of pm q = Some x) \<longleftrightarrow>
      (\<exists>pm \<in> set pools. map_of (if map_of pm p \<noteq> None then put p l pm else pm) q = Some x)"
    unfolding set_pool_def fst_conv set_map bex_simps ..
  also have "\<dots> \<longleftrightarrow> (if q = p then x = l \<and> snd (set_pool p l pools) else \<exists>pm \<in> set pools. map_of pm q = Some x)"
    unfolding s by (cases "q = p") (auto split: if_splits)
  finally show "(\<exists>pm \<in> set (fst (set_pool p l pools)). map_of pm q = Some x) \<longleftrightarrow>
      (if q = p then x = l \<and> snd (set_pool p l pools) else \<exists>pm \<in> set pools. map_of pm q = Some x)" .
qed

text \<open>The update as a function on one mapping.\<close>

definition set_in :: "strmap \<Rightarrow> string \<Rightarrow> string \<Rightarrow> PeerIDMapping \<Rightarrow> PeerIDMapping" where
  "set_in c p l mp =
     (if same_map (ClusterIDMapping mp) c
      then mp\<lparr>RBDPoolIDMapping := (if snd (set_pool p l (RBDPoolIDMapping mp)) then fst (set_pool p l (RBDPoolIDMapping mp))
                else fst (set_pool p l (RBDPoolIDMapping mp)) @ [[(p, l)]])\<rparr> else mp)"

lemma update_single:
  "updateRBDPoolIDMapping (single c p l) m =
     (if list_ex (\<lambda>mp. same_map (ClusterIDMapping mp) c) m then map (set_in c p l) m else m @ [single c p l])"
  by (auto simp: updateRBDPoolIDMapping_def single_def getMapKV_def set_in_def Let_def fun_eq_iff split: prod.splits intro!: map_cong)

lemma set_in_cluster [simp]: "ClusterIDMapping (set_in c p l mp) = ClusterIDMapping mp"
  by (simp add: set_in_def)

lemma set_in_pools:
  "(\<exists>pm \<in> set (RBDPoolIDMapping (set_in c p l mp)). map_of pm q = Some x) \<longleftrightarrow>
     (if same_map (ClusterIDMapping mp) c \<and> q = p then x = l
      else \<exists>pm \<in> set (RBDPoolIDMapping mp). map_of pm q = Some x)"
  using set_pool_maps(2) [of p l "RBDPoolIDMapping mp" q x] by (auto simp: set_in_def split: if_splits)

lemma wf_set_in: "wf_mapping mp \<Longrightarrow> wf_mapping (set_in c p l mp)"
  by (auto simp: wf_mapping_def set_in_def set_pool_def list_all_iff wf_map_def [of "[_]"] keys_def)

lemma wf_update: "list_all wf_mapping m \<Longrightarrow> wf_map c \<Longrightarrow> list_all wf_mapping (updateRBDPoolIDMapping (single c p l) m)"
  by (auto simp: update_single list_all_iff wf_set_in) (auto simp: single_def wf_mapping_def wf_map_def keys_def)

lemma update_maps:
  assumes "list_all wf_mapping m" "wf_map c"
  shows "maps_to (updateRBDPoolIDMapping (single c p l) m) d q x \<longleftrightarrow>
    (if map_of d = map_of c \<and> q = p then x = l else maps_to m d q x)"
proof -
  have s: "same_map (ClusterIDMapping mp) c \<longleftrightarrow> map_of (ClusterIDMapping mp) = map_of c" if "mp \<in> set m" for mp
    using assms that by (intro same_map_iff) (auto simp: list_all_iff wf_mapping_def)
  show ?thesis
  proof (cases "list_ex (\<lambda>mp. same_map (ClusterIDMapping mp) c) m")
    case True
    then obtain mp where mp: "mp \<in> set m" "map_of (ClusterIDMapping mp) = map_of c" using s by (auto simp: list_ex_iff)
    have "maps_to (updateRBDPoolIDMapping (single c p l) m) d q x \<longleftrightarrow>
      (\<exists>mp \<in> set m. map_of (ClusterIDMapping mp) = map_of d \<and>
        (if map_of (ClusterIDMapping mp) = map_of c \<and> q = p then x = l
         else \<exists>pm \<in> set (RBDPoolIDMapping mp). map_of pm q = Some x))"
      using True s by (auto simp: update_single maps_to_def set_in_pools)
    also have "\<dots> \<longleftrightarrow> (if map_of d = map_of c \<and> q = p then x = l else maps_to m d q x)"
      using mp by (cases "map_of d = map_of c \<and> q = p") (auto simp: maps_to_def cong: conj_cong)
    finally show ?thesis .
  next
    case False
    then have "\<not> maps_to m c q x" for q x using s by (auto simp: list_ex_iff maps_to_def)
    then have n: "\<not> maps_to m d q x" if "map_of d = map_of c" using that by (simp add: maps_to_def)
    have "maps_to (updateRBDPoolIDMapping (single c p l) m) d q x \<longleftrightarrow>
        maps_to m d q x \<or> map_of d = map_of c \<and> q = p \<and> x = l"
      using False by (auto simp: update_single) (auto simp: maps_to_def single_def split: if_splits)
    then show ?thesis using n by auto
  qed
qed

text \<open>C30. After a successful update of the config map with the mapping of a pool to its peer, the stored text reads
  as mappings in which exactly that local pool is mapped to the pool of the peer for this pair of clusters,
  whatever was mapped before; every other pool and every other pair of clusters is mapped as before.\<close>

theorem peer_mapping_stored:
  assumes "kube_api api store" and "CreateOrUpdateConfig api owner_error ns [single c p l] w = (None, w')"
    and "store w (ns, mappingConfigName) = Some cm" and "toObj (mget (Data cm) mappingConfigkey) = Inr old"
    and "list_all wf_mapping old" and "wf_map c" and "mget (Data cm) mappingConfigkey \<noteq> ''[]''"
  shows "\<exists>cm' new. store w' (ns, mappingConfigName) = Some cm' \<and> toObj (mget (Data cm') mappingConfigkey) = Inr new \<and>
    (\<forall>d q x. maps_to new d q x = (if map_of d = map_of c \<and> q = p then x = l else maps_to old d q x))"
proof -
  let ?k = "(ns, mappingConfigName)"
  let ?new = "updateRBDPoolIDMapping (single c p l) old"
  let ?cm = "cm\<lparr>Data := (Data cm)(mappingConfigkey \<mapsto> mappings_String ?new)\<rparr>"
  obtain g w1 where g: "kget api ?k w = (g, w1)" by fastforce
  have "\<not> IsNotFound e" if "g = Inl e" for e
    using kube_api.get_not_found [OF assms(1), of ?k w e w1] g that assms(3) by auto
  then have "g = Inr cm" using assms(2,3) g kube_api.get_ok [OF assms(1), of ?k w _ w1]
    by (cases g) (auto simp: CreateOrUpdateConfig_def Let_def)
  moreover have "merge_mappings [single c p l] old = ?new" by (simp add: merge_mappings_def single_def)
  ultimately have "kupdate api ?k ?cm w1 = (None, w')"
    using assms(2,4,7) g by (auto simp: CreateOrUpdateConfig_def UpdateExistingData_def Let_def split: prod.splits option.splits)
  then have "store w' ?k = Some ?cm" using kube_api.update_ok [OF assms(1)] by fastforce
  moreover have "toObj (mget (Data ?cm) mappingConfigkey) = Inr (map sorted_mapping ?new)"
    using wf_update [OF assms(5,6), of p l] by (simp add: toObj_String)
  ultimately show ?thesis
    using update_maps [OF assms(5,6)] maps_to_sorted [OF wf_update [OF assms(5,6)]] by (intro exI conjI) auto
qed

theorem peer_mapping_stored_witness:
  "\<exists>cm' new. server_store (snd (CreateOrUpdateConfig server_api None ''op'' [single [(''peer'', ''rook-ceph'')] ''1'' ''5''] ref_peer_map))
      (''op'', mappingConfigName) = Some cm' \<and> toObj (mget (Data cm') mappingConfigkey) = Inr new \<and>
    maps_to new [(''peer'', ''rook-ceph'')] ''1'' ''5'' \<and> \<not> maps_to new [(''peer'', ''rook-ceph'')] ''1'' ''2''"
proof -
  let ?c = "[(''peer'', ''rook-ceph'')]"
  let ?old = "\<lparr>ClusterIDMapping = ?c, RBDPoolIDMapping = [[(''1'', ''2'')]]\<rparr>"
  let ?cm = "\<lparr>Data = [mappingConfigkey \<mapsto> mappings_String [?old]]\<rparr>"
  let ?r = "CreateOrUpdateConfig server_api None ''op'' [single ?c ''1'' ''5''] ref_peer_map"
  have "fst ?r = None" by code_simp
  then have r: "?r = (None, snd ?r)" by (metis prod.collapse)
  have s: "server_store ref_peer_map (''op'', mappingConfigName) = Some ?cm" by (simp add: ref_peer_map_def server_store_def)
  have w: "list_all wf_mapping [?old]" by (simp add: wf_mapping_def wf_map_def keys_def)
  have t: "toObj (mget (Data ?cm) mappingConfigkey) = Inr [?old]" using toObj_String [OF w] by (simp add: sorted_mapping_def)
  have n: "mget (Data ?cm) mappingConfigkey \<noteq> ''[]''" by code_simp
  from peer_mapping_stored [OF memory.kube_api_axioms r s t w _ n]
  show ?thesis by (fastforce simp: wf_map_def keys_def)
qed

text \<open>Two peers whose clusters have the same namespace get one cluster mapping with two pool mappings, of which the merge into
  mappings that have the cluster mapping uses the first only: whatever other pool mappings the new entry has, the merged
  mappings are the existing ones with the first pool, so the pool of the second peer stays as it was.\<close>

theorem second_peer_dropped:
  assumes "list_all wf_mapping m" and "wf_map c" and "\<exists>mp \<in> set m. map_of (ClusterIDMapping mp) = map_of c"
  shows "maps_to (merge_mappings [\<lparr>ClusterIDMapping = c, RBDPoolIDMapping = [(p, l)] # rest\<rparr>] m) d q x \<longleftrightarrow>
    (if map_of d = map_of c \<and> q = p then x = l else maps_to m d q x)"
proof -
  have "list_ex (\<lambda>mp. same_map (ClusterIDMapping mp) c) m" "m \<noteq> []"
    using assms same_map_iff by (auto simp: list_ex_iff list_all_iff wf_mapping_def)
  then have "merge_mappings [\<lparr>ClusterIDMapping = c, RBDPoolIDMapping = [(p, l)] # rest\<rparr>] m = updateRBDPoolIDMapping (single c p l) m"
    by (simp add: merge_mappings_def updateRBDPoolIDMapping_def single_def getMapKV_def)
  then show ?thesis using update_maps [OF assms(1,2)] by simp
qed

text \<open>The pool of the first peer is mapped; the two peers are read again after the second was added.\<close>

theorem second_peer_dropped_witness:
  "\<exists>new. ref_peers = Inr new \<and> maps_to new [(''rook-ceph'', ''rook-ceph'')] ''2'' ''3'' \<and>
     \<not> maps_to (merge_mappings new [single [(''rook-ceph'', ''rook-ceph'')] ''1'' ''3'']) [(''rook-ceph'', ''rook-ceph'')] ''2'' ''3''"
proof -
  let ?c = "[(''rook-ceph'', ''rook-ceph'')]"
  let ?new = "[\<lparr>ClusterIDMapping = ?c, RBDPoolIDMapping = [[(''1'', ''3'')], [(''2'', ''3'')]]\<rparr>]"
  have r: "ref_peers = Inr ?new" by code_simp
  have n: "maps_to ?new ?c ''2'' ''3''" "\<not> maps_to [single ?c ''1'' ''3''] ?c ''2'' ''3''" by (simp_all add: maps_to_def single_def)
  have w: "list_all wf_mapping [single ?c ''1'' ''3'']" "wf_map ?c" "\<exists>mp \<in> set [single ?c ''1'' ''3'']. map_of (ClusterIDMapping mp) = map_of ?c"
    by (simp_all add: wf_mapping_def wf_map_def keys_def single_def)
  have "\<not> maps_to (merge_mappings ?new [single ?c ''1'' ''3'']) ?c ''2'' ''3''"
    using second_peer_dropped [OF w, of "''1''" "''3''" "[[(''2'', ''3'')]]" ?c "''2''" "''3''"] n(2) by simp
  with r n(1) show ?thesis by blast
qed

end
