(* ===== verification/MonInfo.thy ===== *)
theory MonInfo
  imports Names Topology Json
begin

text \<open>
  What the operator knows of the monitors: their endpoints, the status that Ceph reports, the nodes they are
  scheduled on, and the text these are stored as. Sources: \<^verbatim>\<open>info.go\<close> and \<^verbatim>\<open>mon.go\<close> of \<^verbatim>\<open>pkg/daemon/ceph/client\<close>,
  \<^verbatim>\<open>pkg/daemon/ceph/util/util.go\<close>, \<^verbatim>\<open>endpoint.go\<close>, \<^verbatim>\<open>util.go\<close>, \<^verbatim>\<open>node.go\<close> and \<^verbatim>\<open>predicate.go\<close> of
  \<^verbatim>\<open>pkg/operator/ceph/cluster/mon\<close>, and the types and the parser of endpoints of
  \<^verbatim>\<open>pkg/operator/ceph/controller/cluster_info.go\<close>. The functions of Go's \<^verbatim>\<open>net\<close> that split and join host and
  port are written out.
\<close>

section \<open>Host and port\<close>

definition last_index :: "char \<Rightarrow> string \<Rightarrow> nat option" where
  "last_index c s = (if c \<in> set s then Some (length s - 1 - length (takeWhile (\<lambda>x. x \<noteq> c) (rev s))) else None)"

definition first_index :: "char \<Rightarrow> string \<Rightarrow> nat option" where
  "first_index c s = (if c \<in> set s then Some (length (takeWhile (\<lambda>x. x \<noteq> c) s)) else None)"

text \<open>\<^verbatim>\<open>net.SplitHostPort\<close>: both parts are empty next to an error.\<close>

definition SplitHostPort :: "string \<Rightarrow> (string \<times> string) res" where
  "SplitHostPort hostport =
     (case last_index CHR '':'' hostport of
        None \<Rightarrow> Inl (Errorf ''missing port in address'')
      | Some i \<Rightarrow>
          (let finish = (\<lambda>host j k.
                 if CHR ''['' \<in> set (drop j hostport) then Inl (Errorf ''unexpected '' )
                 else if CHR '']'' \<in> set (drop k hostport) then Inl (Errorf ''unexpected '')
                 else Inr (host, drop (Suc i) hostport))
           in if hd hostport = CHR ''[''
              then (case first_index CHR '']'' hostport of
                      None \<Rightarrow> Inl (Errorf ''missing ] in address'')
                    | Some e \<Rightarrow>
                        if Suc e = length hostport then Inl (Errorf ''missing port in address'')
                        else if Suc e = i then finish (drop 1 (take e hostport)) 1 (Suc e)
                        else if hostport ! Suc e = CHR '':'' then Inl (Errorf ''too many colons in address'')
                        else Inl (Errorf ''missing port in address''))
              else if CHR '':'' \<in> set (take i hostport) then Inl (Errorf ''too many colons in address'')
              else finish (take i hostport) 0 0))"

definition JoinHostPort :: "string \<Rightarrow> string \<Rightarrow> string" where
  "JoinHostPort host port =
     (if CHR '':'' \<in> set host then ''['' @ host @ '']:'' @ port else host @ '':'' @ port)"

text \<open>\<^verbatim>\<open>strconv.ParseInt\<close> with 32 bits: 0 for a malformed number, the nearest value for one out of range.\<close>

definition ParseInt32 :: "string \<Rightarrow> int" where
  "ParseInt32 s =
     (let (neg, body) = split_sign s
      in case parse_digits body of
           None \<Rightarrow> 0
         | Some v \<Rightarrow> (if neg then max (- (2 ^ 31)) (- v) else min (2 ^ 31 - 1) v))"

definition GetIPFromEndpoint :: "string \<Rightarrow> string" where
  "GetIPFromEndpoint endpoint = (case SplitHostPort endpoint of Inl _ \<Rightarrow> [] | Inr (host, _) \<Rightarrow> host)"

definition GetPortFromEndpoint :: "string \<Rightarrow> int" where
  "GetPortFromEndpoint endpoint = (case SplitHostPort endpoint of Inl _ \<Rightarrow> 0 | Inr (_, port) \<Rightarrow> ParseInt32 port)"

section \<open>Monitors and the status of the quorum\<close>

record MonInfo =
  MiName :: string
  Endpoint :: string
  OutOfQuorum :: bool

definition NewMonInfo :: "string \<Rightarrow> string \<Rightarrow> int \<Rightarrow> MonInfo" where
  "NewMonInfo name ip port = \<lparr>MiName = name, Endpoint = JoinHostPort ip (Itoa port), OutOfQuorum = False\<rparr>"

definition AllMonitors :: "MonInfo gomap \<Rightarrow> MonInfo gomap \<Rightarrow> MonInfo gomap" where
  "AllMonitors internal external =
     (if external = [] then internal else fold (\<lambda>(k, v). put k v) external (fold (\<lambda>(k, v). put k v) internal []))"

record MonMapEntry =
  MeName :: string
  Rank :: int
  PublicAddr :: string

record MonStatusResponse =
  Quorum :: "int list"
  Mons :: "MonMapEntry list"

definition monInQuorum :: "MonMapEntry \<Rightarrow> int list \<Rightarrow> bool" where
  "monInQuorum monitor quorum \<longleftrightarrow> Rank monitor \<in> set quorum"

definition getMonByID :: "string \<Rightarrow> MonStatusResponse \<Rightarrow> MonMapEntry \<times> bool" where
  "getMonByID monID monMap =
     (case find (\<lambda>m. MeName m = monID) (Mons monMap) of
        None \<Rightarrow> (\<lparr>MeName = [], Rank = 0, PublicAddr = []\<rparr>, False)
      | Some m \<Rightarrow> (m, Rank m \<in> set (Quorum monMap)))"

definition monFoundInQuorum :: "string \<Rightarrow> MonStatusResponse \<Rightarrow> bool" where
  "monFoundInQuorum name resp =
     (case find (\<lambda>m. MeName m = name) (Mons resp) of
        None \<Rightarrow> False
      | Some m \<Rightarrow> Rank m \<in> set (Quorum resp))"

definition removeMonsFromQuorumStatusResponse :: "MonStatusResponse \<Rightarrow> string list \<Rightarrow> MonStatusResponse" where
  "removeMonsFromQuorumStatusResponse quorumStatus idsToRemove =
     (let removeFromQuorum = map Rank (filter (\<lambda>m. MeName m \<in> set idsToRemove) (Mons quorumStatus))
      in quorumStatus\<lparr>Mons := filter (\<lambda>m. MeName m \<notin> set idsToRemove) (Mons quorumStatus),
           Quorum := filter (\<lambda>rank. rank \<notin> set removeFromQuorum) (Quorum quorumStatus)\<rparr>)"

definition Msgr2port :: int where "Msgr2port = 3300"

text \<open>The second argument is \<^verbatim>\<open>RequireMsgr2\<close> of the cluster.\<close>

definition monStatusToInfo :: "MonMapEntry \<Rightarrow> bool \<Rightarrow> MonInfo" where
  "monStatusToInfo mon requireMsgr2 =
     (let endpoint = hd (split_on CHR ''/'' (PublicAddr mon));
          monIP = GetIPFromEndpoint endpoint;
          monPort = (if requireMsgr2 then Msgr2port else GetPortFromEndpoint endpoint)
      in NewMonInfo (MeName mon) monIP monPort)"

section \<open>Endpoints as text\<close>

definition flattenMonEndpoints :: "MonInfo gomap \<Rightarrow> string" where
  "flattenMonEndpoints mons = join '','' (map (\<lambda>(_, m). MiName m @ ''='' @ Endpoint m) mons)"

definition parse_mon :: "string \<Rightarrow> MonInfo gomap \<Rightarrow> MonInfo gomap" where
  "parse_mon rawMon mons =
     (case split_on CHR ''='' rawMon of
        [name, endpoint] \<Rightarrow> put name \<lparr>MiName = name, Endpoint = endpoint, OutOfQuorum = False\<rparr> mons
      | _ \<Rightarrow> mons)"

definition ParseMonEndpoints :: "string \<Rightarrow> MonInfo gomap" where
  "ParseMonEndpoints input = fold parse_mon (split_on CHR '','' input) []"

section \<open>The mapping of monitors to nodes\<close>

record MonScheduleInfo =
  ScheduleName :: string
  Hostname :: string
  Address :: string
  Zone :: string

text \<open>A monitor that Kubernetes may place anywhere has a nil pointer in the map.\<close>

type_synonym Schedule = "MonScheduleInfo option gomap"

definition no_schedule :: MonScheduleInfo where
  "no_schedule = \<lparr>ScheduleName = [], Hostname = [], Address = [], Zone = []\<rparr>"

definition schedule_json :: "MonScheduleInfo option \<Rightarrow> json" where
  "schedule_json si =
     (case si of
        None \<Rightarrow> JNull
      | Some i \<Rightarrow> JObj (omit_empty ''Name'' (ScheduleName i) @ omit_empty ''Hostname'' (Hostname i) @
                       omit_empty ''Address'' (Address i) @ omit_empty ''zone'' (Zone i)))"

text \<open>Go writes the keys of a map in order.\<close>

definition marshal_mapping :: "Schedule \<Rightarrow> string" where
  "marshal_mapping sched =
     print (JObj [(''node'', JObj (map (\<lambda>(k, v). (k, schedule_json v)) (sort_key fst sched)))])"

definition decode_schedule :: "json \<Rightarrow> MonScheduleInfo option \<times> bool" where
  "decode_schedule v =
     (case v of
        JNull \<Rightarrow> (None, True)
      | JObj ms \<Rightarrow>
          (Some \<lparr>ScheduleName = fst (str_field ''Name'' ms), Hostname = fst (str_field ''Hostname'' ms),
                 Address = fst (str_field ''Address'' ms), Zone = fst (str_field ''zone'' ms)\<rparr>,
           snd (str_field ''Name'' ms) \<and> snd (str_field ''Hostname'' ms) \<and> snd (str_field ''Address'' ms) \<and>
           snd (str_field ''zone'' ms))
      | _ \<Rightarrow> (Some no_schedule, False))"

definition decode_node_map :: "json \<Rightarrow> Schedule \<times> bool \<Rightarrow> Schedule \<times> bool" where
  "decode_node_map v acc =
     (case v of
        JNull \<Rightarrow> ([], snd acc)
      | JObj ms \<Rightarrow>
          fold (\<lambda>(k, v) (m, ok). case decode_schedule v of (i, ok') \<Rightarrow> (put k i m, ok \<and> ok')) ms acc
      | _ \<Rightarrow> (fst acc, False))"

text \<open>The result of \<^verbatim>\<open>json.Unmarshal\<close> into a pointer to an empty mapping: the mapping, None when the text \<^verbatim>\<open>null\<close>
  makes the pointer nil, and whether there was no error. An error of syntax leaves the mapping empty.\<close>

definition unmarshal_mapping :: "string \<Rightarrow> Schedule option \<times> bool" where
  "unmarshal_mapping text =
     (case parse text of
        None \<Rightarrow> (Some [], False)
      | Some JNull \<Rightarrow> (None, True)
      | Some (JObj ms) \<Rightarrow>
          (case fold (\<lambda>(k, v) acc. if same_name k ''node'' then decode_node_map v acc else acc) ms ([], True) of
             (m, ok) \<Rightarrow> (Some m, ok))
      | Some _ \<Rightarrow> (Some [], False))"

definition schedule_of :: "Schedule option \<Rightarrow> Schedule" where
  "schedule_of m = (case m of None \<Rightarrow> [] | Some s \<Rightarrow> s)"

text \<open>Both arguments are the data of the config map. A missing key reads as a nil pointer, as a
  nil pointer does.\<close>

definition wereMonEndpointsUpdated :: "(string \<rightharpoonup> string) \<Rightarrow> (string \<rightharpoonup> string) \<Rightarrow> bool" where
  "wereMonEndpointsUpdated oldCMData newCMData =
     (case (oldCMData ''mapping'', newCMData ''mapping'') of
        (Some oldMapping, Some newMapping) \<Rightarrow>
          (case unmarshal_mapping oldMapping of
             (oldM, okO) \<Rightarrow>
               if \<not> okO then False
               else case unmarshal_mapping newMapping of
                      (newM, okN) \<Rightarrow>
                        if \<not> okN then False
                        else (let oldS = schedule_of oldM; newS = schedule_of newM
                              in if length oldS \<noteq> length newS then True
                                 else list_ex (\<lambda>k. Option.bind (map_of oldS k) id \<noteq> Option.bind (map_of newS k) id)
                                        (sort (keys oldS))))
      | _ \<Rightarrow> False)"

section \<open>The address of a node\<close>

record Node =
  NodeName :: string
  NodeLabels :: "string \<rightharpoonup> string"
  NodeAnnotations :: "string \<rightharpoonup> string"
  NodeAddresses :: "(string \<times> string) list"

definition monIPAnnotation :: string where "monIPAnnotation = ''network.rook.io/mon-ip''"

definition first_address :: "string \<Rightarrow> Node \<Rightarrow> string" where
  "first_address kind n = (case find (\<lambda>(t, _). t = kind) (NodeAddresses n) of None \<Rightarrow> [] | Some (_, a) \<Rightarrow> a)"

text \<open>The first argument is the value of the environment variable that renames the hostname label.\<close>

definition getNodeInfoFromNode :: "string \<Rightarrow> Node \<Rightarrow> MonScheduleInfo res" where
  "getNodeInfoFromNode labelEnv n =
     (let nr = \<lparr>ScheduleName = NodeName n, Hostname = mget (NodeLabels n) (LabelHostname labelEnv), Address = [], Zone = []\<rparr>
      in case NodeAnnotations n monIPAnnotation of
           Some customIP \<Rightarrow> Inr (nr\<lparr>Address := customIP\<rparr>)
         | None \<Rightarrow>
             (let internal = first_address ''InternalIP'' n;
                  addr = (if internal = [] then first_address ''ExternalIP'' n else internal)
              in if addr = [] then Inl (Errorf ''failed to find any IP on node'') else Inr (nr\<lparr>Address := addr\<rparr>)))"

section \<open>Joining and splitting\<close>

lemma last_index_append: "c \<notin> set b \<Longrightarrow> last_index c (a @ c # b) = Some (length a)"
  by (simp add: last_index_def takeWhile_append)

lemma first_index_append: "c \<notin> set a \<Longrightarrow> first_index c (a @ c # b) = Some (length a)"
  by (simp add: first_index_def takeWhile_append)

definition plain_host :: "string \<Rightarrow> bool" where
  "plain_host h \<longleftrightarrow> CHR ''['' \<notin> set h \<and> CHR '']'' \<notin> set h"

definition plain_port :: "string \<Rightarrow> bool" where
  "plain_port p \<longleftrightarrow> CHR '':'' \<notin> set p \<and> CHR ''['' \<notin> set p \<and> CHR '']'' \<notin> set p"

lemma split_join_host_port:
  assumes "plain_host h" "plain_port p"
  shows "SplitHostPort (JoinHostPort h p) = Inr (h, p)"
proof (cases "CHR '':'' \<in> set h")
  case True
  let ?e = "''['' @ h @ '']:'' @ p"
  have "last_index CHR '':'' ?e = Some (length h + 2)"
    using last_index_append [of "CHR '':''" p "''['' @ h @ '']''"] assms(2) by (simp add: plain_port_def)
  moreover have "first_index CHR '']'' ?e = Some (length h + 1)"
    using first_index_append [of "CHR '']''" "''['' @ h" "'':'' @ p"] assms(1) by (simp add: plain_host_def)
  ultimately show ?thesis using True assms
    by (simp add: SplitHostPort_def JoinHostPort_def Let_def plain_host_def plain_port_def)
next
  case False
  have "last_index CHR '':'' (h @ '':'' @ p) = Some (length h)"
    using last_index_append [of "CHR '':''" p h] assms(2) by (simp add: plain_port_def)
  moreover have "hd (h @ '':'' @ p) \<noteq> CHR ''[''" using assms(1) by (cases h) (auto simp: plain_host_def)
  ultimately show ?thesis using False assms
    by (simp add: SplitHostPort_def JoinHostPort_def Let_def plain_host_def plain_port_def)
qed

lemma ParseInt32_digits: "0 \<le> i \<Longrightarrow> i < 2 ^ 31 \<Longrightarrow> ParseInt32 (Itoa i) = i"
  using digits_all [of i] by (simp add: ParseInt32_def Itoa_nonneg split_sign_digits)

lemma plain_port_Itoa: "plain_port (Itoa i)"
  using Itoa_notin [of _ i] by (simp add: plain_port_def is_digit_def)

text \<open>C31. The address of a monitor survives its endpoint: for a host name, an IPv4 or an IPv6 address and a
  port of 31 bits, the endpoint built for a new monitor gives back the host and the port.\<close>

theorem endpoint_roundtrip:
  assumes "plain_host host" and "0 \<le> port" and "port < 2 ^ 31"
  shows "GetIPFromEndpoint (Endpoint (NewMonInfo name host port)) = host \<and>
    GetPortFromEndpoint (Endpoint (NewMonInfo name host port)) = port"
  using split_join_host_port [OF assms(1) plain_port_Itoa [of port]] ParseInt32_digits [OF assms(2,3)]
  by (simp add: GetIPFromEndpoint_def GetPortFromEndpoint_def NewMonInfo_def)

theorem endpoint_roundtrip_witness:
  "GetIPFromEndpoint (Endpoint (NewMonInfo ''a'' ''fd00::1'' 6789)) = ''fd00::1'' \<and>
   GetPortFromEndpoint (Endpoint (NewMonInfo ''a'' ''fd00::1'' 6789)) = 6789"
  using endpoint_roundtrip [of "''fd00::1''" 6789 "''a''"] by (simp add: plain_host_def)

section \<open>Endpoints in a config map\<close>

text \<open>Monitors that can be stored: keyed by their name, no separators in names and endpoints.\<close>

definition storable :: "MonInfo gomap \<Rightarrow> bool" where
  "storable mons \<longleftrightarrow> wf_map mons \<and>
     list_all (\<lambda>(k, m). k = MiName m \<and> CHR '','' \<notin> set k \<and> CHR ''='' \<notin> set k \<and>
       CHR '','' \<notin> set (Endpoint m) \<and> CHR ''='' \<notin> set (Endpoint m)) mons"

text \<open>What the text does not keep is whether a monitor is out of quorum.\<close>

definition in_quorum :: "MonInfo gomap \<Rightarrow> MonInfo gomap" where
  "in_quorum mons = map (\<lambda>(k, m). (k, m\<lparr>OutOfQuorum := False\<rparr>)) mons"

lemma parse_mon_entry:
  "CHR ''='' \<notin> set (MiName m) \<Longrightarrow> CHR ''='' \<notin> set (Endpoint m) \<Longrightarrow>
   parse_mon (MiName m @ ''='' @ Endpoint m) mons = put (MiName m) (m\<lparr>OutOfQuorum := False\<rparr>) mons"
  by (cases m) (simp add: parse_mon_def split_on_app split_on_notin)

lemma parse_entries:
  assumes "storable mons" "set (keys mons) \<inter> set (keys acc) = {}"
  shows "fold parse_mon (map (\<lambda>(_, m). MiName m @ ''='' @ Endpoint m) mons) acc = acc @ in_quorum mons"
  using assms
proof (induction mons arbitrary: acc)
  case Nil
  then show ?case by (simp add: in_quorum_def)
next
  case (Cons km mons)
  obtain k m where km: "km = (k, m)" by fastforce
  from Cons.prems(1) have m: "k = MiName m" "parse_mon (MiName m @ ''='' @ Endpoint m) acc = put k (m\<lparr>OutOfQuorum := False\<rparr>) acc"
    and rest: "storable mons" "k \<notin> set (keys mons)"
    using parse_mon_entry [of m acc] by (auto simp: storable_def km wf_map_def keys_def)
  have "k \<notin> set (keys acc)" using Cons.prems(2) by (auto simp: km keys_def)
  moreover have "set (keys mons) \<inter> set (keys (acc @ [(k, m\<lparr>OutOfQuorum := False\<rparr>)])) = {}"
    using Cons.prems(2) rest(2) by (auto simp: km keys_def)
  note Cons.IH [OF rest(1) this]
  ultimately show ?case using m by (simp add: km put_notin in_quorum_def)
qed

lemma parse_flatten: "storable mons \<Longrightarrow> ParseMonEndpoints (flattenMonEndpoints mons) = in_quorum mons"
proof (cases "mons = []")
  case True
  then show ?thesis by (simp add: ParseMonEndpoints_def flattenMonEndpoints_def in_quorum_def parse_mon_def)
next
  case False
  assume s: "storable mons"
  have "split_on CHR '','' (flattenMonEndpoints mons) = map (\<lambda>(_, m). MiName m @ ''='' @ Endpoint m) mons"
    unfolding flattenMonEndpoints_def using s False
    by (intro split_on_join) (auto simp: storable_def list_all_iff)
  then show ?thesis using parse_entries [OF s, of "[]"] by (simp add: ParseMonEndpoints_def keys_def)
qed

interpretation endpoints: codec flattenMonEndpoints "\<lambda>t. Some (ParseMonEndpoints t)" in_quorum storable
  by unfold_locales (simp add: parse_flatten)

section \<open>The mapping as text\<close>

lemma decode_schedule_json: "decode_schedule (schedule_json i) = (i, True)"
proof (cases i)
  case (Some s)
  have "same_name a b \<longleftrightarrow> a = b" if "a \<in> {''Name'', ''Hostname'', ''Address'', ''zone''}" "b \<in> {''Name'', ''Hostname'', ''Address'', ''zone''}"
    for a b using that by (auto simp: same_name_def lower_char_def)
  then show ?thesis
    by (cases s) (simp add: Some decode_schedule_def schedule_json_def append_assoc [symmetric] del: append_assoc)
qed (simp add: decode_schedule_def schedule_json_def)

lemma wf_schedule_json [simp]: "wf_json (schedule_json i)"
  by (cases i) (simp_all add: schedule_json_def)

lemma decode_nodes:
  "fold (\<lambda>(k, v) (m, ok). case decode_schedule v of (i, ok') \<Rightarrow> (put k i m, ok \<and> ok'))
     (map (\<lambda>(k, v). (k, schedule_json v)) sched) (acc, ok) = (fold (\<lambda>(k, v). put k v) sched acc, ok)"
  by (induction sched arbitrary: acc) (auto simp: decode_schedule_json)

lemma unmarshal_marshal: "wf_map s \<Longrightarrow> unmarshal_mapping (marshal_mapping s) = (Some (sort_key fst s), True)"
proof -
  assume "wf_map s"
  let ?o = "JObj (map (\<lambda>(k, v). (k, schedule_json v)) (sort_key fst s))"
  have "wf_json (JObj [(''node'', ?o)])" by (auto simp: list_all_iff)
  then have "parse (marshal_mapping s) = Some (JObj [(''node'', ?o)])"
    unfolding marshal_mapping_def by (rule parse_print)
  then show ?thesis using fold_put [OF wf_map_sort [OF \<open>wf_map s\<close>], of "[]"]
    by (simp add: unmarshal_mapping_def same_name_def decode_node_map_def decode_nodes keys_def)
qed

interpretation mapping_text: codec marshal_mapping "\<lambda>t. map_option map_of (fst (unmarshal_mapping t))" map_of wf_map
  by unfold_locales (simp add: unmarshal_marshal map_of_sort)

section \<open>Watching the mapping\<close>

text \<open>The node a mapping assigns; nil and absent are the same to the code.\<close>

definition assigned :: "Schedule \<Rightarrow> string \<Rightarrow> MonScheduleInfo option" where
  "assigned s k = Option.bind (map_of s k) id"

lemma assigned_sort: "wf_map s \<Longrightarrow> assigned (sort_key fst s) = assigned s"
  by (simp add: assigned_def fun_eq_iff map_of_sort)

lemma updated_iff:
  assumes "wf_map old" "wf_map new"
  shows "wereMonEndpointsUpdated [''mapping'' \<mapsto> marshal_mapping old] [''mapping'' \<mapsto> marshal_mapping new] \<longleftrightarrow>
    length old \<noteq> length new \<or> (\<exists>k \<in> set (keys old). assigned old k \<noteq> assigned new k)"
  using assigned_sort [OF assms(1)] assigned_sort [OF assms(2)]
  by (auto simp: wereMonEndpointsUpdated_def unmarshal_marshal assms schedule_of_def list_ex_iff keys_def assigned_def fun_eq_iff)

text \<open>The watch on the stored mapping sees every change of the monitors as long as each of them is
  assigned to a node or zone: it reports an update exactly when the two mappings differ.\<close>

theorem mapping_watch_iff:
  assumes "wf_map old" and "wf_map new" and "\<forall>(k, v) \<in> set old. v \<noteq> None"
  shows "wereMonEndpointsUpdated [''mapping'' \<mapsto> marshal_mapping old] [''mapping'' \<mapsto> marshal_mapping new] \<longleftrightarrow>
    map_of old \<noteq> map_of new"
proof
  assume "wereMonEndpointsUpdated [''mapping'' \<mapsto> marshal_mapping old] [''mapping'' \<mapsto> marshal_mapping new]"
  then have "length old \<noteq> length new \<or> (\<exists>k \<in> set (keys old). assigned old k \<noteq> assigned new k)"
    by (simp add: updated_iff assms)
  moreover have "length old = length new" if "map_of old = map_of new"
    using that card_keys [OF assms(1)] card_keys [OF assms(2)] by (metis dom_map_of_conv_image_fst keys_def list.set_map)
  ultimately show "map_of old \<noteq> map_of new" by (auto simp: assigned_def)
next
  assume d: "map_of old \<noteq> map_of new"
  have "length old \<noteq> length new \<or> (\<exists>k \<in> set (keys old). assigned old k \<noteq> assigned new k)"
  proof (rule ccontr)
    assume "\<not> ?thesis"
    then have l: "length old = length new" by blast
    have a: "assigned old k = assigned new k" if "k \<in> set (keys old)" for k
      using \<open>\<not> (length old \<noteq> length new \<or> _)\<close> that by blast
    have eq: "map_of new k = map_of old k" if "k \<in> set (keys old)" for k
    proof -
      from that obtain v where v: "map_of old k = Some (Some v)"
        using assms(3) by (fastforce simp: keys_map_of dest: map_of_SomeD)
      with a [OF that] show ?thesis by (cases "map_of new k") (auto simp: assigned_def)
    qed
    then have "set (keys old) \<subseteq> set (keys new)" by (auto simp: keys_map_of)
    moreover have "card (set (keys old)) = card (set (keys new))"
      using l card_keys [OF assms(1)] card_keys [OF assms(2)] by simp
    ultimately have "set (keys old) = set (keys new)" by (simp add: card_subset_eq)
    with eq have "map_of new k = map_of old k" for k by (metis keys_map_of)
    with d show False by (auto simp: fun_eq_iff)
  qed
  then show "wereMonEndpointsUpdated [''mapping'' \<mapsto> marshal_mapping old] [''mapping'' \<mapsto> marshal_mapping new]"
    by (simp add: updated_iff assms)
qed

theorem mapping_watch_iff_witness:
  "wereMonEndpointsUpdated
     [''mapping'' \<mapsto> marshal_mapping [(''a'', Some (no_schedule\<lparr>Zone := ''x''\<rparr>))]]
     [''mapping'' \<mapsto> marshal_mapping [(''b'', Some (no_schedule\<lparr>Zone := ''x''\<rparr>))]]"
  using mapping_watch_iff [of "[(''a'', Some (no_schedule\<lparr>Zone := ''x''\<rparr>))]" "[(''b'', Some (no_schedule\<lparr>Zone := ''x''\<rparr>))]"]
  by (auto simp: wf_map_def keys_def fun_eq_iff split: if_splits dest: spec [of _ "''a''"])

text \<open>C40. Monitors on persistent volumes have no node in the mapping, and then the watch is blind: when a failover replaces
  such a monitor by another one, the stored mapping changes, wherever the new monitor is assigned, and no update is reported.\<close>

theorem mapping_watch_blind:
  fixes v :: "MonScheduleInfo option"
  assumes "wf_map old" and "map_of old k = Some None" and "n \<notin> set (keys old)"
  defines "new \<equiv> del k old @ [(n, v)]"
  shows "map_of old \<noteq> map_of new \<and>
    \<not> wereMonEndpointsUpdated [''mapping'' \<mapsto> marshal_mapping old] [''mapping'' \<mapsto> marshal_mapping new]"
proof
  have kn: "k \<noteq> n" "map_of old n = None" using assms(2,3) by (auto simp: keys_map_of)
  have m: "map_of new = ((map_of old)(k := None))(n \<mapsto> v)"
    using kn(2) by (auto simp: new_def map_add_def fun_eq_iff split: option.splits)
  show "map_of old \<noteq> map_of new" using assms(2) kn by (auto simp: m dest: fun_cong [of _ _ k])
  have w: "wf_map new" using assms(1,3) by (auto simp: new_def wf_map_def keys_def del_def distinct_map_filter)
  have "set (keys new) = insert n (set (keys old) - {k})" by (auto simp: keys_map_of m split: if_splits)
  moreover have "k \<in> set (keys old)" using assms(2) by (simp add: keys_map_of)
  ultimately have "card (set (keys new)) = card (set (keys old))"
    using assms(3) card_Suc_Diff1 [of "set (keys old)" k] by simp
  then have "length new = length old" by (simp add: card_keys [OF w] card_keys [OF assms(1)])
  moreover have "assigned old x = assigned new x" if "x \<in> set (keys old)" for x
    using that assms(2,3) kn by (auto simp: assigned_def m)
  ultimately show "\<not> wereMonEndpointsUpdated [''mapping'' \<mapsto> marshal_mapping old] [''mapping'' \<mapsto> marshal_mapping new]"
    by (simp add: updated_iff [OF assms(1) w])
qed

theorem mapping_watch_blind_witness:
  "\<not> wereMonEndpointsUpdated [''mapping'' \<mapsto> marshal_mapping [(''a'', None), (''b'', None), (''c'', None)]]
       [''mapping'' \<mapsto> marshal_mapping [(''b'', None), (''c'', None), (''d'', None)]]"
  using mapping_watch_blind [of "[(''a'', None), (''b'', None), (''c'', None)]" "''a''" "''d''" None]
  by (simp add: wf_map_def keys_def del_def)

end
