(* ===== verification/Version.thy ===== *)
theory Version
  imports Prelude "HOL-Library.Product_Lexorder"
begin

text \<open>
  Ceph versions: \<^verbatim>\<open>pkg/operator/ceph/version/version.go\<close>, whole file. The record, the parser of
  the output of \<^verbatim>\<open>ceph --version\<close> with its three regular expressions written as matchers, the
  printer, the comparisons, and the check of a local against an external cluster. The comparisons
  are shown to be one lexicographic order (with the exception that \<open>IsSuperior\<close> also looks at
  commit IDs), the printer and the parser to be inverse, and the check to refuse exactly the
  external clusters that are too old or older than the local one.
\<close>

section \<open>The version record and its constants\<close>

record CephVersion =
  Major :: int
  Minor :: int
  Extra :: int
  Build :: int
  CommitID :: string

abbreviation mk_version :: "int \<Rightarrow> int \<Rightarrow> int \<Rightarrow> int \<Rightarrow> CephVersion" where
  "mk_version a b c d \<equiv> \<lparr>Major = a, Minor = b, Extra = c, Build = d, CommitID = []\<rparr>"

definition unknownVersionString :: string where
  "unknownVersionString = ''<unknown version>''"

definition MinimumMajor :: int where "MinimumMajor = 19"

definition Minimum :: CephVersion where "Minimum = mk_version MinimumMajor 2 0 0"
definition Squid :: CephVersion where "Squid = mk_version 19 0 0 0"
definition Tentacle :: CephVersion where "Tentacle = mk_version 20 0 0 0"
definition TentaclePrometheusTLS :: CephVersion where "TentaclePrometheusTLS = mk_version 20 2 999 0"
definition Umbrella :: CephVersion where "Umbrella = mk_version 21 0 0 0"

definition supportedVersions :: "CephVersion list" where
  "supportedVersions = [Squid, Tentacle, Umbrella]"

definition unsupportedVersions :: "CephVersion list" where
  "unsupportedVersions = []"

lemmas release_defs = Minimum_def MinimumMajor_def Squid_def Tentacle_def TentaclePrometheusTLS_def
  Umbrella_def supportedVersions_def unsupportedVersions_def unknownVersionString_def

section \<open>Printing\<close>

definition ReleaseName :: "CephVersion \<Rightarrow> string" where
  "ReleaseName v =
     (if Major v = Major Squid then ''squid''
      else if Major v = Major Tentacle then ''tentacle''
      else if Major v = Major Umbrella then ''umbrella''
      else unknownVersionString)"

definition String :: "CephVersion \<Rightarrow> string" where
  "String v = Itoa (Major v) @ ''.'' @ Itoa (Minor v) @ ''.'' @ Itoa (Extra v) @ ''-'' @
     Itoa (Build v) @ '' '' @ ReleaseName v"

definition CephVersionFormatted :: "CephVersion \<Rightarrow> string" where
  "CephVersionFormatted v = ''ceph version '' @ Itoa (Major v) @ ''.'' @ Itoa (Minor v) @ ''.'' @
     Itoa (Extra v) @ ''-'' @ Itoa (Build v) @ '' '' @ ReleaseName v"

section \<open>Parsing\<close>

text \<open>
  The matchers of the three patterns. A match of \<^verbatim>\<open>(\d+)\<close> takes the longest run of digits; since
  the character each pattern wants next is not a digit, no shorter run can match. A pattern is
  searched at every position from the left.
\<close>

definition version_literal :: string where
  "version_literal = ''ceph version ''"

definition take_digits :: "string \<Rightarrow> (string \<times> string) option" where
  "take_digits s = (let d = takeWhile is_digit s
                    in if d = [] then None else Some (d, dropWhile is_digit s))"

definition take_char :: "char \<Rightarrow> string \<Rightarrow> string option" where
  "take_char c s = (case s of [] \<Rightarrow> None | x # xs \<Rightarrow> if x = c then Some xs else None)"

definition match_version :: "string \<Rightarrow> (string \<times> string \<times> string \<times> string) option" where
  "match_version s =
     (if \<not> has_prefix version_literal s then None
      else case take_digits (drop (length version_literal) s) of None \<Rightarrow> None | Some (a, r1) \<Rightarrow>
           case take_char CHR ''.'' r1 of None \<Rightarrow> None | Some r2 \<Rightarrow>
           case take_digits r2 of None \<Rightarrow> None | Some (b, r3) \<Rightarrow>
           case take_char CHR ''.'' r3 of None \<Rightarrow> None | Some r4 \<Rightarrow>
           case take_digits r4 of None \<Rightarrow> None | Some (c, r5) \<Rightarrow> Some (a, b, c, r5))"

definition match_build :: "string \<Rightarrow> string option" where
  "match_build s =
     (case match_version s of None \<Rightarrow> None | Some (_, _, _, r) \<Rightarrow>
      case take_char CHR ''-'' r of None \<Rightarrow> None | Some r' \<Rightarrow>
      map_option fst (take_digits r'))"

definition match_commit :: "string \<Rightarrow> string option" where
  "match_commit s =
     (case take_char CHR ''('' s of None \<Rightarrow> None | Some r \<Rightarrow>
      (let c = takeWhile (\<lambda>x. x \<noteq> CHR '')'') r
       in if c = [] \<or> dropWhile (\<lambda>x. x \<noteq> CHR '')'') r = [] then None else Some c))"

fun search :: "(string \<Rightarrow> 'a option) \<Rightarrow> string \<Rightarrow> 'a option" where
  "search m [] = m []"
| "search m (x # xs) = (case m (x # xs) of None \<Rightarrow> search m xs | Some r \<Rightarrow> Some r)"

definition ExtractCephVersion :: "string \<Rightarrow> CephVersion res" where
  "ExtractCephVersion src =
     (case search match_version src of
        None \<Rightarrow> Inl (Errorf ''failed to parse version from'')
      | Some (s1, s2, s3, _) \<Rightarrow>
        (case Atoi s1 of None \<Rightarrow> Inl (Errorf ''failed to parse version major part'') | Some major \<Rightarrow>
         case Atoi s2 of None \<Rightarrow> Inl (Errorf ''failed to parse version minor part'') | Some minor \<Rightarrow>
         case Atoi s3 of None \<Rightarrow> Inl (Errorf ''failed to parse version extra part'') | Some extra \<Rightarrow>
         let build = (case search match_build src of None \<Rightarrow> 0 | Some s4 \<Rightarrow> Atoi_val s4);
             commitID = (case search match_commit src of None \<Rightarrow> [] | Some c \<Rightarrow> c)
         in Inr \<lparr>Major = major, Minor = minor, Extra = extra, Build = build, CommitID = commitID\<rparr>))"

section \<open>Comparing\<close>

definition isRelease :: "CephVersion \<Rightarrow> CephVersion \<Rightarrow> bool" where
  "isRelease v other \<longleftrightarrow> Major v = Major other"

definition isExactly :: "CephVersion \<Rightarrow> CephVersion \<Rightarrow> bool" where
  "isExactly v other \<longleftrightarrow> Major v = Major other \<and> Minor v = Minor other \<and> Extra v = Extra other"

definition Supported :: "CephVersion \<Rightarrow> bool" where
  "Supported v \<longleftrightarrow> list_ex (isRelease v) supportedVersions"

definition Unsupported :: "CephVersion \<Rightarrow> bool" where
  "Unsupported v \<longleftrightarrow> list_ex (isExactly v) unsupportedVersions"

definition IsAtLeast :: "CephVersion \<Rightarrow> CephVersion \<Rightarrow> bool" where
  "IsAtLeast v other =
     (if Major v > Major other then True else if Major v < Major other then False
      else if Minor v > Minor other then True else if Minor v < Minor other then False
      else if Extra v > Extra other then True else if Extra v < Extra other then False
      else if Build v > Build other then True else if Build v < Build other then False
      else True)"

definition IsAtLeastTentacle :: "CephVersion \<Rightarrow> bool" where
  "IsAtLeastTentacle v = IsAtLeast v Tentacle"

definition IsAtLeastUmbrella :: "CephVersion \<Rightarrow> bool" where
  "IsAtLeastUmbrella v = IsAtLeast v Umbrella"

definition IsAtLeastSquid :: "CephVersion \<Rightarrow> bool" where
  "IsAtLeastSquid v = IsAtLeast v Squid"

definition IsIdentical :: "CephVersion \<Rightarrow> CephVersion \<Rightarrow> bool" where
  "IsIdentical a b =
     (if Major a = Major b then
        if Minor a = Minor b then
          if Extra a = Extra b then
            if Build a = Build b then CommitID a = CommitID b else False
          else False
        else False
      else False)"

definition IsSuperior :: "CephVersion \<Rightarrow> CephVersion \<Rightarrow> bool" where
  "IsSuperior a b =
     (if Major a > Major b then True
      else if Major a = Major b \<and> Minor a > Minor b then True
      else if Major a = Major b \<and> Minor a = Minor b \<and> Extra a > Extra b then True
      else if Major a = Major b \<and> Minor a = Minor b \<and> Extra a = Extra b then
        (if Build a > Build b then True else CommitID a \<noteq> CommitID b)
      else False)"

definition IsStrictlySuperior :: "CephVersion \<Rightarrow> CephVersion \<Rightarrow> bool" where
  "IsStrictlySuperior a b = IsSuperior (a\<lparr>CommitID := []\<rparr>) (b\<lparr>CommitID := []\<rparr>)"

definition IsInferior :: "CephVersion \<Rightarrow> CephVersion \<Rightarrow> bool" where
  "IsInferior a b =
     (if Major a < Major b then True
      else if Major a = Major b \<and> Minor a < Minor b then True
      else if Major a = Major b \<and> Minor a = Minor b \<and> Extra a < Extra b then True
      else if Major a = Major b \<and> Minor a = Minor b \<and> Extra a = Extra b \<and> Build a < Build b then True
      else False)"

definition ValidateCephVersionsBetweenLocalAndExternalClusters ::
  "CephVersion \<Rightarrow> CephVersion \<Rightarrow> err option" where
  "ValidateCephVersionsBetweenLocalAndExternalClusters localVersion externalVersion =
     (if \<not> IsAtLeast externalVersion (mk_version 15 0 0 0)
      then Some (Errorf ''unsupported external ceph version'')
      else if IsIdentical localVersion externalVersion then None
      else if IsStrictlySuperior localVersion externalVersion
      then Some (Errorf ''local cluster ceph version is higher than the external cluster version'')
      else if Major localVersion = Major externalVersion \<and> IsStrictlySuperior externalVersion localVersion
      then None
      else if Major localVersion < Major externalVersion then None
      else None)"

text \<open>The four numbers in the order of significance; versions that Go can hold; a sample output.\<close>

definition version_key :: "CephVersion \<Rightarrow> int \<times> int \<times> int \<times> int" where
  "version_key v = (Major v, Minor v, Extra v, Build v)"

definition version_ok :: "CephVersion \<Rightarrow> bool" where
  "version_ok v \<longleftrightarrow> (\<forall>i\<in>{Major v, Minor v, Extra v, Build v}. 0 \<le> i \<and> int64_ok i)"

definition long_build :: string where
  "long_build = ''ceph version 19.2.3-99999999999999999999 (abc) squid (stable)''"

section \<open>One order behind the comparisons\<close>

text \<open>
  The interface the rest of the operator relies on when it compares versions: a strict comparison
  that ranks versions by a key in a linear order.
\<close>

locale version_order =
  fixes lt :: "'v \<Rightarrow> 'v \<Rightarrow> bool" and rank :: "'v \<Rightarrow> 'k::linorder"
  assumes lt_rank: "lt a b \<longleftrightarrow> rank a < rank b"
begin

lemma irreflexive: "\<not> lt a a"
  by (simp add: lt_rank)

lemma transitive: "lt a b \<Longrightarrow> lt b c \<Longrightarrow> lt a c"
  by (auto simp: lt_rank)

lemma asymmetric: "lt a b \<Longrightarrow> \<not> lt b a"
  by (auto simp: lt_rank)

lemma trichotomy: "lt a b \<or> lt b a \<or> rank a = rank b"
  by (auto simp: lt_rank)

lemma incomparable_trans: "\<not> lt a b \<Longrightarrow> \<not> lt b c \<Longrightarrow> \<not> lt a c"
  by (auto simp: lt_rank)

end

lemma IsInferior_key: "IsInferior a b \<longleftrightarrow> version_key a < version_key b"
  by (auto simp: IsInferior_def version_key_def)

lemma IsAtLeast_key: "IsAtLeast a b \<longleftrightarrow> version_key b \<le> version_key a"
  by (auto simp: IsAtLeast_def version_key_def)

lemma IsStrictlySuperior_key: "IsStrictlySuperior a b \<longleftrightarrow> version_key b < version_key a"
  by (auto simp: IsStrictlySuperior_def IsSuperior_def version_key_def)

lemma IsSuperior_key:
  "IsSuperior a b \<longleftrightarrow> version_key b < version_key a \<or> isExactly a b \<and> CommitID a \<noteq> CommitID b"
  by (auto simp: IsSuperior_def isExactly_def version_key_def)

lemma IsIdentical_eq: "IsIdentical a b \<longleftrightarrow> a = b"
  by (cases a; cases b) (auto simp: IsIdentical_def)

interpretation inferior: version_order IsInferior version_key
  by unfold_locales (rule IsInferior_key)

interpretation superior: version_order "\<lambda>a b. IsStrictlySuperior b a" version_key
  by unfold_locales (rule IsStrictlySuperior_key)

lemmas version_keys = IsInferior_key IsAtLeast_key IsStrictlySuperior_key IsSuperior_key

section \<open>Properties\<close>

lemma take_digits_app:
  assumes "d \<noteq> []" and "list_all is_digit d" and "\<not> is_digit c"
  shows "take_digits (d @ c # r) = Some (d, c # r)"
proof -
  from assms(2,3) have "takeWhile is_digit (d @ c # r) = d" and "dropWhile is_digit (d @ c # r) = c # r"
    by (simp_all add: list_all_iff takeWhile_append dropWhile_append)
  with assms(1) show ?thesis by (simp add: take_digits_def)
qed

lemma take_digits_SomeD: "take_digits s = Some (d, r) \<Longrightarrow> d \<noteq> [] \<and> list_all is_digit d"
  using set_takeWhileD by (fastforce simp: take_digits_def Let_def list_all_iff split: if_splits)

lemma take_digits_int:
  "0 \<le> n \<Longrightarrow> \<not> is_digit c \<Longrightarrow> take_digits (digits n @ c # r) = Some (digits n, c # r)"
  by (simp add: take_digits_app digits_all)

lemma match_version_formatted:
  assumes "0 \<le> Major v" and "0 \<le> Minor v" and "0 \<le> Extra v"
  shows "match_version (CephVersionFormatted v) =
    Some (Itoa (Major v), Itoa (Minor v), Itoa (Extra v), ''-'' @ Itoa (Build v) @ '' '' @ ReleaseName v)"
proof -
  have "CephVersionFormatted v = version_literal @ digits (Major v) @ CHR ''.'' #
    digits (Minor v) @ CHR ''.'' # digits (Extra v) @ CHR ''-'' #
    Itoa (Build v) @ '' '' @ ReleaseName v"
    using assms by (simp add: CephVersionFormatted_def version_literal_def Itoa_nonneg)
  then show ?thesis
    using assms by (simp add: match_version_def take_digits_int take_char_def Itoa_nonneg)
qed

lemma search_first: "m s = Some r \<Longrightarrow> search m s = Some r"
  by (cases s) auto

lemma search_None: "(\<And>t. set t \<subseteq> set s \<Longrightarrow> m t = None) \<Longrightarrow> search m s = None"
proof (induction s)
  case (Cons x xs)
  then have "m (x # xs) = None" by blast
  moreover have "search m xs = None" by (rule Cons.IH) (rule Cons.prems, auto)
  ultimately show ?case by simp
qed simp

lemma ReleaseName_plain: "CHR ''('' \<notin> set (ReleaseName v)"
  by (auto simp: ReleaseName_def release_defs)

lemma no_commit_formatted: "search match_commit (CephVersionFormatted v) = None"
proof (rule search_None)
  fix t assume "set t \<subseteq> set (CephVersionFormatted v)"
  moreover have "CHR ''('' \<notin> set (CephVersionFormatted v)"
    by (simp add: CephVersionFormatted_def ReleaseName_plain Itoa_notin)
  ultimately have "CHR ''('' \<notin> set t" by blast
  then show "match_commit t = None"
    by (cases t) (auto simp: match_commit_def take_char_def)
qed

text \<open>Printing a version with \<open>CephVersionFormatted\<close> and reading it back with
  \<open>ExtractCephVersion\<close> returns the same version with an empty commit ID, for every version whose
  numbers are not negative 64-bit integers.\<close>

theorem extract_formatted:
  assumes "version_ok v"
  shows "ExtractCephVersion (CephVersionFormatted v) = Inr (v\<lparr>CommitID := []\<rparr>)"
proof -
  have m: "search match_version (CephVersionFormatted v) =
      Some (Itoa (Major v), Itoa (Minor v), Itoa (Extra v), ''-'' @ Itoa (Build v) @ '' '' @ ReleaseName v)"
    using assms by (intro search_first match_version_formatted) (simp_all add: version_ok_def)
  have "search match_build (CephVersionFormatted v) = Some (Itoa (Build v))"
    using assms
    by (intro search_first)
       (simp add: match_build_def match_version_formatted version_ok_def take_char_def
          Itoa_nonneg take_digits_int)
  with m no_commit_formatted show ?thesis
    using assms by (simp add: ExtractCephVersion_def version_ok_def Atoi_Itoa Atoi_val_def)
qed

theorem extract_formatted_witness:
  "ExtractCephVersion (CephVersionFormatted (mk_version 19 2 3 0)) = Inr (mk_version 19 2 3 0)"
proof -
  have "version_ok (mk_version 19 2 3 0)" by (simp add: version_ok_def int64_ok_def)
  from extract_formatted [OF this] show ?thesis by simp
qed

text \<open>The comparisons are one order: \<open>IsAtLeast\<close> is the negation of \<open>IsInferior\<close>,
  \<open>IsStrictlySuperior\<close> is its converse, \<open>IsInferior\<close> is a strict order in which two versions are
  unordered only when their four numbers agree.\<close>

theorem comparisons_one_order:
  "(IsAtLeast a b \<longleftrightarrow> \<not> IsInferior a b) \<and> (IsStrictlySuperior a b \<longleftrightarrow> IsInferior b a) \<and>
   (IsInferior a b \<and> IsInferior b c \<longrightarrow> IsInferior a c) \<and> \<not> (IsInferior a b \<and> IsInferior b a) \<and>
   (IsInferior a b \<or> IsInferior b a \<or> isExactly a b \<and> Build a = Build b)"
proof -
  have "version_key a = version_key b \<Longrightarrow> isExactly a b \<and> Build a = Build b"
    by (simp add: version_key_def isExactly_def)
  then have tri: "IsInferior a b \<or> IsInferior b a \<or> isExactly a b \<and> Build a = Build b"
    using inferior.trichotomy by blast
  have "(IsAtLeast a b \<longleftrightarrow> \<not> IsInferior a b) \<and> (IsStrictlySuperior a b \<longleftrightarrow> IsInferior b a)"
    by (simp add: IsAtLeast_key IsStrictlySuperior_key IsInferior_key not_less)
  with tri show ?thesis
    using inferior.transitive inferior.asymmetric by blast
qed

theorem comparisons_one_order_witness:
  "IsInferior (mk_version 19 2 0 0) (mk_version 19 2 3 0) \<and> IsInferior (mk_version 19 2 3 0) Tentacle \<and>
   IsInferior (mk_version 19 2 0 0) Tentacle"
proof -
  have "IsInferior (mk_version 19 2 0 0) (mk_version 19 2 3 0) \<and> IsInferior (mk_version 19 2 3 0) Tentacle"
    by (simp add: IsInferior_def release_defs)
  with comparisons_one_order [of "mk_version 19 2 0 0" "mk_version 19 2 3 0" Tentacle]
  show ?thesis by blast
qed

text \<open>\<open>IsSuperior\<close> holds exactly when the first version is later or the two releases agree up
  to the build number and were built from different commits; so two builds of one release from
  different commits are each superior to the other, whatever their build numbers.\<close>

theorem IsSuperior_characterised:
  "(IsSuperior a b \<longleftrightarrow> IsInferior b a \<or> isExactly a b \<and> CommitID a \<noteq> CommitID b) \<and>
   (isExactly a b \<and> CommitID a \<noteq> CommitID b \<longrightarrow> IsSuperior a b \<and> IsSuperior b a)"
  by (simp only: IsSuperior_key IsInferior_key) (auto simp: isExactly_def)

theorem IsSuperior_characterised_witness:
  "IsInferior ((mk_version 19 2 3 1)\<lparr>CommitID := ''aa''\<rparr>) ((mk_version 19 2 3 7)\<lparr>CommitID := ''bb''\<rparr>) \<and>
   IsSuperior ((mk_version 19 2 3 1)\<lparr>CommitID := ''aa''\<rparr>) ((mk_version 19 2 3 7)\<lparr>CommitID := ''bb''\<rparr>)"
  using IsSuperior_characterised [of "(mk_version 19 2 3 1)\<lparr>CommitID := ''aa''\<rparr>"
    "(mk_version 19 2 3 7)\<lparr>CommitID := ''bb''\<rparr>"]
  by (simp add: isExactly_def IsInferior_def)

text \<open>The check of a local against an external cluster accepts exactly the pairs where the
  external version is at least 15.0.0 and the local one is not later than it; a difference of
  commit IDs alone is never refused.\<close>

theorem validate_external_iff:
  "ValidateCephVersionsBetweenLocalAndExternalClusters l e = None \<longleftrightarrow>
   IsAtLeast e (mk_version 15 0 0 0) \<and> \<not> IsInferior e l"
proof -
  have "IsIdentical l e \<Longrightarrow> \<not> IsStrictlySuperior l e"
    by (simp add: IsIdentical_eq superior.irreflexive)
  then show ?thesis
    by (auto simp: ValidateCephVersionsBetweenLocalAndExternalClusters_def IsInferior_key
        IsStrictlySuperior_key)
qed

lemma match_build_digits:
  assumes "match_build s = Some d" shows "d \<noteq> [] \<and> list_all is_digit d"
proof -
  from assms obtain r r' where "take_digits r = Some (d, r')"
    unfolding match_build_def by (auto split: option.splits)
  then show ?thesis by (rule take_digits_SomeD)
qed

lemma search_SomeD: "search m s = Some r \<Longrightarrow> \<exists>t. m t = Some r"
  by (induction s) (auto split: option.splits)

lemma Atoi_val_saturates:
  "Atoi d = None \<Longrightarrow> d \<noteq> [] \<Longrightarrow> list_all is_digit d \<Longrightarrow> Atoi_val d = 2 ^ 63 - 1"
  by (simp add: Atoi_val_def split_sign_digits parse_digits_def)

text \<open>A build number that does not fit in 64 bits is not ignored by the parser, although the
  message it logs says so: the build becomes the largest integer, later than every real build of
  the release.\<close>

theorem extract_build_saturates:
  assumes "ExtractCephVersion src = Inr v" and "search match_build src = Some d" and "Atoi d = None"
  shows "Build v = 2 ^ 63 - 1"
proof -
  from assms(2) have "d \<noteq> [] \<and> list_all is_digit d"
    by (auto dest!: search_SomeD match_build_digits)
  with assms(3) have "Atoi_val d = 2 ^ 63 - 1" by (simp add: Atoi_val_saturates)
  with assms(1,2) show ?thesis
    by (auto simp: ExtractCephVersion_def Let_def split: option.splits)
qed

theorem extract_build_saturates_witness:
  "ExtractCephVersion long_build =
     Inr \<lparr>Major = 19, Minor = 2, Extra = 3, Build = 2 ^ 63 - 1, CommitID = ''abc''\<rparr>"
proof -
  have e: "ExtractCephVersion long_build =
     Inr \<lparr>Major = 19, Minor = 2, Extra = 3, Build = 9223372036854775807, CommitID = ''abc''\<rparr>"
    by code_simp
  have "search match_build long_build = Some ''99999999999999999999''" by code_simp
  moreover have "Atoi ''99999999999999999999'' = None" by code_simp
  ultimately show ?thesis using extract_build_saturates [OF e] e by simp
qed

end
