(* ===== verification/MonSpec.thy ===== *)
theory MonSpec
  imports MonInfo Version
begin

text \<open>
  The plan for the monitors of a cluster: which monitors exist, the names, zones and ports of new ones, and
  which one is superfluous. Sources: the functions of \<^verbatim>\<open>mon.go\<close>, \<^verbatim>\<open>spec.go\<close> and \<^verbatim>\<open>health.go\<close> in
  \<^verbatim>\<open>pkg/operator/ceph/cluster/mon\<close> that decide without calling Ceph or Kubernetes, and the methods of the
  cluster specification in \<^verbatim>\<open>pkg/apis/ceph.rook.io/v1\<close>. Of a template of a volume
  claim only whether it is nil and the size it requests matter, so it is an optional size.
\<close>

section \<open>The specification of the cluster\<close>

record MonZoneSpec =
  ZoneName :: string
  Arbiter :: bool
  ZoneClaim :: "string option"

record StretchClusterSpec =
  StretchLabel :: string
  StretchZones :: "MonZoneSpec list"

record ConnectionsSpec =
  ReqMsgr2 :: bool
  Compression :: "bool option"
  Encryption :: "bool option"

text \<open>\<open>EnforceHost\<close> is the package variable \<^verbatim>\<open>enforceHostNetwork\<close>.\<close>

record NetworkSpec =
  HostNetwork :: bool
  Provider :: string
  Connections :: "ConnectionsSpec option"
  MultiClusterService :: bool
  EnforceHost :: bool

record ClusterSpec =
  MonCount :: int
  AllowMultiplePerNode :: bool
  MonFailureDomainLabel :: string
  MonZones :: "MonZoneSpec list"
  StretchCluster :: "StretchClusterSpec option"
  MonClaim :: "string option"
  ExternalMonIDs :: "string list"
  FloatingMon :: string
  Network :: NetworkSpec
  ExternalEnable :: bool
  SpecManagePodBudgets :: bool
  CephImage :: string

definition enabled :: "bool option \<Rightarrow> bool" where
  "enabled p \<longleftrightarrow> p = Some True"

definition RequireMsgr2 :: "ClusterSpec \<Rightarrow> bool" where
  "RequireMsgr2 c =
     (case Connections (Network c) of
        None \<Rightarrow> False
      | Some cn \<Rightarrow> if ReqMsgr2 cn then True else if enabled (Compression cn) then True
                   else if enabled (Encryption cn) then True else False)"

definition NetworkEncryptionEnabled :: "ClusterSpec \<Rightarrow> bool" where
  "NetworkEncryptionEnabled c =
     (case Connections (Network c) of None \<Rightarrow> False | Some cn \<Rightarrow> (case Encryption cn of None \<Rightarrow> False | Some b \<Rightarrow> b))"

definition IsStretchCluster :: "ClusterSpec \<Rightarrow> bool" where
  "IsStretchCluster c \<longleftrightarrow> (case StretchCluster c of None \<Rightarrow> False | Some s \<Rightarrow> StretchZones s \<noteq> [])"

definition ZonesRequired :: "ClusterSpec \<Rightarrow> bool" where
  "ZonesRequired c \<longleftrightarrow> IsStretchCluster c \<or> MonZones c \<noteq> []"

definition IsHost :: "NetworkSpec \<Rightarrow> bool" where
  "IsHost n \<longleftrightarrow> EnforceHost n \<or> (HostNetwork n \<and> Provider n = []) \<or> Provider n = ''host''"

definition stretch_zones :: "ClusterSpec \<Rightarrow> MonZoneSpec list" where
  "stretch_zones c = (case StretchCluster c of None \<Rightarrow> [] | Some s \<Rightarrow> StretchZones s)"

text \<open>The zones that monitors are assigned to, as \<^verbatim>\<open>findAvailableZone\<close> and \<^verbatim>\<open>monVolumeClaimTemplate\<close> choose them.\<close>

definition spec_zones :: "ClusterSpec \<Rightarrow> MonZoneSpec list" where
  "spec_zones c = (if IsStretchCluster c then stretch_zones c else MonZones c)"

definition isFloatingMon :: "ClusterSpec \<Rightarrow> string \<Rightarrow> bool" where
  "isFloatingMon c name \<longleftrightarrow> FloatingMon c \<noteq> [] \<and> name = FloatingMon c"

definition getArbiterZone :: "ClusterSpec \<Rightarrow> string" where
  "getArbiterZone c =
     (if \<not> IsStretchCluster c then []
      else case find Arbiter (stretch_zones c) of None \<Rightarrow> [] | Some z \<Rightarrow> ZoneName z)"

definition isArbiterZone :: "ClusterSpec \<Rightarrow> string \<Rightarrow> bool" where
  "isArbiterZone c zone \<longleftrightarrow> (if \<not> IsStretchCluster c then False else getArbiterZone c = zone)"

definition LabelZoneFailureDomainStable :: string where
  "LabelZoneFailureDomainStable = ''topology.kubernetes.io/zone''"

definition GetFailureDomainLabel :: "ClusterSpec \<Rightarrow> string" where
  "GetFailureDomainLabel c =
     (let stretch = (case StretchCluster c of None \<Rightarrow> [] | Some s \<Rightarrow> StretchLabel s)
      in if IsStretchCluster c \<and> stretch \<noteq> [] then stretch
         else if ZonesRequired c \<and> MonFailureDomainLabel c \<noteq> [] then MonFailureDomainLabel c
         else LabelZoneFailureDomainStable)"

definition getFailureDomainName :: "ClusterSpec \<Rightarrow> string" where
  "getFailureDomainName c =
     (let label = GetFailureDomainLabel c
      in if CHR ''/'' \<in> set label then drop 1 (dropWhile (\<lambda>x. x \<noteq> CHR ''/'') label) else label)"

definition requiredDuringScheduling :: "ClusterSpec \<Rightarrow> bool" where
  "requiredDuringScheduling c \<longleftrightarrow> IsHost (Network c) \<or> \<not> AllowMultiplePerNode c"

definition isMonIPUpdateRequiredForHostNetwork :: "bool \<Rightarrow> NetworkSpec \<Rightarrow> bool" where
  "isMonIPUpdateRequiredForHostNetwork isMonUsingHostNetwork network =
     (if IsHost network \<and> \<not> isMonUsingHostNetwork then True
      else if \<not> IsHost network \<and> isMonUsingHostNetwork then True else False)"

section \<open>Configurations of monitors\<close>

record monConfig =
  ResourceName :: string
  DaemonName :: string
  PublicIP :: string
  Port :: int
  McZone :: string
  McNode :: string
  UseHostNetwork :: bool

definition DefaultMsgr1Port :: int where "DefaultMsgr1Port = 6789"
definition DefaultMsgr2Port :: int where "DefaultMsgr2Port = 3300"

definition clusterInfoToMonConfigWithExclude :: "MonInfo gomap \<Rightarrow> Schedule \<Rightarrow> string \<Rightarrow> monConfig list" where
  "clusterInfoToMonConfigWithExclude internal sched excludedMon =
     map (\<lambda>(_, monitor).
            let monPublicIP = GetIPFromEndpoint (Endpoint monitor)
            in case Option.bind (map_of sched (MiName monitor)) id of
                 None \<Rightarrow> \<lparr>ResourceName = resourceName (MiName monitor), DaemonName = MiName monitor, PublicIP = monPublicIP,
                   Port = GetPortFromEndpoint (Endpoint monitor), McZone = [], McNode = [], UseHostNetwork = False\<rparr>
               | Some schedule \<Rightarrow>
                   \<lparr>ResourceName = resourceName (MiName monitor), DaemonName = MiName monitor, PublicIP = monPublicIP,
                    Port = GetPortFromEndpoint (Endpoint monitor), McZone = Zone schedule, McNode = ScheduleName schedule,
                    UseHostNetwork = (Address schedule = monPublicIP)\<rparr>)
       (filter (\<lambda>(_, monitor). MiName monitor \<noteq> excludedMon) internal)"

definition clusterInfoToMonConfig :: "MonInfo gomap \<Rightarrow> Schedule \<Rightarrow> monConfig list" where
  "clusterInfoToMonConfig internal sched = clusterInfoToMonConfigWithExclude internal sched []"

definition newMonConfig :: "ClusterSpec \<Rightarrow> int \<Rightarrow> string \<Rightarrow> monConfig" where
  "newMonConfig c monID zone =
     (let daemonName = IndexToName monID
      in \<lparr>ResourceName = resourceName daemonName, DaemonName = daemonName, PublicIP = [],
          Port = (if RequireMsgr2 c then DefaultMsgr2Port else DefaultMsgr1Port), McZone = zone, McNode = [],
          UseHostNetwork = IsHost (Network c)\<rparr>)"

text \<open>The number of monitors in a zone.\<close>

definition zoneCount :: "monConfig list \<Rightarrow> string \<Rightarrow> int" where
  "zoneCount mons zone = int (length (filter (\<lambda>m. McZone m = zone) mons))"

text \<open>Whether a zone takes one more monitor.\<close>

definition zone_free :: "ClusterSpec \<Rightarrow> monConfig list \<Rightarrow> MonZoneSpec \<Rightarrow> bool" where
  "zone_free c mons zone \<longleftrightarrow>
     (let count = zoneCount mons (ZoneName zone)
      in count = 0 \<or> IsStretchCluster c \<and> MonCount c = 5 \<and> count = 1 \<and> \<not> Arbiter zone)"

definition findAvailableZone :: "ClusterSpec \<Rightarrow> monConfig list \<Rightarrow> string res" where
  "findAvailableZone c mons =
     (if \<not> ZonesRequired c then Inr []
      else if list_ex (\<lambda>m. McZone m = []) mons then Inl (Errorf ''zone not found on mon'')
      else case find (zone_free c mons) (spec_zones c) of
             Some zone \<Rightarrow> Inr (ZoneName zone)
           | None \<Rightarrow> Inl (Errorf ''A zone is not available to assign a new mon''))"

text \<open>The loop of \<^verbatim>\<open>initMonConfig\<close>: the first argument counts the monitors still missing. The highest identifier is
  increased before the zone is looked for, also when there is none.\<close>

fun init_loop :: "nat \<Rightarrow> ClusterSpec \<Rightarrow> int \<Rightarrow> monConfig list \<Rightarrow> (monConfig list) res \<times> int" where
  "init_loop 0 c maxMonID mons = (Inr mons, maxMonID)"
| "init_loop (Suc n) c maxMonID mons =
     (let maxMonID' = s64 (maxMonID + 1)
      in case findAvailableZone c mons of
           Inl e \<Rightarrow> (Inl (Wrap ''zone not available'' e), maxMonID')
         | Inr zone \<Rightarrow> init_loop n c maxMonID' (mons @ [newMonConfig c maxMonID' zone]))"

definition initMonConfig :: "ClusterSpec \<Rightarrow> MonInfo gomap \<Rightarrow> Schedule \<Rightarrow> int \<Rightarrow> int \<Rightarrow> (int \<times> monConfig list) res \<times> int" where
  "initMonConfig c internal sched maxMonID target =
     (case init_loop (nat (target - int (length internal))) c maxMonID (clusterInfoToMonConfig internal sched) of
        (Inl e, i) \<Rightarrow> (Inl e, i)
      | (Inr mons, i) \<Rightarrow> (Inr (int (length internal), mons), i))"

text \<open>The first zone of that name decides.\<close>

definition monVolumeClaimTemplate :: "ClusterSpec \<Rightarrow> string \<Rightarrow> string option" where
  "monVolumeClaimTemplate c zone =
     (if ZonesRequired c
      then (case find (\<lambda>z. ZoneName z = zone) (spec_zones c) of
              Some z \<Rightarrow> (case ZoneClaim z of Some t \<Rightarrow> Some t | None \<Rightarrow> MonClaim c)
            | None \<Rightarrow> MonClaim c)
      else MonClaim c)"

section \<open>A superfluous monitor\<close>

fun stretch_extra_loop :: "monConfig list \<Rightarrow> MonZoneSpec list \<Rightarrow> string" where
  "stretch_extra_loop mons [] = []"
| "stretch_extra_loop mons (zone # zones) =
     (let count = zoneCount mons (ZoneName zone)
      in if count > (if Arbiter zone then 1 else 2)
         then DaemonName (last (filter (\<lambda>m. McZone m = ZoneName zone) mons))
         else stretch_extra_loop mons zones)"

text \<open>Monitors without a zone are not counted; of several in a zone the last one is named.\<close>

definition findExtraMonToRemoveFromStretchCluster :: "ClusterSpec \<Rightarrow> monConfig list \<Rightarrow> string" where
  "findExtraMonToRemoveFromStretchCluster c mons =
     stretch_extra_loop (filter (\<lambda>m. McZone m \<noteq> []) mons) (stretch_zones c)"

fun extra_loop :: "monConfig list \<Rightarrow> string set \<Rightarrow> string \<Rightarrow> string" where
  "extra_loop [] nodesWithMons arbitraryMon = arbitraryMon"
| "extra_loop (mon # mons) nodesWithMons arbitraryMon =
     (if McNode mon = [] then extra_loop mons nodesWithMons (DaemonName mon)
      else if McNode mon \<in> nodesWithMons then DaemonName mon
      else extra_loop mons (insert (McNode mon) nodesWithMons) (DaemonName mon))"

definition determineExtraMonToRemove :: "ClusterSpec \<Rightarrow> MonInfo gomap \<Rightarrow> Schedule \<Rightarrow> string" where
  "determineExtraMonToRemove c internal sched =
     (let mons = clusterInfoToMonConfig internal sched
      in if IsStretchCluster c then findExtraMonToRemoveFromStretchCluster c mons else extra_loop mons {} [])"

section \<open>Weights of a stretch cluster\<close>

text \<open>
  The comparison of floating-point numbers in the code, \<^verbatim>\<open>float64(diff)/float64(maxWeight) <= 0.1\<close>, is the one of
  integers below: for weights under two to the power of 52 a quotient above one tenth differs from it by more
  than the rounding of the division and of the constant.
\<close>

definition crushWeightsBalanced :: "int \<Rightarrow> int \<Rightarrow> bool" where
  "crushWeightsBalanced a b =
     (if a = b then True
      else let maxWeight = max b a
           in if maxWeight = 0 then False
              else let diff = (if a - b < 0 then - (a - b) else a - b)
                   in if maxWeight > 0 then 10 * diff \<le> maxWeight else True)"

record CrushBucket =
  BucketName :: string
  TypeName :: string
  Weight :: int

definition relaxedStretchCrushWeightCheckVersion :: CephVersion where
  "relaxedStretchCrushWeightCheckVersion = \<lparr>Major = 20, Minor = 2, Extra = 2, Build = 0, CommitID = []\<rparr>"

text \<open>A bucket of a device class has a tilde in its name, not at the start.\<close>

definition device_class_bucket :: "CrushBucket \<Rightarrow> bool" where
  "device_class_bucket b \<longleftrightarrow> CHR ''~'' \<in> set (BucketName b) \<and> hd (BucketName b) \<noteq> CHR ''~''"

text \<open>The loop over the buckets: None when two failure domains differ too much in weight.\<close>

fun stretch_buckets :: "bool \<Rightarrow> string \<Rightarrow> CrushBucket list \<Rightarrow> int \<Rightarrow> int \<Rightarrow> int option" where
  "stretch_buckets relaxed failureDomain [] zones zoneWeight = Some zones"
| "stretch_buckets relaxed failureDomain (b # bs) zones zoneWeight =
     (if TypeName b = failureDomain \<and> \<not> device_class_bucket b
      then (if zoneWeight = -1 then stretch_buckets relaxed failureDomain bs (zones + 1) (Weight b)
            else if zoneWeight \<noteq> Weight b \<and> \<not> (relaxed \<and> crushWeightsBalanced zoneWeight (Weight b)) then None
            else stretch_buckets relaxed failureDomain bs (zones + 1) zoneWeight)
      else stretch_buckets relaxed failureDomain bs zones zoneWeight)"

text \<open>The first argument is None when the pods of the OSDs are not to be checked, the third one the CRUSH map.\<close>

definition readyToConfigureArbiter :: "bool res option \<Rightarrow> CephVersion \<Rightarrow> string \<Rightarrow> CrushBucket list res \<Rightarrow> bool res" where
  "readyToConfigureArbiter osdPods cephVersion failureDomain crushMap =
     (case osdPods of
        Some (Inl e) \<Rightarrow> Inl (Wrap ''failed to check whether all osds are running before enabling the arbiter'' e)
      | Some (Inr False) \<Rightarrow> Inr False
      | _ \<Rightarrow>
          (case crushMap of
             Inl e \<Rightarrow> Inl (Wrap ''failed to get crush map'' e)
           | Inr buckets \<Rightarrow>
               (case stretch_buckets (IsAtLeast cephVersion relaxedStretchCrushWeightCheckVersion) failureDomain buckets 0 (-1) of
                  None \<Rightarrow> Inr False
                | Some n \<Rightarrow>
                    if n < 2 then Inr False
                    else if n > 2 then Inl (Errorf ''cannot configure stretch cluster with more than 2 failure domains'')
                    else Inr True)))"

section \<open>A sample specification\<close>

definition ref_spec :: ClusterSpec where
  "ref_spec = \<lparr>MonCount = 3, AllowMultiplePerNode = False, MonFailureDomainLabel = [], MonZones = [], StretchCluster = None,
     MonClaim = None, ExternalMonIDs = [], FloatingMon = [],
     Network = \<lparr>HostNetwork = False, Provider = [], Connections = None, MultiClusterService = False, EnforceHost = False\<rparr>,
     ExternalEnable = False, SpecManagePodBudgets = True, CephImage = ''ceph''\<rparr>"

definition ref_stretch :: ClusterSpec where
  "ref_stretch = ref_spec\<lparr>MonCount := 5, StretchCluster := Some \<lparr>StretchLabel = [], StretchZones =
     [\<lparr>ZoneName = ''a'', Arbiter = True, ZoneClaim = None\<rparr>, \<lparr>ZoneName = ''b'', Arbiter = False, ZoneClaim = None\<rparr>,
      \<lparr>ZoneName = ''c'', Arbiter = False, ZoneClaim = None\<rparr>]\<rparr>\<rparr>"

section \<open>Names of new monitors\<close>

lemma fullNameToIndex_plain:
  assumes "index_ok i" shows "fullNameToIndex (IndexToName i) = Inr i"
proof -
  have l: "list_all lower (IndexToName i)" using assms by (simp add: index_ok_def IndexToName_lower)
  have "\<not> has_prefix MonAppName (IndexToName i)"
    using lower_plain [OF l] by (auto simp: MonAppName_def elim!: has_prefixE)
  moreover have "\<not> has_prefix ''-'' (IndexToName i)" using lower_plain [OF l] by (auto elim!: has_prefixE)
  ultimately show ?thesis using assms
    by (simp add: fullNameToIndex_def trim_prefix_def NameToIndex_IndexToName)
qed

definition new_names :: "int \<Rightarrow> nat \<Rightarrow> string list" where
  "new_names i n = map (\<lambda>k. IndexToName (i + 1 + int k)) [0..<n]"

lemma new_names_Suc: "new_names i (Suc n) = IndexToName (i + 1) # new_names (i + 1) n"
  by (simp add: new_names_def upt_conv_Cons map_Suc_upt [symmetric] del: upt_Suc) (simp add: algebra_simps)

lemma init_loop_names:
  assumes "init_loop n c i mons = (Inr ms, i')" and "-1 \<le> i" and "i + int n < 2 ^ 63 - 1"
  shows "i' = i + int n \<and> (\<exists>new. ms = mons @ new \<and> map DaemonName new = new_names i n)"
  using assms
proof (induction n arbitrary: i mons)
  case 0
  then show ?case by (simp add: new_names_def)
next
  case (Suc n)
  have s: "s64 (i + 1) = i + 1" using Suc.prems by (simp add: int64_ok_def)
  from Suc.prems obtain zone where r: "init_loop n c (i + 1) (mons @ [newMonConfig c (i + 1) zone]) = (Inr ms, i')"
    by (auto simp: Let_def s split: sum.splits)
  from Suc.IH [OF r] Suc.prems obtain new where "i' = i + 1 + int n"
    "ms = (mons @ [newMonConfig c (i + 1) zone]) @ new" "map DaemonName new = new_names (i + 1) n" by auto
  moreover have "DaemonName (newMonConfig c (i + 1) zone) = IndexToName (i + 1)" by (simp add: newMonConfig_def Let_def)
  ultimately show ?case
    by (intro conjI exI [of _ "newMonConfig c (i + 1) zone # new"]) (simp_all add: new_names_Suc)
qed

lemma new_names_index:
  assumes "x \<in> set (new_names i n)" "-1 \<le> i" "i + int n < 2 ^ 63 - 1"
  shows "\<exists>j. fullNameToIndex x = Inr j \<and> i < j"
proof -
  from assms(1) obtain k where k: "k < n" "x = IndexToName (i + 1 + int k)" by (auto simp: new_names_def)
  then have "index_ok (i + 1 + int k)" using assms(2,3) by (simp add: index_ok_def)
  from fullNameToIndex_plain [OF this] k(2) show ?thesis by auto
qed

lemma distinct_new_names:
  assumes "-1 \<le> i" "i + int n < 2 ^ 63 - 1" shows "distinct (new_names i n)"
proof -
  have "index_ok (i + 1 + int k)" if "k < n" for k using that assms by (simp add: index_ok_def)
  then have "inj_on (\<lambda>k. IndexToName (i + 1 + int k)) {0..<n}"
    using NameToIndex_IndexToName by (intro inj_onI) (metis add_left_cancel atLeastLessThan_iff nat_int sum.inject(2))
  then show ?thesis by (simp add: new_names_def distinct_map)
qed

text \<open>The monitors of the cluster info: keyed by name, with an identifier that is accounted for.\<close>

definition known_mons :: "MonInfo gomap \<Rightarrow> int \<Rightarrow> bool" where
  "known_mons internal maxMonID \<longleftrightarrow> wf_map internal \<and>
     list_all (\<lambda>(k, m). k = MiName m \<and> k \<noteq> [] \<and>
       (case fullNameToIndex k of Inl _ \<Rightarrow> True | Inr i \<Rightarrow> i \<le> maxMonID)) internal"

lemma config_names: "known_mons internal i \<Longrightarrow> map DaemonName (clusterInfoToMonConfig internal sched) = keys internal"
  unfolding clusterInfoToMonConfig_def clusterInfoToMonConfigWithExclude_def
  by (induction internal) (auto simp: known_mons_def wf_map_def keys_def Let_def split: option.splits)

text \<open>C22. New monitors get names that were never used: when the highest identifier accounts for the monitors
  that exist, the plan of \<open>initMonConfig\<close> keeps them all, adds the missing ones under the next identifiers, and
  no two monitors share a name; the highest identifier moves on by the number of new monitors.\<close>

theorem new_mons_fresh:
  assumes "known_mons internal maxMonID" and "-1 \<le> maxMonID" and "maxMonID + target < 2 ^ 63 - 1" and "0 \<le> target"
    and "initMonConfig c internal sched maxMonID target = (Inr (existing, mons), maxMonID')"
  shows "existing = int (length internal) \<and> maxMonID' = maxMonID + max 0 (target - existing) \<and>
    map DaemonName mons = keys internal @ new_names maxMonID (nat (target - existing)) \<and> distinct (map DaemonName mons)"
proof -
  let ?n = "nat (target - int (length internal))"
  from assms(5) have e: "existing = int (length internal)"
    and l: "init_loop ?n c maxMonID (clusterInfoToMonConfig internal sched) = (Inr mons, maxMonID')"
    by (auto simp: initMonConfig_def split: prod.splits sum.splits)
  have b: "maxMonID + int ?n < 2 ^ 63 - 1" using assms(3,4) by simp
  from init_loop_names [OF l assms(2) b] obtain new where
    i: "maxMonID' = maxMonID + int ?n" and m: "mons = clusterInfoToMonConfig internal sched @ new"
      "map DaemonName new = new_names maxMonID ?n" by blast
  have names: "map DaemonName mons = keys internal @ new_names maxMonID ?n"
    using config_names [OF assms(1)] m by simp
  have "x \<notin> set (keys internal)" if x: "x \<in> set (new_names maxMonID ?n)" for x
  proof
    assume "x \<in> set (keys internal)"
    moreover obtain j where "fullNameToIndex x = Inr j" "maxMonID < j" using new_names_index [OF x assms(2) b] by blast
    ultimately show False using assms(1) by (fastforce simp: known_mons_def list_all_iff keys_def)
  qed
  then have "distinct (map DaemonName mons)"
    using assms(1) distinct_new_names [OF assms(2) b] by (auto simp: names known_mons_def wf_map_def)
  with e i names show ?thesis by auto
qed

theorem new_mons_fresh_witness:
  "map DaemonName (snd (case fst (initMonConfig ref_spec [(''b'', NewMonInfo ''b'' ''10.0.0.1'' 6789)] [] 4 3) of Inr r \<Rightarrow> r)) =
   [''b'', ''f'', ''g'']"
proof -
  let ?i = "[(''b'', NewMonInfo ''b'' ''10.0.0.1'' 6789)]"
  have k: "known_mons ?i 4" by code_simp
  obtain mons where m: "initMonConfig ref_spec ?i [] 4 3 = (Inr (1, mons), 6)"
  proof -
    have "snd (initMonConfig ref_spec ?i [] 4 3) = 6 \<and>
      (case fst (initMonConfig ref_spec ?i [] 4 3) of Inl _ \<Rightarrow> False | Inr r \<Rightarrow> fst r = 1)" by code_simp
    then show ?thesis using that by (cases "fst (initMonConfig ref_spec ?i [] 4 3)") (auto simp: prod_eq_iff)
  qed
  from new_mons_fresh [OF k _ _ _ m] have "map DaemonName mons = keys ?i @ new_names 4 2" by simp
  moreover have "keys ?i @ new_names 4 2 = [''b'', ''f'', ''g'']" by code_simp
  ultimately show ?thesis by (simp add: m)
qed

section \<open>Zones\<close>

text \<open>How many monitors a zone takes.\<close>

definition capacity :: "ClusterSpec \<Rightarrow> MonZoneSpec \<Rightarrow> int" where
  "capacity c z = (if IsStretchCluster c \<and> MonCount c = 5 \<and> \<not> Arbiter z then 2 else 1)"

text \<open>An assignment that respects the zones: each monitor is in a zone of the specification and no zone has
  more monitors than it takes.\<close>

definition zones_ok :: "ClusterSpec \<Rightarrow> monConfig list \<Rightarrow> bool" where
  "zones_ok c mons \<longleftrightarrow> list_all (\<lambda>m. McZone m \<in> ZoneName ` set (spec_zones c)) mons \<and>
     list_all (\<lambda>z. zoneCount mons (ZoneName z) \<le> capacity c z) (spec_zones c)"

text \<open>Zones with names of their own.\<close>

definition named_zones :: "ClusterSpec \<Rightarrow> bool" where
  "named_zones c \<longleftrightarrow> distinct (map ZoneName (spec_zones c)) \<and> [] \<notin> ZoneName ` set (spec_zones c)"

lemma zoneCount_nonneg [simp]: "0 \<le> zoneCount mons z"
  by (simp add: zoneCount_def)

lemma zone_free_iff: "zone_free c mons z \<longleftrightarrow> zoneCount mons (ZoneName z) < capacity c z"
proof -
  have "zoneCount mons (ZoneName z) = 0 \<or> zoneCount mons (ZoneName z) = 1 \<or> 2 \<le> zoneCount mons (ZoneName z)"
    using zoneCount_nonneg [of mons "ZoneName z"] by linarith
  then show ?thesis by (elim disjE) (auto simp: zone_free_def capacity_def Let_def)
qed

lemma zoneCount_snoc: "zoneCount (mons @ [m]) z = zoneCount mons z + (if McZone m = z then 1 else 0)"
  by (simp add: zoneCount_def)

lemma findAvailableZone_ok:
  assumes "ZonesRequired c" "named_zones c" "zones_ok c mons"
  shows "case findAvailableZone c mons of
      Inr zone \<Rightarrow> \<exists>z \<in> set (spec_zones c). zone = ZoneName z \<and> zoneCount mons (ZoneName z) < capacity c z
    | Inl _ \<Rightarrow> \<forall>z \<in> set (spec_zones c). zoneCount mons (ZoneName z) = capacity c z"
proof -
  have ne: "\<not> list_ex (\<lambda>m. McZone m = []) mons"
    using assms(2,3) unfolding named_zones_def zones_ok_def list_ex_iff list_all_iff by metis
  show ?thesis
  proof (cases "find (zone_free c mons) (spec_zones c)")
    case None
    then obtain e where e: "findAvailableZone c mons = Inl e" using assms(1) ne by (simp add: findAvailableZone_def)
    from None have "capacity c z \<le> zoneCount mons (ZoneName z)" if "z \<in> set (spec_zones c)" for z
      using that by (auto simp: find_None_iff zone_free_iff not_less)
    then show ?thesis using assms(3) by (simp add: e zones_ok_def list_all_iff antisym)
  next
    case (Some z)
    then have "findAvailableZone c mons = Inr (ZoneName z)" using assms(1) ne by (simp add: findAvailableZone_def)
    moreover from Some have "z \<in> set (spec_zones c)" "zone_free c mons z" by (auto simp: find_Some_iff)
    ultimately show ?thesis by (auto simp: zone_free_iff)
  qed
qed

lemma zones_ok_snoc:
  assumes "zones_ok c mons" "z \<in> set (spec_zones c)" "zoneCount mons (ZoneName z) < capacity c z" "named_zones c"
    "McZone m = ZoneName z"
  shows "zones_ok c (mons @ [m])"
proof -
  have "zoneCount (mons @ [m]) (ZoneName y) \<le> capacity c y" if y: "y \<in> set (spec_zones c)" for y
  proof (cases "ZoneName y = ZoneName z")
    case True
    then have "y = z" using assms(2,4) y by (auto simp: named_zones_def distinct_map dest: inj_onD)
    then show ?thesis using assms(3,5) by (simp add: zoneCount_snoc)
  next
    case False
    then show ?thesis using assms(1,5) y by (auto simp: zoneCount_snoc zones_ok_def list_all_iff)
  qed
  then show ?thesis using assms(1,2,5) by (auto simp: zones_ok_def list_all_iff)
qed

lemma zone_sum:
  assumes "named_zones c" "list_all (\<lambda>m. McZone m \<in> ZoneName ` set (spec_zones c)) mons"
  shows "(\<Sum>z\<leftarrow>spec_zones c. zoneCount mons (ZoneName z)) = int (length mons)"
  using assms(2)
proof (induction mons rule: rev_induct)
  case Nil
  then show ?case by (simp add: zoneCount_def)
next
  case (snoc m mons)
  let ?n = "\<lambda>z. if McZone m = ZoneName z then 1 else (0::int)"
  have "(\<Sum>z\<leftarrow>spec_zones c. ?n z) = (\<Sum>x\<leftarrow>map ZoneName (spec_zones c). if McZone m = x then 1 else 0)"
    by (simp add: o_def)
  also have "\<dots> = (\<Sum>x \<in> ZoneName ` set (spec_zones c). if McZone m = x then 1 else 0)"
    using assms(1) by (subst sum_list_distinct_conv_sum_set) (simp_all add: named_zones_def)
  also have "\<dots> = 1" using snoc.prems by (simp add: sum.delta')
  finally show ?case using snoc by (simp add: zoneCount_snoc sum_list_addf)
qed

lemma init_loop_zones:
  assumes "ZonesRequired c" "named_zones c" "zones_ok c mons"
  shows "case fst (init_loop n c i mons) of
      Inr ms \<Rightarrow> zones_ok c ms
    | Inl _ \<Rightarrow> (\<Sum>z\<leftarrow>spec_zones c. capacity c z) < int (length mons) + int n"
  using assms(3)
proof (induction n arbitrary: i mons)
  case (Suc n)
  note z = findAvailableZone_ok [OF assms(1,2) Suc.prems]
  show ?case
  proof (cases "findAvailableZone c mons")
    case (Inl e)
    with z have "map (\<lambda>z. capacity c z) (spec_zones c) = map (\<lambda>z. zoneCount mons (ZoneName z)) (spec_zones c)" by simp
    then have "(\<Sum>z\<leftarrow>spec_zones c. capacity c z) = (\<Sum>z\<leftarrow>spec_zones c. zoneCount mons (ZoneName z))" by (rule arg_cong)
    also have "\<dots> = int (length mons)" using Suc.prems by (intro zone_sum [OF assms(2)]) (simp add: zones_ok_def)
    finally have "(\<Sum>z\<leftarrow>spec_zones c. capacity c z) = int (length mons)" .
    with Inl show ?thesis by (simp add: Let_def)
  next
    case (Inr zone)
    with z obtain y where y: "y \<in> set (spec_zones c)" "zone = ZoneName y" "zoneCount mons (ZoneName y) < capacity c y" by auto
    let ?m = "newMonConfig c (s64 (i + 1)) zone"
    have "zones_ok c (mons @ [?m])"
      using zones_ok_snoc [OF Suc.prems y(1,3) assms(2)] y(2) by (simp add: newMonConfig_def Let_def)
    from Suc.IH [OF this, of "s64 (i + 1)"] Inr show ?thesis by (simp add: Let_def split: sum.splits)
  qed
qed simp

text \<open>C20. Monitors are spread over the zones: from an assignment that respects the zones, \<open>initMonConfig\<close> reaches
  another one, and it finds a zone for each monitor whenever the zones together take as many as are wanted;
  in a stretch cluster of five monitors these are one in the arbiter zone and two in each other zone.\<close>

theorem zones_respected:
  assumes "ZonesRequired c" and "named_zones c" and "zones_ok c (clusterInfoToMonConfig internal sched)"
    and "length (clusterInfoToMonConfig internal sched) = length internal" and "int (length internal) \<le> target"
  shows "case fst (initMonConfig c internal sched maxMonID target) of
      Inr (_, mons) \<Rightarrow> zones_ok c mons
    | Inl _ \<Rightarrow> (\<Sum>z\<leftarrow>spec_zones c. capacity c z) < target"
  using init_loop_zones [OF assms(1-3), of "nat (target - int (length internal))" maxMonID] assms(4,5)
  by (auto simp: initMonConfig_def split: prod.splits sum.splits)

theorem zones_respected_witness:
  "case fst (initMonConfig ref_stretch [] [] (-1) 5) of Inl _ \<Rightarrow> False
   | Inr (_, mons) \<Rightarrow> zones_ok ref_stretch mons \<and> map McZone mons = [''a'', ''b'', ''b'', ''c'', ''c'']"
proof -
  have "case fst (initMonConfig ref_stretch [] [] (-1) 5) of
      Inr (_, mons) \<Rightarrow> zones_ok ref_stretch mons
    | Inl _ \<Rightarrow> (\<Sum>z\<leftarrow>spec_zones ref_stretch. capacity ref_stretch z) < 5"
    by (rule zones_respected; code_simp)
  moreover have "case fst (initMonConfig ref_stretch [] [] (-1) 5) of Inl _ \<Rightarrow> False
   | Inr (_, mons) \<Rightarrow> map McZone mons = [''a'', ''b'', ''b'', ''c'', ''c'']" by code_simp
  ultimately show ?thesis by (auto split: sum.splits)
qed

section \<open>Removing a superfluous monitor\<close>

text \<open>A monitor whose node one of the earlier monitors, or of the nodes \<open>S\<close>, has already taken.\<close>

definition shares_node :: "string set \<Rightarrow> monConfig list \<Rightarrow> monConfig \<Rightarrow> bool" where
  "shares_node S mons m \<longleftrightarrow> (\<exists>pre post. mons = pre @ m # post \<and> McNode m \<noteq> [] \<and> McNode m \<in> S \<union> McNode ` set pre)"

lemma shares_node_Cons:
  "shares_node S (x # mons) m \<longleftrightarrow>
     m = x \<and> McNode m \<noteq> [] \<and> McNode m \<in> S \<or> shares_node (insert (McNode x) S) mons m"
  unfolding shares_node_def by (auto simp: Cons_eq_append_conv) (metis Un_iff append_Cons image_eqI insert_iff list.set_intros)+

lemma shares_node_free: "shares_node (insert [] S) mons m \<longleftrightarrow> shares_node S mons m"
  by (auto simp: shares_node_def)

lemma extra_loop_spec:
  "(\<exists>m. shares_node S mons m \<and> extra_loop mons S a = DaemonName m) \<or>
   (\<forall>m. \<not> shares_node S mons m) \<and> extra_loop mons S a = (if mons = [] then a else DaemonName (last mons))"
proof (induction mons arbitrary: S a)
  case Nil
  then show ?case by (simp add: shares_node_def)
next
  case (Cons x mons)
  consider "McNode x = []" | "McNode x \<noteq> []" "McNode x \<in> S" | "McNode x \<noteq> []" "McNode x \<notin> S" by blast
  then show ?case
  proof cases
    case 1
    with Cons.IH [of S "DaemonName x"] show ?thesis by (auto simp: shares_node_Cons shares_node_free)
  next
    case 2
    then show ?thesis by (auto simp: shares_node_Cons)
  next
    case 3
    with Cons.IH [of "insert (McNode x) S" "DaemonName x"] show ?thesis by (auto simp: shares_node_Cons)
  qed
qed

text \<open>A zone of a stretch cluster with more monitors than it needs.\<close>

definition overfull :: "monConfig list \<Rightarrow> MonZoneSpec \<Rightarrow> bool" where
  "overfull mons z \<longleftrightarrow> zoneCount mons (ZoneName z) > (if Arbiter z then 1 else 2)"

lemma stretch_extra_loop_spec:
  "(\<exists>z \<in> set zones. \<exists>m \<in> set mons. overfull mons z \<and> McZone m = ZoneName z \<and> stretch_extra_loop mons zones = DaemonName m) \<or>
   (\<forall>z \<in> set zones. \<not> overfull mons z) \<and> stretch_extra_loop mons zones = []"
proof (induction zones)
  case (Cons z zones)
  show ?case
  proof (cases "overfull mons z")
    case True
    let ?f = "filter (\<lambda>m. McZone m = ZoneName z) mons"
    have "?f \<noteq> []" using True by (auto simp: overfull_def zoneCount_def split: if_splits)
    then have "last ?f \<in> set ?f" by (rule last_in_set)
    moreover have "stretch_extra_loop mons (z # zones) = DaemonName (last ?f)"
      using True by (simp add: overfull_def Let_def)
    ultimately show ?thesis using True by auto
  next
    case False
    with Cons.IH show ?thesis by (auto simp: overfull_def Let_def)
  qed
qed simp

text \<open>C28. The monitor picked for removal when there are too many: in a stretch cluster one of a zone that has
  more than it needs, or none if there is no such zone; in any other cluster, whose zones are not looked at, one that shares
  its node with another monitor if there is any, and the last one visited if all are apart.\<close>

theorem extra_mon_chosen:
  assumes "known_mons internal i" and "internal \<noteq> []"
  shows "let mons = clusterInfoToMonConfig internal sched; x = determineExtraMonToRemove c internal sched;
             zoned = filter (\<lambda>m. McZone m \<noteq> []) mons
         in if IsStretchCluster c
            then (\<exists>z \<in> set (stretch_zones c). \<exists>m \<in> set mons. overfull zoned z \<and> McZone m = ZoneName z \<and> x = DaemonName m) \<or>
                 (\<forall>z \<in> set (stretch_zones c). \<not> overfull zoned z) \<and> x = []
            else (\<exists>m. shares_node {} mons m \<and> x = DaemonName m) \<or>
                 (\<forall>m. \<not> shares_node {} mons m) \<and> x = last (keys internal)"
proof -
  let ?m = "clusterInfoToMonConfig internal sched"
  have n: "map DaemonName ?m = keys internal" using config_names [OF assms(1)] .
  then have ne: "?m \<noteq> []" using assms(2) by (auto simp: keys_def)
  with n have "DaemonName (last ?m) = last (keys internal)" by (metis last_map)
  then show ?thesis
    using extra_loop_spec [of "{}" ?m "[]"] ne
      stretch_extra_loop_spec [of "stretch_zones c" "filter (\<lambda>m. McZone m \<noteq> []) ?m"]
    by (auto simp: Let_def determineExtraMonToRemove_def findExtraMonToRemoveFromStretchCluster_def)
qed

theorem extra_mon_chosen_witness:
  "determineExtraMonToRemove ref_spec
     [(''a'', NewMonInfo ''a'' ''10.0.0.1'' 6789), (''b'', NewMonInfo ''b'' ''10.0.0.2'' 6789)] [] = ''b''"
proof -
  let ?i = "[(''a'', NewMonInfo ''a'' ''10.0.0.1'' 6789), (''b'', NewMonInfo ''b'' ''10.0.0.2'' 6789)]"
  have k: "known_mons ?i 1" and s: "\<not> IsStretchCluster ref_spec" by code_simp+
  have "McNode m = []" if "m \<in> set (clusterInfoToMonConfig ?i [])" for m
    using that by (auto simp: clusterInfoToMonConfig_def clusterInfoToMonConfigWithExclude_def Let_def split: if_splits)
  then have "\<not> shares_node {} (clusterInfoToMonConfig ?i []) m" for m
    by (auto simp: shares_node_def dest!: arg_cong [of _ _ set])
  with extra_mon_chosen [OF k, of "[]" ref_spec] s show ?thesis by (auto simp: Let_def keys_def)
qed

end
