(* ===== verification/CsiConfig.thy ===== *)
theory CsiConfig
  imports MonInfo Version Disruption
begin

text \<open>
  The configuration of the Ceph CSI driver: \<^verbatim>\<open>cluster_config.go\<close> and \<^verbatim>\<open>ceph_connection.go\<close> in
  \<^verbatim>\<open>pkg/operator/ceph/csi\<close>. The entries of the configuration embed a structure of another repository, whose JSON text
  is a parameter: a printer and a parser of lists of entries, of which only the fields that the code
  touches appear here.
\<close>

section \<open>Entries\<close>

record CephFSSpec =
  FsNetNamespaceFilePath :: string
  SubvolumeGroup :: string
  KernelMountOptions :: string
  FuseMountOptions :: string

record RBDSpec =
  RbdNetNamespaceFilePath :: string
  RadosNamespace :: string

record ReadAffinitySpec =
  AffinityEnabled :: bool
  CrushLocationLabels :: "string list"

record CSIClusterConfigEntry =
  ClusterID :: string
  Monitors :: "string list"
  EntryCephFS :: CephFSSpec
  EntryRBD :: RBDSpec
  NfsNetNamespaceFilePath :: string
  ReadAffinity :: ReadAffinitySpec
  EntryNamespace :: string

definition no_affinity :: ReadAffinitySpec where
  "no_affinity = \<lparr>AffinityEnabled = False, CrushLocationLabels = []\<rparr>"

definition empty_entry :: CSIClusterConfigEntry where
  "empty_entry = \<lparr>ClusterID = [], Monitors = [],
     EntryCephFS = \<lparr>FsNetNamespaceFilePath = [], SubvolumeGroup = [], KernelMountOptions = [], FuseMountOptions = []\<rparr>,
     EntryRBD = \<lparr>RbdNetNamespaceFilePath = [], RadosNamespace = []\<rparr>, NfsNetNamespaceFilePath = [],
     ReadAffinity = no_affinity, EntryNamespace = []\<rparr>"

definition FormatCsiClusterConfig :: "(CSIClusterConfigEntry list \<Rightarrow> string) \<Rightarrow> string \<Rightarrow> MonInfo gomap \<Rightarrow> string" where
  "FormatCsiClusterConfig marshal clusterKey mons =
     marshal [empty_entry\<lparr>ClusterID := clusterKey, Monitors := map (\<lambda>(_, m). Endpoint m) mons\<rparr>]"

definition msgr1Suffix :: string where "msgr1Suffix = '':6789''"

definition MonEndpoints :: "MonInfo gomap \<Rightarrow> bool \<Rightarrow> string list" where
  "MonEndpoints mons requireMsgr2 =
     map (\<lambda>(_, m).
            if requireMsgr2 \<and> has_suffix msgr1Suffix (Endpoint m)
            then take (length (Endpoint m) - length msgr1Suffix) (Endpoint m) @ '':'' @ Itoa Msgr2port
            else Endpoint m) mons"

definition ReadAffinityEnabled :: "bool \<Rightarrow> CephVersion \<Rightarrow> bool" where
  "ReadAffinityEnabled desiredEnabled v =
     (if \<not> desiredEnabled then False
      else if Major v = 20 \<and> Minor v = 2 \<and> Extra v = 0 then False else True)"

section \<open>Updating the entries\<close>

definition updateNetNamespaceFilePath :: "string \<Rightarrow> CSIClusterConfigEntry list \<Rightarrow> CSIClusterConfigEntry list" where
  "updateNetNamespaceFilePath clusterNamespace cc =
     map (\<lambda>e. if EntryNamespace e = clusterNamespace
              then e\<lparr>EntryCephFS := (EntryCephFS e)\<lparr>FsNetNamespaceFilePath := []\<rparr>,
                     EntryRBD := (EntryRBD e)\<lparr>RbdNetNamespaceFilePath := []\<rparr>, NfsNetNamespaceFilePath := []\<rparr>
              else e) cc"

definition copy_mount_options :: "CSIClusterConfigEntry \<Rightarrow> CSIClusterConfigEntry \<Rightarrow> CSIClusterConfigEntry" where
  "copy_mount_options new e =
     e\<lparr>EntryCephFS := (EntryCephFS e)\<lparr>KernelMountOptions := KernelMountOptions (EntryCephFS new),
         FuseMountOptions := FuseMountOptions (EntryCephFS new)\<rparr>\<rparr>"

text \<open>The first loop: an entry without a namespace is repaired, the entries of the cluster itself get the new
  monitors.\<close>

definition refresh_entry :: "string \<Rightarrow> string \<Rightarrow> CSIClusterConfigEntry \<Rightarrow> CSIClusterConfigEntry \<Rightarrow> CSIClusterConfigEntry" where
  "refresh_entry clusterID infoNamespace new e =
     (let e1 = (if EntryNamespace e = [] \<and> ClusterID e = clusterID then e\<lparr>EntryNamespace := infoNamespace\<rparr> else e)
      in if clusterID = EntryNamespace e1
         then copy_mount_options new (e1\<lparr>Monitors := Monitors new, ReadAffinity := ReadAffinity new\<rparr>) else e1)"

text \<open>The second loop on the entry of the identifier.\<close>

definition merge_entry :: "CSIClusterConfigEntry \<Rightarrow> CSIClusterConfigEntry \<Rightarrow> CSIClusterConfigEntry" where
  "merge_entry new e =
     (let e1 = e\<lparr>Monitors := Monitors new\<rparr>;
          e2 = (if SubvolumeGroup (EntryCephFS new) \<noteq> [] \<or> FsNetNamespaceFilePath (EntryCephFS new) \<noteq> []
                then e1\<lparr>EntryCephFS := EntryCephFS new\<rparr> else copy_mount_options new e1);
          e3 = (if NfsNetNamespaceFilePath new \<noteq> [] then e2\<lparr>NfsNetNamespaceFilePath := NfsNetNamespaceFilePath new\<rparr> else e2);
          e4 = (if RadosNamespace (EntryRBD new) \<noteq> [] \<or> RbdNetNamespaceFilePath (EntryRBD new) \<noteq> []
                then e3\<lparr>EntryRBD := EntryRBD new\<rparr> else e3)
      in if CrushLocationLabels (ReadAffinity new) \<noteq> [] then e4\<lparr>ReadAffinity := ReadAffinity new\<rparr> else e4)"

fun merge_first :: "string \<Rightarrow> CSIClusterConfigEntry option \<Rightarrow> CSIClusterConfigEntry list \<Rightarrow> CSIClusterConfigEntry list \<times> bool" where
  "merge_first clusterID new [] = ([], False)"
| "merge_first clusterID new (e # es) =
     (if ClusterID e = clusterID
      then (case new of None \<Rightarrow> (es, True) | Some n \<Rightarrow> (merge_entry n e # es, True))
      else case merge_first clusterID new es of (es', found) \<Rightarrow> (e # es', found))"

definition new_entry :: "string \<Rightarrow> string \<Rightarrow> CSIClusterConfigEntry \<Rightarrow> CSIClusterConfigEntry" where
  "new_entry clusterID infoNamespace new =
     empty_entry\<lparr>ClusterID := clusterID, EntryNamespace := infoNamespace, Monitors := Monitors new, EntryRBD := EntryRBD new,
       EntryCephFS := EntryCephFS new, NfsNetNamespaceFilePath := NfsNetNamespaceFilePath new,
       ReadAffinity := (if CrushLocationLabels (ReadAffinity new) \<noteq> [] then ReadAffinity new else no_affinity)\<rparr>"

definition update_entries ::
  "string \<Rightarrow> string \<Rightarrow> CephVersion \<Rightarrow> CSIClusterConfigEntry option \<Rightarrow> CSIClusterConfigEntry list \<Rightarrow> CSIClusterConfigEntry list" where
  "update_entries clusterID infoNamespace cephVersion new cc =
     (let new' = map_option (\<lambda>n. if ReadAffinityEnabled (AffinityEnabled (ReadAffinity n)) cephVersion then n
                                 else n\<lparr>ReadAffinity := no_affinity\<rparr>) new;
          cc1 = (case new' of None \<Rightarrow> cc | Some n \<Rightarrow> map (refresh_entry clusterID infoNamespace n) cc)
      in case merge_first clusterID new' cc1 of
           (cc2, found) \<Rightarrow>
             updateNetNamespaceFilePath clusterID
               (case new' of Some n \<Rightarrow> if \<not> found then cc2 @ [new_entry clusterID infoNamespace n] else cc2 | None \<Rightarrow> cc2))"

definition updateCsiClusterConfig ::
  "(CSIClusterConfigEntry list \<Rightarrow> string) \<Rightarrow> (string \<Rightarrow> CSIClusterConfigEntry list res) \<Rightarrow> string \<Rightarrow> string \<Rightarrow> string \<Rightarrow>
   CephVersion \<Rightarrow> CSIClusterConfigEntry option \<Rightarrow> string res" where
  "updateCsiClusterConfig marshal unmarshal current clusterID infoNamespace cephVersion new =
     (case unmarshal current of
        Inl e \<Rightarrow> Inl (Wrap ''failed to parse current csi cluster config'' e)
      | Inr cc \<Rightarrow> Inr (marshal (update_entries clusterID infoNamespace cephVersion new cc)))"

section \<open>The config map\<close>

definition CsiConfigName :: string where "CsiConfigName = ''rook-ceph-csi-config''"
definition CsiConfigKey :: string where "CsiConfigKey = ''csi-cluster-config-json''"

record CsiConfigMap =
  CsiData :: "string \<rightharpoonup> string"
  CsiOwners :: "string list"

text \<open>\<^verbatim>\<open>SetControllerReference\<close> of the owner is a parameter; the owner is known by its UID.\<close>

definition updateCsiConfigMapOwnerRefs ::
  "(CsiConfigMap, 'c) kube \<Rightarrow> (CsiConfigMap \<Rightarrow> CsiConfigMap res) \<Rightarrow> string \<Rightarrow> string \<Rightarrow> 'c \<Rightarrow> err option \<times> 'c" where
  "updateCsiConfigMapOwnerRefs api set_controller uid namespace w =
     (case kget api (namespace, CsiConfigName) w of
        (Inl e, w1) \<Rightarrow> (Some (Wrap ''failed to fetch csi config map'' e), w1)
      | (Inr cm, w1) \<Rightarrow>
          if CsiOwners cm = [uid] then (None, w1)
          else (case set_controller (cm\<lparr>CsiOwners := []\<rparr>) of
                  Inl e \<Rightarrow> (Some (Wrap ''failed to set updated owner reference on csi config map'' e), w1)
                | Inr cm' \<Rightarrow>
                    (case kupdate api (namespace, CsiConfigName) cm' w1 of
                       (Some e, w2) \<Rightarrow> (Some (Wrap ''failed to update csi config map'' e), w2)
                     | (None, w2) \<Rightarrow> (None, w2))))"

definition CreateCsiConfigMap ::
  "(CsiConfigMap, 'c) kube \<Rightarrow> (CsiConfigMap \<Rightarrow> CsiConfigMap res) \<Rightarrow> string \<Rightarrow> string \<Rightarrow> 'c \<Rightarrow> err option \<times> 'c" where
  "CreateCsiConfigMap api set_controller uid namespace w =
     (case set_controller \<lparr>CsiData = [CsiConfigKey \<mapsto> ''[]''], CsiOwners = []\<rparr> of
        Inl e \<Rightarrow> (Some (Wrap ''failed to set owner reference to csi configmap'' e), w)
      | Inr cm \<Rightarrow>
          (case kcreate api (namespace, CsiConfigName) cm w of
             (None, w1) \<Rightarrow> (None, w1)
           | (Some e, w1) \<Rightarrow>
               if \<not> IsAlreadyExists e then (Some (Wrap ''failed to create initial csi config map'' e), w1)
               else (case updateCsiConfigMapOwnerRefs api set_controller uid namespace w1 of
                       (Some e, w2) \<Rightarrow> (Some (Wrap ''failed to ensure csi config map owner references'' e), w2)
                     | (None, w2) \<Rightarrow> (None, w2))))"

section \<open>Properties of an update\<close>

lemma copy_mount_keys [simp]:
  "ClusterID (copy_mount_options n e) = ClusterID e" "EntryNamespace (copy_mount_options n e) = EntryNamespace e"
  "Monitors (copy_mount_options n e) = Monitors e" "EntryRBD (copy_mount_options n e) = EntryRBD e"
  by (simp_all add: copy_mount_options_def)

lemma merge_entry_keys [simp]:
  "ClusterID (merge_entry n e) = ClusterID e" "EntryNamespace (merge_entry n e) = EntryNamespace e"
  "Monitors (merge_entry n e) = Monitors n"
  by (simp_all add: merge_entry_def Let_def)

lemma merge_first_found: "snd (merge_first i new cc) \<longleftrightarrow> i \<in> ClusterID ` set cc"
  by (induction cc) (auto split: option.splits prod.splits)

lemma ids_merge_first: "map ClusterID (fst (merge_first i (Some n) cc)) = map ClusterID cc"
  by (induction cc) (auto split: prod.splits)

lemma refresh_keys [simp]: "ClusterID (refresh_entry i ns n e) = ClusterID e"
  by (simp add: refresh_entry_def Let_def)

lemma refresh_other: "ClusterID e \<noteq> i \<Longrightarrow> EntryNamespace e \<noteq> i \<Longrightarrow> refresh_entry i ns n e = e"
  by (simp add: refresh_entry_def)

text \<open>The entry of an identifier.\<close>

definition entry_of :: "CSIClusterConfigEntry list \<Rightarrow> string \<Rightarrow> CSIClusterConfigEntry option" where
  "entry_of cc k = find (\<lambda>e. ClusterID e = k) cc"

lemma entry_of_simps [simp]:
  "entry_of [] k = None" "entry_of (e # cc) k = (if ClusterID e = k then Some e else entry_of cc k)"
  by (simp_all add: entry_of_def)

lemma entry_of_append: "entry_of (a @ b) k = (case entry_of a k of None \<Rightarrow> entry_of b k | Some e \<Rightarrow> Some e)"
  by (induction a) auto

lemma entry_of_None: "entry_of cc k = None \<longleftrightarrow> k \<notin> ClusterID ` set cc"
  by (induction cc) auto

lemma entry_of_map: "(\<And>e. ClusterID (f e) = ClusterID e) \<Longrightarrow> entry_of (map f cc) k = map_option f (entry_of cc k)"
  by (induction cc) auto

lemma entry_of_merge_other: "i \<noteq> k \<Longrightarrow> entry_of (fst (merge_first i new cc)) k = entry_of cc k"
  by (induction cc) (auto split: prod.splits option.splits)

lemma entry_of_merge: "entry_of (fst (merge_first i (Some n) cc)) i = map_option (merge_entry n) (entry_of cc i)"
  by (induction cc) (auto split: prod.splits)

definition clear_paths :: "string \<Rightarrow> CSIClusterConfigEntry \<Rightarrow> CSIClusterConfigEntry" where
  "clear_paths i e = (if EntryNamespace e = i
     then e\<lparr>EntryCephFS := (EntryCephFS e)\<lparr>FsNetNamespaceFilePath := []\<rparr>,
            EntryRBD := (EntryRBD e)\<lparr>RbdNetNamespaceFilePath := []\<rparr>, NfsNetNamespaceFilePath := []\<rparr> else e)"

lemma clear_paths_keys [simp]: "ClusterID (clear_paths i e) = ClusterID e" "Monitors (clear_paths i e) = Monitors e"
  by (simp_all add: clear_paths_def)

lemma updateNet_map: "updateNetNamespaceFilePath i cc = map (clear_paths i) cc"
  by (simp add: updateNetNamespaceFilePath_def clear_paths_def)

definition allowed_entry :: "CephVersion \<Rightarrow> CSIClusterConfigEntry \<Rightarrow> CSIClusterConfigEntry" where
  "allowed_entry v n = (if ReadAffinityEnabled (AffinityEnabled (ReadAffinity n)) v then n else n\<lparr>ReadAffinity := no_affinity\<rparr>)"

lemma update_entries_new:
  "update_entries i ns v (Some n) cc =
     (let cc1 = map (refresh_entry i ns (allowed_entry v n)) cc; cc2 = fst (merge_first i (Some (allowed_entry v n)) cc1)
      in map (clear_paths i) (if i \<in> ClusterID ` set cc then cc2 else cc2 @ [new_entry i ns (allowed_entry v n)]))"
proof -
  have "snd (merge_first i (Some (allowed_entry v n)) (map (refresh_entry i ns (allowed_entry v n)) cc)) \<longleftrightarrow> i \<in> ClusterID ` set cc"
    by (auto simp: merge_first_found image_iff)
  then show ?thesis
    by (auto simp: update_entries_def updateNet_map allowed_entry_def [symmetric] Let_def split: prod.splits)
qed

lemma monitors_allowed [simp]: "Monitors (allowed_entry v n) = Monitors n"
  by (simp add: allowed_entry_def)

text \<open>C26. An update of the CSI configuration with the new monitors of a cluster: the entry of the cluster
  exists afterwards and has the new monitors, so have all entries that share its namespace; no other entry is
  changed, none is lost, and an entry is added only if there was none.\<close>

theorem csi_update:
  "let cc' = update_entries clusterID ns v (Some new) cc
   in map ClusterID cc' = map ClusterID cc @ (if clusterID \<in> ClusterID ` set cc then [] else [clusterID]) \<and>
      (\<exists>e. entry_of cc' clusterID = Some e \<and> Monitors e = Monitors new) \<and>
      (\<forall>k. k = clusterID \<or>
        (case entry_of cc k of
           None \<Rightarrow> entry_of cc' k = None
         | Some e \<Rightarrow> if EntryNamespace e = clusterID then map_option Monitors (entry_of cc' k) = Some (Monitors new)
                     else entry_of cc' k = Some e))"
proof -
  let ?n = "allowed_entry v new"
  let ?cc1 = "map (refresh_entry clusterID ns ?n) cc"
  let ?cc2 = "fst (merge_first clusterID (Some ?n) ?cc1)"
  let ?cc' = "update_entries clusterID ns v (Some new) cc"
  note u = update_entries_new [of clusterID ns v new cc, unfolded Let_def]
  have new: "ClusterID (new_entry clusterID ns ?n) = clusterID" "Monitors (new_entry clusterID ns ?n) = Monitors new"
    by (simp_all add: new_entry_def)
  have ids: "map ClusterID ?cc' = map ClusterID cc @ (if clusterID \<in> ClusterID ` set cc then [] else [clusterID])"
    using ids_merge_first [of clusterID ?n ?cc1] by (simp add: u new comp_def)
  have own: "\<exists>e. entry_of ?cc' clusterID = Some e \<and> Monitors e = Monitors new"
  proof (cases "entry_of cc clusterID")
    case None
    then have "clusterID \<notin> ClusterID ` set cc" by (simp add: entry_of_None)
    then show ?thesis using new None by (simp add: u entry_of_map entry_of_append entry_of_merge)
  next
    case (Some e)
    then have "clusterID \<in> ClusterID ` set cc" using entry_of_None [of cc clusterID] by auto
    then show ?thesis using Some by (simp add: u entry_of_map entry_of_merge)
  qed
  have "case entry_of cc k of None \<Rightarrow> entry_of ?cc' k = None
      | Some e \<Rightarrow> if EntryNamespace e = clusterID then map_option Monitors (entry_of ?cc' k) = Some (Monitors new)
                  else entry_of ?cc' k = Some e" if k: "k \<noteq> clusterID" for k
  proof -
    have e: "entry_of ?cc' k = map_option (\<lambda>e. clear_paths clusterID (refresh_entry clusterID ns ?n e)) (entry_of cc k)"
      using k new(1) by (simp add: u entry_of_map entry_of_append entry_of_merge_other option.map_comp comp_def split: option.splits)
    show ?thesis
    proof (cases "entry_of cc k")
      case (Some x)
      then have "ClusterID x = k" by (auto simp: entry_of_def find_Some_iff)
      then show ?thesis using k Some by (auto simp: e refresh_entry_def Let_def clear_paths_def)
    qed (simp add: e)
  qed
  then show ?thesis unfolding Let_def using ids own by blast
qed

end
