(* ===== verification/Cephx.thy ===== *)
theory Cephx
  imports Version "HOL-Library.Word"
begin

text \<open>
  Rotation of CephX keys: \<^verbatim>\<open>pkg/operator/ceph/config/keyring/cephx.go\<close> with the version tests of
  \<^verbatim>\<open>pkg/daemon/ceph/client/auth.go\<close>. The decision to rotate is characterised, shown to be safe and
  to converge (a rotation that has been recorded is not repeated), and the recorded status is shown to
  stay well formed along every sequence of reconciles. Key generations are 32-bit words, as in the API.
  The mutex around the global map of allowances is left out: every access is one atomic operation here.
\<close>

section \<open>Configuration and status\<close>

record CephxConfig =
  KeyRotationPolicy :: string
  CfgKeyGeneration :: "32 word"
  CfgKeyType :: string

record CephxStatus =
  KeyGeneration :: "32 word"
  KeyCephVersion :: string
  KeyType :: string

definition DisabledCephxKeyRotationPolicy :: string where
  "DisabledCephxKeyRotationPolicy = ''Disabled''"

definition KeyGenerationCephxKeyRotationPolicy :: string where
  "KeyGenerationCephxKeyRotationPolicy = ''KeyGeneration''"

definition UninitializedCephxKeyCephVersion :: string where
  "UninitializedCephxKeyCephVersion = ''Uninitialized''"

definition CephxKeyTypeAes :: string where "CephxKeyTypeAes = ''aes''"

section \<open>What Ceph supports\<close>

definition CephAuthRotateSupportedVersion :: CephVersion where
  "CephAuthRotateSupportedVersion = mk_version 19 2 3 0"

definition IsLegacyKeyType :: "string \<Rightarrow> bool" where
  "IsLegacyKeyType keyType \<longleftrightarrow> keyType = CephxKeyTypeAes"

definition Aes256kKeysSupported :: "CephVersion \<Rightarrow> bool" where
  "Aes256kKeysSupported ver =
     (if Major ver = 19 then IsAtLeast ver (mk_version 19 2 6 0)
      else if Major ver = 20 then IsAtLeast ver (mk_version 20 2 1 297)
      else Major ver \<ge> 21)"

section \<open>The allowance per cluster\<close>

type_synonym allowances = "string \<rightharpoonup> bool"

definition SetAllowCephxKeyRotationForCluster :: "string \<Rightarrow> bool \<Rightarrow> allowances \<Rightarrow> allowances" where
  "SetAllowCephxKeyRotationForCluster ns allow m = m(ns \<mapsto> allow)"

definition unsetAllowCephxKeyRotationForCluster :: "string \<Rightarrow> allowances \<Rightarrow> allowances" where
  "unsetAllowCephxKeyRotationForCluster ns m = m(ns := None)"

definition GetAllowCephxKeyRotationForCluster :: "string \<Rightarrow> allowances \<Rightarrow> bool \<times> bool" where
  "GetAllowCephxKeyRotationForCluster ns m =
     (case m ns of None \<Rightarrow> (False, False) | Some allowed \<Rightarrow> (allowed, True))"

section \<open>Status versions\<close>

definition CephVersionToCephxStatusVersion :: "CephVersion \<Rightarrow> string" where
  "CephVersionToCephxStatusVersion v =
     Itoa (Major v) @ ''.'' @ Itoa (Minor v) @ ''.'' @ Itoa (Extra v) @ ''-'' @ Itoa (Build v)"

definition parseCephVersionFromStatusVersion :: "string \<Rightarrow> CephVersion res" where
  "parseCephVersionFromStatusVersion inVer =
     (case split_on CHR ''-'' inVer of
        [semv, build] \<Rightarrow>
          (case Atoi build of
             None \<Rightarrow> Inl (Errorf ''failed to parse build version'')
           | Some bld \<Rightarrow>
               (case split_on CHR ''.'' semv of
                  [mm, mi, ex] \<Rightarrow>
                    (case Atoi mm of
                       None \<Rightarrow> Inl (Errorf ''failed to parse major version'')
                     | Some major \<Rightarrow>
                         (case Atoi mi of
                            None \<Rightarrow> Inl (Errorf ''failed to parse minor version'')
                          | Some minor \<Rightarrow>
                              (case Atoi ex of
                                 None \<Rightarrow> Inl (Errorf ''failed to parse extra version'')
                               | Some extra \<Rightarrow> Inr (mk_version major minor extra bld))))
                | _ \<Rightarrow> Inl (Errorf ''failed to parse into a ceph version at Major-Minor-Extra split'')))
      | _ \<Rightarrow> Inl (Errorf ''failed to parse into a ceph version at build split''))"

section \<open>The decision\<close>

definition shouldRotateWithCephVersionUpdate ::
  "CephxConfig \<Rightarrow> CephVersion \<Rightarrow> CephVersion \<Rightarrow> CephxStatus \<Rightarrow> bool res" where
  "shouldRotateWithCephVersionUpdate cfg running desired status =
     (if IsIdentical desired (mk_version 0 0 0 0) then Inr False
      else if KeyCephVersion status = [] then Inr True
      else case parseCephVersionFromStatusVersion (KeyCephVersion status) of
             Inl e \<Rightarrow> Inl (Wrap ''failed to determine if cephx keys need to be rotated'' e)
           | Inr statusVer \<Rightarrow> Inr (IsSuperior (desired\<lparr>CommitID := []\<rparr>) statusVer))"

definition ShouldRotateCephxKeys ::
  "allowances \<Rightarrow> CephxConfig \<Rightarrow> CephVersion \<Rightarrow> CephVersion \<Rightarrow> CephxStatus \<Rightarrow> bool \<Rightarrow> string \<Rightarrow> bool res"
where
  "ShouldRotateCephxKeys m cfg running desired status ignoreKeyType ns =
     (let (allowRotation, ok) = GetAllowCephxKeyRotationForCluster ns m;
          rotate = (if ok then Inr True
                    else Inl (Errorf ''cephx key rotation is indicated but must wait for CephCluster''));
          by_type = (if \<not> ignoreKeyType \<and> CfgKeyType cfg \<noteq> [] \<and> CfgKeyType cfg \<noteq> KeyType status
                     then rotate else Inr False)
      in if ok \<and> \<not> allowRotation then Inr False
         else if \<not> (IsAtLeast running CephAuthRotateSupportedVersion \<or> Aes256kKeysSupported running)
         then Inr False
         else if \<not> (CfgKeyType cfg = [] \<or> IsLegacyKeyType (CfgKeyType cfg)) \<and>
             \<not> Aes256kKeysSupported running
         then Inl (Errorf ''ceph version does not support key type'')
         else if KeyCephVersion status = UninitializedCephxKeyCephVersion then Inr False
         else if KeyRotationPolicy cfg = [] \<or> KeyRotationPolicy cfg = DisabledCephxKeyRotationPolicy
         then Inr False
         else if KeyRotationPolicy cfg = KeyGenerationCephxKeyRotationPolicy
         then (if CfgKeyGeneration cfg > KeyGeneration status then rotate else by_type)
         else if KeyRotationPolicy cfg = ''WithCephVersionUpdate''
         then (case shouldRotateWithCephVersionUpdate cfg running desired status of
                 Inl e \<Rightarrow> Inl e
               | Inr shouldRotate \<Rightarrow> if shouldRotate then rotate else by_type)
         else Inl (Errorf ''unknown cephx key rotation policy''))"

section \<open>The recorded status\<close>

definition UninitializedCephxStatus :: CephxStatus where
  "UninitializedCephxStatus =
     \<lparr>KeyGeneration = 0, KeyCephVersion = UninitializedCephxKeyCephVersion, KeyType = []\<rparr>"

definition UpdatedCephxStatus ::
  "bool \<Rightarrow> CephxConfig \<Rightarrow> CephVersion \<Rightarrow> CephxStatus \<Rightarrow> string \<Rightarrow> CephxStatus" where
  "UpdatedCephxStatus didRotate cfg running status keyType =
     (let newStatus = status\<lparr>KeyType := keyType\<rparr>
      in if KeyCephVersion status = UninitializedCephxKeyCephVersion
         then newStatus\<lparr>KeyCephVersion := CephVersionToCephxStatusVersion running,
                KeyGeneration := (if KeyRotationPolicy cfg = KeyGenerationCephxKeyRotationPolicy \<and>
                                     CfgKeyGeneration cfg > 1 then CfgKeyGeneration cfg else 1)\<rparr>
         else if \<not> didRotate then status
         else let gen = KeyGeneration newStatus + 1
              in newStatus\<lparr>KeyCephVersion := CephVersionToCephxStatusVersion running,
                   KeyGeneration := (if KeyRotationPolicy cfg = KeyGenerationCephxKeyRotationPolicy \<and>
                                        CfgKeyGeneration cfg > gen then CfgKeyGeneration cfg else gen)\<rparr>)"

section \<open>Key types in use\<close>

text \<open>One entry of \<^verbatim>\<open>ceph auth dump-keys\<close>; the command itself is a parameter.\<close>

record AuthSecret =
  EntityType :: string
  EntityId :: string
  KeyTypeStr :: string

fun seen_key_types :: "string \<Rightarrow> string \<Rightarrow> AuthSecret list \<Rightarrow> int gomap \<Rightarrow> int gomap" where
  "seen_key_types entityType prefix [] seen = seen"
| "seen_key_types entityType prefix (secret # secrets) seen =
     (if EntityType secret \<noteq> entityType then seen_key_types entityType prefix secrets seen
      else if prefix \<noteq> [] \<and> \<not> has_prefix prefix (EntityId secret)
      then seen_key_types entityType prefix secrets seen
      else let n = (case map_of seen (KeyTypeStr secret) of None \<Rightarrow> 1 | Some n \<Rightarrow> s64 (n + 1))
           in seen_key_types entityType prefix secrets (put (KeyTypeStr secret) n seen))"

definition DetermineCephxKeyTypesForEntityType ::
  "AuthSecret list res \<Rightarrow> string \<Rightarrow> string \<Rightarrow> string list res" where
  "DetermineCephxKeyTypesForEntityType dump entityType entityIdPrefix =
     (case dump of
        Inl e \<Rightarrow> Inl (Wrap ''failed to dump ceph auth keys'' e)
      | Inr secrets \<Rightarrow> Inr (keys (seen_key_types entityType entityIdPrefix secrets [])))"

section \<open>One reconcile of a key\<close>

text \<open>
  What every caller of the two functions does with a key: a failed decision ends the reconcile, a
  decision is carried out and then recorded.
\<close>

record rotation_event =
  ev_allow :: allowances
  ev_cfg :: CephxConfig
  ev_running :: CephVersion
  ev_desired :: CephVersion
  ev_ignoreKeyType :: bool
  ev_ns :: string
  ev_keyType :: string

definition reconcile_key :: "rotation_event \<Rightarrow> CephxStatus \<Rightarrow> CephxStatus" where
  "reconcile_key e status =
     (case ShouldRotateCephxKeys (ev_allow e) (ev_cfg e) (ev_running e) (ev_desired e) status
             (ev_ignoreKeyType e) (ev_ns e) of
        Inl _ \<Rightarrow> status
      | Inr didRotate \<Rightarrow> UpdatedCephxStatus didRotate (ev_cfg e) (ev_running e) status (ev_keyType e))"

definition version_known :: "CephxStatus \<Rightarrow> bool" where
  "version_known st \<longleftrightarrow> parseCephVersionFromStatusVersion (KeyCephVersion st) \<in> range Inr"

definition initialized :: "CephxStatus \<Rightarrow> bool" where
  "initialized st \<longleftrightarrow> KeyCephVersion st \<noteq> UninitializedCephxKeyCephVersion"

definition status_ok :: "CephxStatus \<Rightarrow> bool" where
  "status_ok st \<longleftrightarrow> KeyCephVersion st = [] \<or> \<not> initialized st \<or> version_known st"

definition status_progress :: "CephxStatus \<Rightarrow> CephxStatus \<Rightarrow> bool" where
  "status_progress s t \<longleftrightarrow> (initialized s \<longrightarrow> initialized t) \<and> (version_known s \<longrightarrow> version_known t)"

text \<open>What is left of the decision once rotation is possible at all.\<close>

definition policy_decision ::
  "CephxConfig \<Rightarrow> CephVersion \<Rightarrow> CephVersion \<Rightarrow> CephxStatus \<Rightarrow> bool \<Rightarrow> bool res" where
  "policy_decision cfg running desired st ignoreKeyType =
     (let by_type = (if \<not> ignoreKeyType \<and> CfgKeyType cfg \<noteq> [] \<and> CfgKeyType cfg \<noteq> KeyType st
                     then Inr True else Inr False)
      in if KeyRotationPolicy cfg = [] \<or> KeyRotationPolicy cfg = DisabledCephxKeyRotationPolicy
         then Inr False
         else if KeyRotationPolicy cfg = KeyGenerationCephxKeyRotationPolicy
         then (if CfgKeyGeneration cfg > KeyGeneration st then Inr True else by_type)
         else if KeyRotationPolicy cfg = ''WithCephVersionUpdate''
         then (case shouldRotateWithCephVersionUpdate cfg running desired st of
                 Inl e \<Rightarrow> Inl e | Inr r \<Rightarrow> if r then Inr True else by_type)
         else Inl (Errorf ''unknown cephx key rotation policy''))"

text \<open>A reconcile used in examples.\<close>

definition sample_event :: rotation_event where
  "sample_event = \<lparr>ev_allow = [''ns'' \<mapsto> True],
     ev_cfg = \<lparr>KeyRotationPolicy = ''KeyGeneration'', CfgKeyGeneration = 2, CfgKeyType = []\<rparr>,
     ev_running = mk_version 20 2 0 0, ev_desired = mk_version 20 2 0 0, ev_ignoreKeyType = True,
     ev_ns = ''ns'', ev_keyType = ''aes''\<rparr>"

section \<open>Round trip of status versions\<close>

lemma status_version_parses:
  assumes "version_ok v"
  shows "parseCephVersionFromStatusVersion (CephVersionToCephxStatusVersion v) = Inr (v\<lparr>CommitID := []\<rparr>)"
proof -
  note nn = assms [unfolded version_ok_def, simplified]
  let ?semv = "Itoa (Major v) @ CHR ''.'' # Itoa (Minor v) @ CHR ''.'' # Itoa (Extra v)"
  have "CHR ''-'' \<notin> set ?semv" and "CHR ''-'' \<notin> set (Itoa (Build v))"
    using nn by (simp_all add: Itoa_nonneg digits_notin)
  then have "split_on CHR ''-'' (?semv @ CHR ''-'' # Itoa (Build v)) = [?semv, Itoa (Build v)]"
    by (subst split_on_app) (simp_all add: split_on_notin)
  moreover have "split_on CHR ''.'' ?semv = [Itoa (Major v), Itoa (Minor v), Itoa (Extra v)]"
    by (simp add: split_on_app split_on_notin Itoa_notin)
  ultimately show ?thesis
    using nn by (simp add: parseCephVersionFromStatusVersion_def CephVersionToCephxStatusVersion_def
        Atoi_Itoa)
qed

interpretation status_version: codec CephVersionToCephxStatusVersion
    "\<lambda>s. case parseCephVersionFromStatusVersion s of Inl _ \<Rightarrow> None | Inr v \<Rightarrow> Some v"
    "\<lambda>v. v\<lparr>CommitID := []\<rparr>" version_ok
  by unfold_locales (simp add: status_version_parses)

lemma status_version_special:
  "CephVersionToCephxStatusVersion v \<noteq> [] \<and>
   CephVersionToCephxStatusVersion v \<noteq> UninitializedCephxKeyCephVersion"
proof -
  have "CHR ''.'' \<in> set (CephVersionToCephxStatusVersion v)"
    by (simp add: CephVersionToCephxStatusVersion_def)
  then show ?thesis by (auto simp: UninitializedCephxKeyCephVersion_def)
qed

lemmas status_version_simps [simp] =
  status_version_special [THEN conjunct1] status_version_special [THEN conjunct2]

lemmas policy_defs = DisabledCephxKeyRotationPolicy_def KeyGenerationCephxKeyRotationPolicy_def

lemma policies_distinct:
  "KeyGenerationCephxKeyRotationPolicy \<noteq> []"
  "KeyGenerationCephxKeyRotationPolicy \<noteq> DisabledCephxKeyRotationPolicy"
  "KeyGenerationCephxKeyRotationPolicy \<noteq> ''WithCephVersionUpdate''"
  "DisabledCephxKeyRotationPolicy \<noteq> ''WithCephVersionUpdate''"
  by (simp_all add: policy_defs)

lemma policy_decides:
  assumes "m ns = Some True" and "initialized st"
    and "IsAtLeast running CephAuthRotateSupportedVersion \<or> Aes256kKeysSupported running"
    and "CfgKeyType cfg \<in> {[], CephxKeyTypeAes} \<or> Aes256kKeysSupported running"
  shows "ShouldRotateCephxKeys m cfg running desired st ignoreKeyType ns =
    policy_decision cfg running desired st ignoreKeyType"
proof -
  note defs = ShouldRotateCephxKeys_def policy_decision_def GetAllowCephxKeyRotationForCluster_def
    Let_def initialized_def IsLegacyKeyType_def
  consider "Aes256kKeysSupported running"
    | "\<not> Aes256kKeysSupported running" "CfgKeyType cfg = []"
    | "\<not> Aes256kKeysSupported running" "CfgKeyType cfg = CephxKeyTypeAes"
    using assms(4) by blast
  then show ?thesis
    using assms(1,2,3) by cases (simp_all add: defs)
qed

lemma policy_decision_iff:
  "policy_decision cfg running desired st ignoreKeyType = Inr True \<longleftrightarrow>
     KeyRotationPolicy cfg = KeyGenerationCephxKeyRotationPolicy \<and>
       (CfgKeyGeneration cfg > KeyGeneration st \<or>
        \<not> ignoreKeyType \<and> CfgKeyType cfg \<notin> {[], KeyType st}) \<or>
     KeyRotationPolicy cfg = ''WithCephVersionUpdate'' \<and>
       (shouldRotateWithCephVersionUpdate cfg running desired st = Inr True \<or>
        shouldRotateWithCephVersionUpdate cfg running desired st = Inr False \<and>
        \<not> ignoreKeyType \<and> CfgKeyType cfg \<notin> {[], KeyType st})"
proof -
  consider "KeyRotationPolicy cfg = KeyGenerationCephxKeyRotationPolicy"
    | "KeyRotationPolicy cfg = ''WithCephVersionUpdate''"
    | "KeyRotationPolicy cfg \<noteq> KeyGenerationCephxKeyRotationPolicy"
      "KeyRotationPolicy cfg \<noteq> ''WithCephVersionUpdate''" by blast
  then show ?thesis
  proof cases
    case 1
    then show ?thesis by (simp add: policy_decision_def policies_distinct Let_def)
  next
    case 2
    then show ?thesis
      by (cases "shouldRotateWithCephVersionUpdate cfg running desired st")
        (simp_all add: policy_decision_def policies_distinct [symmetric] Let_def)
  qed (simp add: policy_decision_def Let_def)
qed

lemma no_rotation:
  assumes "\<not> (m ns = Some True \<and> initialized st \<and>
    (IsAtLeast running CephAuthRotateSupportedVersion \<or> Aes256kKeysSupported running) \<and>
    (CfgKeyType cfg \<in> {[], CephxKeyTypeAes} \<or> Aes256kKeysSupported running))"
  shows "ShouldRotateCephxKeys m cfg running desired st ignoreKeyType ns \<noteq> Inr True"
proof -
  obtain a ok where g: "GetAllowCephxKeyRotationForCluster ns m = (a, ok)" by fastforce
  note defs = ShouldRotateCephxKeys_def GetAllowCephxKeyRotationForCluster_def Let_def
  consider "m ns = None" | "m ns = Some False"
    | "\<not> initialized st"
    | "\<not> (IsAtLeast running CephAuthRotateSupportedVersion \<or> Aes256kKeysSupported running)"
    | "\<not> (CfgKeyType cfg = [] \<or> IsLegacyKeyType (CfgKeyType cfg)) \<and> \<not> Aes256kKeysSupported running"
    using assms by (cases "m ns") (auto simp: IsLegacyKeyType_def)
  then show ?thesis
  proof cases
    case 1
    then show ?thesis by (simp add: defs split: sum.split)
  next
    case 2
    then show ?thesis by (simp add: defs)
  qed (simp_all add: ShouldRotateCephxKeys_def Let_def initialized_def g)
qed

lemma updated_rotated:
  assumes "initialized st"
  shows "KeyCephVersion (UpdatedCephxStatus True cfg v st kt) = CephVersionToCephxStatusVersion v"
    and "KeyType (UpdatedCephxStatus True cfg v st kt) = kt"
    and "KeyGeneration (UpdatedCephxStatus True cfg v st kt) =
      (if KeyRotationPolicy cfg = KeyGenerationCephxKeyRotationPolicy \<and>
          CfgKeyGeneration cfg > KeyGeneration st + 1 then CfgKeyGeneration cfg else KeyGeneration st + 1)"
  using assms by (simp_all add: UpdatedCephxStatus_def initialized_def Let_def)

lemma updated_fresh:
  assumes "\<not> initialized st"
  shows "KeyCephVersion (UpdatedCephxStatus r cfg v st kt) = CephVersionToCephxStatusVersion v"
    and "KeyType (UpdatedCephxStatus r cfg v st kt) = kt"
    and "KeyGeneration (UpdatedCephxStatus r cfg v st kt) =
      (if KeyRotationPolicy cfg = KeyGenerationCephxKeyRotationPolicy \<and> CfgKeyGeneration cfg > 1
       then CfgKeyGeneration cfg else 1)"
  using assms by (simp_all add: UpdatedCephxStatus_def initialized_def Let_def)

lemma updated_kept: "initialized st \<Longrightarrow> UpdatedCephxStatus False cfg v st kt = st"
  by (simp add: UpdatedCephxStatus_def initialized_def Let_def)

lemma updated_reaches_generation:
  assumes "KeyRotationPolicy cfg = KeyGenerationCephxKeyRotationPolicy" and "r \<or> \<not> initialized st"
  shows "\<not> CfgKeyGeneration cfg > KeyGeneration (UpdatedCephxStatus r cfg v st kt)"
proof (cases "initialized st")
  case True
  with assms show ?thesis by (simp add: updated_rotated)
next
  case False
  with assms show ?thesis by (simp add: updated_fresh)
qed

lemma version_update_settled:
  assumes "version_ok v" and "KeyCephVersion st = CephVersionToCephxStatusVersion v"
  shows "shouldRotateWithCephVersionUpdate cfg v v st = Inr False"
proof -
  have "\<not> IsSuperior (v\<lparr>CommitID := []\<rparr>) (v\<lparr>CommitID := []\<rparr>)" by (simp add: IsSuperior_def)
  with assms show ?thesis
    by (simp add: shouldRotateWithCephVersionUpdate_def status_version_parses)
qed

lemma less_succ: fixes x :: "32 word" assumes "x \<noteq> - 1" shows "x < x + 1"
proof -
  have "1 + x \<noteq> 0" using assms by (metis add.commute eq_neg_iff_add_eq_0)
  from unatSuc [OF this] show ?thesis by (simp add: word_less_nat_alt add.commute)
qed

section \<open>Statuses along reconciles\<close>

lemma version_known_status:
  "version_ok v \<Longrightarrow> KeyCephVersion st = CephVersionToCephxStatusVersion v \<Longrightarrow> version_known st"
  by (auto simp: version_known_def status_version_parses)

lemma version_known_initialized: "version_known st \<Longrightarrow> initialized st"
  by (auto simp: version_known_def initialized_def UninitializedCephxKeyCephVersion_def
      parseCephVersionFromStatusVersion_def)

lemma updated_cases:
  obtains (kept) "UpdatedCephxStatus r cfg v st kt = st" "initialized st"
    | (recorded) "KeyCephVersion (UpdatedCephxStatus r cfg v st kt) = CephVersionToCephxStatusVersion v"
  using updated_rotated(1) updated_fresh(1) updated_kept by (metis (full_types))

lemma reconcile_key_cases:
  obtains (kept) "reconcile_key e st = st"
    | (recorded) "KeyCephVersion (reconcile_key e st) = CephVersionToCephxStatusVersion (ev_running e)"
proof (cases "ShouldRotateCephxKeys (ev_allow e) (ev_cfg e) (ev_running e) (ev_desired e) st
    (ev_ignoreKeyType e) (ev_ns e)")
  case (Inr r)
  then show ?thesis
    using that updated_cases [of r "ev_cfg e" "ev_running e" st "ev_keyType e"]
    by (metis (no_types, lifting) reconcile_key_def sum.simps(6))
qed (use that in \<open>simp add: reconcile_key_def\<close>)

lemma reconcile_key_ok:
  assumes "status_ok st" and "version_ok (ev_running e)"
  shows "status_ok (reconcile_key e st) \<and> status_progress st (reconcile_key e st)"
proof (cases rule: reconcile_key_cases [of e st])
  case kept
  with assms show ?thesis by (simp add: status_progress_def)
next
  case recorded
  with assms have "version_known (reconcile_key e st)" by (rule_tac version_known_status)
  then show ?thesis by (auto simp: status_ok_def status_progress_def version_known_initialized)
qed

interpretation key_machine: machine reconcile_key "\<lambda>e. version_ok (ev_running e)" status_ok status_progress
  by unfold_locales (simp_all add: reconcile_key_ok, simp_all add: status_progress_def)

section \<open>Properties\<close>

text \<open>C17. A key is rotated exactly when the cluster has allowed it, the running Ceph can rotate keys and
  knows the requested key type, the key has been created, and the policy asks for it: a configured
  generation above the recorded one, a desired Ceph version later than the recorded one, or, under
  either policy, a requested key type other than the recorded one. In particular nothing rotates
  before the cluster's allowance is known, under the disabled policy, or for a key that does not
  exist yet.\<close>

theorem rotation_decision:
  "ShouldRotateCephxKeys m cfg running desired st ignoreKeyType ns = Inr True \<longleftrightarrow>
     m ns = Some True \<and>
     (IsAtLeast running CephAuthRotateSupportedVersion \<or> Aes256kKeysSupported running) \<and>
     (CfgKeyType cfg \<in> {[], CephxKeyTypeAes} \<or> Aes256kKeysSupported running) \<and>
     initialized st \<and>
     (KeyRotationPolicy cfg = KeyGenerationCephxKeyRotationPolicy \<and>
        (CfgKeyGeneration cfg > KeyGeneration st \<or>
         \<not> ignoreKeyType \<and> CfgKeyType cfg \<notin> {[], KeyType st}) \<or>
      KeyRotationPolicy cfg = ''WithCephVersionUpdate'' \<and>
        (shouldRotateWithCephVersionUpdate cfg running desired st = Inr True \<or>
         shouldRotateWithCephVersionUpdate cfg running desired st = Inr False \<and>
         \<not> ignoreKeyType \<and> CfgKeyType cfg \<notin> {[], KeyType st}))"
proof (cases "m ns = Some True \<and> initialized st \<and>
    (IsAtLeast running CephAuthRotateSupportedVersion \<or> Aes256kKeysSupported running) \<and>
    (CfgKeyType cfg \<in> {[], CephxKeyTypeAes} \<or> Aes256kKeysSupported running)")
  case False
  then have "ShouldRotateCephxKeys m cfg running desired st ignoreKeyType ns \<noteq> Inr True"
    by (rule no_rotation)
  with False show ?thesis by blast
next
  case True
  then have "ShouldRotateCephxKeys m cfg running desired st ignoreKeyType ns =
      policy_decision cfg running desired st ignoreKeyType"
    by (intro policy_decides) simp_all
  with True show ?thesis by (simp only: policy_decision_iff) blast
qed

theorem rotation_decision_witness:
  "ShouldRotateCephxKeys [''ns'' \<mapsto> True]
     \<lparr>KeyRotationPolicy = ''KeyGeneration'', CfgKeyGeneration = 3, CfgKeyType = []\<rparr>
     (mk_version 20 2 0 0) (mk_version 20 2 0 0)
     \<lparr>KeyGeneration = 2, KeyCephVersion = ''19.2.3-0'', KeyType = ''aes''\<rparr> False ''ns'' = Inr True"
  by (subst rotation_decision)
    (simp add: policy_defs initialized_def UninitializedCephxKeyCephVersion_def IsAtLeast_def
      CephAuthRotateSupportedVersion_def)

text \<open>C16. A recorded rotation settles: once a rotation, or the first creation of a key, has been recorded
  with the running version and the type of the new key, the same configuration asks for no further
  rotation as soon as the running version is the desired one, for every policy and every generation,
  the wrap-around of the 32-bit counter included. Nothing is rotated again by the next reconcile.\<close>

theorem rotation_converges:
  assumes "version_ok v" and "didRotate \<or> \<not> initialized st"
    and "CfgKeyType cfg \<in> {[], kt} \<or> ignoreKeyType"
  shows "ShouldRotateCephxKeys m cfg v v (UpdatedCephxStatus didRotate cfg v st kt) ignoreKeyType ns \<noteq> Inr True"
proof -
  let ?st = "UpdatedCephxStatus didRotate cfg v st kt"
  have st: "KeyCephVersion ?st = CephVersionToCephxStatusVersion v" "KeyType ?st = kt"
    using assms(2) by (cases "initialized st"; simp add: updated_rotated updated_fresh)+
  have ty: "\<not> (\<not> ignoreKeyType \<and> CfgKeyType cfg \<notin> {[], KeyType ?st})" using assms(3) st by auto
  have g: "\<not> (KeyRotationPolicy cfg = KeyGenerationCephxKeyRotationPolicy \<and>
      CfgKeyGeneration cfg > KeyGeneration ?st)"
    using updated_reaches_generation assms(2) by blast
  have "shouldRotateWithCephVersionUpdate cfg v v ?st \<noteq> Inr True"
    using version_update_settled [OF assms(1) st(1)] by simp
  with ty g have "policy_decision cfg v v ?st ignoreKeyType \<noteq> Inr True"
    unfolding policy_decision_iff by blast
  then show ?thesis using policy_decides no_rotation by metis
qed

theorem rotation_converges_witness:
  "ShouldRotateCephxKeys [''ns'' \<mapsto> True]
     \<lparr>KeyRotationPolicy = ''KeyGeneration'', CfgKeyGeneration = 3, CfgKeyType = ''aes256k''\<rparr>
     (mk_version 21 0 0 0) (mk_version 21 0 0 0)
     (UpdatedCephxStatus True
       \<lparr>KeyRotationPolicy = ''KeyGeneration'', CfgKeyGeneration = 3, CfgKeyType = ''aes256k''\<rparr>
       (mk_version 21 0 0 0) \<lparr>KeyGeneration = 1, KeyCephVersion = ''20.2.0-0'', KeyType = ''aes''\<rparr> ''aes256k'')
     False ''ns'' \<noteq> Inr True"
  by (rule rotation_converges) (simp_all add: version_ok_def int64_ok_def)

text \<open>C34. The generation in the status only grows: a recorded rotation raises it strictly, to at least the
  configured generation under the generation policy, unless the 32-bit counter is exhausted; at the
  largest generation the increment wraps to 0, so a rotation for another reason lowers it.\<close>

theorem generation_grows:
  assumes "initialized st"
  shows "(KeyGeneration st \<noteq> - 1 \<longrightarrow>
      KeyGeneration (UpdatedCephxStatus True cfg v st kt) > KeyGeneration st) \<and>
    (KeyRotationPolicy cfg = KeyGenerationCephxKeyRotationPolicy \<longrightarrow>
      KeyGeneration (UpdatedCephxStatus True cfg v st kt) \<ge> CfgKeyGeneration cfg) \<and>
    (KeyGeneration st = - 1 \<and> KeyRotationPolicy cfg \<noteq> KeyGenerationCephxKeyRotationPolicy \<longrightarrow>
      KeyGeneration (UpdatedCephxStatus True cfg v st kt) = 0)"
proof -
  have "KeyGeneration st < KeyGeneration st + 1" if "KeyGeneration st \<noteq> - 1"
    using that by (rule less_succ)
  then show ?thesis
    using assms by (auto simp: updated_rotated not_less)
qed

theorem generation_grows_witness:
  "KeyGeneration (UpdatedCephxStatus True
     \<lparr>KeyRotationPolicy = ''KeyGeneration'', CfgKeyGeneration = 7, CfgKeyType = []\<rparr> (mk_version 20 2 0 0)
     \<lparr>KeyGeneration = 2, KeyCephVersion = ''19.2.3-0'', KeyType = ''aes''\<rparr> ''aes'') > 2"
proof -
  have "initialized \<lparr>KeyGeneration = 2, KeyCephVersion = ''19.2.3-0'', KeyType = ''aes''\<rparr>"
    by (simp add: initialized_def UninitializedCephxKeyCephVersion_def)
  from generation_grows [OF this, of
    "\<lparr>KeyRotationPolicy = ''KeyGeneration'', CfgKeyGeneration = 7, CfgKeyType = []\<rparr>" "mk_version 20 2 0 0" "''aes''"]
  show ?thesis by simp
qed

text \<open>C21. Along every sequence of reconciles the status of a key stays readable: starting from a new
  resource, a resource older than the tracking (empty version) or a status written earlier, the
  recorded version is always empty, the mark of an uninitialised key, or a version the parser reads
  back; a key never becomes uninitialised again and a known version never becomes unknown. So the
  version policy never fails on a status that Rook itself has written.\<close>

theorem status_along_reconciles:
  assumes "status_ok st" and "list_all (\<lambda>e. version_ok (ev_running e)) es"
  shows "status_ok (fold reconcile_key es st) \<and> status_progress st (fold reconcile_key es st) \<and>
    (initialized (fold reconcile_key es st) \<longrightarrow>
      shouldRotateWithCephVersionUpdate cfg running desired (fold reconcile_key es st) \<in> range Inr)"
proof -
  let ?t = "fold reconcile_key es st"
  have ok: "status_ok ?t" and "status_progress st ?t"
    using key_machine.run_inv key_machine.run_hist assms by blast+
  moreover have "shouldRotateWithCephVersionUpdate cfg running desired ?t \<in> range Inr" if "initialized ?t"
    using ok that by (auto simp: status_ok_def version_known_def shouldRotateWithCephVersionUpdate_def)
  ultimately show ?thesis by blast
qed

theorem status_along_reconciles_witness:
  "status_ok (fold reconcile_key [sample_event, sample_event] UninitializedCephxStatus)"
proof -
  have "status_ok UninitializedCephxStatus"
    by (simp add: status_ok_def initialized_def UninitializedCephxStatus_def)
  moreover have "list_all (\<lambda>e. version_ok (ev_running e)) [sample_event, sample_event]"
    by (simp add: sample_event_def version_ok_def int64_ok_def)
  ultimately show ?thesis
    using status_along_reconciles [of UninitializedCephxStatus "[sample_event, sample_event]"] by blast
qed

section \<open>Key types of an entity\<close>

lemma seen_key_types_keys:
  "wf_map seen \<Longrightarrow> wf_map (seen_key_types t p secrets seen) \<and>
   set (keys (seen_key_types t p secrets seen)) = set (keys seen) \<union>
     {KeyTypeStr s | s. s \<in> set secrets \<and> EntityType s = t \<and> has_prefix p (EntityId s)}"
proof (induction t p secrets seen rule: seen_key_types.induct)
  case (2 t p s ss seen)
  have "p = [] \<Longrightarrow> has_prefix p (EntityId s)" by (simp add: has_prefix_def)
  with 2 show ?case by (auto simp: Let_def)
qed simp

text \<open>The key types reported for an entity type are exactly the types of the dumped keys of that
  entity type whose identifier has the given prefix, each listed once.\<close>

theorem key_types_of_entity:
  assumes "dump = Inr secrets"
  shows "\<exists>types. DetermineCephxKeyTypesForEntityType dump t p = Inr types \<and> distinct types \<and>
    set types = {KeyTypeStr s | s. s \<in> set secrets \<and> EntityType s = t \<and> has_prefix p (EntityId s)}"
  using assms seen_key_types_keys [of "[]" t p secrets]
  by (simp add: DetermineCephxKeyTypesForEntityType_def wf_map_def keys_def)

theorem key_types_of_entity_witness:
  "\<exists>types. DetermineCephxKeyTypesForEntityType
      (Inr [\<lparr>EntityType = ''mds'', EntityId = ''myfs-a'', KeyTypeStr = ''aes''\<rparr>]) ''mds'' ''myfs-'' = Inr types \<and>
    distinct types \<and> ''aes'' \<in> set types"
  using key_types_of_entity [of "Inr [\<lparr>EntityType = ''mds'', EntityId = ''myfs-a'', KeyTypeStr = ''aes''\<rparr>]"
    "[\<lparr>EntityType = ''mds'', EntityId = ''myfs-a'', KeyTypeStr = ''aes''\<rparr>]" "''mds''" "''myfs-''"]
  by (auto simp: has_prefix_def)

end
