(* ===== verification/MonStore.thy ===== *)
theory MonStore
  imports MonSpec CsiConfig Cephx
begin

text \<open>
  How the operator keeps its monitors in Kubernetes and finds them again: the config map of endpoints with the
  mapping, the highest identifier and the monitors out of quorum, the secret with the credentials and the
  endpoint slices. Sources: \<^verbatim>\<open>loadMonConfig\<close>, \<^verbatim>\<open>CreateOrLoadClusterInfo\<close> and their helpers in
  \<^verbatim>\<open>pkg/operator/ceph/controller/cluster_info.go\<close>, and \<^verbatim>\<open>persistExpectedMonDaemons\<close>, \<^verbatim>\<open>getStoredMaxMonID\<close>, \<^verbatim>\<open>commitMaxMonID\<close>
  of \<^verbatim>\<open>pkg/operator/ceph/cluster/mon/mon.go\<close>. Owner references are parameters, of which only the errors matter.
\<close>

section \<open>Keys\<close>

definition EndpointConfigMapName :: string where "EndpointConfigMapName = ''rook-ceph-mon-endpoints''"
definition EndpointDataKey :: string where "EndpointDataKey = ''data''"
definition EndpointExternalMonsKey :: string where "EndpointExternalMonsKey = ''externalMons''"
definition OutOfQuorumKey :: string where "OutOfQuorumKey = ''outOfQuorum''"
definition MaxMonIDKey :: string where "MaxMonIDKey = ''maxMonId''"
definition MappingKey :: string where "MappingKey = ''mapping''"

section \<open>The config map of endpoints\<close>

definition getStoredMaxMonID :: "(ConfigMap, 'c) kube \<Rightarrow> string \<Rightarrow> 'c \<Rightarrow> string res \<times> 'c" where
  "getStoredMaxMonID api ns w =
     (case kget api (ns, EndpointConfigMapName) w of
        (Inl e, w') \<Rightarrow> (if \<not> IsNotFound e then Inl (Wrap ''could not load maxMonId'' e) else Inr ''-1'', w')
      | (Inr cm, w') \<Rightarrow> (case Data cm MaxMonIDKey of Some val \<Rightarrow> Inr val | None \<Rightarrow> Inr ''-1'', w'))"

definition mon_config_data ::
  "MonInfo gomap \<Rightarrow> MonInfo gomap \<Rightarrow> Schedule \<Rightarrow> string \<Rightarrow> string \<Rightarrow> (string \<rightharpoonup> string)" where
  "mon_config_data internal external sched maxMonID csiConfigValue =
     [EndpointDataKey \<mapsto> flattenMonEndpoints (AllMonitors internal external),
      EndpointExternalMonsKey \<mapsto> join '','' (keys external),
      MaxMonIDKey \<mapsto> maxMonID,
      MappingKey \<mapsto> marshal_mapping sched,
      OutOfQuorumKey \<mapsto> join '','' (keys (filter (\<lambda>(_, mon). OutOfQuorum mon) internal)),
      CsiConfigKey \<mapsto> csiConfigValue]"

text \<open>The second argument prints the configuration of the CSI driver, the third is the error of the owner reference.\<close>

definition persistExpectedMonDaemonsInConfigMap ::
  "(ConfigMap, 'c) kube \<Rightarrow> (CSIClusterConfigEntry list \<Rightarrow> string) \<Rightarrow> err option \<Rightarrow> string \<Rightarrow> MonInfo gomap \<Rightarrow> MonInfo gomap \<Rightarrow>
   Schedule \<Rightarrow> 'c \<Rightarrow> err option \<times> 'c" where
  "persistExpectedMonDaemonsInConfigMap api csi_text owner_error ns internal external sched w =
     (case owner_error of
        Some e \<Rightarrow> (Some (Wrap ''failed to set owner reference mon configmap'' e), w)
      | None \<Rightarrow>
          (let csiConfigValue = FormatCsiClusterConfig csi_text ns (AllMonitors internal external)
           in case getStoredMaxMonID api ns w of
                (Inl e, w1) \<Rightarrow> (Some (Wrap ''failed to save maxMonID'' e), w1)
              | (Inr maxMonID, w1) \<Rightarrow>
                  (let cm = \<lparr>Data = mon_config_data internal external sched maxMonID csiConfigValue\<rparr>
                   in case kcreate api (ns, EndpointConfigMapName) cm w1 of
                        (None, w2) \<Rightarrow> (None, w2)
                      | (Some e, w2) \<Rightarrow>
                          if \<not> IsAlreadyExists e then (Some (Wrap ''failed to create mon endpoint config map'' e), w2)
                          else (case kupdate api (ns, EndpointConfigMapName) cm w2 of
                                  (Some e, w3) \<Rightarrow> (Some (Wrap ''failed to update mon endpoint config map'' e), w3)
                                | (None, w3) \<Rightarrow> (None, w3)))))"

definition commitMaxMonIDRequireIncrementing :: "(ConfigMap, 'c) kube \<Rightarrow> string \<Rightarrow> int \<Rightarrow> bool \<Rightarrow> 'c \<Rightarrow> err option \<times> 'c" where
  "commitMaxMonIDRequireIncrementing api ns desiredMaxMonID requireIncrementing w =
     (case kget api (ns, EndpointConfigMapName) w of
        (Inl e, w1) \<Rightarrow> (Some (Wrap ''failed to find existing mon endpoint config map'' e), w1)
      | (Inr cm, w1) \<Rightarrow>
          (case Atoi (mget (Data cm) MaxMonIDKey) of
             None \<Rightarrow> (Some (Errorf ''failed to read existing maxMonId''), w1)
           | Some existingMax \<Rightarrow>
               if requireIncrementing \<and> existingMax \<ge> desiredMaxMonID then (None, w1)
               else (case kupdate api (ns, EndpointConfigMapName)
                             (cm\<lparr>Data := (Data cm)(MaxMonIDKey \<mapsto> Itoa desiredMaxMonID)\<rparr>) w1 of
                       (Some e, w2) \<Rightarrow> (Some (Wrap ''failed to update mon endpoint config map for the maxMonID'' e), w2)
                     | (None, w2) \<Rightarrow> (None, w2))))"

definition commitMaxMonID :: "(ConfigMap, 'c) kube \<Rightarrow> string \<Rightarrow> string \<Rightarrow> 'c \<Rightarrow> err option \<times> 'c" where
  "commitMaxMonID api ns monName w =
     (case NameToIndex monName of
        Inl e \<Rightarrow> (Some (Wrap ''invalid mon name'' e), w)
      | Inr committedMonID \<Rightarrow> commitMaxMonIDRequireIncrementing api ns committedMonID True w)"

definition UpdateMonsOutOfQuorum :: "(ConfigMap, 'c) kube \<Rightarrow> string \<Rightarrow> string list \<Rightarrow> 'c \<Rightarrow> err option \<times> 'c" where
  "UpdateMonsOutOfQuorum api ns monsOutOfQuorum w =
     (case kget api (ns, EndpointConfigMapName) w of
        (Inl e, w1) \<Rightarrow> (Some (Wrap ''failed to get mon endpoints configmap'' e), w1)
      | (Inr cm, w1) \<Rightarrow>
          (case kupdate api (ns, EndpointConfigMapName) (cm\<lparr>Data := (Data cm)(OutOfQuorumKey \<mapsto> join '','' monsOutOfQuorum)\<rparr>) w1 of
             (Some e, w2) \<Rightarrow> (Some (Wrap ''failed to update mon endpoints configmap with mon(s) out of quorum'' e), w2)
           | (None, w2) \<Rightarrow> (None, w2)))"

section \<open>Loading the monitors\<close>

definition mark_out_of_quorum :: "string \<Rightarrow> MonInfo gomap \<Rightarrow> MonInfo gomap" where
  "mark_out_of_quorum name mons =
     (case map_of mons name of None \<Rightarrow> mons | Some m \<Rightarrow> put name (m\<lparr>OutOfQuorum := True\<rparr>) mons)"

text \<open>An unreadable name has the index -1 next to its error.\<close>

definition name_index :: "string \<Rightarrow> int" where
  "name_index name = (case fullNameToIndex name of Inl _ \<Rightarrow> -1 | Inr i \<Rightarrow> i)"

definition parse_mons :: "(string \<rightharpoonup> string) \<Rightarrow> MonInfo gomap" where
  "parse_mons d =
     (let mons = (case d EndpointDataKey of None \<Rightarrow> [] | Some info \<Rightarrow> ParseMonEndpoints info)
      in case d OutOfQuorumKey of
           None \<Rightarrow> mons
         | Some outOfQuorum \<Rightarrow> if outOfQuorum = [] then mons else fold mark_out_of_quorum (split_on CHR '','' outOfQuorum) mons)"

definition parse_max_id :: "(string \<rightharpoonup> string) \<Rightarrow> MonInfo gomap \<Rightarrow> int" where
  "parse_max_id d mons =
     (let stored = (case d MaxMonIDKey of None \<Rightarrow> -1 | Some t \<Rightarrow> (case Atoi t of None \<Rightarrow> -1 | Some i \<Rightarrow> i))
      in fold (\<lambda>(_, m) maxMonID. if maxMonID < name_index (MiName m) then name_index (MiName m) else maxMonID) mons stored)"

definition split_external :: "(string \<rightharpoonup> string) \<Rightarrow> MonInfo gomap \<Rightarrow> MonInfo gomap \<times> MonInfo gomap" where
  "split_external d mons =
     (let ids = (case d EndpointExternalMonsKey of None \<Rightarrow> [] | Some t \<Rightarrow> if t = [] then [] else split_on CHR '','' t)
      in (filter (\<lambda>(k, _). k \<in> set ids) mons, filter (\<lambda>(k, _). k \<notin> set ids) mons))"

text \<open>External monitors, internal monitors, highest identifier and mapping; a mapping that was the text \<^verbatim>\<open>null\<close> is
  a nil pointer.\<close>

definition loadMonConfig ::
  "(ConfigMap, 'c) kube \<Rightarrow> string \<Rightarrow> 'c \<Rightarrow> (MonInfo gomap \<times> MonInfo gomap \<times> int \<times> Schedule option) res \<times> 'c" where
  "loadMonConfig api ns w =
     (case kget api (ns, EndpointConfigMapName) w of
        (Inl e, w') \<Rightarrow> (if \<not> IsNotFound e then Inl e else Inr ([], [], -1, Some []), w')
      | (Inr cm, w') \<Rightarrow>
          (let d = Data cm;
               mons = parse_mons d;
               maxMonID = parse_max_id d mons;
               monMapping = fst (unmarshal_mapping (mget d MappingKey))
           in case split_external d mons of
                (extMons, internalMons) \<Rightarrow> (Inr (extMons, internalMons, maxMonID, monMapping), w')))"

section \<open>Credentials\<close>

record ClusterAuth =
  FSID :: string
  MonitorSecret :: string
  CephUsername :: string
  CephSecret :: string
  OwnerRef :: "string option"

record MonSecret =
  SecretData :: "string \<rightharpoonup> string"
  SecretOwners :: "string list"

definition OperatorCreds :: string where "OperatorCreds = ''rook-ceph-operator-creds''"
definition fsidSecretNameKey :: string where "fsidSecretNameKey = ''fsid''"
definition MonSecretNameKey :: string where "MonSecretNameKey = ''mon-secret''"
definition AdminSecretNameKey :: string where "AdminSecretNameKey = ''admin-secret''"
definition CephUsernameKey :: string where "CephUsernameKey = ''ceph-username''"
definition CephUserSecretKey :: string where "CephUserSecretKey = ''ceph-secret''"
definition AdminUsername :: string where "AdminUsername = ''client.admin''"

definition IsInitialized :: "ClusterAuth option \<Rightarrow> err option option \<Rightarrow> err option" where
  "IsInitialized c context =
     (case c of
        None \<Rightarrow> Some (Errorf ''clusterInfo is nil'')
      | Some a \<Rightarrow>
          if FSID a = [] then Some (Errorf ''cluster fsid is empty'')
          else if MonitorSecret a = [] then Some (Errorf ''monitor secret is empty'')
          else if CephUsername a = [] then Some (Errorf ''ceph username is empty'')
          else if CephSecret a = [] then Some (Errorf ''ceph secret is empty'')
          else case context of None \<Rightarrow> Some (Errorf ''context is nil'') | Some e \<Rightarrow> e)"

definition createClusterAccessSecret ::
  "(MonSecret, 's) kube \<Rightarrow> (MonSecret \<Rightarrow> MonSecret res) \<Rightarrow> string \<Rightarrow> ClusterAuth \<Rightarrow> 's \<Rightarrow> err option \<times> 's" where
  "createClusterAccessSecret api set_controller ns a w =
     (case set_controller \<lparr>SecretData = [fsidSecretNameKey \<mapsto> FSID a, MonSecretNameKey \<mapsto> MonitorSecret a,
              CephUsernameKey \<mapsto> CephUsername a, CephUserSecretKey \<mapsto> CephSecret a], SecretOwners = []\<rparr> of
        Inl e \<Rightarrow> (Some (Wrap ''failed to set owner reference to mon secret'' e), w)
      | Inr secret \<Rightarrow>
          (case kcreate api (ns, MonAppName) secret w of
             (Some e, w') \<Rightarrow> (Some (Wrap ''failed to save mon secrets'' e), w') | (None, w') \<Rightarrow> (None, w')))"

definition UpdateClusterAccessSecret :: "(MonSecret, 's) kube \<Rightarrow> string \<Rightarrow> ClusterAuth \<Rightarrow> 's \<Rightarrow> err option \<times> 's" where
  "UpdateClusterAccessSecret api ns a w =
     (case kget api (ns, MonAppName) w of
        (Inl e, w1) \<Rightarrow> (Some (Wrap ''failed to get secret'' e), w1)
      | (Inr secret, w1) \<Rightarrow>
          (case kupdate api (ns, MonAppName)
                  (secret\<lparr>SecretData := (SecretData secret)(CephUserSecretKey \<mapsto> CephSecret a, MonSecretNameKey \<mapsto> MonitorSecret a)\<rparr>) w1 of
             (Some e, w2) \<Rightarrow> (Some (Wrap ''failed to update secret'' e), w2) | (None, w2) \<Rightarrow> (None, w2)))"

text \<open>The type of the keys of a new cluster.\<close>

definition bootstrap_key_type :: "CephVersion \<Rightarrow> string \<Rightarrow> string" where
  "bootstrap_key_type v configured =
     (if configured \<noteq> [] then configured else if \<not> Aes256kKeysSupported v then CephxKeyTypeAes else [])"

text \<open>
  The credentials from the secret, or new ones. The arguments after the client: the owner (None for a nil
  pointer) as the function that sets the reference, the version if it is known, the key type configured, and the
  command that makes new keys of a type.
\<close>

definition load_auth ::
  "(MonSecret, 's) kube \<Rightarrow> (MonSecret \<Rightarrow> MonSecret res) option \<Rightarrow> CephVersion option \<Rightarrow> string \<Rightarrow> (string \<Rightarrow> ClusterAuth res) \<Rightarrow>
   string \<Rightarrow> 's \<Rightarrow> ClusterAuth res \<times> 's" where
  "load_auth api ownerInfo cephVersion keyType new_keys ns w =
     (case kget api (ns, MonAppName) w of
        (Inl e, w1) \<Rightarrow>
          if \<not> IsNotFound e then (Inl (Wrap ''failed to get mon secrets'' e), w1)
          else (case ownerInfo of
                  None \<Rightarrow> (Inl (Errorf ''not expected to create new cluster info and did not find existing secret''), w1)
                | Some set_controller \<Rightarrow>
                    (case cephVersion of
                       None \<Rightarrow> (Inl (Errorf ''cannot create new cluster info with undetected ceph version''), w1)
                     | Some v \<Rightarrow>
                         (case new_keys (bootstrap_key_type v keyType) of
                            Inl e \<Rightarrow> (Inl (Wrap ''failed to create initial cluster info'' e), w1)
                          | Inr a \<Rightarrow>
                              (case createClusterAccessSecret api set_controller ns a w1 of
                                 (Some e, w2) \<Rightarrow> (Inl e, w2) | (None, w2) \<Rightarrow> (Inr a, w2)))))
      | (Inr secret, w1) \<Rightarrow>
          (let d = SecretData secret;
               a = \<lparr>FSID = mget d fsidSecretNameKey, MonitorSecret = mget d MonSecretNameKey, CephUsername = [], CephSecret = [],
                 OwnerRef = (case SecretOwners secret of [] \<Rightarrow> None | ref # _ \<Rightarrow> Some ref)\<rparr>
           in case d CephUsernameKey of
                Some user \<Rightarrow> (Inr (a\<lparr>CephUsername := user, CephSecret := mget d CephUserSecretKey\<rparr>), w1)
              | None \<Rightarrow>
                  (case d AdminSecretNameKey of
                     None \<Rightarrow> (Inl (Errorf ''failed to find either the cluster admin key or the username''), w1)
                   | Some adminKey \<Rightarrow>
                       (case kupdate api (ns, MonAppName)
                               (secret\<lparr>SecretData := d(CephUsernameKey \<mapsto> AdminUsername, CephUserSecretKey \<mapsto> adminKey)\<rparr>) w1 of
                          (Some e, w2) \<Rightarrow> (Inl (Wrap ''failed to update mon secrets'' e), w2)
                        | (None, w2) \<Rightarrow> (Inr (a\<lparr>CephUsername := AdminUsername, CephSecret := adminKey\<rparr>), w2)))))"

record CSIDriverSpec =
  CsiCrushLocationLabels :: "string list"
  CsiKernelMountOptions :: string

text \<open>The setting of the operator and the environment variable of the hostname label are arguments.\<close>

definition loadCsiSettings :: "string \<Rightarrow> string \<Rightarrow> ClusterSpec \<Rightarrow> CSIDriverSpec \<Rightarrow> CSIDriverSpec" where
  "loadCsiSettings operatorOptions labelEnv spec csi =
     (let s1 = (if CsiCrushLocationLabels csi = []
                then csi\<lparr>CsiCrushLocationLabels := split_on CHR '','' (GetDefaultTopologyLabels labelEnv)\<rparr> else csi)
      in if CsiKernelMountOptions csi = []
         then s1\<lparr>CsiKernelMountOptions :=
                (if operatorOptions \<noteq> [] then operatorOptions
                 else if NetworkEncryptionEnabled spec then ''ms_mode=secure''
                 else if RequireMsgr2 spec then ''ms_mode=prefer-crc'' else [])\<rparr>
         else s1)"

text \<open>The settings of the CSI driver are what \<^const>\<open>loadCsiSettings\<close> makes of the specification.\<close>

record LoadedInfo =
  Auth :: ClusterAuth
  LoadedExternal :: "MonInfo gomap"
  LoadedInternal :: "MonInfo gomap"
  LoadedMaxID :: int
  LoadedMapping :: "Schedule option"
  LoadedCSI :: CSIDriverSpec

definition CreateOrLoadClusterInfo ::
  "(MonSecret, 'w) kube \<Rightarrow> (ConfigMap, 'w) kube \<Rightarrow> (MonSecret \<Rightarrow> MonSecret res) option \<Rightarrow> CephVersion option \<Rightarrow> string \<Rightarrow>
   (string \<Rightarrow> ClusterAuth res) \<Rightarrow> CSIDriverSpec \<Rightarrow> string \<Rightarrow> 'w \<Rightarrow> LoadedInfo res \<times> 'w" where
  "CreateOrLoadClusterInfo sapi capi ownerInfo cephVersion keyType new_keys csi ns w =
     (case load_auth sapi ownerInfo cephVersion keyType new_keys ns w of
        (Inl e, w1) \<Rightarrow> (Inl e, w1)
      | (Inr a, w1) \<Rightarrow>
          (case loadMonConfig capi ns w1 of
             (Inl e, w2) \<Rightarrow> (Inl (Wrap ''failed to get mon config'' e), w2)
           | (Inr (ext, internal, maxMonID, monMapping), w2) \<Rightarrow>
               (let info = \<lparr>Auth = a, LoadedExternal = ext, LoadedInternal = internal, LoadedMaxID = maxMonID,
                            LoadedMapping = monMapping, LoadedCSI = csi\<rparr>
                in if CephUsername a = AdminUsername \<and> CephSecret a \<noteq> AdminSecretNameKey then (Inr info, w2)
                   else if CephSecret a = AdminSecretNameKey
                   then (case kget sapi (ns, OperatorCreds) w2 of
                           (Inl e, w3) \<Rightarrow> (Inl e, w3)
                         | (Inr secret, w3) \<Rightarrow>
                             (Inr (info\<lparr>Auth := a\<lparr>CephUsername := mget (SecretData secret) ''userID'',
                                CephSecret := mget (SecretData secret) ''userKey''\<rparr>\<rparr>), w3))
                   else (Inr info, w2))))"

text \<open>Two monitors of which the second is out of quorum, one external monitor, and an empty namespace.\<close>

definition ref_internal :: "MonInfo gomap" where
  "ref_internal = [(''a'', \<lparr>MiName = ''a'', Endpoint = ''10.0.0.1:6789'', OutOfQuorum = False\<rparr>),
     (''c'', \<lparr>MiName = ''c'', Endpoint = ''10.0.0.2:6789'', OutOfQuorum = True\<rparr>)]"

definition ref_external :: "MonInfo gomap" where
  "ref_external = [(''x'', \<lparr>MiName = ''x'', Endpoint = ''10.0.0.9:3300'', OutOfQuorum = False\<rparr>)]"

definition ref_maps :: "ConfigMap server" where
  "ref_maps = \<lparr>objs = [], faults = []\<rparr>"

section \<open>Reading back the stored monitors\<close>

lemma Atoi_constants [simp]: "Atoi [] = None" "Atoi ''-1'' = Some (-1)"
  by code_simp+

lemma NameToIndex_range: "NameToIndex w = Inr i \<Longrightarrow> int64_ok i"
proof -
  have "int64_ok r \<Longrightarrow> NameToIndex_loop w f r = Inr i \<Longrightarrow> int64_ok i" for f r
    by (induction w f r rule: NameToIndex_loop.induct) (auto simp: Let_def s64_range split: if_splits)
  from this [of 0] show "NameToIndex w = Inr i \<Longrightarrow> int64_ok i" by (simp add: NameToIndex_def int64_ok_def)
qed

definition with_mark :: "string set \<Rightarrow> MonInfo gomap \<Rightarrow> MonInfo gomap" where
  "with_mark names mons = map (\<lambda>(k, m). (k, if k \<in> names then m\<lparr>OutOfQuorum := True\<rparr> else m)) mons"

lemma keys_with_mark [simp]: "keys (with_mark names mons) = keys mons"
  by (auto simp: with_mark_def keys_def)

lemma put_present: "wf_map m \<Longrightarrow> k \<in> set (keys m) \<Longrightarrow> put k v m = map (\<lambda>(k', v'). (k', if k' = k then v else v')) m"
proof (induction m)
  case (Cons a m)
  have "map (\<lambda>(k', v'). (k', if k' = k then v else v')) m = m" if "k \<notin> set (keys m)"
    using that by (induction m) (auto simp: keys_def)
  with Cons show ?case by (cases a) (auto simp: wf_map_def keys_def)
qed (simp add: keys_def)

lemma mark_one: "wf_map mons \<Longrightarrow> mark_out_of_quorum name mons = with_mark {name} mons"
proof (cases "map_of mons name")
  case None
  then have "with_mark {name} mons = mons"
    by (auto simp: with_mark_def map_of_eq_None_iff image_iff intro!: map_idI)
  with None show ?thesis by (simp add: mark_out_of_quorum_def)
next
  case (Some m)
  assume wf: "wf_map mons"
  have "name \<in> set (keys mons)" using Some by (auto simp: keys_def dest: map_of_SomeD intro: rev_image_eqI)
  moreover have "m' = m" if "(name, m') \<in> set mons" for m' using map_of_mem [OF wf that] Some by simp
  ultimately show ?thesis using Some by (auto simp: mark_out_of_quorum_def with_mark_def put_present [OF wf])
qed

lemma mark_all: "wf_map mons \<Longrightarrow> fold mark_out_of_quorum names mons = with_mark (set names) mons"
proof (induction names arbitrary: mons)
  case (Cons n names)
  have "wf_map (with_mark {n} mons)" using Cons.prems by (simp add: wf_map_def)
  from Cons.IH [OF this] show ?case by (auto simp: mark_one Cons.prems with_mark_def)
qed (auto simp: with_mark_def intro!: map_idI [symmetric])

lemma AllMonitors_append: "wf_map (internal @ external) \<Longrightarrow> AllMonitors internal external = internal @ external"
proof -
  assume wf: "wf_map (internal @ external)"
  then have "wf_map internal" "wf_map external" "set (keys external) \<inter> set (keys internal) = {}"
    by (auto simp: wf_map_def keys_def)
  with fold_put [of internal "[]"] fold_put [of external internal] show ?thesis
    by (simp add: AllMonitors_def keys_def)
qed

lemma split_join_names:
  assumes "list_all (\<lambda>s. s \<noteq> [] \<and> CHR '','' \<notin> set s) names"
  shows "(if join '','' names = [] then [] else split_on CHR '','' (join '','' names)) = names"
proof (cases "names = []")
  case False
  then have "join '','' names \<noteq> []" using assms by (cases names; cases "tl names") auto
  with False assms split_on_join [of names "CHR '',''"] show ?thesis by (simp add: list_all_iff)
qed simp

lemma storable_names: "storable mons \<Longrightarrow> [] \<notin> set (keys mons) \<Longrightarrow> list_all (\<lambda>s. s \<noteq> [] \<and> CHR '','' \<notin> set s) (keys mons)"
  by (force simp: storable_def keys_def list_all_iff)

lemma keys_distinct:
  "EndpointDataKey \<noteq> EndpointExternalMonsKey" "EndpointDataKey \<noteq> MaxMonIDKey" "EndpointDataKey \<noteq> MappingKey"
  "EndpointDataKey \<noteq> OutOfQuorumKey" "EndpointDataKey \<noteq> CsiConfigKey" "EndpointExternalMonsKey \<noteq> MaxMonIDKey"
  "EndpointExternalMonsKey \<noteq> MappingKey" "EndpointExternalMonsKey \<noteq> OutOfQuorumKey" "EndpointExternalMonsKey \<noteq> CsiConfigKey"
  "MaxMonIDKey \<noteq> MappingKey" "MaxMonIDKey \<noteq> OutOfQuorumKey" "MaxMonIDKey \<noteq> CsiConfigKey" "MappingKey \<noteq> OutOfQuorumKey"
  "MappingKey \<noteq> CsiConfigKey" "OutOfQuorumKey \<noteq> CsiConfigKey"
  by (simp_all add: EndpointDataKey_def EndpointExternalMonsKey_def MaxMonIDKey_def MappingKey_def OutOfQuorumKey_def CsiConfigKey_def)

lemma mon_config_data_at:
  "mon_config_data internal ext sched i csi EndpointDataKey = Some (flattenMonEndpoints (AllMonitors internal ext))"
  "mon_config_data internal ext sched i csi EndpointExternalMonsKey = Some (join '','' (keys ext))"
  "mon_config_data internal ext sched i csi MaxMonIDKey = Some i"
  "mon_config_data internal ext sched i csi MappingKey = Some (marshal_mapping sched)"
  "mon_config_data internal ext sched i csi OutOfQuorumKey = Some (join '','' (keys (filter (\<lambda>(_, mon). OutOfQuorum mon) internal)))"
  by (simp_all add: mon_config_data_def keys_distinct keys_distinct [symmetric])

lemma with_mark_in_quorum:
  assumes "wf_map (internal @ external)"
  shows "with_mark (set (keys (filter (\<lambda>(_, m). OutOfQuorum m) internal))) (in_quorum (internal @ external)) =
    internal @ in_quorum external"
proof -
  let ?out = "set (keys (filter (\<lambda>(_, m). OutOfQuorum m) internal))"
  have "k \<in> ?out \<longleftrightarrow> OutOfQuorum m" if "(k, m) \<in> set internal" for k m
    using that assms by (auto simp: keys_def wf_map_def dest: eq_key_imp_eq_value intro: rev_image_eqI)
  moreover have "k \<notin> ?out" if "(k, m) \<in> set external" for k m
    using that assms by (force simp: keys_def wf_map_def)
  ultimately show ?thesis
    by (auto simp: with_mark_def in_quorum_def intro!: map_idI)
qed

lemma parse_stored_mons:
  assumes "storable (internal @ external)" "[] \<notin> set (keys (internal @ external))"
  shows "parse_mons (mon_config_data internal external sched i csi) = internal @ in_quorum external"
proof -
  let ?out = "keys (filter (\<lambda>(_, mon). OutOfQuorum mon) internal)"
  have wf: "wf_map (internal @ external)" using assms(1) by (simp add: storable_def)
  have n: "list_all (\<lambda>s. s \<noteq> [] \<and> CHR '','' \<notin> set s) ?out"
    using storable_names [OF assms] by (auto simp: keys_def list_all_iff)
  have wfq: "wf_map (in_quorum (internal @ external))"
    using wf by (simp add: wf_map_def in_quorum_def keys_def comp_def case_prod_unfold)
  have "parse_mons (mon_config_data internal external sched i csi) =
      fold mark_out_of_quorum (if join '','' ?out = [] then [] else split_on CHR '','' (join '','' ?out)) (in_quorum (internal @ external))"
    by (simp add: parse_mons_def mon_config_data_at AllMonitors_append [OF wf] parse_flatten [OF assms(1)] Let_def)
  then show ?thesis by (simp only: split_join_names [OF n] mark_all [OF wfq] with_mark_in_quorum [OF wf])
qed

lemma split_stored:
  assumes "storable (internal @ external)" "[] \<notin> set (keys (internal @ external))"
  shows "split_external (mon_config_data internal external sched i csi) (internal @ in_quorum external) = (in_quorum external, internal)"
proof -
  have wf: "wf_map (internal @ external)" using assms(1) by (simp add: storable_def)
  have n: "list_all (\<lambda>s. s \<noteq> [] \<and> CHR '','' \<notin> set s) (keys external)"
    using storable_names [OF assms] by (auto simp: keys_def list_all_iff)
  let ?e = "set (keys external)"
  have "filter (\<lambda>(k, _). k \<in> ?e) internal = []" "filter (\<lambda>(k, _). k \<notin> ?e) internal = internal"
    using wf by (force simp: filter_empty_conv wf_map_def keys_def, force simp: filter_id_conv wf_map_def keys_def)
  moreover have "filter (\<lambda>(k, _). k \<in> ?e) (in_quorum external) = in_quorum external"
    "filter (\<lambda>(k, _). k \<notin> ?e) (in_quorum external) = []"
    by (force simp: filter_id_conv in_quorum_def keys_def, force simp: filter_empty_conv in_quorum_def keys_def)
  ultimately show ?thesis
    unfolding split_external_def mon_config_data_at Let_def option.case split_join_names [OF n] by simp
qed

lemma max_id_ge:
  "stored \<le> fold (\<lambda>(_, m) i. if i < name_index (MiName m) then name_index (MiName m) else i) mons stored"
  "(k, m) \<in> set mons \<Longrightarrow> name_index (MiName m) \<le> fold (\<lambda>(_, m) i. if i < name_index (MiName m) then name_index (MiName m) else i) mons stored"
proof (induction mons arbitrary: stored)
  case (Cons a mons)
  { case 1 show ?case using Cons.IH(1) [of "max stored (name_index (MiName (snd a)))"] by (cases a) (auto simp: max_def split: if_splits) }
  { case 2 then show ?case using Cons.IH(1) [of "max stored (name_index (MiName (snd a)))"] Cons.IH(2)
      by (cases a) (auto simp: max_def split: if_splits) }
qed simp_all

section \<open>The identifier that is committed\<close>

definition stored_id :: "(key \<rightharpoonup> ConfigMap) \<Rightarrow> string \<Rightarrow> string" where
  "stored_id st ns = (case st (ns, EndpointConfigMapName) of
     None \<Rightarrow> ''-1'' | Some cm \<Rightarrow> (case Data cm MaxMonIDKey of None \<Rightarrow> ''-1'' | Some v \<Rightarrow> v))"

locale mon_store = kube_api api store
  for api :: "(ConfigMap, 'w) kube" and store :: "'w \<Rightarrow> key \<rightharpoonup> ConfigMap"
begin

lemma stored_id_read: "getStoredMaxMonID api ns w = (Inr i, w') \<Longrightarrow> store w' = store w \<and> i = stored_id (store w) ns"
  by (cases rule: get_cases [of "(ns, EndpointConfigMapName)" w])
    (auto simp: getStoredMaxMonID_def stored_id_def split: option.splits)

lemma id_read_frame: "getStoredMaxMonID api ns w = (r, w') \<Longrightarrow> store w' = store w"
  by (cases rule: get_cases [of "(ns, EndpointConfigMapName)" w])
    (auto simp: getStoredMaxMonID_def)

lemma persist_cases:
  assumes "persistExpectedMonDaemonsInConfigMap api csi_text owner_error ns internal external sched w = (r, w')"
  shows "store w' = (store w)((ns, EndpointConfigMapName) \<mapsto> \<lparr>Data = mon_config_data internal external sched (stored_id (store w) ns)
      (FormatCsiClusterConfig csi_text ns (AllMonitors internal external))\<rparr>) \<or> r \<noteq> None \<and> store w' = store w"
proof (cases owner_error)
  case None
  obtain r1 w1 where g: "getStoredMaxMonID api ns w = (r1, w1)" by fastforce
  show ?thesis
  proof (cases r1)
    case (Inl e)
    then show ?thesis using assms id_read_frame [OF g] g by (auto simp: persistExpectedMonDaemonsInConfigMap_def None Let_def)
  next
    case (Inr i)
    let ?cm = "\<lparr>Data = mon_config_data internal external sched i (FormatCsiClusterConfig csi_text ns (AllMonitors internal external))\<rparr>"
    have i: "store w1 = store w" "i = stored_id (store w) ns" using stored_id_read g Inr by auto
    obtain r2 w2 where c: "kcreate api (ns, EndpointConfigMapName) ?cm w1 = (r2, w2)" by fastforce
    obtain r3 w3 where u: "kupdate api (ns, EndpointConfigMapName) ?cm w2 = (r3, w3)" by fastforce
    have "r2 = None \<Longrightarrow> store w2 = (store w)((ns, EndpointConfigMapName) \<mapsto> ?cm)"
      and "r2 = Some e \<Longrightarrow> IsAlreadyExists e \<Longrightarrow> store w2 = store w"
      and "r2 = Some e \<Longrightarrow> store w2 = store w \<or> store w2 = (store w)((ns, EndpointConfigMapName) \<mapsto> ?cm)"
      and "r3 = None \<Longrightarrow> store w3 = (store w2)((ns, EndpointConfigMapName) \<mapsto> ?cm)"
      and "r3 = Some e \<Longrightarrow> store w3 = store w2 \<or> store w3 = (store w2)((ns, EndpointConfigMapName) \<mapsto> ?cm)" for e
      using c u i(1) create_ok create_exists create_err update_ok update_err by metis+
    then show ?thesis using assms g Inr c u i(2)
      by (auto simp: persistExpectedMonDaemonsInConfigMap_def None Let_def split: option.splits if_splits)
  qed
qed (use assms in \<open>auto simp: persistExpectedMonDaemonsInConfigMap_def\<close>)

lemma commit_cases:
  assumes "commitMaxMonIDRequireIncrementing api ns n inc w = (r, w')"
  shows "(\<exists>cm i. store w (ns, EndpointConfigMapName) = Some cm \<and> Atoi (mget (Data cm) MaxMonIDKey) = Some i \<and>
      (store w' = store w \<and> (r = None \<longrightarrow> inc \<and> n \<le> i) \<or>
       store w' = (store w)((ns, EndpointConfigMapName) \<mapsto> cm\<lparr>Data := (Data cm)(MaxMonIDKey \<mapsto> Itoa n)\<rparr>) \<and> (inc \<longrightarrow> i < n))) \<or>
    store w' = store w \<and> r \<noteq> None"
proof (cases rule: get_cases [of "(ns, EndpointConfigMapName)" w])
  case (found cm w1)
  let ?cm = "cm\<lparr>Data := (Data cm)(MaxMonIDKey \<mapsto> Itoa n)\<rparr>"
  obtain r2 w2 where u: "kupdate api (ns, EndpointConfigMapName) ?cm w1 = (r2, w2)" by fastforce
  have "r2 = None \<Longrightarrow> store w2 = (store w)((ns, EndpointConfigMapName) \<mapsto> ?cm)"
    and "r2 = Some e \<Longrightarrow> store w2 = store w \<or> store w2 = (store w)((ns, EndpointConfigMapName) \<mapsto> ?cm)" for e
    using u found(2) update_ok update_err by metis+
  then show ?thesis using assms found u
    by (auto simp: commitMaxMonIDRequireIncrementing_def split: option.splits if_splits)
qed (use assms in \<open>auto simp: commitMaxMonIDRequireIncrementing_def\<close>)

lemma mark_cases:
  assumes "UpdateMonsOutOfQuorum api ns names w = (r, w')"
  shows "store w' = store w \<or> (\<exists>cm. store w (ns, EndpointConfigMapName) = Some cm \<and>
    store w' = (store w)((ns, EndpointConfigMapName) \<mapsto> cm\<lparr>Data := (Data cm)(OutOfQuorumKey \<mapsto> join '','' names)\<rparr>))"
proof (cases rule: get_cases [of "(ns, EndpointConfigMapName)" w])
  case (found cm w1)
  let ?cm = "cm\<lparr>Data := (Data cm)(OutOfQuorumKey \<mapsto> join '','' names)\<rparr>"
  obtain r2 w2 where u: "kupdate api (ns, EndpointConfigMapName) ?cm w1 = (r2, w2)" by fastforce
  have "store w2 = store w \<or> store w2 = (store w)((ns, EndpointConfigMapName) \<mapsto> ?cm)"
    using u found(2) update_ok update_err by (cases r2) metis+
  then show ?thesis using assms found u by (auto simp: UpdateMonsOutOfQuorum_def split: option.splits)
qed (use assms in \<open>auto simp: UpdateMonsOutOfQuorum_def\<close>)

lemma load_stored:
  assumes "loadMonConfig api ns w = (Inr (ext, internal, maxMonID, sched), w')"
  shows "case store w (ns, EndpointConfigMapName) of None \<Rightarrow> ext = [] \<and> internal = [] \<and> maxMonID = -1 \<and> sched = Some []
    | Some cm \<Rightarrow> let mons = parse_mons (Data cm)
        in maxMonID = parse_max_id (Data cm) mons \<and> split_external (Data cm) mons = (ext, internal) \<and>
           sched = fst (unmarshal_mapping (mget (Data cm) MappingKey))"
  by (cases rule: get_cases [of "(ns, EndpointConfigMapName)" w])
    (use assms in \<open>auto simp: loadMonConfig_def Let_def split: prod.splits\<close>)

end

interpretation endpoints_map: mon_store server_api server_store
  by unfold_locales

text \<open>Loading never forgets an identifier: neither the stored one nor that of a monitor that exists.\<close>

lemma parse_max_id_ge:
  "d MaxMonIDKey = Some t \<Longrightarrow> Atoi t = Some i \<Longrightarrow> i \<le> parse_max_id d mons"
  "d MaxMonIDKey = None \<Longrightarrow> -1 \<le> parse_max_id d mons"
  "(k, m) \<in> set mons \<Longrightarrow> name_index (MiName m) \<le> parse_max_id d mons"
  using max_id_ge [where mons = mons] by (auto simp: parse_max_id_def Let_def)

section \<open>Sequences of writes\<close>

text \<open>The writes of the config map, in any order and with any error of the server; only the revert after a failed
  failover, which takes back the identifier of the monitor it removes, is not among them.\<close>

datatype store_op =
    Persist "err option" "MonInfo gomap" "MonInfo gomap" Schedule
  | Commit string
  | MarkOut "string list"

fun store_step :: "(ConfigMap, 'c) kube \<Rightarrow> (CSIClusterConfigEntry list \<Rightarrow> string) \<Rightarrow> string \<Rightarrow> store_op \<Rightarrow> 'c \<Rightarrow> 'c" where
  "store_step api csi_text ns (Persist owner_error internal external sched) w =
     snd (persistExpectedMonDaemonsInConfigMap api csi_text owner_error ns internal external sched w)"
| "store_step api csi_text ns (Commit name) w = snd (commitMaxMonID api ns name w)"
| "store_step api csi_text ns (MarkOut names) w = snd (UpdateMonsOutOfQuorum api ns names w)"

definition id_kept :: "('c \<Rightarrow> key \<rightharpoonup> ConfigMap) \<Rightarrow> string \<Rightarrow> 'c \<Rightarrow> 'c \<Rightarrow> bool" where
  "id_kept store ns w w' \<longleftrightarrow>
     (\<forall>i. Atoi (stored_id (store w) ns) = Some i \<longrightarrow> (\<exists>j \<ge> i. Atoi (stored_id (store w') ns) = Some j))"

lemma id_kept_same: "stored_id (store w') ns = stored_id (store w) ns \<Longrightarrow> id_kept store ns w w'"
  by (auto simp: id_kept_def)

context mon_store
begin

lemma persist_keeps: "id_kept store ns w (snd (persistExpectedMonDaemonsInConfigMap api csi_text owner_error ns internal external sched w))"
  using persist_cases [of csi_text owner_error ns internal external sched w]
  by (intro id_kept_same, cases "persistExpectedMonDaemonsInConfigMap api csi_text owner_error ns internal external sched w")
    (force simp: stored_id_def mon_config_data_at)

lemma mark_keeps: "id_kept store ns w (snd (UpdateMonsOutOfQuorum api ns names w))"
  using mark_cases [of ns names w]
  by (intro id_kept_same, cases "UpdateMonsOutOfQuorum api ns names w") (force simp: stored_id_def keys_distinct)

lemma commit_keeps: "id_kept store ns w (snd (commitMaxMonID api ns name w))"
proof (cases "NameToIndex name")
  case (Inr n)
  obtain r w' where c: "commitMaxMonIDRequireIncrementing api ns n True w = (r, w')" by fastforce
  have "id_kept store ns w w'"
    using commit_cases [OF c] Atoi_Itoa [OF NameToIndex_range [OF Inr]]
    by (auto simp: id_kept_def stored_id_def mget_def split: option.splits)
  then show ?thesis using c by (simp add: commitMaxMonID_def Inr)
qed (simp add: commitMaxMonID_def id_kept_same)

lemma committed:
  assumes "commitMaxMonID api ns name w = (None, w')"
  shows "\<exists>n j. NameToIndex name = Inr n \<and> n \<le> j \<and> Atoi (stored_id (store w') ns) = Some j"
proof -
  from assms obtain n where n: "NameToIndex name = Inr n" and c: "commitMaxMonIDRequireIncrementing api ns n True w = (None, w')"
    by (auto simp: commitMaxMonID_def split: sum.splits)
  show ?thesis
    using commit_cases [OF c] Atoi_Itoa [OF NameToIndex_range [OF n]] n
    by (auto simp: stored_id_def mget_def split: option.splits)
qed

sublocale writes: machine "store_step api csi_text ns" "\<lambda>_. True" "\<lambda>_. True" "id_kept store ns" for csi_text ns
proof
  fix w e show "id_kept store ns w (store_step api csi_text ns e w)"
    by (cases e) (simp_all add: persist_keeps commit_keeps mark_keeps)
  fix a b c assume "id_kept store ns a b" "id_kept store ns b c"
  then show "id_kept store ns a c" unfolding id_kept_def by (meson order_trans)
qed (simp_all add: id_kept_same)

lemma run_keeps: "id_kept store ns w (fold (store_step api csi_text ns) ops w)"
  by (rule writes.run_hist) (simp_all add: list_all_iff)

lemma load_ge:
  assumes "loadMonConfig api ns w = (Inr (ext, internal, maxMonID, sched), w')" "Atoi (stored_id (store w) ns) = Some i"
  shows "i \<le> maxMonID"
  using load_stored [OF assms(1)] assms(2) parse_max_id_ge(1,2)
  by (auto simp: stored_id_def Let_def split: option.splits)

end

section \<open>Properties\<close>

lemma load_saved:
  assumes "kube_api api store" and "storable (internal @ external)" and "[] \<notin> set (keys (internal @ external))" and "wf_map sched"
    and "store w1 (ns, EndpointConfigMapName) = Some \<lparr>Data = mon_config_data internal external sched i csi\<rparr>"
    and "loadMonConfig api ns w1 = (Inr (ext, int', maxMonID, sched'), w2)"
  shows "int' = internal \<and> ext = in_quorum external \<and> sched' = Some (sort_key fst sched) \<and> known_mons internal maxMonID"
proof -
  let ?d = "mon_config_data internal external sched i csi"
  have ms: "mon_store api store" using assms(1) by (rule mon_store.intro)
  from mon_store.load_stored [OF ms assms(6)] assms(5) have l: "maxMonID = parse_max_id ?d (internal @ in_quorum external)"
      "split_external ?d (internal @ in_quorum external) = (ext, int')" "sched' = fst (unmarshal_mapping (mget ?d MappingKey))"
    by (simp_all add: parse_stored_mons [OF assms(2,3)] Let_def)
  have "k = MiName m" if "(k, m) \<in> set internal" for k m
    using that assms(2) unfolding storable_def list_all_iff by fastforce
  moreover have "name_index (MiName m) \<le> maxMonID" if "(k, m) \<in> set internal" for k m
    unfolding l(1) by (rule parse_max_id_ge(3) [of k]) (simp add: that)
  moreover have "k \<noteq> []" if "(k, m) \<in> set internal" for k m
    using that assms(3) by (force simp: keys_def)
  moreover have "wf_map internal" using assms(2) by (simp add: storable_def wf_map_def keys_def)
  ultimately have "known_mons internal maxMonID"
    by (fastforce simp: known_mons_def list_all_iff name_index_def split: sum.splits)
  then show ?thesis using l(2,3) split_stored [OF assms(2,3)] unmarshal_marshal [OF assms(4)]
    by (simp add: mget_def mon_config_data_at)
qed

text \<open>C23. The monitors survive a restart of the operator: what is stored in the config map is what the next start
  loads, the internal monitors with their state of quorum, the external ones, and the mapping; and the highest
  identifier loaded accounts for every monitor, so that no name is given twice.\<close>

theorem mon_config_roundtrip:
  assumes "kube_api api store" and "storable (internal @ external)" and "[] \<notin> set (keys (internal @ external))" and "wf_map sched"
    and "persistExpectedMonDaemonsInConfigMap api csi_text owner_error ns internal external sched w = (None, w1)"
    and "loadMonConfig api ns w1 = (Inr (ext, int', maxMonID, sched'), w2)"
  shows "int' = internal \<and> ext = in_quorum external \<and> sched' = Some (sort_key fst sched) \<and> known_mons internal maxMonID"
  using mon_store.persist_cases [OF mon_store.intro [OF assms(1)] assms(5)]
  by (intro load_saved [OF assms(1-4) _ assms(6)]) simp

theorem mon_config_roundtrip_witness:
  "\<exists>w1 maxMonID w2. persistExpectedMonDaemonsInConfigMap server_api (\<lambda>_. ''[]'') None ''rook'' ref_internal ref_external [(''a'', None)] ref_maps = (None, w1) \<and>
     loadMonConfig server_api ''rook'' w1 = (Inr (in_quorum ref_external, ref_internal, maxMonID, Some [(''a'', None)]), w2) \<and>
     known_mons ref_internal maxMonID"
proof -
  let ?p = "persistExpectedMonDaemonsInConfigMap server_api (\<lambda>_. ''[]'') None ''rook'' ref_internal ref_external [(''a'', None)] ref_maps"
  have "fst ?p = None" by code_simp
  then have p: "?p = (None, snd ?p)" by (metis prod.collapse)
  have s: "storable (ref_internal @ ref_external)" "[] \<notin> set (keys (ref_internal @ ref_external))"
    by (simp_all add: storable_def ref_internal_def ref_external_def wf_map_def keys_def)
  obtain r w2 where l: "loadMonConfig server_api ''rook'' (snd ?p) = (r, w2)" by fastforce
  have "\<not> isl (fst (loadMonConfig server_api ''rook'' (snd ?p)))" by code_simp
  then have "\<not> isl r" using l by simp
  then obtain ext int' m sched where r: "r = Inr (ext, int', m, sched)" by (cases r) auto
  from mon_config_roundtrip [OF memory.kube_api_axioms s _ p l [unfolded r]] l r p show ?thesis
    by (auto simp: wf_map_def keys_def)
qed

text \<open>C24. The name of a monitor is used once: after the identifier of a new monitor has been committed, every later
  start loads an identifier at least as high, unless a failed failover takes it back, whatever else is written in
  between and whichever of these writes fail at the server; \<open>initMonConfig\<close> numbers new monitors from there.\<close>

theorem committed_id_kept:
  assumes "kube_api api store" and "commitMaxMonID api ns name w = (None, w1)"
    and "loadMonConfig api ns (fold (store_step api csi_text ns) ops w1) = (Inr (ext, internal, maxMonID, sched), w2)"
  shows "\<exists>n. NameToIndex name = Inr n \<and> n \<le> maxMonID"
proof -
  have ms: "mon_store api store" using assms(1) by (rule mon_store.intro)
  obtain n i where n: "NameToIndex name = Inr n" "n \<le> i" "Atoi (stored_id (store w1) ns) = Some i"
    using mon_store.committed [OF ms assms(2)] by blast
  have "id_kept store ns w1 (fold (store_step api csi_text ns) ops w1)" by (rule mon_store.run_keeps [OF ms])
  with n obtain j where "i \<le> j" "Atoi (stored_id (store (fold (store_step api csi_text ns) ops w1)) ns) = Some j"
    by (auto simp: id_kept_def)
  with mon_store.load_ge [OF ms assms(3)] n show ?thesis by force
qed

theorem committed_id_kept_witness:
  "\<exists>w1 ext internal maxMonID sched w2.
     commitMaxMonID server_api ''rook'' ''d'' (store_step server_api (\<lambda>_. ''[]'') ''rook'' (Persist None ref_internal [] []) ref_maps) = (None, w1) \<and>
     loadMonConfig server_api ''rook'' (fold (store_step server_api (\<lambda>_. ''[]'') ''rook'') [Persist None ref_internal [] [], MarkOut [''a'']] w1) =
       (Inr (ext, internal, maxMonID, sched), w2) \<and> 3 \<le> maxMonID"
proof -
  let ?w = "store_step server_api (\<lambda>_. ''[]'') ''rook'' (Persist None ref_internal [] []) ref_maps"
  let ?c = "commitMaxMonID server_api ''rook'' ''d'' ?w"
  let ?f = "fold (store_step server_api (\<lambda>_. ''[]'') ''rook'') [Persist None ref_internal [] [], MarkOut [''a'']] (snd ?c)"
  have "fst ?c = None" "\<not> isl (fst (loadMonConfig server_api ''rook'' ?f))" "NameToIndex ''d'' = Inr 3" by code_simp+
  then obtain ext internal maxMonID sched where l: "?c = (None, snd ?c)" "NameToIndex ''d'' = Inr 3"
    "loadMonConfig server_api ''rook'' ?f = (Inr (ext, internal, maxMonID, sched), snd (loadMonConfig server_api ''rook'' ?f))"
    by (metis prod.collapse sum.collapse(2) surj_pair)
  from committed_id_kept [OF memory.kube_api_axioms l(1,3)] l(2) have "3 \<le> maxMonID" by simp
  with l(1,3) show ?thesis by blast
qed

end
