(* ===== verification/Placement.thy ===== *)
theory Placement
  imports Topology
begin

text \<open>
  Where pods may run: the merge of placements and their application to a pod, the test whether a node meets them,
  and the small edits of pod specifications. Sources: \<^verbatim>\<open>pkg/apis/ceph.rook.io/v1/placement.go\<close>,
  \<^verbatim>\<open>pkg/operator/k8sutil/node.go\<close>, \<^verbatim>\<open>pod.go\<close> and \<^verbatim>\<open>labels.go\<close>. A nil slice and an empty one are told apart where the code
  does, so such slices are optional lists. What Kubernetes' own packages decide is a parameter: the requirement
  made of a key, an operator and values (\<^verbatim>\<open>labels.NewRequirement\<close>), whether a toleration covers a taint, and the
  syntax of label keys and values.
\<close>

section \<open>Types of the Kubernetes API\<close>

datatype SelectorOp = OpIn | OpNotIn | OpExists | OpDoesNotExist | OpGt | OpLt | OpOther string

record NodeRequirement =
  NrKey :: string
  NrOperator :: SelectorOp
  NrValues :: "string list"

record NodeSelectorTerm =
  TermExpressions :: "NodeRequirement list"
  TermFields :: "NodeRequirement list"

record NodeAffinity =
  NodeRequired :: "NodeSelectorTerm list option"
  NodePreferred :: "(int \<times> NodeSelectorTerm) list"

record PodAffinityTerm =
  TermLabels :: "string gomap"
  TopologyKey :: string

record PodAffinity =
  PodRequired :: "PodAffinityTerm list"
  PodPreferred :: "(int \<times> PodAffinityTerm) list"

record Toleration =
  TolKey :: string
  TolOperator :: string
  TolValue :: string
  TolEffect :: string
  TolSeconds :: "int option"

record Placement =
  PlNode :: "NodeAffinity option"
  PlPod :: "PodAffinity option"
  PlAnti :: "PodAffinity option"
  PlTolerations :: "Toleration list option"
  PlSpread :: "string list option"

record Affinity =
  AfNode :: "NodeAffinity option"
  AfPod :: "PodAffinity option"
  AfAnti :: "PodAffinity option"

record PodSpec =
  SpecAffinity :: "Affinity option"
  SpecTolerations :: "Toleration list option"
  SpecSpread :: "string list option"
  NodeSelector :: "string gomap option"

record Taint =
  TaintKey :: string
  TaintValue :: string
  TaintEffect :: string

record KNode =
  KName :: string
  KLabels :: "string \<rightharpoonup> string"
  Unschedulable :: bool
  Taints :: "Taint list"
  Conditions :: "(string \<times> string) list"

section \<open>Placements\<close>

text \<open>\<^verbatim>\<open>append(a, b...)\<close> on slices that may be nil.\<close>

definition go_append :: "'a list option \<Rightarrow> 'a list \<Rightarrow> 'a list option" where
  "go_append a b = (if b = [] then a else Some (case_option [] id a @ b))"

definition no_placement :: Placement where
  "no_placement = \<lparr>PlNode = None, PlPod = None, PlAnti = None, PlTolerations = None, PlSpread = None\<rparr>"

type_synonym PlacementSpec = "string \<rightharpoonup> Placement"

definition placement_at :: "PlacementSpec \<Rightarrow> string \<Rightarrow> Placement" where
  "placement_at p k = (case p k of None \<Rightarrow> no_placement | Some x \<Rightarrow> x)"

definition KeyAll :: string where "KeyAll = ''all''"
definition KeyMon :: string where "KeyMon = ''mon''"
definition KeyMonArbiter :: string where "KeyMonArbiter = ''arbiter''"
definition KeyMgr :: string where "KeyMgr = ''mgr''"
definition KeyOSD :: string where "KeyOSD = ''osd''"

definition PlacementAll :: "PlacementSpec \<Rightarrow> Placement" where
  "PlacementAll p = placement_at p KeyAll"

text \<open>The first argument is the affinity of the placement, the second the one of the pod.\<close>

definition mergeNodeAffinity :: "NodeAffinity \<Rightarrow> NodeAffinity option \<Rightarrow> NodeAffinity" where
  "mergeNodeAffinity p nodeAffinity =
     (case nodeAffinity of
        None \<Rightarrow> p
      | Some n \<Rightarrow>
          (let result = p\<lparr>NodePreferred := NodePreferred n @ NodePreferred p\<rparr>
           in case NodeRequired n of
                None \<Rightarrow> result
              | Some nts \<Rightarrow>
                  (case NodeRequired p of
                     None \<Rightarrow> result\<lparr>NodeRequired := Some nts\<rparr>
                   | Some pts \<Rightarrow>
                       (case nts of
                          [] \<Rightarrow> result
                        | nt # _ \<Rightarrow>
                            (case pts of
                               [] \<Rightarrow> result\<lparr>NodeRequired := Some nts\<rparr>
                             | pt # rest \<Rightarrow>
                                 result\<lparr>NodeRequired := Some (\<lparr>TermExpressions = TermExpressions nt @ TermExpressions pt,
                                   TermFields = TermFields nt @ TermFields pt\<rparr> # rest)\<rparr>)))))"

definition mergeTolerations :: "Toleration list option \<Rightarrow> Toleration list option \<Rightarrow> Toleration list option" where
  "mergeTolerations p tolerations = (case tolerations of None \<Rightarrow> p | Some ts \<Rightarrow> go_append p ts)"

definition ApplyToPodSpec :: "Placement \<Rightarrow> PodSpec \<Rightarrow> PodSpec" where
  "ApplyToPodSpec p t =
     (let a = (case SpecAffinity t of None \<Rightarrow> \<lparr>AfNode = None, AfPod = None, AfAnti = None\<rparr> | Some a \<Rightarrow> a);
          a = (case PlNode p of None \<Rightarrow> a | Some n \<Rightarrow> a\<lparr>AfNode := Some (mergeNodeAffinity n (AfNode a))\<rparr>);
          a = (case PlPod p of None \<Rightarrow> a | Some x \<Rightarrow> a\<lparr>AfPod := Some x\<rparr>);
          a = (case PlAnti p of None \<Rightarrow> a | Some x \<Rightarrow> a\<lparr>AfAnti := Some x\<rparr>);
          t = t\<lparr>SpecAffinity := Some a\<rparr>;
          t = (if PlTolerations p = None then t else t\<lparr>SpecTolerations := mergeTolerations (PlTolerations p) (SpecTolerations t)\<rparr>)
      in if PlSpread p = None then t else t\<lparr>SpecSpread := PlSpread p\<rparr>)"

definition MergePlacement :: "Placement \<Rightarrow> Placement \<Rightarrow> Placement" where
  "MergePlacement p wth =
     (let ret = p;
          ret = (if PlNode wth \<noteq> None then ret\<lparr>PlNode := PlNode wth\<rparr> else ret);
          ret = (if PlPod wth \<noteq> None then ret\<lparr>PlPod := PlPod wth\<rparr> else ret);
          ret = (if PlAnti wth \<noteq> None then ret\<lparr>PlAnti := PlAnti wth\<rparr> else ret);
          ret = (if PlTolerations wth \<noteq> None then ret\<lparr>PlTolerations := mergeTolerations (PlTolerations ret) (PlTolerations wth)\<rparr> else ret)
      in if PlSpread wth \<noteq> None then ret\<lparr>PlSpread := PlSpread wth\<rparr> else ret)"

definition GetMgrPlacement :: "PlacementSpec \<Rightarrow> Placement" where
  "GetMgrPlacement p = MergePlacement (PlacementAll p) (placement_at p KeyMgr)"

definition GetMonPlacement :: "PlacementSpec \<Rightarrow> Placement" where
  "GetMonPlacement p = MergePlacement (PlacementAll p) (placement_at p KeyMon)"

definition GetArbiterPlacement :: "PlacementSpec \<Rightarrow> Placement" where
  "GetArbiterPlacement p = placement_at p KeyMonArbiter"

definition GetOSDPlacement :: "PlacementSpec \<Rightarrow> Placement" where
  "GetOSDPlacement p = MergePlacement (PlacementAll p) (placement_at p KeyOSD)"

section \<open>Edits of a pod\<close>

text \<open>None is the panic on a pod without affinity.\<close>

definition SetNodeAntiAffinityForPod ::
  "PodSpec \<Rightarrow> bool \<Rightarrow> string \<Rightarrow> string gomap \<Rightarrow> string gomap option \<Rightarrow> PodSpec option" where
  "SetNodeAntiAffinityForPod pod requiredDuring topologyKey labels nodeSelector =
     (let pod = pod\<lparr>NodeSelector := nodeSelector\<rparr>;
          antiTerm = \<lparr>TermLabels = labels, TopologyKey = topologyKey\<rparr>
      in if nodeSelector \<noteq> None then Some pod
         else case SpecAffinity pod of
                None \<Rightarrow> None
              | Some a \<Rightarrow>
                  (let paa = (case AfAnti a of None \<Rightarrow> \<lparr>PodRequired = [], PodPreferred = []\<rparr> | Some x \<Rightarrow> x);
                       paa = (if requiredDuring then paa\<lparr>PodRequired := PodRequired paa @ [antiTerm]\<rparr>
                              else paa\<lparr>PodPreferred := PodPreferred paa @ [(50, antiTerm)]\<rparr>)
                   in Some (pod\<lparr>SpecAffinity := Some (a\<lparr>AfAnti := Some paa\<rparr>)\<rparr>)))"

definition unreachableKey :: string where "unreachableKey = ''node.kubernetes.io/unreachable''"

fun replace_first_toleration :: "Toleration \<Rightarrow> Toleration list \<Rightarrow> Toleration list option" where
  "replace_first_toleration ur [] = None"
| "replace_first_toleration ur (t # ts) =
     (if TolKey t = unreachableKey then Some (ur # ts) else map_option ((#) t) (replace_first_toleration ur ts))"

text \<open>The first argument is the environment variable with the seconds; \<^verbatim>\<open>strconv.ParseInt\<close> reads what \<open>Atoi\<close> reads.\<close>

definition AddUnreachableNodeToleration :: "string \<Rightarrow> PodSpec \<Rightarrow> PodSpec" where
  "AddUnreachableNodeToleration env pod =
     (let secs = (if env \<noteq> [] then (case Atoi env of None \<Rightarrow> 5 | Some d \<Rightarrow> d) else 5);
          ur = \<lparr>TolKey = unreachableKey, TolOperator = ''Exists'', TolValue = [], TolEffect = ''NoExecute'', TolSeconds = Some secs\<rparr>;
          ts = case_option [] id (SpecTolerations pod)
      in case replace_first_toleration ur ts of
           Some ts' \<Rightarrow> pod\<lparr>SpecTolerations := Some ts'\<rparr>
         | None \<Rightarrow> pod\<lparr>SpecTolerations := Some (ts @ [ur])\<rparr>)"

text \<open>Environment variables of a container, as names with their values.\<close>

definition dup_env_step :: "string \<times> 'v \<Rightarrow> (string \<times> 'v) list \<times> string list \<Rightarrow> (string \<times> 'v) list \<times> string list" where
  "dup_env_step v st = (case st of (vars, foundVars) \<Rightarrow>
     if fst v \<in> set foundVars then (vars, foundVars) else (vars @ [v], fst v # foundVars))"

definition removeDuplicateEnvVarsFromContainer :: "(string \<times> 'v) list \<Rightarrow> (string \<times> 'v) list" where
  "removeDuplicateEnvVarsFromContainer env = fst (fold dup_env_step env ([], []))"

text \<open>The containers and the init containers of a pod, each with its variables.\<close>

definition RemoveDuplicateEnvVars ::
  "(string \<times> 'v) list list \<times> (string \<times> 'v) list list \<Rightarrow> (string \<times> 'v) list list \<times> (string \<times> 'v) list list" where
  "RemoveDuplicateEnvVars pod =
     (map removeDuplicateEnvVarsFromContainer (fst pod), map removeDuplicateEnvVarsFromContainer (snd pod))"

section \<open>Nodes that meet a placement\<close>

text \<open>A selector is the set of labels it accepts; \<open>requirement\<close> stands for \<^verbatim>\<open>labels.NewRequirement\<close>, which may refuse its
  arguments.\<close>

type_synonym selector = "(string \<rightharpoonup> string) \<Rightarrow> bool"
type_synonym new_requirement = "string \<Rightarrow> SelectorOp \<Rightarrow> string list \<Rightarrow> selector res"

fun add_requirements :: "new_requirement \<Rightarrow> NodeRequirement list \<Rightarrow> selector \<Rightarrow> selector res" where
  "add_requirements requirement [] sel = Inr sel"
| "add_requirements requirement (expr # nsm) sel =
     (case NrOperator expr of
        OpOther _ \<Rightarrow> Inl (Errorf ''not a valid node selector operator'')
      | oper \<Rightarrow> (case requirement (NrKey expr) oper (NrValues expr) of
                   Inl e \<Rightarrow> Inl e
                 | Inr r \<Rightarrow> add_requirements requirement nsm (\<lambda>l. sel l \<and> r l)))"

definition nodeSelectorRequirementsAsSelector :: "new_requirement \<Rightarrow> NodeRequirement list \<Rightarrow> selector res" where
  "nodeSelectorRequirementsAsSelector requirement nsm =
     (if nsm = [] then Inr (\<lambda>_. False) else add_requirements requirement nsm (\<lambda>_. True))"

fun affinity_terms_loop :: "new_requirement \<Rightarrow> KNode \<Rightarrow> NodeSelectorTerm list \<Rightarrow> bool res" where
  "affinity_terms_loop requirement node [] = Inr False"
| "affinity_terms_loop requirement node (req # reqs) =
     (case nodeSelectorRequirementsAsSelector requirement (TermExpressions req) of
        Inl e \<Rightarrow> Inl (Errorf ''failed to parse affinity MatchExpressions, regarding as not match'')
      | Inr nodeSelector \<Rightarrow> if nodeSelector (KLabels node) then Inr True else affinity_terms_loop requirement node reqs)"

definition NodeMeetsAffinityTerms :: "new_requirement \<Rightarrow> KNode \<Rightarrow> NodeAffinity option \<Rightarrow> bool res" where
  "NodeMeetsAffinityTerms requirement node affinity =
     (case Option.bind affinity NodeRequired of
        None \<Rightarrow> Inr True
      | Some terms \<Rightarrow> affinity_terms_loop requirement node terms)"

text \<open>The keys of well-known taints are an argument, as is whether a toleration tolerates a taint.\<close>

definition NodeIsTolerable ::
  "(Toleration \<Rightarrow> Taint \<Rightarrow> bool) \<Rightarrow> string list \<Rightarrow> KNode \<Rightarrow> Toleration list \<Rightarrow> bool \<Rightarrow> bool" where
  "NodeIsTolerable tolerates wellKnownTaints node tolerations ignoreWellKnownTaints =
     list_all (\<lambda>taint. ignoreWellKnownTaints \<and> TaintKey taint \<in> set wellKnownTaints \<or>
       list_ex (\<lambda>toleration. tolerates toleration taint) tolerations) (Taints node)"

definition NodeMeetsPlacementTerms ::
  "new_requirement \<Rightarrow> (Toleration \<Rightarrow> Taint \<Rightarrow> bool) \<Rightarrow> string list \<Rightarrow> KNode \<Rightarrow> Placement \<Rightarrow> bool \<Rightarrow> bool res" where
  "NodeMeetsPlacementTerms requirement tolerates wellKnownTaints node placement ignoreWellKnownTaints =
     (case NodeMeetsAffinityTerms requirement node (PlNode placement) of
        Inl e \<Rightarrow> Inl (Errorf ''failed to check if node meets affinity terms. regarding as not match'')
      | Inr a \<Rightarrow> if \<not> a then Inr False
                 else if \<not> NodeIsTolerable tolerates wellKnownTaints node (case_option [] id (PlTolerations placement)) ignoreWellKnownTaints
                 then Inr False else Inr True)"

definition NodeIsReady :: "KNode \<Rightarrow> bool" where
  "NodeIsReady node = list_ex (\<lambda>(t, s). t = ''Ready'' \<and> s = ''True'') (Conditions node)"

definition GetNodeSchedulable :: "KNode \<Rightarrow> bool \<Rightarrow> bool" where
  "GetNodeSchedulable node scheduleAlways =
     (let schedulable = (\<not> Unschedulable node)
      in if \<not> schedulable \<and> scheduleAlways then True else schedulable)"

definition validNodeNoSched ::
  "new_requirement \<Rightarrow> (Toleration \<Rightarrow> Taint \<Rightarrow> bool) \<Rightarrow> string list \<Rightarrow> KNode \<Rightarrow> Placement \<Rightarrow> bool \<Rightarrow> err option" where
  "validNodeNoSched requirement tolerates wellKnownTaints node placement scheduleAlways =
     (case NodeMeetsPlacementTerms requirement tolerates wellKnownTaints node placement False of
        Inl e \<Rightarrow> Some (Errorf ''failed to check if node meets Rook placement terms'')
      | Inr p \<Rightarrow> if \<not> p then Some (Errorf ''placement settings do not match'')
                 else if \<not> NodeIsReady node
                 then (if scheduleAlways then None else Some (Errorf ''node is not ready''))
                 else None)"

definition ValidNode ::
  "new_requirement \<Rightarrow> (Toleration \<Rightarrow> Taint \<Rightarrow> bool) \<Rightarrow> string list \<Rightarrow> KNode \<Rightarrow> Placement \<Rightarrow> bool \<Rightarrow> err option" where
  "ValidNode requirement tolerates wellKnownTaints node placement scheduleAlways =
     (if \<not> GetNodeSchedulable node scheduleAlways then Some (Errorf ''node is unschedulable'')
      else validNodeNoSched requirement tolerates wellKnownTaints node placement scheduleAlways)"

definition GetNodeHostNameLabel :: "string \<Rightarrow> KNode \<Rightarrow> string res" where
  "GetNodeHostNameLabel env node =
     (case KLabels node (LabelHostname env) of None \<Rightarrow> Inl (Errorf ''hostname not found on the node'') | Some h \<Rightarrow> Inr h)"

definition GetNodeHostNames :: "string \<Rightarrow> KNode list res \<Rightarrow> (string \<rightharpoonup> string) res" where
  "GetNodeHostNames env nodes =
     (case nodes of Inl e \<Rightarrow> Inl e
      | Inr ns \<Rightarrow> Inr (fold (\<lambda>node m. m(KName node \<mapsto> mget (KLabels node) (LabelHostname env))) ns Map.empty))"

definition normalizeHostname :: "string \<Rightarrow> KNode \<Rightarrow> string" where
  "normalizeHostname env kn =
     (let hostname = mget (KLabels kn) (LabelHostname env) in if hostname = [] then KName kn else hostname)"

text \<open>A node of the storage specification is its name with the rest of its settings.\<close>

definition rookNodeMatchesKubernetesNode :: "string \<Rightarrow> string \<times> 'a \<Rightarrow> KNode \<Rightarrow> bool" where
  "rookNodeMatchesKubernetesNode env rn kn \<longleftrightarrow> fst rn = normalizeHostname env kn \<or> fst rn = KName kn"

definition GetKubernetesNodesMatchingRookNodes :: "string \<Rightarrow> (string \<times> 'a) list \<Rightarrow> KNode list res \<Rightarrow> KNode list res" where
  "GetKubernetesNodesMatchingRookNodes env rookNodes k8sNodes =
     (case k8sNodes of
        Inl e \<Rightarrow> Inl (Errorf ''failed to list kubernetes nodes'')
      | Inr kns \<Rightarrow> Inr (concat (map (\<lambda>rn. case find (rookNodeMatchesKubernetesNode env rn) kns of None \<Rightarrow> [] | Some kn \<Rightarrow> [kn]) rookNodes)))"

definition GetNotReadyKubernetesNodes :: "KNode list res \<Rightarrow> KNode list res" where
  "GetNotReadyKubernetesNodes k8sNodes =
     (case k8sNodes of Inl e \<Rightarrow> Inl (Errorf ''failed to list kubernetes nodes'') | Inr kns \<Rightarrow> Inr (filter (\<lambda>n. \<not> NodeIsReady n) kns))"

definition RookNodesMatchingKubernetesNodes :: "string \<Rightarrow> (string \<times> 'a) list \<Rightarrow> KNode list \<Rightarrow> (string \<times> 'a) list" where
  "RookNodesMatchingKubernetesNodes env rookNodes kubernetesNodes =
     concat (map (\<lambda>kn. map (\<lambda>rn. (normalizeHostname env kn, snd rn)) (filter (\<lambda>rn. rookNodeMatchesKubernetesNode env rn kn) rookNodes))
       kubernetesNodes)"

definition GetValidNodes ::
  "new_requirement \<Rightarrow> (Toleration \<Rightarrow> Taint \<Rightarrow> bool) \<Rightarrow> string list \<Rightarrow> string \<Rightarrow> (string \<times> 'a) list \<Rightarrow> bool \<Rightarrow> KNode list res \<Rightarrow> Placement \<Rightarrow>
   (string \<times> 'a) list" where
  "GetValidNodes requirement tolerates wellKnownTaints env rookNodes scheduleAlways k8sNodes placement =
     (case GetKubernetesNodesMatchingRookNodes env rookNodes k8sNodes of
        Inl e \<Rightarrow> []
      | Inr matching \<Rightarrow>
          RookNodesMatchingKubernetesNodes env rookNodes
            (filter (\<lambda>n. ValidNode requirement tolerates wellKnownTaints n placement scheduleAlways = None) matching))"

section \<open>Affinity from text\<close>

definition trim_blank :: "string \<Rightarrow> string" where
  "trim_blank s = rev (dropWhile (\<lambda>c. c = CHR '' '') (rev (dropWhile (\<lambda>c. c = CHR '' '') s)))"

text \<open>One label of the text: the requirement it adds, none, or an error; the arguments check label keys and values.\<close>

definition label_requirement ::
  "(string \<Rightarrow> bool) \<Rightarrow> (string \<Rightarrow> bool) \<Rightarrow> string \<Rightarrow> NodeRequirement option res" where
  "label_requirement qualified valid_value nodeLabel =
     (case split_on CHR ''='' nodeLabel of
        k # v # _ \<Rightarrow>
          (let nodeLabelKey = trim_blank k; nodeLabelValues = split_on CHR '','' v
           in if nodeLabelKey \<noteq> [] \<and> nodeLabelValues \<noteq> []
              then if \<not> qualified nodeLabelKey then Inl (Errorf ''invalid label key'')
                   else if list_ex (\<lambda>x. \<not> valid_value (trim_blank x)) nodeLabelValues then Inl (Errorf ''invalid label value'')
                   else Inr (Some \<lparr>NrKey = nodeLabelKey, NrOperator = OpIn, NrValues = nodeLabelValues\<rparr>)
              else Inr None)
      | [k] \<Rightarrow>
          (let nodeLabelKey = trim_blank k
           in if nodeLabelKey \<noteq> []
              then if \<not> qualified nodeLabelKey then Inl (Errorf ''invalid label key'')
                   else Inr (Some \<lparr>NrKey = nodeLabelKey, NrOperator = OpExists, NrValues = []\<rparr>)
              else Inr None)
      | [] \<Rightarrow> Inr None)"

fun label_requirements :: "(string \<Rightarrow> bool) \<Rightarrow> (string \<Rightarrow> bool) \<Rightarrow> string list \<Rightarrow> NodeRequirement list \<Rightarrow> NodeRequirement list res" where
  "label_requirements qualified valid_value [] acc = Inr acc"
| "label_requirements qualified valid_value (l # ls) acc =
     (case label_requirement qualified valid_value l of
        Inl e \<Rightarrow> Inl e
      | Inr r \<Rightarrow> label_requirements qualified valid_value ls (acc @ (case r of None \<Rightarrow> [] | Some x \<Rightarrow> [x])))"

text \<open>The argument \<open>structured\<close> reads JSON or YAML, if the text is that.\<close>

definition GenerateNodeAffinity ::
  "(string \<Rightarrow> NodeAffinity res) \<Rightarrow> (string \<Rightarrow> bool) \<Rightarrow> (string \<Rightarrow> bool) \<Rightarrow> string \<Rightarrow> NodeAffinity res" where
  "GenerateNodeAffinity structured qualified valid_value nodeAffinity =
     (case structured nodeAffinity of
        Inr affinity \<Rightarrow> Inr affinity
      | Inl _ \<Rightarrow>
          (case label_requirements qualified valid_value (split_on CHR '';'' nodeAffinity) [] of
             Inl e \<Rightarrow> Inl e
           | Inr exprs \<Rightarrow> Inr \<lparr>NodeRequired = Some [\<lparr>TermExpressions = exprs, TermFields = []\<rparr>], NodePreferred = []\<rparr>))"

text \<open>Requirements on labels with four of the operators, as their documentation describes them.\<close>

definition ref_requirement :: new_requirement where
  "ref_requirement k oper vs =
     (case oper of
        OpIn \<Rightarrow> Inr (\<lambda>l. case l k of None \<Rightarrow> False | Some v \<Rightarrow> v \<in> set vs)
      | OpNotIn \<Rightarrow> Inr (\<lambda>l. case l k of None \<Rightarrow> True | Some v \<Rightarrow> v \<notin> set vs)
      | OpExists \<Rightarrow> Inr (\<lambda>l. l k \<noteq> None)
      | OpDoesNotExist \<Rightarrow> Inr (\<lambda>l. l k = None)
      | _ \<Rightarrow> Inl (Errorf ''not supported''))"

definition ref_node :: KNode where
  "ref_node = \<lparr>KName = ''n1'', KLabels = [''zone'' \<mapsto> ''b'', ''role'' \<mapsto> ''storage''], Unschedulable = False, Taints = [],
     Conditions = [(''Ready'', ''True'')]\<rparr>"

definition ref_affinity :: "string \<Rightarrow> string \<Rightarrow> NodeAffinity" where
  "ref_affinity k v = \<lparr>NodeRequired = Some [\<lparr>TermExpressions = [\<lparr>NrKey = k, NrOperator = OpIn, NrValues = [v]\<rparr>], TermFields = []\<rparr>],
     NodePreferred = []\<rparr>"

section \<open>What a merged affinity admits\<close>

definition meets :: "new_requirement \<Rightarrow> (string \<rightharpoonup> string) \<Rightarrow> NodeRequirement \<Rightarrow> bool" where
  "meets requirement l expr \<longleftrightarrow>
     (\<forall>x. NrOperator expr \<noteq> OpOther x) \<and> (\<exists>r. requirement (NrKey expr) (NrOperator expr) (NrValues expr) = Inr r \<and> r l)"

lemma add_requirements_iff:
  "(\<exists>s. add_requirements requirement exprs sel = Inr s \<and> s l) \<longleftrightarrow> sel l \<and> list_all (meets requirement l) exprs"
proof (induction exprs arbitrary: sel)
  case (Cons expr exprs)
  show ?case
    by (cases "NrOperator expr"; cases "requirement (NrKey expr) (NrOperator expr) (NrValues expr)") (auto simp: Cons.IH meets_def)
qed simp

lemma single_term_iff:
  "affinity_terms_loop requirement node [term] = Inr True \<longleftrightarrow>
     TermExpressions term \<noteq> [] \<and> list_all (meets requirement (KLabels node)) (TermExpressions term)"
  using add_requirements_iff [of requirement "TermExpressions term" "\<lambda>_. True" "KLabels node"]
  by (cases "add_requirements requirement (TermExpressions term) (\<lambda>_. True)")
    (auto simp: nodeSelectorRequirementsAsSelector_def)

text \<open>At most one term is required, and it says something.\<close>

definition single_term :: "NodeAffinity \<Rightarrow> bool" where
  "single_term a \<longleftrightarrow> (case NodeRequired a of None \<Rightarrow> True | Some ts \<Rightarrow> (\<exists>t. ts = [t] \<and> TermExpressions t \<noteq> []))"

section \<open>Properties\<close>

text \<open>C37. Placement settings only ever narrow the choice of nodes: where the pod and the placement each require at
  most one term, a node meets the affinity that \<open>ApplyToPodSpec\<close> gives the pod exactly when it meets both.\<close>

theorem merged_affinity_admits:
  assumes "PlNode p = Some a" and "SpecAffinity pod = Some \<lparr>AfNode = Some n, AfPod = x, AfAnti = y\<rparr>"
    and "single_term a" and "single_term n"
  shows "NodeMeetsAffinityTerms requirement node (Option.bind (SpecAffinity (ApplyToPodSpec p pod)) AfNode) = Inr True \<longleftrightarrow>
    NodeMeetsAffinityTerms requirement node (Some a) = Inr True \<and> NodeMeetsAffinityTerms requirement node (Some n) = Inr True"
proof -
  have m: "Option.bind (SpecAffinity (ApplyToPodSpec p pod)) AfNode = Some (mergeNodeAffinity a (Some n))"
    by (simp add: ApplyToPodSpec_def Let_def assms split: option.splits)
  show ?thesis unfolding m using assms(3,4)
    by (auto simp: NodeMeetsAffinityTerms_def mergeNodeAffinity_def single_term_def Let_def single_term_iff
      simp del: affinity_terms_loop.simps split: option.splits)
qed

theorem merged_affinity_admits_witness:
  "let pod = \<lparr>SpecAffinity = Some \<lparr>AfNode = Some (ref_affinity ''zone'' ''b''), AfPod = None, AfAnti = None\<rparr>, SpecTolerations = None,
         SpecSpread = None, NodeSelector = None\<rparr>;
       met = (\<lambda>v. NodeMeetsAffinityTerms ref_requirement ref_node
         (Option.bind (SpecAffinity (ApplyToPodSpec (no_placement\<lparr>PlNode := Some (ref_affinity ''role'' v)\<rparr>) pod)) AfNode))
   in met ''storage'' = Inr True \<and> met ''compute'' \<noteq> Inr True"
proof -
  let ?pod = "\<lparr>SpecAffinity = Some \<lparr>AfNode = Some (ref_affinity ''zone'' ''b''), AfPod = None, AfAnti = None\<rparr>, SpecTolerations = None,
    SpecSpread = None, NodeSelector = None\<rparr>"
  have s: "single_term (ref_affinity k v)" for k v by (simp add: single_term_def ref_affinity_def)
  have p: "PlNode (no_placement\<lparr>PlNode := Some (ref_affinity ''role'' v)\<rparr>) = Some (ref_affinity ''role'' v)" for v by simp
  have a: "SpecAffinity ?pod = Some \<lparr>AfNode = Some (ref_affinity ''zone'' ''b''), AfPod = None, AfAnti = None\<rparr>" by simp
  have e: "NodeMeetsAffinityTerms ref_requirement ref_node (Some (ref_affinity ''role'' ''storage'')) = Inr True"
    "NodeMeetsAffinityTerms ref_requirement ref_node (Some (ref_affinity ''zone'' ''b'')) = Inr True"
    "NodeMeetsAffinityTerms ref_requirement ref_node (Some (ref_affinity ''role'' ''compute'')) \<noteq> Inr True" by code_simp+
  show ?thesis unfolding Let_def
    using merged_affinity_admits [OF p a s s, of ref_requirement ref_node] e by blast
qed

text \<open>Labels written with a blank after the comma are checked without the blank and stored with it: the affinity
  made of the text \<^verbatim>\<open>zone=a, b\<close> does not admit a node in zone b.\<close>

theorem label_values_untrimmed:
  "\<exists>a. GenerateNodeAffinity (\<lambda>_. Inl (Errorf ''not structured'')) (\<lambda>_. True) (\<lambda>_. True) ''zone=a, b'' = Inr a \<and>
     KLabels ref_node ''zone'' = Some ''b'' \<and> NodeMeetsAffinityTerms ref_requirement ref_node (Some a) = Inr False"
proof -
  let ?a = "\<lparr>NodeRequired = Some [\<lparr>TermExpressions = [\<lparr>NrKey = ''zone'', NrOperator = OpIn, NrValues = [''a'', '' b'']\<rparr>],
    TermFields = []\<rparr>], NodePreferred = []\<rparr>"
  have "GenerateNodeAffinity (\<lambda>_. Inl (Errorf ''not structured'')) (\<lambda>_. True) (\<lambda>_. True) ''zone=a, b'' = Inr ?a" by code_simp
  moreover have "KLabels ref_node ''zone'' = Some ''b''" "NodeMeetsAffinityTerms ref_requirement ref_node (Some ?a) = Inr False"
    by code_simp+
  ultimately show ?thesis by blast
qed

end
