(* ===== verification/Labels.thy ===== *)
theory Labels
  imports Placement Names Version
begin

text \<open>
  Labels: those a user gives per daemon type and how they are merged and applied, those the operator gives to the
  daemons of Ceph, selectors written as text and names made valid for DNS. Sources: \<^verbatim>\<open>labels.go\<close>, \<^verbatim>\<open>annotations.go\<close> and \<^verbatim>\<open>keys.go\<close>
  of \<^verbatim>\<open>pkg/apis/ceph.rook.io/v1\<close>, \<^verbatim>\<open>pkg/operator/k8sutil/labels.go\<close>, \<^verbatim>\<open>k8sutil.go\<close> and \<^verbatim>\<open>label.go\<close>, \<^verbatim>\<open>spec.go\<close> of
  \<^verbatim>\<open>pkg/operator/ceph/controller\<close>. Annotations are merged and applied by the same code as labels and share its definitions.
\<close>

section \<open>Labels of the specification\<close>

type_synonym LabelsSpec = "string \<rightharpoonup> string gomap"

definition labels_at :: "LabelsSpec \<Rightarrow> string \<Rightarrow> string gomap" where
  "labels_at a k = (case a k of None \<Rightarrow> [] | Some l \<Rightarrow> l)"

definition put_new :: "string gomap \<Rightarrow> string gomap \<Rightarrow> string gomap" where
  "put_new new m = fold (\<lambda>(k, v) r. if k \<in> set (keys r) then r else put k v r) new m"

definition MergeLabels :: "string gomap \<Rightarrow> string gomap \<Rightarrow> string gomap" where
  "MergeLabels a with = put_new with (put_new a [])"

definition mergeAllLabelsWithKey :: "LabelsSpec \<Rightarrow> string \<Rightarrow> string gomap" where
  "mergeAllLabelsWithKey a name = (case a KeyAll of Some l \<Rightarrow> MergeLabels l (labels_at a name) | None \<Rightarrow> labels_at a name)"

definition GetMonLabels :: "LabelsSpec \<Rightarrow> string gomap" where
  "GetMonLabels a = mergeAllLabelsWithKey a KeyMon"

definition ApplyLabelsToObjectMeta :: "string gomap \<Rightarrow> string gomap \<Rightarrow> string gomap" where
  "ApplyLabelsToObjectMeta a t = put_new a t"

definition OverwriteApplyToObjectMeta :: "string gomap \<Rightarrow> string gomap \<Rightarrow> string gomap" where
  "OverwriteApplyToObjectMeta a t = fold (\<lambda>(k, v) r. put k v r) a t"

section \<open>Labels of daemons\<close>

definition AddRecommendedLabels :: "string \<Rightarrow> string gomap \<Rightarrow> string \<Rightarrow> string \<Rightarrow> string \<Rightarrow> string \<Rightarrow> string gomap" where
  "AddRecommendedLabels podNamespace labels appName parentName resourceKind resourceInstance =
     put ''rook.io/operator-namespace'' podNamespace
    (put ''app.kubernetes.io/created-by'' ''rook-ceph-operator''
    (put ''app.kubernetes.io/managed-by'' ''rook-ceph-operator''
    (put ''app.kubernetes.io/part-of'' parentName
    (put ''app.kubernetes.io/component'' resourceKind
    (put ''app.kubernetes.io/instance'' resourceInstance
    (put ''app.kubernetes.io/name'' appName labels))))))"

definition AppLabels :: "string \<Rightarrow> string \<Rightarrow> string gomap" where
  "AppLabels appName namespace = [(''app'', appName), (''rook_cluster'', namespace)]"

definition CephDaemonAppLabels ::
  "string \<Rightarrow> string \<Rightarrow> string \<Rightarrow> string \<Rightarrow> string \<Rightarrow> string \<Rightarrow> string \<Rightarrow> bool \<Rightarrow> string gomap" where
  "CephDaemonAppLabels podNamespace appName namespace daemonType daemonID parentName resourceKind includeNewLabels =
     (let labels = AppLabels appName namespace;
          labels' = (if includeNewLabels
                     then AddRecommendedLabels podNamespace (put ''ceph_daemon_type'' daemonType labels)
                            (''ceph-'' @ daemonType) parentName resourceKind daemonID
                     else labels)
      in put daemonType daemonID (put ''ceph_daemon_id'' daemonID labels'))"

definition addRookVersionLabel :: "string \<Rightarrow> string gomap \<Rightarrow> string gomap" where
  "addRookVersionLabel version labels = put ''rook-version'' (validateLabelValue 63 version) labels"

definition GetCephVersionLabel :: "CephVersion \<Rightarrow> string" where
  "GetCephVersionLabel v = Itoa (Major v) @ ''.'' @ Itoa (Minor v) @ ''.'' @ Itoa (Extra v) @ ''-'' @ Itoa (Build v)"

definition addCephVersionLabel :: "CephVersion \<Rightarrow> string gomap \<Rightarrow> string gomap" where
  "addCephVersionLabel v labels = put ''ceph-version'' (GetCephVersionLabel v) labels"

section \<open>Selectors\<close>

definition parse_label :: "string \<Rightarrow> string gomap \<Rightarrow> string gomap" where
  "parse_label v labels =
     (case split_on CHR ''='' v of
        [] \<Rightarrow> labels
      | [k] \<Rightarrow> put k [] labels
      | k # x # _ \<Rightarrow> put k x labels)"

definition ParseStringToLabels :: "string \<Rightarrow> string gomap" where
  "ParseStringToLabels s = (if s = [] then [] else fold parse_label (split_on CHR '','' s) [])"

text \<open>The text of a set of labels as the library writes it: sorted by key.\<close>

definition label_set_text :: "string gomap \<Rightarrow> string" where
  "label_set_text m = join '','' (map (\<lambda>(k, v). k @ ''='' @ v) (sort_key fst m))"

section \<open>Names for DNS\<close>

text \<open>The loop over the bytes of the input: the output so far and the last byte written.\<close>

fun dns_loop :: "string \<Rightarrow> string \<Rightarrow> char \<Rightarrow> string" where
  "dns_loop [] out lst = out"
| "dns_loop (c # cs) out lst =
     (if in_range CHR ''a'' CHR ''z'' c then dns_loop cs (out @ [c]) c
      else if in_range CHR ''0'' CHR ''9'' c then dns_loop cs ((if out = [] then ''d'' else out) @ [c]) c
      else if in_range CHR ''A'' CHR ''Z'' c
           then (let l = char_of (of_char c - of_char CHR ''A'' + of_char CHR ''a'' :: nat) in dns_loop cs (out @ [l]) l)
      else if lst = CHR ''-'' then dns_loop cs out lst
      else dns_loop cs (out @ [CHR ''-'']) CHR ''-'')"

definition cutMiddle :: "string \<Rightarrow> nat \<Rightarrow> string" where
  "cutMiddle input toSize =
     (if length input \<le> toSize then input
      else let lenLeft = toSize div 2; lenRight = toSize div 2 + toSize mod 2
           in take (lenLeft - 1) input @ ''--'' @ drop (length input - lenRight + 1) input)"

definition ToValidDNSLabel :: "string \<Rightarrow> string" where
  "ToValidDNSLabel input =
     (if input = [] then []
      else let out = trim_right ''-'' (trim_left ''-'' (dns_loop input [] CHR ''-''))
           in if length out > DNS1035LabelMaxLength then cutMiddle out DNS1035LabelMaxLength else out)"

section \<open>Properties\<close>

lemma map_of_put_new: "wf_map new \<Longrightarrow> map_of (put_new new m) = map_of new ++ map_of m"
proof (induction new arbitrary: m)
  case (Cons x new)
  obtain k v where x: "x = (k, v)" by force
  have fresh: "map_of new k = None" and wf: "wf_map new"
    using Cons.prems by (auto simp: wf_map_def keys_def x map_of_eq_None_iff)
  let ?m = "if k \<in> set (keys m) then m else put k v m"
  have "put_new (x # new) m = put_new new ?m" by (simp add: put_new_def x)
  moreover have "map_of new ++ map_of ?m = map_of (x # new) ++ map_of m"
  proof (cases "map_of m k")
    case None
    then have "k \<notin> set (keys m)" by (simp add: keys_def map_of_eq_None_iff)
    then show ?thesis using None fresh by (simp add: x map_add_def fun_eq_iff split: option.splits)
  next
    case (Some w)
    then have "k \<in> set (keys m)" using map_of_SomeD [of m k w] by (force simp: keys_def)
    then show ?thesis using Some by (simp add: x map_add_def fun_eq_iff split: option.splits)
  qed
  ultimately show ?case using Cons.IH [OF wf, of ?m] by (simp only:)
qed (simp add: put_new_def)

lemma put_new_keeps: "map_of m k = Some v \<Longrightarrow> map_of (put_new new m) k = Some v"
proof (induction new arbitrary: m)
  case (Cons x new)
  obtain k' v' where x: "x = (k', v')" by force
  let ?m = "if k' \<in> set (keys m) then m else put k' v' m"
  have "map_of ?m k = Some v" using Cons.prems by (auto simp: keys_map_of)
  from Cons.IH [OF this] show ?case by (simp add: put_new_def x)
qed (simp add: put_new_def)

lemma wf_put_new: "wf_map m \<Longrightarrow> wf_map (put_new new m)"
  by (induction new arbitrary: m) (simp_all add: put_new_def split_beta wf_map_put)

lemma map_of_MergeLabels: "wf_map a \<Longrightarrow> wf_map with \<Longrightarrow> map_of (MergeLabels a with) = map_of with ++ map_of a"
  by (simp add: MergeLabels_def map_of_put_new)

definition small :: "char \<Rightarrow> bool" where
  "small c \<longleftrightarrow> in_range CHR ''a'' CHR ''z'' c"

definition dns_char :: "char \<Rightarrow> bool" where
  "dns_char c \<longleftrightarrow> small c \<or> in_range CHR ''0'' CHR ''9'' c \<or> c = CHR ''-''"

text \<open>The pattern of a label of DNS-1035 with its bound on the length.\<close>

definition is_dns1035 :: "string \<Rightarrow> bool" where
  "is_dns1035 s \<longleftrightarrow> s \<noteq> [] \<and> length s \<le> 63 \<and> small (hd s) \<and> last s \<noteq> CHR ''-'' \<and> list_all dns_char s"

definition dns_prefix :: "string \<Rightarrow> char \<Rightarrow> bool" where
  "dns_prefix out lst \<longleftrightarrow> list_all dns_char out \<and> (if out = [] then lst = CHR ''-'' else small (hd out))"

lemma to_small: "in_range CHR ''A'' CHR ''Z'' c \<Longrightarrow> small (char_of (of_char c - 65 + 97 :: nat))"
  by (simp add: small_def in_range_def of_char_of)

lemma prefix_grows:
  assumes "dns_prefix out lst"
  shows "small c \<Longrightarrow> dns_prefix (out @ [c]) c"
    and "in_range CHR ''0'' CHR ''9'' c \<Longrightarrow> dns_prefix ((if out = [] then ''d'' else out) @ [c]) c"
    and "lst \<noteq> CHR ''-'' \<Longrightarrow> dns_prefix (out @ [CHR ''-'']) CHR ''-''"
  using assms by (auto simp: dns_prefix_def dns_char_def small_def in_range_def split: if_splits)

lemma dns_loop_prefix:
  "dns_prefix out lst \<Longrightarrow>
   (dns_loop cs out lst = [] \<or> small (hd (dns_loop cs out lst))) \<and> list_all dns_char (dns_loop cs out lst) \<and>
   (dns_loop cs out lst = [] \<longleftrightarrow> out = [] \<and> list_all (\<lambda>c. \<not> alnum c) cs)"
proof (induction cs out lst rule: dns_loop.induct)
  case (2 c cs out lst)
  note p = prefix_grows [OF 2(6)]
  consider "in_range CHR ''a'' CHR ''z'' c" | "\<not> in_range CHR ''a'' CHR ''z'' c" "in_range CHR ''0'' CHR ''9'' c"
    | "\<not> in_range CHR ''a'' CHR ''z'' c" "\<not> in_range CHR ''0'' CHR ''9'' c" "in_range CHR ''A'' CHR ''Z'' c"
    | "\<not> alnum c"
    by (auto simp: alnum_def)
  then show ?case
  proof cases
    case 1 then show ?thesis using "2.IH"(1) p(1) [of c] by (auto simp: small_def alnum_def)
  next
    case 2 then show ?thesis using "2.IH"(2) p(2) [of c] by (auto simp: alnum_def)
  next
    case 3 then show ?thesis using "2.IH"(3) p(1) [OF to_small] by (auto simp: alnum_def Let_def)
  next
    case 4 then show ?thesis using "2.IH"(4,5) p(3) 2(6) by (auto simp: alnum_def dns_prefix_def)
  qed
qed (auto simp: dns_prefix_def split: if_splits)

lemma cutMiddle_valid:
  assumes "small (hd s)" "last s \<noteq> CHR ''-''" "list_all dns_char s" "length s > 63"
  shows "is_dns1035 (cutMiddle s 63)"
proof -
  have ne: "drop (length s - 31) s \<noteq> []" using assms(4) by simp
  have "cutMiddle s 63 = take 30 s @ ''--'' @ drop (length s - 31) s" using assms(4) Suc_diff_Suc [of 31 "length s"] by (simp add: cutMiddle_def)
  moreover have "hd (take 30 s @ ''--'' @ drop (length s - 31) s) = hd s" using assms(4) by (cases s) auto
  moreover have "last (take 30 s @ ''--'' @ drop (length s - 31) s) = last s" using ne by (simp add: last_drop)
  moreover have "list_all dns_char (take 30 s @ ''--'' @ drop (length s - 31) s)"
    using assms(3) by (auto simp: list_all_iff dns_char_def dest: in_set_takeD in_set_dropD)
  ultimately show ?thesis using assms by (simp add: is_dns1035_def)
qed

lemma trimmed_dns:
  assumes "s = [] \<or> small (hd s)" "list_all dns_char s"
  defines "t \<equiv> trim_right ''-'' (trim_left ''-'' s)"
  shows "(t = [] \<longleftrightarrow> s = []) \<and> (t = [] \<or> small (hd t) \<and> last t \<noteq> CHR ''-'') \<and> list_all dns_char t"
proof (cases "s = []")
  case False
  then have h: "hd s \<noteq> CHR ''-''" and sm: "small (hd s)" using assms(1) by (auto simp: small_def in_range_def)
  have l: "trim_left ''-'' s = s" using False h by (cases s) (simp_all add: trim_left_def)
  have "\<exists>c\<in>set s. c \<noteq> CHR ''-''" using h hd_in_set [OF False] by blast
  then have ne: "t \<noteq> []" by (simp add: t_def l trim_right_def)
  then have "hd t = hd s" "last t \<noteq> CHR ''-''"
    using trim_right_hd [of "''-''" s] trim_right_last [of "''-''" s] by (simp_all add: t_def l)
  moreover have "list_all dns_char t"
    using assms(2) set_trim_right [of "''-''" s] by (auto simp: t_def l list_all_iff)
  ultimately show ?thesis using ne False sm by simp
qed (simp add: t_def trim_left_def trim_right_def)

text \<open>The name made for DNS is empty exactly when the input has no letter and no digit, and it is a label of
  DNS-1035 otherwise: at most 63 small letters, digits and dashes, first a letter and last no dash.\<close>
theorem dns_label_valid:
  "(ToValidDNSLabel s = [] \<longleftrightarrow> list_all (\<lambda>c. \<not> alnum c) s) \<and> (ToValidDNSLabel s = [] \<or> is_dns1035 (ToValidDNSLabel s))"
proof -
  define u where "u = dns_loop s [] CHR ''-''"
  define t where "t = trim_right ''-'' (trim_left ''-'' u)"
  have u: "u = [] \<or> small (hd u)" "list_all dns_char u" "u = [] \<longleftrightarrow> list_all (\<lambda>c. \<not> alnum c) s"
    using dns_loop_prefix [of "[]" "CHR ''-''" s] by (auto simp: u_def dns_prefix_def)
  have t: "t = [] \<longleftrightarrow> u = []" "t = [] \<or> small (hd t) \<and> last t \<noteq> CHR ''-''" "list_all dns_char t"
    using trimmed_dns [OF u(1,2)] unfolding t_def [symmetric] by blast+
  have "ToValidDNSLabel s = (if length t > 63 then cutMiddle t 63 else t)"
    by (cases "s = []")
      (simp_all add: ToValidDNSLabel_def DNS1035LabelMaxLength_def t_def u_def trim_left_def trim_right_def)
  moreover have "length t > 63 \<Longrightarrow> is_dns1035 (cutMiddle t 63) \<and> cutMiddle t 63 \<noteq> []"
    using cutMiddle_valid [of t] t by (auto simp: is_dns1035_def)
  ultimately show ?thesis using t u(3) by (auto simp: is_dns1035_def)
qed

text \<open>Merging keeps the original labels: where both maps have a key, the value of the labels for all daemons wins over
  the value given for the monitors, against the comment that promises the opposite.\<close>
theorem labels_for_all_win:
  assumes "a KeyAll = Some l" "wf_map l" "wf_map (labels_at a KeyMon)"
  shows "map_of (GetMonLabels a) = map_of (labels_at a KeyMon) ++ map_of l"
  using assms by (simp add: GetMonLabels_def mergeAllLabelsWithKey_def map_of_MergeLabels)

theorem labels_for_all_win_witness:
  "map_of (GetMonLabels [KeyAll \<mapsto> [(''tier'', ''all'')], KeyMon \<mapsto> [(''tier'', ''mon'')]]) ''tier'' = Some ''all''"
  using labels_for_all_win [of "[KeyAll \<mapsto> [(''tier'', ''all'')], KeyMon \<mapsto> [(''tier'', ''mon'')]]" "[(''tier'', ''all'')]"]
  by (simp add: KeyAll_def KeyMon_def wf_map_def keys_def labels_at_def)

end
