(* ===== verification/Effects.thy ===== *)
theory Effects
  imports Prelude
begin

text \<open>
  Go's way of threading errors through operations on a state. An operation takes a state and returns a value with
  the new state; the combinators are the idioms \<^verbatim>\<open>if err != nil { return errors.Wrap(err, ...) }\<close>, the call whose error is
  only logged, and the deferred call. The locale \<open>transitions\<close> gives rules to show that operations stay within a
  preorder on states, for instance that they do not touch a field.
\<close>

section \<open>Idioms\<close>

type_synonym ('s, 'a) eff = "'s \<Rightarrow> 'a \<times> 's"

definition ret :: "'a \<Rightarrow> ('s, 'a) eff" where
  "ret x s = (x, s)"

text \<open>The value of the first operation goes to the second.\<close>

definition andThen :: "('s, 'a) eff \<Rightarrow> ('a \<Rightarrow> ('s, 'b) eff) \<Rightarrow> ('s, 'b) eff" where
  "andThen m k s = (case m s of (x, s') \<Rightarrow> k x s')"

text \<open>An error ends the function, wrapped in a message.\<close>

definition attempt :: "('s, err option) eff \<Rightarrow> string \<Rightarrow> ('s, err option) eff \<Rightarrow> ('s, err option) eff" where
  "attempt m msg k = andThen m (\<lambda>e. case e of Some x \<Rightarrow> ret (Some (Wrap msg x)) | None \<Rightarrow> k)"

definition attempt_val :: "('s, 'a res) eff \<Rightarrow> string \<Rightarrow> ('a \<Rightarrow> ('s, err option) eff) \<Rightarrow> ('s, err option) eff" where
  "attempt_val m msg k = andThen m (\<lambda>r. case r of Inl e \<Rightarrow> ret (Some (Wrap msg e)) | Inr x \<Rightarrow> k x)"

text \<open>The error is logged and the function goes on.\<close>

definition anyway :: "('s, 'a) eff \<Rightarrow> ('s, 'b) eff \<Rightarrow> ('s, 'b) eff" where
  "anyway m k = andThen m (\<lambda>_. k)"

definition modify :: "('s \<Rightarrow> 's) \<Rightarrow> ('s, 'b) eff \<Rightarrow> ('s, 'b) eff" where
  "modify f k s = k (f s)"

definition reading :: "('s \<Rightarrow> ('s, 'b) eff) \<Rightarrow> ('s, 'b) eff" where
  "reading k s = k s s"

text \<open>An operation for each element of a list, until one fails.\<close>

fun each :: "('x \<Rightarrow> ('s, err option) eff) \<Rightarrow> 'x list \<Rightarrow> ('s, err option) eff" where
  "each f [] s = (None, s)"
| "each f (x # xs) s = (case f x s of (Some e, s') \<Rightarrow> (Some e, s') | (None, s') \<Rightarrow> each f xs s')"

lemmas effects = ret_def andThen_def attempt_def attempt_val_def anyway_def modify_def reading_def

text \<open>Operations on a part of the state.\<close>

definition zoom :: "('s \<Rightarrow> 'w) \<Rightarrow> ('w \<Rightarrow> 's \<Rightarrow> 's) \<Rightarrow> ('w, 'a) eff \<Rightarrow> ('s, 'a) eff" where
  "zoom view upd m s = (case m (view s) of (x, w) \<Rightarrow> (x, upd w s))"

section \<open>Staying within a preorder\<close>

definition along :: "('s \<Rightarrow> 's \<Rightarrow> bool) \<Rightarrow> ('s, 'a) eff \<Rightarrow> bool" where
  "along R m \<longleftrightarrow> (\<forall>s. R s (snd (m s)))"

lemma alongD: "along R m \<Longrightarrow> m s = (x, s') \<Longrightarrow> R s s'"
  unfolding along_def by (metis snd_conv)

locale transitions =
  fixes R :: "'s \<Rightarrow> 's \<Rightarrow> bool"
  assumes refl: "R s s" and trans: "R s t \<Longrightarrow> R t u \<Longrightarrow> R s u"
begin

lemma along_ret: "along R (ret x)"
  by (simp add: along_def ret_def refl)

lemma along_andThen: "along R m \<Longrightarrow> (\<And>x. along R (k x)) \<Longrightarrow> along R (andThen m k)"
  unfolding along_def andThen_def by (auto split: prod.splits) (metis snd_conv trans)

lemma along_attempt: "along R m \<Longrightarrow> along R k \<Longrightarrow> along R (attempt m msg k)"
  unfolding attempt_def by (intro along_andThen) (auto simp: along_ret split: option.splits)

lemma along_attempt_val: "along R m \<Longrightarrow> (\<And>x. along R (k x)) \<Longrightarrow> along R (attempt_val m msg k)"
  unfolding attempt_val_def by (intro along_andThen) (auto simp: along_ret split: sum.splits)

lemma along_anyway: "along R m \<Longrightarrow> along R k \<Longrightarrow> along R (anyway m k)"
  unfolding anyway_def by (intro along_andThen)

lemma along_modify: "(\<And>s. R s (f s)) \<Longrightarrow> along R k \<Longrightarrow> along R (modify f k)"
  unfolding along_def modify_def by (metis trans)

lemma along_reading: "(\<And>s. along R (k s)) \<Longrightarrow> along R (reading k)"
  unfolding along_def reading_def by simp

lemma along_each: "(\<And>x. along R (f x)) \<Longrightarrow> along R (each f xs)"
proof -
  assume f: "\<And>x. along R (f x)"
  have "R s (snd (each f xs s))" for s
  proof (induction xs arbitrary: s)
    case (Cons x xs)
    obtain r t where "f x s = (r, t)" by fastforce
    moreover have "R s t" using f \<open>f x s = (r, t)\<close> by (metis alongD)
    ultimately show ?case using Cons.IH trans by (cases r) auto
  qed (simp add: refl)
  then show ?thesis by (simp add: along_def)
qed

lemma along_zoom: "(\<And>s w. R s (upd w s)) \<Longrightarrow> along R (zoom view upd m)"
  unfolding along_def zoom_def by (auto split: prod.splits)

lemma along_if: "along R a \<Longrightarrow> along R b \<Longrightarrow> along R (if c then a else b)"
  by simp

lemma along_option: "along R a \<Longrightarrow> (\<And>x. along R (b x)) \<Longrightarrow> along R (case v of None \<Rightarrow> a | Some x \<Rightarrow> b x)"
  by (cases v) auto

lemma along_sum: "(\<And>x. along R (a x)) \<Longrightarrow> (\<And>x. along R (b x)) \<Longrightarrow> along R (case v of Inl x \<Rightarrow> a x | Inr x \<Rightarrow> b x)"
  by (cases v) auto

lemma along_prod: "(\<And>x y. along R (a x y)) \<Longrightarrow> along R (case v of (x, y) \<Rightarrow> a x y)"
  by (cases v) auto

lemmas along_rules = along_prod along_ret along_andThen along_attempt along_attempt_val along_anyway along_modify along_reading
  along_each along_zoom along_if along_option along_sum

end

text \<open>What a function of the state shows does not change.\<close>

definition same :: "('s \<Rightarrow> 'v) \<Rightarrow> 's \<Rightarrow> 's \<Rightarrow> bool" where
  "same f s t \<longleftrightarrow> f t = f s"

interpretation unchanged: transitions "same f" for f :: "'s \<Rightarrow> 'v"
  by unfold_locales (auto simp: same_def)

end
