(* ===== verification/NetIP.thy ===== *)
theory NetIP
  imports Json
begin

text \<open>
  What the modelled code uses of Go's package \<^verbatim>\<open>net\<close> for addresses: \<^verbatim>\<open>net.ParseIP\<close>, which reads an address in dotted or
  colon notation into sixteen bytes, and \<^verbatim>\<open>To4\<close>, which tells the addresses of version 4. The loop over the fields of
  a version 6 address runs at most eight times, since each pass fills two of the sixteen bytes.
\<close>

definition decimal_field :: "string \<Rightarrow> nat option" where
  "decimal_field f =
     (if f = [] \<or> \<not> list_all is_digit f \<or> (1 < length f \<and> hd f = CHR ''0'') \<or> 3 < length f then None
      else (let v = fold (\<lambda>c a. 10 * a + (of_char c - 48)) f (0 :: nat) in if 255 < v then None else Some v))"

definition parseIPv4 :: "string \<Rightarrow> nat list option" where
  "parseIPv4 s =
     (case map decimal_field (split_on CHR ''.'' s) of
        [Some a, Some b, Some c, Some d] \<Rightarrow> Some [a, b, c, d]
      | _ \<Rightarrow> None)"

definition is_hex :: "char \<Rightarrow> bool" where
  "is_hex c \<longleftrightarrow> hex_val c \<noteq> None"

definition hex_field :: "string \<Rightarrow> nat" where
  "hex_field ds = fold (\<lambda>c a. 16 * a + (case hex_val c of None \<Rightarrow> 0 | Some v \<Rightarrow> v)) ds 0"

text \<open>The number of fields left, the rest of the text, the bytes read, and where the double colon was.\<close>

fun v6_fields :: "nat \<Rightarrow> string \<Rightarrow> nat list \<Rightarrow> nat option \<Rightarrow> (string \<times> nat list \<times> nat option) option" where
  "v6_fields 0 s bytes ell = Some (s, bytes, ell)"
| "v6_fields (Suc n) s bytes ell =
     (let ds = takeWhile is_hex s; rest = dropWhile is_hex s
      in if ds = [] \<or> 4 < length ds then None
         else if starts CHR ''.'' rest
         then (if ell = None \<and> length bytes \<noteq> 12 then None
               else if 16 < length bytes + 4 then None
               else case parseIPv4 s of None \<Rightarrow> None | Some v4 \<Rightarrow> Some ([], bytes @ v4, ell))
         else (let v = hex_field ds; bytes = bytes @ [v div 256, v mod 256]
               in case rest of
                    [] \<Rightarrow> Some ([], bytes, ell)
                  | c # s1 \<Rightarrow>
                      if c \<noteq> CHR '':'' then None
                      else (case s1 of
                              [] \<Rightarrow> None
                            | d # s2 \<Rightarrow>
                                if d = CHR '':''
                                then if ell \<noteq> None then None
                                     else if s2 = [] then Some ([], bytes, Some (length bytes))
                                     else v6_fields n s2 bytes (Some (length bytes))
                                else v6_fields n s1 bytes ell)))"

definition expand_ellipsis :: "string \<times> nat list \<times> nat option \<Rightarrow> nat list option" where
  "expand_ellipsis r = (case r of (s, bytes, ell) \<Rightarrow>
     if s \<noteq> [] then None
     else if length bytes < 16
     then (case ell of None \<Rightarrow> None | Some e \<Rightarrow> Some (take e bytes @ replicate (16 - length bytes) 0 @ drop e bytes))
     else if ell \<noteq> None then None else Some bytes)"

definition parseIPv6 :: "string \<Rightarrow> nat list option" where
  "parseIPv6 s =
     (if has_prefix ''::'' s
      then (if drop 2 s = [] then Some (replicate 16 0) else Option.bind (v6_fields 8 (drop 2 s) [] (Some 0)) expand_ellipsis)
      else Option.bind (v6_fields 8 s [] None) expand_ellipsis)"

definition ParseIP :: "string \<Rightarrow> nat list option" where
  "ParseIP s =
     (if CHR ''%'' \<in> set s then None
      else case find (\<lambda>c. c = CHR ''.'' \<or> c = CHR '':'') s of
             None \<Rightarrow> None
           | Some c \<Rightarrow> if c = CHR ''.'' then map_option ((@) (replicate 10 0 @ [255, 255])) (parseIPv4 s) else parseIPv6 s)"

text \<open>Whether \<^verbatim>\<open>To4\<close> is not nil.\<close>

definition To4 :: "nat list \<Rightarrow> bool" where
  "To4 ip \<longleftrightarrow> take 12 ip = replicate 10 0 @ [255, 255]"

lemma v6_length: "v6_fields n s bytes ell = Some (s', bytes', ell') \<Longrightarrow> length bytes + 2 * n \<le> 16 \<Longrightarrow> length bytes' \<le> 16"
proof (induction n s bytes ell rule: v6_fields.induct)
  case (2 n s bytes ell)
  have "length v4 = 4" if "parseIPv4 x = Some v4" for x v4
    using that by (auto simp: parseIPv4_def split: list.splits option.splits)
  with 2 show ?case by (auto simp: Let_def split: if_splits list.splits option.splits)
qed simp

text \<open>An address is sixteen bytes.\<close>

lemma ParseIP_length: "ParseIP s = Some ip \<Longrightarrow> length ip = 16"
proof -
  have e: "length ip = 16" if "v6_fields 8 t [] ell = Some r" "expand_ellipsis r = Some ip" for t r ell
  proof -
    obtain s' b ell' where r: "r = (s', b, ell')" by (cases r) auto
    have "length b \<le> 16" using v6_length [of 8 t "[]" ell s' b ell'] that(1) r by simp
    then show ?thesis using that(2) r by (auto simp: expand_ellipsis_def split: if_splits option.splits)
  qed
  have "length v4 = 4" if "parseIPv4 x = Some v4" for x v4
    using that by (auto simp: parseIPv4_def split: list.splits option.splits)
  then show "ParseIP s = Some ip \<Longrightarrow> length ip = 16"
    by (auto simp: ParseIP_def parseIPv6_def bind_eq_Some_conv dest: e split: if_splits option.splits)
qed

end
