(* ===== verification/MonCluster.thy ===== *)
theory MonCluster
  imports MonStore Labels Effects NetIP
begin

text \<open>
  The operations of the monitor cluster on its state: the disruption budget of the monitors, waiting for quorum, saving
  the configuration, tracking who is out of quorum, external monitors and the removal of a monitor. Sources:
  \<^verbatim>\<open>drain.go\<close>, \<^verbatim>\<open>mon.go\<close> and \<^verbatim>\<open>health.go\<close> of \<^verbatim>\<open>pkg/operator/ceph/cluster/mon\<close> and \<^verbatim>\<open>pkg/operator/k8sutil/pod.go\<close>. The state is the
  struct \<^verbatim>\<open>Cluster\<close> with the two variables of its package and with the world outside, which only the operations of
  the environment change: the interfaces of Kubernetes, the commands of Ceph, the clock.
\<close>

section \<open>State and environment\<close>

record MonPod =
  PodName :: string
  PodPhase :: string
  PodNode :: string
  PodMon :: string
  PodCanary :: bool

datatype MonVolume = ClaimVolume string | HostPathVolume | OtherVolume

record MonDeployment =
  Replicas :: int
  AvailableReplicas :: int
  DepLabels :: "string gomap"
  Selector :: "string gomap"
  TemplateLabels :: "string gomap"
  DepHostNetwork :: bool
  DepVolumes :: "MonVolume list"
  DepPod :: PodSpec
  KeyAnnotation :: string

record EndpointSlice =
  Addresses :: "string list"
  SlicePorts :: "(string \<times> int) list"
  AddressType :: string

record MonDump =
  StretchMode :: bool
  TiebreakerMon :: string

text \<open>Kubernetes: objects by kind, lists by label selector, and the operations on services and budgets that the code
  reaches through helpers.\<close>

record 'w kube_env =
  cms :: "(ConfigMap, 'w) kube"
  slices :: "(EndpointSlice, 'w) kube"
  deps :: "(MonDeployment, 'w) kube"
  svcs :: "(string, 'w) kube"
  claims :: "(unit, 'w) kube"
  list_deps :: "string \<Rightarrow> ('w, (string \<times> MonDeployment) list res) eff"
  list_pods :: "string \<Rightarrow> ('w, MonPod list res) eff"
  list_claims :: "('w, string list res) eff"
  get_node :: "string \<Rightarrow> ('w, MonInfo.Node res) eff"
  count_nodes :: "string \<Rightarrow> ('w, int res) eff"
  pdb_get :: "('w, int res) eff"
  pdb_apply :: "int \<Rightarrow> ('w, err option) eff"
  apply_service :: "monConfig \<Rightarrow> string \<Rightarrow> ('w, string res) eff"
  export_service :: "string \<Rightarrow> ('w, string res) eff"
  service_exported :: "string \<Rightarrow> ('w, bool res) eff"
  update_and_wait :: "string \<Rightarrow> MonDeployment \<Rightarrow> ('w, err option) eff"
  expand_claim :: "string \<Rightarrow> ('w, err option) eff"

text \<open>Ceph, the files of the operator and the clock.\<close>

record 'w ceph_env =
  quorum_status :: "('w, MonStatusResponse res) eff"
  mon_remove :: "string \<Rightarrow> ('w, err option) eff"
  mon_dump :: "('w, MonDump res) eff"
  mon_versions :: "('w, int res) eff"
  election_strategy :: "('w, err option) eff"
  stretch_rule :: "string \<Rightarrow> ('w, err option) eff"
  new_tiebreaker :: "string \<Rightarrow> ('w, err option) eff"
  set_tiebreaker :: "string \<Rightarrow> string \<Rightarrow> ('w, err option) eff"
  crush_buckets :: "('w, CrushBucket list res) eff"
  mgr_pool :: "('w, err option) eff"
  default_configs :: "('w, err option) eff"
  network_settings :: "('w, err option) eff"
  external_version :: "('w, err option) eff"
  metrics_endpoint :: "('w, err option) eff"
  write_files :: "('w, err option) eff"
  global_config :: "('w, err option) eff"
  csi_connection :: "('w, err option) eff"
  csi_profile :: "('w, err option) eff"
  peer_secret :: "('w, err option) eff"

record 'w menv =
  Spec :: ClusterSpec
  Ns :: string
  PlacementOf :: PlacementSpec
  LabelEnv :: string
  CephVer :: CephVersion
  OpenShift :: bool
  MonOutTimeout :: int
  csi_print :: "CSIClusterConfigEntry list \<Rightarrow> string"
  owner_err :: "err option"
  kub :: "'w kube_env"
  cph :: "'w ceph_env"
  initialized :: "'w \<Rightarrow> err option"
  ctx_err :: "'w \<Rightarrow> err option"
  now :: "'w \<Rightarrow> int"
  pause :: "int \<Rightarrow> 'w \<Rightarrow> 'w"
  LabelsOf :: LabelsSpec
  RookVersion :: string
  OperatorNs :: string
  ClusterName :: string
  TolerationEnv :: string
  multus_err :: "err option"
  affinity_json :: "string \<Rightarrow> NodeAffinity res"
  qualified_name :: "string \<Rightarrow> bool"
  label_value :: "string \<Rightarrow> bool"
  make_floating :: "monConfig \<Rightarrow> ('w, MonDeployment res) eff"
  poll :: "('w, bool res) eff \<Rightarrow> ('w, err option) eff"
  raced :: "string \<Rightarrow> bool"

record 'w mstate =
  Internal :: "MonInfo gomap"
  External :: "MonInfo gomap"
  maxMonID :: int
  mapping :: Schedule
  monTimeoutList :: "int gomap"
  monsToFailover :: "monConfig gomap"
  arbiterMon :: string
  isUpgrade :: bool
  waitForStart :: bool
  monKeySecretResourceVersion :: string
  retriesBeforeNodeDrainFailover :: int
  needToCheckMonsOnSameNode :: bool
  world :: 'w

type_synonym ('w, 'a) op = "('w mstate, 'a) eff"

definition outside :: "('w, 'a) eff \<Rightarrow> ('w, 'a) op" where
  "outside m = zoom world (\<lambda>w s. s\<lparr>world := w\<rparr>) m"

definition forget :: "('w, 'a) op \<Rightarrow> ('w, err option) op" where
  "forget m = andThen m (\<lambda>_. ret None)"

definition error_of :: "('w, 'a res) op \<Rightarrow> ('w, err option) op" where
  "error_of m = andThen m (\<lambda>r. ret (case r of Inl e \<Rightarrow> Some e | Inr _ \<Rightarrow> None))"

section \<open>Pods\<close>

definition podStatusWithLabel :: "'w menv \<Rightarrow> string \<Rightarrow> ('w, (int \<times> int) res) eff" where
  "podStatusWithLabel env label =
     andThen (list_pods (kub env) label)
       (\<lambda>r. ret (case r of Inl e \<Rightarrow> Inl e
          | Inr pods \<Rightarrow> Inr (int (length (filter (\<lambda>p. PodPhase p = ''Running'') pods)),
                             int (length (filter (\<lambda>p. PodPhase p \<noteq> ''Running'') pods)))))"

definition PodsRunningWithLabel :: "'w menv \<Rightarrow> string \<Rightarrow> ('w, int res) eff" where
  "PodsRunningWithLabel env label = andThen (podStatusWithLabel env label) (\<lambda>r. ret (case r of Inl e \<Rightarrow> Inl e | Inr (n, _) \<Rightarrow> Inr n))"

definition PodsWithLabelAreAllRunning :: "'w menv \<Rightarrow> string \<Rightarrow> ('w, bool res) eff" where
  "PodsWithLabelAreAllRunning env label =
     andThen (podStatusWithLabel env label)
       (\<lambda>r. ret (case r of Inl e \<Rightarrow> Inl e | Inr (running, notRunning) \<Rightarrow> Inr (running > 0 \<and> notRunning = 0)))"

definition IsPodScheduled :: "'w menv \<Rightarrow> string \<Rightarrow> ('w, bool res) eff" where
  "IsPodScheduled env selector =
     andThen (list_pods (kub env) selector)
       (\<lambda>r. ret (case r of Inl e \<Rightarrow> Inl (Wrap ''failed to list pods with label selector'' e)
          | Inr [] \<Rightarrow> Inl (Errorf ''no pods found with label selector'')
          | Inr (p # _) \<Rightarrow> if PodNode p = [] then Inr False else Inr True))"

definition NodeWithHostnameExists :: "'w menv \<Rightarrow> string \<Rightarrow> ('w, bool res) eff" where
  "NodeWithHostnameExists env hostName =
     andThen (count_nodes (kub env) (LabelHostname (LabelEnv env) @ ''='' @ hostName))
       (\<lambda>r. ret (case r of Inl e \<Rightarrow> Inl (Wrap ''failed to query node'' e) | Inr n \<Rightarrow> Inr (n > 0)))"

section \<open>The disruption budget of the monitors\<close>

definition getMaxUnavailableMonPodCount :: "ClusterSpec \<Rightarrow> int" where
  "getMaxUnavailableMonPodCount c = (if MonCount c \<ge> 5 then 2 else 1)"

definition getExistingMaxUnavailable :: "'w menv \<Rightarrow> ('w, int res) op" where
  "getExistingMaxUnavailable env =
     andThen (outside (pdb_get (kub env)))
       (\<lambda>r. ret (case r of
          Inl e \<Rightarrow> if IsNotFound e then Inr (-1) else Inl (Wrap ''failed to get mon pdb'' e)
        | Inr n \<Rightarrow> Inr n))"

definition createOrUpdateMonPDB :: "'w menv \<Rightarrow> int \<Rightarrow> ('w, err option) op" where
  "createOrUpdateMonPDB env maxUnavailable = outside (pdb_apply (kub env) maxUnavailable)"

text \<open>How many monitors may go down next to those that are down.\<close>

definition allowed_down :: "ClusterSpec \<Rightarrow> MonStatusResponse \<Rightarrow> int" where
  "allowed_down c st =
     (let downMonCount = int (length (Mons st)) - int (length (Quorum st))
      in max (s32 (getMaxUnavailableMonPodCount c - s32 downMonCount)) 0)"

definition reconcileMonPDB :: "'w menv \<Rightarrow> ('w, MonStatusResponse option \<times> err option) op" where
  "reconcileMonPDB env =
     (if \<not> SpecManagePodBudgets (Spec env) then ret (None, None)
      else if MonCount (Spec env) \<le> 2 then ret (None, None)
      else andThen (outside (quorum_status (cph env)))
        (\<lambda>r. case r of
           Inl e \<Rightarrow> ret (None, Some (Wrap ''failed to get mon quorum status'' e))
         | Inr st \<Rightarrow>
             (let allowedDown = allowed_down (Spec env) st
              in andThen (getExistingMaxUnavailable env)
                   (\<lambda>cur. if cur = Inr allowedDown then ret (Some st, None)
                          else andThen (createOrUpdateMonPDB env allowedDown)
                            (\<lambda>e. ret (Some st, map_option (Wrap ''failed to reconcile mon pdb'') e))))))"

section \<open>Waiting for quorum\<close>

definition FloatingMonAppName :: string where "FloatingMonAppName = ''rook-ceph-floating-mon''"

text \<open>The running monitors of a list and whether all are running; a query that fails is passed over.\<close>

fun running_mons :: "'w menv \<Rightarrow> string list \<Rightarrow> ('w, bool) op" where
  "running_mons env [] s = (True, s)"
| "running_mons env (m # mons) s =
     (let monLabel = (if isFloatingMon (Spec env) m then FloatingMonAppName else MonAppName)
      in case outside (PodsRunningWithLabel env (''app='' @ monLabel @ '',mon='' @ m)) s of
           (Inl e, s1) \<Rightarrow> running_mons env mons s1
         | (Inr running, s1) \<Rightarrow>
             (case running_mons env mons s1 of (allRunning, s2) \<Rightarrow> (allRunning \<and> running > 0, s2)))"

text \<open>One pass of the loop: whether it ends with the monitors in quorum.\<close>

definition quorum_pass :: "'w menv \<Rightarrow> string list \<Rightarrow> bool \<Rightarrow> ('w, bool) op" where
  "quorum_pass env mons requireAllInQuorum s =
     (case running_mons env mons s of
        (allPodsRunning, s1) \<Rightarrow>
          if \<not> allPodsRunning \<and> requireAllInQuorum then (False, s1)
          else (case outside (quorum_status (cph env)) s1 of
                  (Inl e, s2) \<Rightarrow> (False, s2)
                | (Inr st, s2) \<Rightarrow>
                    (if \<not> requireAllInQuorum then True else list_all (\<lambda>name. monFoundInQuorum name st) mons, s2)))"

definition retryMax :: nat where "retryMax = 60"

text \<open>The first argument counts the passes that are left; the code sleeps before every pass but the first.\<close>

fun wait_passes :: "nat \<Rightarrow> 'w menv \<Rightarrow> string list \<Rightarrow> int \<Rightarrow> bool \<Rightarrow> ('w, err option) op" where
  "wait_passes n env mons sleepTime requireAllInQuorum s =
     (case ctx_err env (world s) of
        Some e \<Rightarrow> (Some e, s)
      | None \<Rightarrow>
          (case n of
             0 \<Rightarrow> (Some (Errorf ''exceeded max retry count waiting for monitors to reach quorum''), s)
           | Suc k \<Rightarrow>
               (let s0 = (if n < retryMax then s\<lparr>world := pause env sleepTime (world s)\<rparr> else s)
                in case quorum_pass env mons requireAllInQuorum s0 of
                     (True, s1) \<Rightarrow> (None, s1)
                   | (False, s1) \<Rightarrow> wait_passes k env mons sleepTime requireAllInQuorum s1)))"

declare wait_passes.simps [simp del]

definition waitForQuorumWithMons :: "'w menv \<Rightarrow> string list \<Rightarrow> int \<Rightarrow> bool \<Rightarrow> ('w, err option) op" where
  "waitForQuorumWithMons env mons sleepTime requireAllInQuorum = wait_passes retryMax env mons sleepTime requireAllInQuorum"

definition waitForMonsToJoin :: "'w menv \<Rightarrow> monConfig list \<Rightarrow> bool \<Rightarrow> ('w, err option) op" where
  "waitForMonsToJoin env mons requireAllInQuorum s =
     (if \<not> waitForStart s then (None, s)
      else attempt (waitForQuorumWithMons env (map DaemonName mons) 5 requireAllInQuorum) ''failed to wait for mon quorum'' (ret None) s)"

section \<open>Saving the configuration\<close>

definition endpointSliceNameIPv4 :: string where "endpointSliceNameIPv4 = ''rook-ceph-active-mons-ipv4''"
definition endpointSliceNameIPv6 :: string where "endpointSliceNameIPv6 = ''rook-ceph-active-mons-ipv6''"
definition DefaultMsgr1PortName :: string where "DefaultMsgr1PortName = ''tcp-msgr1''"
definition DefaultMsgr2PortName :: string where "DefaultMsgr2PortName = ''tcp-msgr2''"

text \<open>The hosts of the monitors by version of their address; other hosts are left out.\<close>

fun split_addresses :: "MonInfo list \<Rightarrow> string list \<Rightarrow> string list \<Rightarrow> (string list \<times> string list) res" where
  "split_addresses [] ipv4 ipv6 = Inr (ipv4, ipv6)"
| "split_addresses (mon # mons) ipv4 ipv6 =
     (case SplitHostPort (Endpoint mon) of
        Inl e \<Rightarrow> Inl (Wrap ''failed to parse mon addr'' e)
      | Inr (host, _) \<Rightarrow>
          (case ParseIP host of
             None \<Rightarrow> split_addresses mons ipv4 ipv6
           | Some ip \<Rightarrow> if To4 ip then split_addresses mons (ipv4 @ [host]) ipv6 else split_addresses mons ipv4 (ipv6 @ [host])))"

definition createEndpointSliceForAddresses :: "'w menv \<Rightarrow> string list \<Rightarrow> string \<Rightarrow> ('w, err option) op" where
  "createEndpointSliceForAddresses env addresses addressType =
     (let sliceName = (if addressType = ''IPv6'' then endpointSliceNameIPv6 else endpointSliceNameIPv4);
          k = (Ns env, sliceName);
          slice = \<lparr>Addresses = addresses,
            SlicePorts = [(DefaultMsgr2PortName, DefaultMsgr2Port)] @
              (if \<not> RequireMsgr2 (Spec env) then [(DefaultMsgr1PortName, DefaultMsgr1Port)] else []),
            AddressType = addressType\<rparr>
      in if addresses = [] then forget (outside (kdelete (slices (kub env)) k))
         else case owner_err env of
                Some e \<Rightarrow> ret (Some (Wrap ''failed to set controller reference on endpointslice'' e))
              | None \<Rightarrow>
                  andThen (outside (kcreate (slices (kub env)) k slice))
                    (\<lambda>r. case r of
                       None \<Rightarrow> ret None
                     | Some e \<Rightarrow>
                         if \<not> IsAlreadyExists e then ret (Some (Wrap ''failed to create endpointslice'' e))
                         else attempt (outside (kupdate (slices (kub env)) k slice)) ''failed to update endpointslice'' (ret None)))"

definition persistExpectedMonDaemonsAsEndpointSlice :: "'w menv \<Rightarrow> ('w, err option) op" where
  "persistExpectedMonDaemonsAsEndpointSlice env = reading (\<lambda>s.
     let monitors = AllMonitors (Internal s) (External s)
     in if monitors = [] then ret None
        else case split_addresses (map snd monitors) [] [] of
               Inl e \<Rightarrow> ret (Some e)
             | Inr (ipv4, ipv6) \<Rightarrow>
                 andThen (createEndpointSliceForAddresses env ipv4 ''IPv4'')
                   (\<lambda>e. if e \<noteq> None then ret e else createEndpointSliceForAddresses env ipv6 ''IPv6''))"

definition persist_map :: "'w menv \<Rightarrow> ('w, err option) op" where
  "persist_map env = reading (\<lambda>s.
     outside (persistExpectedMonDaemonsInConfigMap (cms (kub env)) (csi_print env) (owner_err env) (Ns env) (Internal s) (External s) (mapping s)))"

definition persistExpectedMonDaemons :: "'w menv \<Rightarrow> ('w, err option) op" where
  "persistExpectedMonDaemons env =
     attempt (persist_map env) ''failed to persist expected mons in ConfigMap''
     (attempt (persistExpectedMonDaemonsAsEndpointSlice env) ''failed to persist expected mons in EndpointSlice'' (ret None))"

definition saveMonConfig :: "'w menv \<Rightarrow> ('w, err option) op" where
  "saveMonConfig env =
     attempt (persistExpectedMonDaemons env) ''failed to persist expected mon daemons''
     (attempt (outside (global_config (cph env))) ''failed to update the global config''
     (attempt (outside (write_files (cph env))) ''failed to write connection config for new mons''
     (reading (\<lambda>s.
        if AllMonitors (Internal s) (External s) \<noteq> [] \<and> \<not> OpenShift env
        then attempt (outside (csi_connection (cph env))) ''failed to create/update cephConnection''
             (attempt (outside (csi_profile (cph env))) ''failed to create/update default client profile'' (ret None))
        else ret None))))"

section \<open>Tracking quorum\<close>

definition set_out :: "string \<Rightarrow> bool \<Rightarrow> MonInfo gomap \<Rightarrow> MonInfo gomap" where
  "set_out name b mons = (case map_of mons name of None \<Rightarrow> mons | Some m \<Rightarrow> put name (m\<lparr>OutOfQuorum := b\<rparr>) mons)"

definition write_out_of_quorum :: "'w menv \<Rightarrow> string list \<Rightarrow> ('w, bool \<times> err option) op" where
  "write_out_of_quorum env monsOutOfQuorum =
     andThen (outside (write_files (cph env)))
       (\<lambda>e. case e of
          Some x \<Rightarrow> ret (True, Some (Wrap ''failed to write connection config for new mons'' x))
        | None \<Rightarrow>
            andThen (outside (UpdateMonsOutOfQuorum (cms (kub env)) (Ns env) monsOutOfQuorum))
              (\<lambda>e. ret (True, map_option (Wrap ''failed to update mon endpoints cm'') e)))"

definition trackMonInOrOutOfQuorum :: "'w menv \<Rightarrow> string \<Rightarrow> bool \<Rightarrow> ('w, bool \<times> err option) op" where
  "trackMonInOrOutOfQuorum env monName inQuorum s =
     (if monName = []
      then (if list_ex (\<lambda>(_, m). OutOfQuorum m) (Internal s)
            then write_out_of_quorum env [] (s\<lparr>Internal := map (\<lambda>(k, m). (k, m\<lparr>OutOfQuorum := False\<rparr>)) (Internal s)\<rparr>)
            else ((False, None), s))
      else case map_of (Internal s) monName of
             None \<Rightarrow> ((False, None), s)
           | Some mon \<Rightarrow>
               if inQuorum = OutOfQuorum mon
               then write_out_of_quorum env (if inQuorum then [] else [monName])
                      (s\<lparr>Internal := set_out monName (\<not> inQuorum) (Internal s)\<rparr>)
               else ((False, None), s))"

section \<open>Removing a monitor\<close>

definition removeMonResources :: "'w menv \<Rightarrow> string \<Rightarrow> ('w, unit) op" where
  "removeMonResources env daemonName =
     (let k = (Ns env, resourceName daemonName)
      in anyway (outside (kdelete (svcs (kub env)) k))
         (anyway (outside (kdelete (claims (kub env)) k))
         (anyway (outside (kdelete (deps (kub env)) k)) (ret ()))))"

definition removeMonitorFromQuorum :: "'w menv \<Rightarrow> string \<Rightarrow> ('w, err option) op" where
  "removeMonitorFromQuorum env name = attempt (outside (mon_remove (cph env) name)) ''mon remove failed'' (ret None)"

definition forget_mon :: "string \<Rightarrow> 'w mstate \<Rightarrow> 'w mstate" where
  "forget_mon name s = s\<lparr>Internal := del name (Internal s), mapping := del name (mapping s)\<rparr>"

definition removeMonWithOptionalQuorum :: "'w menv \<Rightarrow> string \<Rightarrow> bool \<Rightarrow> ('w, err option) op" where
  "removeMonWithOptionalQuorum env daemonName shouldRemoveFromQuorum =
     (if daemonName = [] then ret None
      else anyway (if shouldRemoveFromQuorum then removeMonitorFromQuorum env daemonName else ret None)
        (modify (forget_mon daemonName)
        (attempt (saveMonConfig env) ''failed to save mon config after failing over mon''
        (attempt (outside (peer_secret (cph env))) ''failed to update cluster rbd bootstrap peer token''
        (anyway (removeMonResources env daemonName) (ret None))))))"

definition removeMon :: "'w menv \<Rightarrow> string \<Rightarrow> ('w, err option) op" where
  "removeMon env daemonName = removeMonWithOptionalQuorum env daemonName True"

text \<open>Claims of monitors that have no deployment any more.\<close>

definition remove_if_orphan :: "'w menv \<Rightarrow> string \<Rightarrow> ('w, err option) op" where
  "remove_if_orphan env pvc =
     andThen (outside (kget (deps (kub env)) (Ns env, pvc)))
       (\<lambda>r. case r of
          Inr _ \<Rightarrow> ret None
        | Inl e \<Rightarrow> if \<not> IsNotFound e then ret None else forget (outside (kdelete (claims (kub env)) (Ns env, pvc))))"

definition removeOrphanMonResources :: "'w menv \<Rightarrow> ('w, unit) op" where
  "removeOrphanMonResources env =
     (if MonClaim (Spec env) = None then ret ()
      else andThen (outside (list_claims (kub env)))
        (\<lambda>r. case r of Inl e \<Rightarrow> ret () | Inr pvcs \<Rightarrow> anyway (each (remove_if_orphan env) pvcs) (ret ())))"

definition updateMonDeploymentReplica :: "'w menv \<Rightarrow> string \<Rightarrow> bool \<Rightarrow> ('w, err option) op" where
  "updateMonDeploymentReplica env name on =
     attempt_val (outside (kget (deps (kub env)) (Ns env, resourceName name))) ''failed to get mon''
       (\<lambda>d. attempt (outside (kupdate (deps (kub env)) (Ns env, resourceName name) (d\<lparr>Replicas := if on then 1 else 0\<rparr>)))
          ''failed to update mon replicas'' (ret None))"

definition stopMonDuringFailover :: "'w menv \<Rightarrow> 'w mstate \<Rightarrow> string \<Rightarrow> bool" where
  "stopMonDuringFailover env s name =
     (if \<not> IsHost (Network (Spec env)) then True
      else case map_of (monsToFailover s) name of Some mon \<Rightarrow> \<not> UseHostNetwork mon | None \<Rightarrow> False)"

section \<open>External monitors\<close>

text \<open>The state of the loop is the map of external monitors and whether it has changed.\<close>

definition ext_step :: "ClusterSpec \<Rightarrow> MonStatusResponse \<Rightarrow> string \<Rightarrow> MonInfo gomap \<times> bool \<Rightarrow> MonInfo gomap \<times> bool" where
  "ext_step c st extID acc = (case acc of (external, changed) \<Rightarrow>
     (case getMonByID extID st of
        (monStatus, inQuorum) \<Rightarrow>
          (let inInfo = (extID \<in> set (keys external))
           in if inQuorum \<and> \<not> inInfo then (put extID (monStatusToInfo monStatus (RequireMsgr2 c)) external, True)
              else if \<not> inQuorum \<and> inInfo then (del extID external, True)
              else (external, changed))))"

definition external_mons :: "ClusterSpec \<Rightarrow> MonStatusResponse \<Rightarrow> MonInfo gomap \<Rightarrow> MonInfo gomap \<times> bool" where
  "external_mons c st external =
     (let ids = ExternalMonIDs c;
          kept = filter (\<lambda>(k, _). k \<in> set ids) external
      in fold (ext_step c st) ids (kept, list_ex (\<lambda>(k, _). k \<notin> set ids) external))"

definition reconcileExternalMons :: "'w menv \<Rightarrow> MonStatusResponse \<Rightarrow> ('w, MonStatusResponse res) op" where
  "reconcileExternalMons env st s =
     (let c = Spec env; ids = ExternalMonIDs c
      in if ids \<noteq> [] \<and> (ExternalEnable c \<or> IsStretchCluster c) then (Inr st, s)
         else case external_mons c st (External s) of
                (external, changed) \<Rightarrow>
                  (let s1 = s\<lparr>External := external\<rparr>
                   in if changed
                      then (case saveMonConfig env s1 of
                              (Some e, s2) \<Rightarrow> (Inl (Wrap ''failed to save mon config after adding/removing external mon'' e), s2)
                            | (None, s2) \<Rightarrow> (Inr (removeMonsFromQuorumStatusResponse st ids), s2))
                      else (Inr (removeMonsFromQuorumStatusResponse st ids), s1)))"

text \<open>Monitors of an external cluster: the map of the monitors is rebuilt from those of the status.\<close>

definition refill_step ::
  "ClusterSpec \<Rightarrow> MonStatusResponse \<Rightarrow> MonInfo gomap \<Rightarrow> MonMapEntry \<Rightarrow> MonInfo gomap \<times> bool \<Rightarrow> MonInfo gomap \<times> bool" where
  "refill_step c status old mon acc = (case acc of (mons, changed) \<Rightarrow>
     (let inQuorum = monInQuorum mon (Quorum status)
      in case map_of old (MeName mon) of
           None \<Rightarrow> (if inQuorum then put (MeName mon) (monStatusToInfo mon (RequireMsgr2 c)) mons else mons, True)
         | Some m \<Rightarrow> if \<not> inQuorum then (mons, True) else (put (MeName mon) m mons, changed)))"

definition addOrRemoveExternalMonitor :: "'w menv \<Rightarrow> MonStatusResponse \<Rightarrow> ('w, bool) op" where
  "addOrRemoveExternalMonitor env status s =
     (let old = fold (\<lambda>(_, mon) m. put (MiName mon) mon m) (Internal s) [];
          (mons, changed) = fold (refill_step (Spec env) status old) (Mons status) ([], False);
          differs = (if length old \<noteq> length mons then True
                     else list_ex (\<lambda>(_, mon). map_of old (MiName mon) \<noteq> Some mon) mons)
      in (changed \<or> differs, s\<lparr>Internal := mons\<rparr>))"

definition handleExternalMonStatus :: "'w menv \<Rightarrow> MonStatusResponse \<Rightarrow> ('w, err option) op" where
  "handleExternalMonStatus env status =
     attempt (if CephImage (Spec env) \<noteq> [] then outside (external_version (cph env)) else ret None) ''failed to validate external ceph version''
     (andThen (addOrRemoveExternalMonitor env status)
        (\<lambda>changed. if changed then attempt (saveMonConfig env) ''failed to save mon config after adding/removing external mon'' (ret None)
                   else ret None))"

section \<open>Failing over at once\<close>

definition shouldFailoverMonImmediately :: "'w menv \<Rightarrow> string \<Rightarrow> ('w, bool) op" where
  "shouldFailoverMonImmediately env monName s =
     (let assignedNode = (case map_of (mapping s) monName of Some (Some m) \<Rightarrow> Hostname m | _ \<Rightarrow> [])
      in if assignedNode = [] then (False, s)
         else (case outside (NodeWithHostnameExists env assignedNode) s of (r, s1) \<Rightarrow> (r = Inr False, s1)))"

end
