(* ===== verification/MonStart.thy ===== *)
theory MonStart
  imports MonCluster
begin

text \<open>
  Placing and starting monitors: canary deployments that find a node, services, storage and deployments of monitors,
  the loop that brings up one monitor after another, and the arbiter of a stretch cluster. Source: \<^verbatim>\<open>mon.go\<close> and
  \<^verbatim>\<open>service.go\<close> of \<^verbatim>\<open>pkg/operator/ceph/cluster/mon\<close>. The canaries are awaited by goroutines that write disjoint entries of
  the mapping, so they are modelled one after the other; where the function returns while some still run,
  \<open>raced\<close> says which of them have written.
\<close>

section \<open>Placement\<close>

definition monCanaryLabelSelector :: string where "monCanaryLabelSelector = ''app=rook-ceph-mon,mon_canary=true''"
definition canaryRetries :: nat where "canaryRetries = 30"

definition getMonPlacement :: "'w menv \<Rightarrow> string \<Rightarrow> Placement" where
  "getMonPlacement env zone =
     (if isArbiterZone (Spec env) zone \<and> GetArbiterPlacement (PlacementOf env) \<noteq> no_placement
      then GetArbiterPlacement (PlacementOf env) else GetMonPlacement (PlacementOf env))"

section \<open>Deployments of monitors\<close>

definition getLabels :: "'w menv \<Rightarrow> monConfig \<Rightarrow> bool \<Rightarrow> bool \<Rightarrow> string gomap" where
  "getLabels env m canary includeNewLabels =
     (let app = (if isFloatingMon (Spec env) (DaemonName m) then FloatingMonAppName else MonAppName);
          l0 = CephDaemonAppLabels (OperatorNs env) app (Ns env) ''mon'' (DaemonName m) (ClusterName env) ''cephclusters.ceph.rook.io'' includeNewLabels;
          l1 = put ''mon_cluster'' (Ns env) l0;
          l2 = (if canary then put ''mon_canary'' ''true'' l1 else l1);
          l3 = (case monVolumeClaimTemplate (Spec env) (McZone m) of
                  None \<Rightarrow> l2 | Some sz \<Rightarrow> put ''pvc_size'' sz (put ''pvc_name'' (ResourceName m) l2));
          l4 = (if McZone m \<noteq> [] then put ''zone'' (McZone m) l3 else l3)
      in if includeNewLabels then (if \<not> canary then put ''mon_daemon'' ''true'' l4 else l4) else l2)"

text \<open>The part of the pod that decides where it runs; its labels are those of the template.\<close>

definition makeMonPod :: "'w menv \<Rightarrow> monConfig \<Rightarrow> PodSpec res" where
  "makeMonPod env m =
     (let pod0 = \<lparr>SpecAffinity = None, SpecTolerations = None, SpecSpread = None, NodeSelector = None\<rparr>;
          pod1 = (if monVolumeClaimTemplate (Spec env) (McZone m) \<noteq> None then AddUnreachableNodeToleration (TolerationEnv env) pod0 else pod0)
      in if \<not> UseHostNetwork m \<and> Provider (Network (Spec env)) = ''multus'' \<and> multus_err env \<noteq> None
         then Inl (the (multus_err env))
         else if ZonesRequired (Spec env)
         then (case GenerateNodeAffinity (affinity_json env) (qualified_name env) (label_value env)
                      (GetFailureDomainLabel (Spec env) @ ''='' @ McZone m) of
                 Inl e \<Rightarrow> Inl (Wrap ''failed to generate mon node affinity'' e)
               | Inr a \<Rightarrow> Inr (pod1\<lparr>SpecAffinity := Some \<lparr>AfNode = Some a, AfPod = None, AfAnti = None\<rparr>\<rparr>))
         else Inr pod1)"

text \<open>Building the container of a monitor notes the arbiter, which happens before the pod can fail.\<close>

definition makeDeployment :: "'w menv \<Rightarrow> monConfig \<Rightarrow> bool \<Rightarrow> ('w, MonDeployment res) op" where
  "makeDeployment env m canary s =
     (case owner_err env of
        Some e \<Rightarrow> (Inl (Wrap ''failed to set owner reference to mon deployment'' e), s)
      | None \<Rightarrow>
          (map_sum id (\<lambda>pod.
             \<lparr>Replicas = 1, AvailableReplicas = 0,
              DepLabels = addCephVersionLabel (CephVer env)
                (ApplyLabelsToObjectMeta (GetMonLabels (LabelsOf env)) (addRookVersionLabel (RookVersion env) (getLabels env m canary True))),
              Selector = getLabels env m canary False,
              TemplateLabels = ApplyLabelsToObjectMeta (GetMonLabels (LabelsOf env)) (getLabels env m canary True),
              DepHostNetwork = UseHostNetwork m, DepVolumes = [OtherVolume], DepPod = pod, KeyAnnotation = []\<rparr>)
             (makeMonPod env m),
           if McZone m \<noteq> [] \<and> McZone m = getArbiterZone (Spec env) then s\<lparr>arbiterMon := DaemonName m\<rparr> else s))"

section \<open>Scheduling with canaries\<close>

definition anti_affine :: "'w menv \<Rightarrow> string gomap option \<Rightarrow> MonDeployment \<Rightarrow> MonDeployment" where
  "anti_affine env nodeSelector d =
     (case SetNodeAntiAffinityForPod (DepPod d) (requiredDuringScheduling (Spec env)) (LabelHostname (LabelEnv env))
             [(''app'', MonAppName)] nodeSelector of
        None \<Rightarrow> d | Some p \<Rightarrow> d\<lparr>DepPod := p\<rparr>)"

definition DeleteDeployment :: "'w menv \<Rightarrow> string \<Rightarrow> ('w, err option) eff" where
  "DeleteDeployment env name =
     deleteResourceAndWait (kdelete (deps (kub env)) (Ns env, name))
       (\<lambda>w. case kget (deps (kub env)) (Ns env, name) w of (Inl e, w') \<Rightarrow> (Some e, w') | (Inr _, w') \<Rightarrow> (None, w'))"

fun create_canary :: "nat \<Rightarrow> 'w menv \<Rightarrow> string \<Rightarrow> MonDeployment \<Rightarrow> ('w, err option) op" where
  "create_canary 0 env name d s = (Some (Errorf ''failed to create canary deployment''), s)"
| "create_canary (Suc n) env name d s =
     (case ctx_err env (world s) of
        Some e \<Rightarrow> (Some e, s)
      | None \<Rightarrow>
          (case outside (kcreate (deps (kub env)) (Ns env, name) d) s of
             (None, s1) \<Rightarrow> (None, s1)
           | (Some e, s1) \<Rightarrow>
               if IsAlreadyExists e
               then (case outside (DeleteDeployment env name) s1 of
                       (Some e, s2) \<Rightarrow> (Some (Wrap ''failed to delete canary deployment'' e), s2)
                     | (None, s2) \<Rightarrow> create_canary n env name d (s2\<lparr>world := pause env 5 (world s2)\<rparr>))
               else (Some (Wrap ''failed to create canary monitor deployment'' e), s1)))"

text \<open>The claim of a monitor, shared by the canary and the monitor: an existing one is kept.\<close>

definition create_claim :: "'w menv \<Rightarrow> monConfig \<Rightarrow> ('w, err option) op" where
  "create_claim env m =
     (case owner_err env of
        Some e \<Rightarrow> ret (Some (Wrap ''failed to make mon pvc'' (Wrap ''failed to set owner reference to mon pvc'' e)))
      | None \<Rightarrow> andThen (outside (kcreate (claims (kub env)) (Ns env, ResourceName m) ()))
          (\<lambda>r. ret (case r of None \<Rightarrow> None | Some e \<Rightarrow> if IsAlreadyExists e then None else Some (Wrap ''failed to create mon pvc'' e))))"

definition scheduleMonitor :: "'w menv \<Rightarrow> monConfig \<Rightarrow> ('w, err option) op" where
  "scheduleMonitor env m =
     andThen (makeDeployment env m True)
       (\<lambda>r. case r of
          Inl e \<Rightarrow> ret (Some e)
        | Inr d0 \<Rightarrow>
            (let d1 = anti_affine env None (d0\<lparr>DepPod := ApplyToPodSpec (getMonPlacement env (McZone m)) (DepPod d0)\<rparr>);
                 claim = monVolumeClaimTemplate (Spec env) (McZone m);
                 d = d1\<lparr>DepVolumes := DepVolumes d1 @ [if claim = None then HostPathVolume else ClaimVolume (ResourceName m)]\<rparr>
             in andThen (if claim = None then ret None else create_claim env m)
                  (\<lambda>e. if e \<noteq> None then ret e else create_canary canaryRetries env (ResourceName m @ ''-canary'') d)))"

fun wait_scheduled :: "nat \<Rightarrow> bool \<Rightarrow> 'w menv \<Rightarrow> monConfig \<Rightarrow> ('w, MonInfo.Node res) op" where
  "wait_scheduled 0 first env m s = (Inl (Errorf ''failed to schedule canary pod(s)''), s)"
| "wait_scheduled (Suc n) first env m s =
     (case ctx_err env (world s) of
        Some e \<Rightarrow> (Inl e, s)
      | None \<Rightarrow>
          (let s0 = (if first then s else s\<lparr>world := pause env 5 (world s)\<rparr>)
           in case outside (list_pods (kub env) (label_set_text (getLabels env m True False))) s0 of
                (Inl e, s1) \<Rightarrow> (Inl (Wrap ''failed to list canary pods'' e), s1)
              | (Inr [], s1) \<Rightarrow> wait_scheduled n False env m s1
              | (Inr (pod # _), s1) \<Rightarrow>
                  if PodNode pod = [] then wait_scheduled n False env m s1
                  else (case outside (get_node (kub env) (PodNode pod)) s1 of
                          (Inl e, s2) \<Rightarrow> (Inl (Wrap ''failed to get node'' e), s2)
                        | (Inr node, s2) \<Rightarrow> (Inr node, s2))))"

definition realWaitForMonitorScheduling :: "'w menv \<Rightarrow> monConfig \<Rightarrow> ('w, MonInfo.Node res) op" where
  "realWaitForMonitorScheduling env m = wait_scheduled canaryRetries True env m"

definition removeCanaryDeployments :: "'w menv \<Rightarrow> string \<Rightarrow> ('w, unit) op" where
  "removeCanaryDeployments env labelSelector =
     andThen (outside (list_deps (kub env) labelSelector))
       (\<lambda>r. case r of
          Inl e \<Rightarrow> ret ()
        | Inr ds \<Rightarrow> anyway (each (\<lambda>(name, _). forget (outside (DeleteDeployment env name))) ds) (ret ()))"

section \<open>Assigning monitors to nodes\<close>

text \<open>The entry of the mapping for a monitor whose canary runs on a node.\<close>

definition schedule_entry :: "'w menv \<Rightarrow> monConfig \<Rightarrow> MonInfo.Node \<Rightarrow> MonScheduleInfo option res" where
  "schedule_entry env m node =
     (case (if IsHost (Network (Spec env)) \<or> monVolumeClaimTemplate (Spec env) (McZone m) = None
            then map_sum id Some (getNodeInfoFromNode (LabelEnv env) node) else Inr None) of
        Inl e \<Rightarrow> Inl e
      | Inr schedule \<Rightarrow>
          if ZonesRequired (Spec env)
          then Inr (Some ((case schedule of None \<Rightarrow> no_schedule | Some x \<Rightarrow> x)\<lparr>Zone := McZone m\<rparr>))
          else Inr schedule)"

text \<open>One goroutine: whether the monitor could be placed.\<close>

definition await_canary :: "'w menv \<Rightarrow> monConfig \<Rightarrow> ('w, bool) op" where
  "await_canary env m =
     andThen (realWaitForMonitorScheduling env m)
       (\<lambda>r. case r of
          Inl e \<Rightarrow> ret False
        | Inr node \<Rightarrow>
            (case schedule_entry env m node of
               Inl e \<Rightarrow> ret False
             | Inr schedule \<Rightarrow> modify (\<lambda>s. s\<lparr>mapping := put (DaemonName m) schedule (mapping s)\<rparr>) (ret True)))"

fun await_canaries :: "'w menv \<Rightarrow> monConfig list \<Rightarrow> ('w, bool) op" where
  "await_canaries env [] s = (True, s)"
| "await_canaries env (m # ms) s =
     (case await_canary env m s of (ok, s1) \<Rightarrow> (case await_canaries env ms s1 of (rest, s2) \<Rightarrow> (ok \<and> rest, s2)))"

text \<open>The loop that starts the canaries: the error it ends with and the monitors whose canaries were started.\<close>

fun start_canaries :: "'w menv \<Rightarrow> string set \<Rightarrow> monConfig list \<Rightarrow> monConfig list \<Rightarrow> ('w, err option \<times> monConfig list) op" where
  "start_canaries env skip [] started s = ((None, started), s)"
| "start_canaries env skip (m # ms) started s =
     (if isFloatingMon (Spec env) (DaemonName m) then start_canaries env skip ms started s
      else case ctx_err env (world s) of
             Some e \<Rightarrow> ((Some e, started), s)
           | None \<Rightarrow>
               if DaemonName m \<in> set (keys (mapping s)) then start_canaries env skip ms started s
               else if DaemonName m \<in> skip then start_canaries env skip ms started s
               else (case scheduleMonitor env m s of
                       (Some e, s1) \<Rightarrow> ((Some (Wrap ''failed to schedule monitor'' e), started), s1)
                     | (None, s1) \<Rightarrow> start_canaries env skip ms (started @ [m]) s1))"

definition assignMons :: "'w menv \<Rightarrow> monConfig list \<Rightarrow> string set \<Rightarrow> ('w, err option) op" where
  "assignMons env mons monsToSkipReconcile =
     andThen (start_canaries env monsToSkipReconcile mons [])
       (\<lambda>(e, started).
          andThen (await_canaries env (if e = None then started else filter (\<lambda>m. raced env (DaemonName m)) started))
            (\<lambda>ok. anyway (if \<not> MultiClusterService (Network (Spec env)) then removeCanaryDeployments env monCanaryLabelSelector else ret ())
               (ret (if e \<noteq> None then e else if \<not> ok then Some (Errorf ''failed to schedule mons'') else None))))"

section \<open>Services\<close>

definition createService :: "'w menv \<Rightarrow> monConfig \<Rightarrow> ('w, string res) op" where
  "createService env m =
     (case owner_err env of
        Some e \<Rightarrow> ret (Inl (Wrap ''failed to set owner reference to mon service'' e))
      | None \<Rightarrow>
          andThen (if PublicIP m = [] then ret False
                   else andThen (outside (kget (svcs (kub env)) (Ns env, ResourceName m)))
                     (\<lambda>r. ret (case r of Inl e \<Rightarrow> IsNotFound e | Inr _ \<Rightarrow> False)))
            (\<lambda>gone. andThen (outside (apply_service (kub env) m (if gone then PublicIP m else [])))
               (\<lambda>r. ret (case r of Inl e \<Rightarrow> Inl (Wrap ''failed to create service for mon'' e) | Inr ip \<Rightarrow> Inr ip))))"

definition exportService :: "'w menv \<Rightarrow> monConfig \<Rightarrow> ('w, string res) op" where
  "exportService env m =
     andThen (outside (export_service (kub env) (ResourceName m)))
       (\<lambda>r. anyway (removeCanaryDeployments env (monCanaryLabelSelector @ '',mon='' @ DaemonName m))
          (ret (case r of Inl e \<Rightarrow> Inl (Wrap ''failed to export service'' e) | Inr ip \<Rightarrow> Inr ip)))"

text \<open>The address of a monitor that has a service.\<close>

definition service_ip :: "'w menv \<Rightarrow> monConfig \<Rightarrow> bool \<Rightarrow> ('w, string res) op" where
  "service_ip env m keep =
     andThen (createService env m)
       (\<lambda>r. case r of
          Inl e \<Rightarrow> ret (Inl (Wrap ''failed to create mon service'' e))
        | Inr ip \<Rightarrow>
            if keep then ret (Inr (PublicIP m))
            else if MultiClusterService (Network (Spec env))
            then andThen (exportService env m) (\<lambda>r. ret (case r of Inl e \<Rightarrow> Inl (Wrap ''failed to export service'' e) | Inr x \<Rightarrow> Inr x))
            else ret (Inr ip))"

definition mon_ip :: "'w menv \<Rightarrow> monConfig \<Rightarrow> ('w, string res) op" where
  "mon_ip env m s =
     (if UseHostNetwork m
      then (case map_of (mapping s) (DaemonName m) of
              Some (Some node) \<Rightarrow> (Inr (Address node), s)
            | _ \<Rightarrow> (Inl (Errorf ''failed to find node for mon in assignment map''), s))
      else service_ip env m (PublicIP m \<noteq> []) s)"

definition know_mon :: "monConfig \<Rightarrow> 'w mstate \<Rightarrow> 'w mstate" where
  "know_mon m s = s\<lparr>Internal := put (DaemonName m) (NewMonInfo (DaemonName m) (PublicIP m) (Port m)) (Internal s)\<rparr>"

text \<open>The code updates the monitors it is given; the model returns them.\<close>

fun initMonIPs :: "'w menv \<Rightarrow> monConfig list \<Rightarrow> ('w, err option \<times> monConfig list) op" where
  "initMonIPs env [] s = ((None, []), s)"
| "initMonIPs env (m # ms) s =
     (case ctx_err env (world s) of
        Some e \<Rightarrow> ((Some e, m # ms), s)
      | None \<Rightarrow>
          (case mon_ip env m s of
             (Inl e, s1) \<Rightarrow> ((Some e, m # ms), s1)
           | (Inr ip, s1) \<Rightarrow>
               (let m' = m\<lparr>PublicIP := ip\<rparr>
                in case initMonIPs env ms (know_mon m' s1) of ((e, ms'), s2) \<Rightarrow> ((e, m' # ms'), s2))))"

section \<open>Starting a monitor\<close>

definition DaemonVolumesContainsPVC :: "MonVolume list \<Rightarrow> bool" where
  "DaemonVolumesContainsPVC volumes = list_ex (\<lambda>v. case v of ClaimVolume _ \<Rightarrow> True | _ \<Rightarrow> False) volumes"

definition hasMonPathChanged :: "MonDeployment \<Rightarrow> string option \<Rightarrow> bool" where
  "hasMonPathChanged d claim =
     (let pvc = mget (map_of (DepLabels d)) ''pvc_name''
      in if pvc = [] \<and> claim \<noteq> None then True else if pvc \<noteq> [] \<and> claim = None then True else False)"

definition updateMon :: "'w menv \<Rightarrow> monConfig \<Rightarrow> MonDeployment \<Rightarrow> ('w, err option) op" where
  "updateMon env m d =
     (let update = attempt (outside (update_and_wait (kub env) (ResourceName m) d)) ''failed to update mon deployment'' (ret None)
      in if monVolumeClaimTemplate (Spec env) (McZone m) = None then update
         else case owner_err env of
                Some e \<Rightarrow> ret (Some (Wrap ''failed to make mon pvc'' (Wrap ''failed to set owner reference to mon pvc'' e)))
              | None \<Rightarrow> attempt_val (outside (kget (claims (kub env)) (Ns env, ResourceName m))) ''failed to fetch pvc for mon''
                  (\<lambda>_. anyway (outside (expand_claim (kub env) (ResourceName m))) update))"

text \<open>Volumes, placement and node selector of a deployment. An existing deployment is updated here, unless the monitor has to
  move; the deployment of a new one is returned.\<close>

definition configureDefaultMonStorage ::
  "'w menv \<Rightarrow> monConfig \<Rightarrow> MonDeployment \<Rightarrow> MonScheduleInfo option \<Rightarrow> MonDeployment option \<Rightarrow> ('w, err option \<times> MonDeployment) op" where
  "configureDefaultMonStorage env m d schedule existing =
     (let pvcExists = (case existing of None \<Rightarrow> False | Some x \<Rightarrow> DaemonVolumesContainsPVC (DepVolumes x));
          claim = monVolumeClaimTemplate (Spec env) (McZone m);
          d1 = d\<lparr>DepVolumes := DepVolumes d @
            [if pvcExists \<or> (existing = None \<and> claim \<noteq> None) then ClaimVolume (ResourceName m) else HostPathVolume]\<rparr>;
          zone = (case schedule of None \<Rightarrow> [] | Some x \<Rightarrow> Zone x);
          d2 = d1\<lparr>DepPod := ApplyToPodSpec (getMonPlacement env zone) (DepPod d1)\<rparr>;
          host = (case schedule of None \<Rightarrow> [] | Some x \<Rightarrow> Hostname x);
          on_host = Some [(LabelHostname (LabelEnv env), host)]
      in case existing of
           Some x \<Rightarrow>
             if hasMonPathChanged x (MonClaim (Spec env)) \<or> isMonIPUpdateRequiredForHostNetwork (UseHostNetwork m) (Network (Spec env))
             then modify (\<lambda>s. s\<lparr>monsToFailover := put (DaemonName m) m (monsToFailover s)\<rparr>) (ret (None, d2))
             else (let d3 = anti_affine env
                         (if UseHostNetwork m \<or> \<not> pvcExists then (if host \<noteq> [] then on_host else NodeSelector (DepPod x)) else None) d2
                   in andThen (updateMon env m d3) (\<lambda>e. ret (e, d3)))
         | None \<Rightarrow>
             andThen (if claim = None then ret None else create_claim env m)
               (\<lambda>e. if e \<noteq> None then ret (e, d2)
                    else ret (None, anti_affine env (if schedule = None \<or> (claim \<noteq> None \<and> zone \<noteq> []) then None else on_host) d2)))"

text \<open>A new deployment is followed by committing the identifier of the monitor and the list of monitors.\<close>

definition create_mon :: "'w menv \<Rightarrow> monConfig \<Rightarrow> MonDeployment \<Rightarrow> ('w, err option) op" where
  "create_mon env m d =
     attempt (outside (kcreate (deps (kub env)) (Ns env, ResourceName m) d)) ''failed to create mon deployment''
    (attempt (outside (commitMaxMonID (cms (kub env)) (Ns env) (DaemonName m))) ''failed to commit maxMonId after starting mon''
    (attempt (persistExpectedMonDaemons env) ''failed to persist expected mon daemons'' (ret None)))"

definition startMon :: "'w menv \<Rightarrow> monConfig \<Rightarrow> MonScheduleInfo option \<Rightarrow> ('w, err option) op" where
  "startMon env m schedule =
     (let floating = isFloatingMon (Spec env) (DaemonName m)
      in andThen (if floating then outside (make_floating env m) else makeDeployment env m False)
           (\<lambda>r. case r of
              Inl e \<Rightarrow> ret (Some (if floating then Wrap ''failed to build floating mon deployment'' e else e))
            | Inr d0 \<Rightarrow> reading (\<lambda>s.
                let d = d0\<lparr>KeyAnnotation := monKeySecretResourceVersion s\<rparr>
                in andThen (outside (kget (deps (kub env)) (Ns env, ResourceName m)))
                     (\<lambda>got. case got of
                        Inl e \<Rightarrow>
                          if \<not> IsNotFound e then ret (Some (Wrap ''failed to get mon deployment'' e))
                          else if floating then create_mon env m d
                          else andThen (configureDefaultMonStorage env m d schedule None)
                                 (\<lambda>(e, d'). if e \<noteq> None then ret e else create_mon env m d')
                      | Inr x \<Rightarrow>
                          if floating then updateMon env m d
                          else andThen (configureDefaultMonStorage env m d schedule (Some x)) (\<lambda>(e, _). ret e)))))"

section \<open>Starting the monitors\<close>

definition extra_deployment :: "monConfig list \<Rightarrow> (string \<times> MonDeployment) list \<Rightarrow> string option" where
  "extra_deployment mons ds =
     map_option (\<lambda>(_, d). mget (map_of (DepLabels d)) ''ceph_daemon_id'')
       (find (\<lambda>(_, d). mget (map_of (DepLabels d)) ''ceph_daemon_id'' \<notin> set (map DaemonName mons)) ds)"

definition checkForExtraMonResources :: "'w menv \<Rightarrow> monConfig list \<Rightarrow> (string \<times> MonDeployment) list \<Rightarrow> ('w, string) op" where
  "checkForExtraMonResources env mons ds =
     (if int (length ds) \<le> MonCount (Spec env) \<or> length ds \<le> length mons then ret []
      else if int (length mons) < MonCount (Spec env) then ret []
      else case extra_deployment mons ds of
             None \<Rightarrow> ret []
           | Some name \<Rightarrow> anyway (removeMonResources env name) (ret name))"

text \<open>The loop of \<^verbatim>\<open>startDeployments\<close>; \<open>rest\<close> are the monitors that are left.\<close>

fun start_each :: "'w menv \<Rightarrow> monConfig list \<Rightarrow> bool \<Rightarrow> string set \<Rightarrow> monConfig list \<Rightarrow> ('w, err option) op" where
  "start_each env mons once skip [] s = (None, s)"
| "start_each env mons once skip (m # rest) s =
     (if DaemonName m \<in> skip then start_each env mons once skip rest s
      else case startMon env m (case map_of (mapping s) (DaemonName m) of None \<Rightarrow> None | Some x \<Rightarrow> x) s of
             (e, s1) \<Rightarrow>
               if e \<noteq> None \<and> isUpgrade s1 then (map_option (Wrap ''failed to upgrade mon'') e, s1)
               else if e \<noteq> None \<and> isFloatingMon (Spec env) (DaemonName m) then (map_option (Wrap ''failed to start floating mon'') e, s1)
               else if \<not> once \<or> rest = []
               then (case waitForMonsToJoin env mons False s1 of
                       (Some x, s2) \<Rightarrow> (Some (Wrap ''failed to check mon quorum'' x), s2)
                     | (None, s2) \<Rightarrow> start_each env mons once skip rest s2)
               else start_each env mons once skip rest s1)"

definition startDeployments :: "'w menv \<Rightarrow> monConfig list \<Rightarrow> bool \<Rightarrow> string set \<Rightarrow> ('w, err option) op" where
  "startDeployments env mons requireAllInQuorum skip =
     (if mons = [] then ret (Some (Errorf ''cannot start 0 mons''))
      else andThen (outside (list_deps (kub env) (''app='' @ MonAppName)))
        (\<lambda>r. let ds = (case r of Inl _ \<Rightarrow> [] | Inr ds \<Rightarrow> ds);
                 ready = length (filter (\<lambda>(_, d). AvailableReplicas d > 0) ds);
                 once = (length ds < length mons \<or> ready = 0)
             in andThen (start_each env mons once skip mons)
                  (\<lambda>e. if e \<noteq> None then ret e
                       else andThen (outside (mon_versions (cph env)))
                         (\<lambda>v. let req = (case v of Inl _ \<Rightarrow> requireAllInQuorum | Inr n \<Rightarrow> if n \<noteq> 1 then True else requireAllInQuorum)
                              in andThen (waitForMonsToJoin env mons req)
                                   (\<lambda>e. anyway (checkForExtraMonResources env mons ds) (ret e))))))"

definition expectedMonCount :: "int \<Rightarrow> 'w mstate \<Rightarrow> nat" where
  "expectedMonCount targetCount s =
     nat (if int (length (Internal s)) < targetCount then int (length (Internal s)) + 1 else int (length (Internal s)))"

definition save_and_start :: "'w menv \<Rightarrow> monConfig list \<Rightarrow> bool \<Rightarrow> string set \<Rightarrow> ('w, err option) op" where
  "save_and_start env mons requireAllInQuorum skip =
     attempt (saveMonConfig env) ''failed to save mons''
    (attempt (startDeployments env mons requireAllInQuorum skip) ''failed to start mon pods'' (ret None))"

definition ensureMonsRunning :: "'w menv \<Rightarrow> monConfig list \<Rightarrow> int \<Rightarrow> bool \<Rightarrow> string set \<Rightarrow> ('w, err option \<times> monConfig list) op" where
  "ensureMonsRunning env mons targetCount requireAllInQuorum skip = reading (\<lambda>s.
     let n = expectedMonCount targetCount s
     in andThen (initMonIPs env (take n mons))
          (\<lambda>(e, started). case e of
             Some x \<Rightarrow> ret (Some (Wrap ''failed to init mon services'' x), started @ drop n mons)
           | None \<Rightarrow> andThen (save_and_start env started requireAllInQuorum skip) (\<lambda>e. ret (e, started @ drop n mons))))"

definition GetDaemonsToSkipReconcile :: "'w menv \<Rightarrow> string \<Rightarrow> string \<Rightarrow> ('w, string set res) eff" where
  "GetDaemonsToSkipReconcile env daemonName label =
     andThen (list_deps (kub env) (''app='' @ label @ '',ceph.rook.io/do-not-reconcile''))
       (\<lambda>r. ret (case r of
          Inl e \<Rightarrow> Inl (Wrap ''failed to query to skip reconcile'' e)
        | Inr ds \<Rightarrow> Inr (set (List.map_filter (\<lambda>(_, d). map_of (DepLabels d) daemonName) ds))))"

definition configureStretchCluster :: "'w menv \<Rightarrow> ('w, err option) op" where
  "configureStretchCluster env =
     attempt_val (outside (mon_dump (cph env))) ''failed to get mon dump to determine current stretch mode state''
       (\<lambda>dump. attempt (if StretchMode dump then ret None else outside (election_strategy (cph env))) ''failed to enable stretch cluster''
              (attempt (outside (stretch_rule (cph env) (getFailureDomainName (Spec env)))) ''failed to create default stretch rule'' (ret None)))"

text \<open>The values of the configuration database: set after the first monitor of a new cluster, or again after the first
  monitor that is added when setting them before has failed.\<close>

definition set_configs :: "'w menv \<Rightarrow> int \<Rightarrow> bool \<Rightarrow> ('w, err option) op" where
  "set_configs env existing again =
     (if existing = 0
      then attempt (outside (default_configs (cph env)))
             ''failed to set Rook and/or user-defined Ceph config options after creating the first mon'' (ret None)
      else if again
      then attempt (outside (default_configs (cph env)))
             ''failed to set Rook and/or user-defined Ceph config options after updating the existing mons'' (ret None)
      else ret None)"

text \<open>The loop that adds the monitors one at a time; the first argument counts those that are left.\<close>

fun add_mons :: "nat \<Rightarrow> 'w menv \<Rightarrow> int \<Rightarrow> int \<Rightarrow> bool \<Rightarrow> bool \<Rightarrow> string set \<Rightarrow> monConfig list \<Rightarrow> ('w, err option) op" where
  "add_mons 0 env existing target retry first skip mons s = (None, s)"
| "add_mons (Suc k) env existing target retry first skip mons s =
     (case ctx_err env (world s) of
        Some e \<Rightarrow> (Some e, s)
      | None \<Rightarrow>
          (case ensureMonsRunning env mons target True skip s of
             ((Some e, _), s1) \<Rightarrow> (Some e, s1)
           | ((None, mons'), s1) \<Rightarrow>
               (case set_configs env existing (retry \<and> first) s1 of
                  (Some e, s2) \<Rightarrow> (Some e, s2)
                | (None, s2) \<Rightarrow> add_mons k env existing target retry False skip mons' s2)))"

definition bring_up :: "'w menv \<Rightarrow> int \<Rightarrow> int \<Rightarrow> bool \<Rightarrow> string set \<Rightarrow> monConfig list \<Rightarrow> ('w, err option) op" where
  "bring_up env existing target retry skip mons =
     (if existing < int (length mons) then add_mons (nat (target - existing)) env existing target retry True skip mons
      else andThen (ensureMonsRunning env mons target False skip)
        (\<lambda>(e, _). if e \<noteq> None then ret e
           else if retry
           then attempt (outside (default_configs (cph env)))
                  ''failed to set Rook and/or user-defined Ceph config options after forcefully updating the existing mons'' (ret None)
           else ret None))"

text \<open>What follows once the monitors run.\<close>

definition finish_start :: "'w menv \<Rightarrow> ('w, err option) op" where
  "finish_start env =
     attempt (outside (network_settings (cph env))) ''failed to apply ceph network settings''
    (attempt (if IsStretchCluster (Spec env) then configureStretchCluster env else ret None) ''failed to configure stretch mons''
    (attempt (andThen (reconcileMonPDB env) (\<lambda>(_, e). ret e)) ''failed to reconcile mon PDB''
    (anyway (removeOrphanMonResources env) (ret None))))"

definition startMons :: "'w menv \<Rightarrow> int \<Rightarrow> ('w, err option) op" where
  "startMons env targetCount s =
     (case initMonConfig (Spec env) (Internal s) (mapping s) (maxMonID s) targetCount of
        (Inl e, i) \<Rightarrow> (Some (Wrap ''failed to init mon config'' e), s\<lparr>maxMonID := i\<rparr>)
      | (Inr (existing, mons), i) \<Rightarrow>
          attempt_val (outside (GetDaemonsToSkipReconcile env ''mon'' MonAppName)) ''failed to check for mons to skip reconcile''
            (\<lambda>skip. attempt (assignMons env mons skip) ''failed to assign pods to mons''
               (andThen (if existing > 0 then outside (default_configs (cph env)) else ret None)
                  (\<lambda>e. andThen (bring_up env existing targetCount (e \<noteq> None) skip mons)
                     (\<lambda>e. if e \<noteq> None then ret e else finish_start env))))
            (s\<lparr>maxMonID := i\<rparr>))"

section \<open>The arbiter of a stretch cluster\<close>

definition builtinMgrPoolExists :: "'w menv \<Rightarrow> ('w, bool) eff" where
  "builtinMgrPoolExists env = andThen (mgr_pool (cph env)) (\<lambda>e. ret (e = None))"

definition arbiter_ready :: "'w menv \<Rightarrow> ('w, bool res) eff" where
  "arbiter_ready env =
     andThen (PodsWithLabelAreAllRunning env ''app=rook-ceph-osd'')
       (\<lambda>pods. if pods = Inr True
               then andThen (crush_buckets (cph env))
                      (\<lambda>b. ret (readyToConfigureArbiter (Some pods) (CephVer env) (getFailureDomainName (Spec env)) b))
               else ret (readyToConfigureArbiter (Some pods) (CephVer env) (getFailureDomainName (Spec env)) (Inr [])))"

definition enter_stretch_mode :: "'w menv \<Rightarrow> ('w, err option) op" where
  "enter_stretch_mode env =
     attempt (outside (poll env (arbiter_ready env))) ''failed to find two failure domains in the CRUSH map''
    (attempt (outside (poll env (andThen (builtinMgrPoolExists env) (\<lambda>b. ret (Inr b)))))
       ''failed to wait for .mgr pool to be created before setting the stretch tiebreaker''
    (reading (\<lambda>s. attempt (outside (set_tiebreaker (cph env) (arbiterMon s) (getFailureDomainName (Spec env))))
       ''failed to set mon tiebreaker'' (ret None))))"

definition ConfigureArbiter :: "'w menv \<Rightarrow> ('w, err option) op" where
  "ConfigureArbiter env = reading (\<lambda>s.
     if arbiterMon s = [] then ret (Some (Errorf ''arbiter not specified for the stretch cluster''))
     else andThen (outside (mon_dump (cph env)))
       (\<lambda>r. case r of
          Inr dump \<Rightarrow>
            if StretchMode dump
            then (if TiebreakerMon dump = arbiterMon s then ret None
                  else attempt (outside (new_tiebreaker (cph env) (arbiterMon s))) ''failed to set new mon tiebreaker'' (ret None))
            else enter_stretch_mode env
        | Inl e \<Rightarrow> enter_stretch_mode env))"

end
