(* ===== verification/MonHealth.thy ===== *)
theory MonHealth
  imports MonStart
begin

text \<open>
  The health check of the monitors and the failover it triggers. Source: \<^verbatim>\<open>pkg/operator/ceph/cluster/mon/health.go\<close>. A failover starts
  a monitor with the next identifier and removes the old one when the new one has joined; when anything fails on the way,
  the new one is taken back. The check looks at one status of the quorum and acts on at most one monitor.
\<close>

section \<open>Failover\<close>

text \<open>The address of the new monitor. A missing node of a monitor that was assigned is a nil pointer in the code.\<close>

definition failover_ip :: "'w menv \<Rightarrow> monConfig \<Rightarrow> ('w, monConfig res) op" where
  "failover_ip env m s =
     (if IsHost (Network (Spec env))
      then (case map_of (mapping s) (DaemonName m) of
              None \<Rightarrow> (Inl (Errorf ''mon doesn't exist in assignment map''), s)
            | Some None \<Rightarrow> (Inl (Errorf ''invalid memory address or nil pointer dereference''), s)
            | Some (Some schedule) \<Rightarrow> (Inr (m\<lparr>PublicIP := Address schedule, UseHostNetwork := True\<rparr>), s))
      else case service_ip env m False s of
             (Inl e, s1) \<Rightarrow> (Inl e, s1)
           | (Inr ip, s1) \<Rightarrow> (Inr (m\<lparr>PublicIP := ip\<rparr>), s1))"

text \<open>Once the new monitor is known. The flag says whether it may have joined the quorum when a step fails.\<close>

definition start_replacement :: "'w menv \<Rightarrow> monConfig \<Rightarrow> ('w, err option \<times> bool) op" where
  "start_replacement env m =
     andThen (saveMonConfig env)
       (\<lambda>e. case e of
          Some x \<Rightarrow> ret (Some (Wrap ''failed to save mon config before starting failover mon'' x), False)
        | None \<Rightarrow>
            andThen (attempt (startDeployments env [m] True {}) ''failed to start new mon''
                    (attempt (if IsStretchCluster (Spec env) then ConfigureArbiter env else ret None)
                       ''failed to configure stretch arbiter'' (ret None)))
              (\<lambda>e. ret (e, True)))"

text \<open>From the first step that is reverted to the last one that may fail.\<close>

definition launch_mon :: "'w menv \<Rightarrow> monConfig \<Rightarrow> ('w, err option \<times> bool) op" where
  "launch_mon env m =
     andThen (assignMons env [m] {})
       (\<lambda>e. case e of
          Some x \<Rightarrow> ret (Some (Wrap ''failed to place new mon on a node'' x), False)
        | None \<Rightarrow>
            andThen (failover_ip env m)
              (\<lambda>r. case r of
                 Inl x \<Rightarrow> ret (Some x, False)
               | Inr m' \<Rightarrow> modify (know_mon m') (start_replacement env m')))"

definition revert_failover :: "'w menv \<Rightarrow> string \<Rightarrow> monConfig \<Rightarrow> bool \<Rightarrow> ('w, unit) op" where
  "revert_failover env name m newMonMightBeInQuorum =
     anyway (updateMonDeploymentReplica env name True)
    (anyway (removeMonWithOptionalQuorum env (DaemonName m) newMonMightBeInQuorum)
    (anyway (reading (\<lambda>s. outside (commitMaxMonIDRequireIncrementing (cms (kub env)) (Ns env) (maxMonID s) False)))
    (ret ())))"

definition failoverMon :: "'w menv \<Rightarrow> string \<Rightarrow> ('w, err option) op" where
  "failoverMon env name s =
     (case findAvailableZone (Spec env) (clusterInfoToMonConfigWithExclude (Internal s) (mapping s) name) of
        Inl e \<Rightarrow> (Some (Wrap ''failed to find available stretch zone'' e), s)
      | Inr zone \<Rightarrow>
          (let m = newMonConfig (Spec env) (s64 (maxMonID s + 1)) zone
           in anyway (if stopMonDuringFailover env s name then updateMonDeploymentReplica env name False else ret None)
                (andThen (launch_mon env m)
                   (\<lambda>(e, might). case e of
                      Some x \<Rightarrow> anyway (revert_failover env name m might) (ret (Some x))
                    | None \<Rightarrow> modify (\<lambda>s. s\<lparr>maxMonID := s64 (maxMonID s + 1)\<rparr>) (removeMon env name))) s))"

definition failMon :: "'w menv \<Rightarrow> int \<Rightarrow> int \<Rightarrow> string \<Rightarrow> ('w, bool) op" where
  "failMon env monCount desiredMonCount name =
     anyway (trackMonInOrOutOfQuorum env name False)
       (if monCount > desiredMonCount then anyway (removeMon env name) (ret True)
        else anyway (failoverMon env name) (anyway (reconcileMonPDB env) (ret True)))"

text \<open>The first pod of a monitor on a node that another monitor has.\<close>

fun shared_node_mon :: "MonPod list \<Rightarrow> string set \<Rightarrow> string option" where
  "shared_node_mon [] nodes = None"
| "shared_node_mon (pod # pods) nodes =
     (if PodCanary pod then shared_node_mon pods nodes
      else if PodNode pod = [] then shared_node_mon pods nodes
      else if PodNode pod \<notin> nodes then shared_node_mon pods (insert (PodNode pod) nodes)
      else Some (PodMon pod))"

definition evictMonIfMultipleOnSameNode :: "'w menv \<Rightarrow> ('w, err option) op" where
  "evictMonIfMultipleOnSameNode env =
     (if AllowMultiplePerNode (Spec env) then ret None
      else attempt_val (outside (list_pods (kub env) (''app='' @ MonAppName))) ''failed to list mon pods''
        (\<lambda>pods. case shared_node_mon pods {} of None \<Rightarrow> ret None | Some name \<Rightarrow> failoverMon env name))"

section \<open>The health check\<close>

text \<open>The end of one iteration: the check returns, or it goes on.\<close>

datatype verdict = Return "err option" | GoOn

text \<open>A monitor out of quorum: wait for the timeout, unless its node is gone, and fail it over.\<close>

definition past_timeout :: "'w menv \<Rightarrow> string \<Rightarrow> 'w mstate \<Rightarrow> bool" where
  "past_timeout env name s \<longleftrightarrow>
     (case map_of (monTimeoutList s) name of None \<Rightarrow> now env (world s) | Some t \<Rightarrow> now env (world s) - t) > MonOutTimeout env"

definition retry_unscheduled :: "'w menv \<Rightarrow> string \<Rightarrow> ('w, bool) op" where
  "retry_unscheduled env name =
     andThen (outside (IsPodScheduled env (''app='' @ MonAppName @ '',ceph_daemon_id='' @ name)))
       (\<lambda>r. reading (\<lambda>s.
          if r = Inr False \<and> retriesBeforeNodeDrainFailover s > 0
          then modify (\<lambda>s. s\<lparr>monTimeoutList := del name (monTimeoutList s),
                             retriesBeforeNodeDrainFailover := retriesBeforeNodeDrainFailover s - 1\<rparr>) (ret True)
          else modify (\<lambda>s. s\<lparr>retriesBeforeNodeDrainFailover := 1\<rparr>) (ret False)))"

definition fail_unhealthy :: "'w menv \<Rightarrow> MonStatusResponse \<Rightarrow> int \<Rightarrow> string \<Rightarrow> ('w, verdict) op" where
  "fail_unhealthy env st desired name =
     andThen (failMon env (int (length (Mons st))) desired name) (\<lambda>attempted. ret (if attempted then Return None else GoOn))"

definition check_unhealthy :: "'w menv \<Rightarrow> MonStatusResponse \<Rightarrow> int \<Rightarrow> string \<Rightarrow> ('w, verdict) op" where
  "check_unhealthy env st desired name =
     (if MonOutTimeout env = 0 then ret GoOn
      else modify (\<lambda>s. if name \<in> set (keys (monTimeoutList s)) then s
                       else s\<lparr>monTimeoutList := put name (now env (world s)) (monTimeoutList s)\<rparr>)
        (andThen (shouldFailoverMonImmediately env name)
           (\<lambda>rescheduleImmediately.
              if rescheduleImmediately then fail_unhealthy env st desired name
              else reading (\<lambda>s.
                if \<not> past_timeout env name s then ret GoOn
                else andThen (retry_unscheduled env name)
                       (\<lambda>again. if again then ret (Return None) else fail_unhealthy env st desired name)))))"

definition check_mon :: "'w menv \<Rightarrow> MonStatusResponse \<Rightarrow> int \<Rightarrow> bool \<Rightarrow> MonMapEntry \<Rightarrow> ('w, verdict) op" where
  "check_mon env st desired known mon =
     (let name = MeName mon; inQuorum = monInQuorum mon (Quorum st)
      in if \<not> known \<and> inQuorum \<and> int (length (Quorum st)) > desired
         then anyway (removeMon env name) (ret (Return None))
         else andThen (trackMonInOrOutOfQuorum env name inQuorum)
           (\<lambda>(_, e). case e of
              Some x \<Rightarrow> ret (Return (Some (Wrap ''failed to track out of quorum mon'' x)))
            | None \<Rightarrow>
                if inQuorum then modify (\<lambda>s. s\<lparr>monTimeoutList := del name (monTimeoutList s)\<rparr>) (ret GoOn)
                else check_unhealthy env st desired name))"

text \<open>The loop over the monitor map; \<open>notFound\<close> are the monitors of the cluster that have not come up yet.\<close>

fun check_mons :: "'w menv \<Rightarrow> MonStatusResponse \<Rightarrow> int \<Rightarrow> MonMapEntry list \<Rightarrow> string list \<Rightarrow> ('w, verdict \<times> string list) op" where
  "check_mons env st desired [] notFound s = ((GoOn, notFound), s)"
| "check_mons env st desired (mon # mons) notFound s =
     (case check_mon env st desired (MeName mon \<in> set notFound) mon s of
        (Return e, s1) \<Rightarrow> ((Return e, notFound), s1)
      | (GoOn, s1) \<Rightarrow> check_mons env st desired mons (filter (\<lambda>n. n \<noteq> MeName mon) notFound) s1)"

text \<open>Once the monitors of the map have been seen to. The lists are in the order in which Go ranges over the maps.\<close>

fun first_unexported :: "'w menv \<Rightarrow> string list \<Rightarrow> ('w, string option res) op" where
  "first_unexported env [] s = (Inr None, s)"
| "first_unexported env (n # ns) s =
     (case outside (service_exported (kub env) (resourceName n)) s of
        (Inl e, s1) \<Rightarrow> (Inl (Wrap ''failed to check if the service is already exported'' e), s1)
      | (Inr exported, s1) \<Rightarrow> if \<not> exported then (Inr (Some n), s1) else first_unexported env ns s1)"

definition int_names :: "'w mstate \<Rightarrow> string list" where
  "int_names s = map (MiName \<circ> snd) (Internal s)"

definition failover_listed :: "'w menv \<Rightarrow> int \<Rightarrow> ('w, err option) op" where
  "failover_listed env desired = reading (\<lambda>s.
     case find (\<lambda>n. n \<in> set (keys (monsToFailover s))) (int_names s) of
       None \<Rightarrow> ret None
     | Some n \<Rightarrow> anyway (failMon env (int (length (Internal s))) desired n)
         (modify (\<lambda>s. s\<lparr>monsToFailover := del n (monsToFailover s)\<rparr>) (ret None)))"

definition failover_unexported :: "'w menv \<Rightarrow> int \<Rightarrow> bool \<Rightarrow> ('w, err option) op" where
  "failover_unexported env desired allIn =
     (if \<not> (allIn \<and> MultiClusterService (Network (Spec env))) then failover_listed env desired
      else reading (\<lambda>s. andThen (first_unexported env (int_names s))
        (\<lambda>r. case r of
           Inl e \<Rightarrow> ret (Some e)
         | Inr (Some n) \<Rightarrow> anyway (failMon env (int (length (Internal s))) desired n) (ret None)
         | Inr None \<Rightarrow> failover_listed env desired)))"

definition check_count :: "'w menv \<Rightarrow> MonStatusResponse \<Rightarrow> int \<Rightarrow> bool \<Rightarrow> ('w, err option) op" where
  "check_count env st desired allIn =
     (let n = int (length (Mons st))
      in if n < desired then startMons env desired
         else if allIn \<and> n > desired \<and> \<not> (desired < 2 \<and> n = 2)
         then reading (\<lambda>s. removeMon env (determineExtraMonToRemove (Spec env) (Internal s) (mapping s)))
         else if allIn \<and> n = desired
         then anyway (removeCanaryDeployments env monCanaryLabelSelector)
           (reading (\<lambda>s.
              if needToCheckMonsOnSameNode s
              then modify (\<lambda>s. s\<lparr>needToCheckMonsOnSameNode := False\<rparr>) (evictMonIfMultipleOnSameNode env)
              else failover_unexported env desired allIn))
         else failover_unexported env desired allIn)"

definition after_mons :: "'w menv \<Rightarrow> MonStatusResponse \<Rightarrow> int \<Rightarrow> string list \<Rightarrow> ('w, err option) op" where
  "after_mons env st desired notFound =
     (let allIn = list_all (\<lambda>m. monInQuorum m (Quorum st)) (Mons st)
      in andThen (if allIn then trackMonInOrOutOfQuorum env [] True else ret (False, None))
           (\<lambda>(_, e). case e of
              Some x \<Rightarrow> ret (Some (Wrap ''failed to track all mons in quorum'' x))
            | None \<Rightarrow>
                (case notFound of
                   n # _ \<Rightarrow> reading (\<lambda>s. anyway (failMon env (int (length (Internal s))) desired n) (ret None))
                 | [] \<Rightarrow> check_count env st desired allIn)))"

definition check_status :: "'w menv \<Rightarrow> MonStatusResponse \<Rightarrow> ('w, err option) op" where
  "check_status env st = reading (\<lambda>s.
     andThen (check_mons env st (MonCount (Spec env)) (Mons st) (remdups (int_names s)))
       (\<lambda>(v, notFound). case v of
          Return e \<Rightarrow> ret e
        | GoOn \<Rightarrow> after_mons env st (MonCount (Spec env)) notFound))"

definition check_external :: "'w menv \<Rightarrow> ('w, err option) op" where
  "check_external env =
     attempt_val (outside (quorum_status (cph env))) ''failed to get external mon quorum status''
       (\<lambda>st. attempt (handleExternalMonStatus env st) ''failed to get external mon quorum status''
            (attempt (outside (metrics_endpoint (cph env))) ''failed to configure external metrics endpoint'' (ret None)))"

definition check_managed :: "'w menv \<Rightarrow> ('w, err option) op" where
  "check_managed env =
     andThen (reconcileMonPDB env)
       (\<lambda>(qStatus, _).
          attempt_val (case qStatus of None \<Rightarrow> outside (quorum_status (cph env)) | Some st \<Rightarrow> ret (Inr st)) ''failed to get mon quorum status''
            (\<lambda>st. attempt_val (reconcileExternalMons env st) ''failed to check external mons health'' (check_status env)))"

text \<open>Nothing is checked while a monitor is marked to be left alone.\<close>

definition check_unskipped :: "'w menv \<Rightarrow> ('w, err option) op" where
  "check_unskipped env =
     attempt_val (outside (GetDaemonsToSkipReconcile env ''mon'' MonAppName)) ''failed to check for mons to skip reconcile''
       (\<lambda>skip. if skip \<noteq> {} then ret None
               else if ExternalEnable (Spec env) then check_external env else check_managed env)"

definition checkHealth :: "'w menv \<Rightarrow> ('w, err option) op" where
  "checkHealth env s =
     (case initialized env (world s) of
        Some e \<Rightarrow> (Some (Wrap ''skipping mon health check since cluster details are not initialized'' e), s)
      | None \<Rightarrow>
          if MonCount (Spec env) = 0 \<and> \<not> ExternalEnable (Spec env)
          then (Some (Errorf ''skipping mon health check since there are no monitors''), s)
          else check_unskipped env s)"

end
