(* ===== verification/KubeParts.thy ===== *)
theory KubeParts
  imports Kube Effects Labels
begin

text \<open>
  For the reference environments: a client for one kind of object that acts on its part of the world, where it keeps the
  contract of \<open>Kube\<close>, and the objects a label selector selects.
\<close>

section \<open>Clients on a part of the world\<close>

definition lift_api :: "('w \<Rightarrow> 'v) \<Rightarrow> ('v \<Rightarrow> 'w \<Rightarrow> 'w) \<Rightarrow> ('o, 'v) kube \<Rightarrow> ('o, 'w) kube" where
  "lift_api view upd api =
     \<lparr>kget = \<lambda>k. zoom view upd (kget api k), kcreate = \<lambda>k x. zoom view upd (kcreate api k x),
      kupdate = \<lambda>k x. zoom view upd (kupdate api k x), kdelete = \<lambda>k. zoom view upd (kdelete api k)\<rparr>"

lemma zoomD: "zoom view upd m w = (r, w') \<Longrightarrow> (\<And>v w. view (upd v w) = v) \<Longrightarrow> m (view w) = (r, view w')"
  by (auto simp: zoom_def split: prod.splits)

lemma lifted_api:
  fixes api :: "('o, 'v) kube" and view :: "'w \<Rightarrow> 'v"
  assumes a: "kube_api api store" and l: "\<And>v w. view (upd v w) = v"
  shows "kube_api (lift_api view upd api) (\<lambda>w. store (view w))"
proof -
  let ?api = "lift_api view upd api"
  have g: "kget ?api k w = (r, w') \<Longrightarrow> kget api k (view w) = (r, view w')"
    and c: "kcreate ?api k x w = (e, w') \<Longrightarrow> kcreate api k x (view w) = (e, view w')"
    and u: "kupdate ?api k x w = (e, w') \<Longrightarrow> kupdate api k x (view w) = (e, view w')"
    and d: "kdelete ?api k w = (e, w') \<Longrightarrow> kdelete api k (view w) = (e, view w')" for k x w w' r e
    using zoomD [where view = view and upd = upd] l by (auto simp: lift_api_def)
  show ?thesis
    by (rule kube_api.intro)
      (metis g kube_api.get_frame [OF a], metis g kube_api.get_ok [OF a], metis g kube_api.get_not_found [OF a],
       metis c kube_api.create_ok [OF a], metis c kube_api.create_exists [OF a], metis c kube_api.create_err [OF a],
       metis u kube_api.update_ok [OF a], metis u kube_api.update_err [OF a],
       metis d kube_api.delete_ok [OF a], metis d kube_api.delete_not_found [OF a], metis d kube_api.delete_err [OF a])
qed

section \<open>Selectors\<close>

definition selects :: "string \<Rightarrow> string gomap \<Rightarrow> bool" where
  "selects sel labels \<longleftrightarrow> list_all (\<lambda>(k, v). case map_of labels k of None \<Rightarrow> False | Some x \<Rightarrow> v = [] \<or> x = v) (ParseStringToLabels sel)"

end
