(* ===== verification/MonWorld.thy ===== *)
theory MonWorld
  imports MonHealth KubeParts
begin

text \<open>
  A reference environment for the monitor cluster, on which its operations run: the objects of each kind are kept by the
  reference server of \<open>Kube\<close>, every deployment has one running pod while it is scaled up, and Ceph sees the
  monitors whose deployments exist, in quorum while they are scaled up.
\<close>

section \<open>The reference world\<close>

record ref_world =
  rMaps :: "ConfigMap server"
  rSlices :: "EndpointSlice server"
  rDeps :: "MonDeployment server"
  rSvcs :: "string server"
  rClaims :: "unit server"
  rBudget :: "int option"
  rClock :: int

definition ref_deps :: "string \<Rightarrow> ref_world \<Rightarrow> (string \<times> MonDeployment) list" where
  "ref_deps sel w = filter (\<lambda>(_, d). selects sel (DepLabels d)) (map (\<lambda>((_, n), d). (n, d)) (objs (rDeps w)))"

definition ref_pods :: "string \<Rightarrow> ref_world \<Rightarrow> MonPod list" where
  "ref_pods sel w =
     map (\<lambda>(n, d). \<lparr>PodName = n, PodPhase = ''Running'', PodNode = ''node-'' @ n, PodMon = mget (map_of (TemplateLabels d)) ''mon'',
                    PodCanary = (''mon_canary'' \<in> set (keys (TemplateLabels d)))\<rparr>)
       (filter (\<lambda>(_, d). selects sel (TemplateLabels d) \<and> Replicas d > 0) (map (\<lambda>((_, n), d). (n, d)) (objs (rDeps w))))"

definition ref_status :: "ref_world \<Rightarrow> MonStatusResponse" where
  "ref_status w =
     (let ds = filter (\<lambda>(_, d). ''mon_canary'' \<notin> set (keys (DepLabels d))) (map (\<lambda>((_, n), d). (n, d)) (objs (rDeps w)));
          ranked = zip (map int [0..<length ds]) (map snd ds)
      in \<lparr>Quorum = map fst (filter (\<lambda>(_, d). Replicas d > 0) ranked),
          Mons = map (\<lambda>(r, d). \<lparr>MeName = mget (map_of (DepLabels d)) ''mon'', Rank = r, PublicAddr = ''10.0.0.1:6789/0''\<rparr>) ranked\<rparr>)"

definition ref_kube :: "ref_world kube_env" where
  "ref_kube =
     \<lparr>cms = lift_api rMaps (\<lambda>v w. w\<lparr>rMaps := v\<rparr>) server_api, slices = lift_api rSlices (\<lambda>v w. w\<lparr>rSlices := v\<rparr>) server_api,
      deps = lift_api rDeps (\<lambda>v w. w\<lparr>rDeps := v\<rparr>) server_api, svcs = lift_api rSvcs (\<lambda>v w. w\<lparr>rSvcs := v\<rparr>) server_api,
      claims = lift_api rClaims (\<lambda>v w. w\<lparr>rClaims := v\<rparr>) server_api,
      list_deps = \<lambda>sel w. (Inr (ref_deps sel w), w), list_pods = \<lambda>sel w. (Inr (ref_pods sel w), w),
      list_claims = \<lambda>w. (Inr (map (snd \<circ> fst) (objs (rClaims w))), w),
      get_node = \<lambda>n w. (Inr \<lparr>NodeName = n, NodeLabels = [''kubernetes.io/hostname'' \<mapsto> n], NodeAnnotations = Map.empty,
                              NodeAddresses = [(''InternalIP'', ''10.0.0.9'')]\<rparr>, w),
      count_nodes = \<lambda>sel w. (Inr 1, w),
      pdb_get = \<lambda>w. (case rBudget w of None \<Rightarrow> Inl (Api NotFound) | Some n \<Rightarrow> Inr n, w),
      pdb_apply = \<lambda>n w. (None, w\<lparr>rBudget := Some n\<rparr>),
      apply_service = \<lambda>m ip. (\<lambda>w. (Inr ''10.0.1.1'', w)),
      export_service = \<lambda>n w. (Inr ''10.0.2.1'', w), service_exported = \<lambda>n w. (Inr True, w),
      update_and_wait = \<lambda>n d w. (None, w), expand_claim = \<lambda>n w. (None, w)\<rparr>"

definition ref_ceph :: "ref_world ceph_env" where
  "ref_ceph =
     \<lparr>quorum_status = \<lambda>w. (Inr (ref_status w), w), mon_remove = \<lambda>n w. (None, w),
      mon_dump = \<lambda>w. (Inr \<lparr>StretchMode = False, TiebreakerMon = []\<rparr>, w), mon_versions = \<lambda>w. (Inr 1, w),
      election_strategy = ret None, stretch_rule = \<lambda>_. ret None, new_tiebreaker = \<lambda>_. ret None, set_tiebreaker = \<lambda>_ _. ret None,
      crush_buckets = ret (Inr []), mgr_pool = ret None, default_configs = ret None, network_settings = ret None,
      external_version = ret None, metrics_endpoint = ret None, write_files = ret None, global_config = ret None,
      csi_connection = ret None, csi_profile = ret None, peer_secret = ret None\<rparr>"

definition ref_env :: "ref_world menv" where
  "ref_env =
     \<lparr>Spec = ref_spec, Ns = ''rook-ceph'', PlacementOf = Map.empty, LabelEnv = [], CephVer = Squid, OpenShift = False,
      MonOutTimeout = 600, csi_print = \<lambda>_. ''[]'', owner_err = None, kub = ref_kube, cph = ref_ceph,
      initialized = \<lambda>_. None, ctx_err = \<lambda>_. None, now = rClock, pause = \<lambda>n w. w\<lparr>rClock := rClock w + n\<rparr>,
      LabelsOf = Map.empty, RookVersion = ''v1.18.0'', OperatorNs = ''rook-ceph'', ClusterName = ''rook-ceph'', TolerationEnv = [],
      multus_err = None, affinity_json = \<lambda>_. Inl (Errorf ''not an affinity''), qualified_name = \<lambda>_. True, label_value = \<lambda>_. True,
      make_floating = \<lambda>_. ret (Inl (Errorf ''no floating mon'')),
      poll = \<lambda>cond w. (case cond w of (Inr True, w') \<Rightarrow> (None, w') | (_, w') \<Rightarrow> (Some (Errorf ''timed out''), w')),
      raced = \<lambda>_. False\<rparr>"

definition ref_empty :: ref_world where
  "ref_empty = \<lparr>rMaps = \<lparr>objs = [], faults = []\<rparr>, rSlices = \<lparr>objs = [], faults = []\<rparr>, rDeps = \<lparr>objs = [], faults = []\<rparr>,
     rSvcs = \<lparr>objs = [], faults = []\<rparr>, rClaims = \<lparr>objs = [], faults = []\<rparr>, rBudget = None, rClock = 0\<rparr>"

definition ref_new :: "ref_world mstate" where
  "ref_new = \<lparr>Internal = [], External = [], maxMonID = -1, mapping = [], monTimeoutList = [], monsToFailover = [], arbiterMon = [],
     isUpgrade = False, waitForStart = True, monKeySecretResourceVersion = [], retriesBeforeNodeDrainFailover = 1,
     needToCheckMonsOnSameNode = True, world = ref_empty\<rparr>"

definition ref_state :: "ref_world mstate" where
  "ref_state = ref_new\<lparr>Internal := map (\<lambda>n. (n, NewMonInfo n ''10.0.0.1'' 6789)) [''a'', ''b'', ''c''],
     mapping := map (\<lambda>n. (n, None)) [''a'', ''b'', ''c''], maxMonID := 2\<rparr>"

end
