(* ===== verification/MonSafety.thy ===== *)
theory MonSafety
  imports MonWorld
begin

text \<open>
  What the operations on the monitors leave alone, and what follows for failovers and health checks: a failover either
  replaces the one monitor by a fresh one or leaves the monitors, their mapping and the highest identifier as they were, a health check
  loses at most one monitor, and a monitor is failed over when, and only when, its time is up or its node is gone.
\<close>

section \<open>Frames\<close>

named_theorems quiet \<open>operations that do not touch what the operator remembers of the monitors\<close>

definition memory :: "'w mstate \<Rightarrow> MonInfo gomap \<times> MonInfo gomap \<times> int \<times> Schedule \<times> int gomap" where
  "memory s = (Internal s, External s, maxMonID s, mapping s, monTimeoutList s)"

lemma quiet_outside [quiet]: "along (same memory) (outside m)"
  unfolding outside_def by (rule unchanged.along_zoom) (simp add: same_def memory_def)

lemma quiet_forget [quiet]: "along (same memory) m \<Longrightarrow> along (same memory) (forget m)"
  unfolding forget_def by (intro unchanged.along_rules)

lemma quiet_modify [quiet]: "(\<And>s. memory (f s) = memory s) \<Longrightarrow> along (same memory) k \<Longrightarrow> along (same memory) (modify f k)"
  by (rule unchanged.along_modify) (simp_all add: same_def)

lemma quietI: "(\<And>s. memory (snd (m s)) = memory s) \<Longrightarrow> along (same memory) m"
  by (simp add: along_def same_def)

lemma quietD: "along (same memory) m \<Longrightarrow> memory (snd (m s)) = memory s"
  by (simp add: along_def same_def)

lemmas memory_outside [simp] = quietD [OF quiet_outside]

lemma memory_world [simp]: "memory (s\<lparr>world := w\<rparr>) = memory s"
  by (simp add: memory_def)

lemma running_quiet [quiet]: "along (same memory) (running_mons env mons)"
proof (rule quietI)
  show "memory (snd (running_mons env mons s)) = memory s" for s
    by (induction mons arbitrary: s) (simp_all add: Let_def split_beta split: sum.split)
qed

lemma pass_quiet [quiet]: "along (same memory) (quorum_pass env mons req)"
  by (rule quietI) (simp add: quorum_pass_def split_beta quietD [OF running_quiet] split: sum.split)

lemma wait_quiet [quiet]: "along (same memory) (wait_passes n env mons t req)"
proof (rule quietI)
  show "memory (snd (wait_passes n env mons t req s)) = memory s" for s
  proof (induction n arbitrary: s)
    case 0 show ?case by (subst wait_passes.simps) (simp split: option.split)
  next
    case (Suc n)
    show ?case
      by (subst wait_passes.simps) (simp add: Suc quietD [OF pass_quiet] split_beta Let_def split: option.split bool.split)
  qed
qed

lemmas quiet_rules = unchanged.along_prod unchanged.along_ret unchanged.along_andThen unchanged.along_attempt unchanged.along_attempt_val
  unchanged.along_anyway unchanged.along_reading unchanged.along_each unchanged.along_if unchanged.along_option unchanged.along_sum

lemma waitForMonsToJoin_quiet [quiet]: "along (same memory) (waitForMonsToJoin env mons req)"
proof -
  have "along (same memory) (attempt (waitForQuorumWithMons env (map DaemonName mons) 5 req) ''failed to wait for mon quorum'' (ret None))"
    unfolding waitForQuorumWithMons_def by (intro quiet_rules quiet)
  from quietD [OF this] show ?thesis by (intro quietI) (simp add: waitForMonsToJoin_def)
qed

lemma createEndpointSlice_quiet [quiet]: "along (same memory) (createEndpointSliceForAddresses env addrs ty)"
  unfolding createEndpointSliceForAddresses_def Let_def by (intro quiet_rules quiet)

lemma saveMonConfig_quiet [quiet]:
  "along (same memory) (persistExpectedMonDaemons env)" "along (same memory) (saveMonConfig env)"
  unfolding saveMonConfig_def persistExpectedMonDaemons_def persistExpectedMonDaemonsAsEndpointSlice_def persist_map_def Let_def
  by (intro quiet_rules quiet)+

lemma removeMonResources_quiet [quiet]: "along (same memory) (removeMonResources env name)"
  unfolding removeMonResources_def Let_def by (intro quiet_rules quiet)

lemma removeOrphan_quiet [quiet]: "along (same memory) (removeOrphanMonResources env)"
  unfolding removeOrphanMonResources_def remove_if_orphan_def by (intro quiet_rules quiet)

lemma reconcileMonPDB_quiet [quiet]: "along (same memory) (reconcileMonPDB env)"
  unfolding reconcileMonPDB_def getExistingMaxUnavailable_def createOrUpdateMonPDB_def Let_def by (intro quiet_rules quiet)

lemma updateReplica_quiet [quiet]: "along (same memory) (updateMonDeploymentReplica env name on)"
  unfolding updateMonDeploymentReplica_def by (intro quiet_rules quiet)

lemma removeCanary_quiet [quiet]: "along (same memory) (removeCanaryDeployments env sel)"
  unfolding removeCanaryDeployments_def by (intro quiet_rules quiet)

lemma service_ip_quiet [quiet]: "along (same memory) (service_ip env m keep)"
  unfolding service_ip_def createService_def exportService_def by (intro quiet_rules quiet)

lemma makeDeployment_quiet [quiet]: "along (same memory) (makeDeployment env m canary)"
  by (rule quietI) (simp add: makeDeployment_def memory_def split: option.split)

lemma updateMon_quiet [quiet]: "along (same memory) (updateMon env m d)"
  unfolding updateMon_def Let_def by (intro quiet_rules quiet)

lemma create_claim_quiet [quiet]: "along (same memory) (create_claim env m)"
  unfolding create_claim_def by (intro quiet_rules quiet)

lemma storage_quiet [quiet]: "along (same memory) (configureDefaultMonStorage env m d schedule existing)"
  unfolding configureDefaultMonStorage_def Let_def by (intro quiet_rules quiet) (simp_all add: memory_def)

lemma create_mon_quiet [quiet]: "along (same memory) (create_mon env m d)"
  unfolding create_mon_def by (intro quiet_rules quiet)

lemma startMon_quiet [quiet]: "along (same memory) (startMon env m schedule)"
  unfolding startMon_def Let_def by (intro quiet_rules quiet)

lemma start_each_quiet [quiet]: "along (same memory) (start_each env mons once skip rest)"
proof (rule quietI)
  show "memory (snd (start_each env mons once skip rest s)) = memory s" for s once
  proof (induction rest arbitrary: s once)
    case (Cons m rest)
    define sch where "sch = (case map_of (mapping s) (DaemonName m) of None \<Rightarrow> None | Some x \<Rightarrow> x)"
    obtain e s1 where st: "startMon env m sch s = (e, s1)" by force
    obtain e2 s2 where w: "waitForMonsToJoin env mons False s1 = (e2, s2)" by force
    have "memory s1 = memory s" "memory s2 = memory s1"
      using quietD [OF startMon_quiet, of env m sch s] quietD [OF waitForMonsToJoin_quiet, of env mons False s1] st w by simp_all
    then show ?case by (simp add: sch_def [symmetric] st w Cons split: option.split)
  qed simp
qed

lemma startDeployments_quiet [quiet]: "along (same memory) (startDeployments env mons req skip)"
  unfolding startDeployments_def checkForExtraMonResources_def Let_def by (intro quiet_rules quiet)

lemma ConfigureArbiter_quiet [quiet]: "along (same memory) (ConfigureArbiter env)"
  unfolding ConfigureArbiter_def enter_stretch_mode_def by (intro quiet_rules quiet)

lemma finish_start_quiet [quiet]: "along (same memory) (finish_start env)"
  unfolding finish_start_def configureStretchCluster_def by (intro quiet_rules quiet)

lemma create_canary_quiet [quiet]: "along (same memory) (create_canary n env name d)"
proof (rule quietI)
  show "memory (snd (create_canary n env name d s)) = memory s" for s
    by (induction n arbitrary: s) (simp_all add: split_beta split: option.split)
qed

lemma scheduleMonitor_quiet [quiet]: "along (same memory) (scheduleMonitor env m)"
  unfolding scheduleMonitor_def Let_def by (intro quiet_rules quiet)

lemma wait_scheduled_quiet [quiet]: "along (same memory) (wait_scheduled n first env m)"
proof (rule quietI)
  show "memory (snd (wait_scheduled n first env m s)) = memory s" for s
    by (induction n arbitrary: s first) (simp_all add: split_beta Let_def split: option.split sum.split list.split)
qed

lemma start_canaries_quiet [quiet]: "along (same memory) (start_canaries env skip mons started)"
proof (rule quietI)
  show "memory (snd (start_canaries env skip mons started s)) = memory s" for s
    by (induction mons arbitrary: s started)
      (simp_all add: split_beta quietD [OF scheduleMonitor_quiet] split: option.split)
qed

text \<open>Assigning monitors to nodes only adds their entries to the mapping.\<close>

definition placing :: "(MonInfo gomap \<times> MonInfo gomap \<times> int \<times> Schedule \<times> int gomap \<Rightarrow> 'v) \<Rightarrow> monConfig list \<Rightarrow> bool" where
  "placing g mons \<longleftrightarrow> (\<forall>m\<in>set mons. \<forall>i e x p t v. g (i, e, x, put (DaemonName m) v p, t) = g (i, e, x, p, t))"

lemma same_memory: "along (same memory) m \<Longrightarrow> along (same (\<lambda>s. g (memory s))) m"
  by (simp add: along_def same_def)

lemma await_canary_along: "placing g [m] \<Longrightarrow> along (same (\<lambda>s. g (memory s))) (await_canary env m)"
  unfolding await_canary_def realWaitForMonitorScheduling_def
  by (intro unchanged.along_rules same_memory [OF wait_scheduled_quiet]) (simp add: placing_def same_def memory_def)

lemma await_canaries_along: "placing g mons \<Longrightarrow> along (same (\<lambda>s. g (memory s))) (await_canaries env mons)"
proof -
  have "g (memory (snd (await_canaries env mons s))) = g (memory s)" if "placing g mons" for s
    using that
  proof (induction mons arbitrary: s)
    case (Cons m mons)
    then have "along (same (\<lambda>s. g (memory s))) (await_canary env m)" by (intro await_canary_along) (simp add: placing_def)
    then have "g (memory (snd (await_canary env m s))) = g (memory s)" by (simp add: along_def same_def)
    then show ?case using Cons by (simp add: split_beta placing_def)
  qed simp
  then show "placing g mons \<Longrightarrow> ?thesis" by (simp add: along_def same_def)
qed

lemma started_subset: "set (snd (fst (start_canaries env skip mons started s))) \<subseteq> set started \<union> set mons"
proof (induction mons arbitrary: s started)
  case (Cons m mons)
  have "set (snd (fst (start_canaries env skip mons started s'))) \<subseteq> insert m (set started \<union> set mons)"
    "set (snd (fst (start_canaries env skip mons (started @ [m]) s'))) \<subseteq> insert m (set started \<union> set mons)" for s'
    using Cons [of started s'] Cons [of "started @ [m]" s'] by auto
  then show ?case by (simp add: split_beta subset_insertI2 split: option.split)
qed simp

lemma assignMons_along:
  assumes "placing g mons" shows "along (same (\<lambda>s. g (memory s))) (assignMons env mons skip)"
proof -
  have "g (memory (snd (assignMons env mons skip s))) = g (memory s)" for s
  proof -
    obtain e started s1 where st: "start_canaries env skip mons [] s = ((e, started), s1)" by (metis prod.exhaust)
    have m1: "memory s1 = memory s" using quietD [OF start_canaries_quiet, of env skip mons "[]" s] st by simp
    define ws where "ws = (if e = None then started else filter (\<lambda>m. raced env (DaemonName m)) started)"
    have "set started \<subseteq> set mons" using started_subset [of env skip mons "[]" s] st by simp
    then have "placing g ws" using assms by (auto simp: placing_def ws_def)
    from await_canaries_along [OF this, of env] have m2: "g (memory (snd (await_canaries env ws s1))) = g (memory s1)"
      by (simp add: along_def same_def)
    show ?thesis
      using m1 m2 by (cases e) (simp_all add: assignMons_def andThen_def anyway_def ret_def st ws_def split_beta quietD [OF removeCanary_quiet])
  qed
  then show ?thesis by (simp add: along_def same_def)
qed

section \<open>Failover\<close>

lemma del_put [simp]: "del k (put k v m) = del k m"
  by (induction k v m rule: put.induct) (auto simp: del_def)

lemma del_notin: "k \<notin> set (keys m) \<Longrightarrow> del k m = m"
  unfolding del_def keys_def by (rule filter_True) force

lemma IndexToName_loop_not_Nil: "IndexToName_loop i r \<noteq> []"
  by (induction i r rule: IndexToName_loop.induct) (subst IndexToName_loop.simps, simp add: Let_def)

lemma IndexToName_not_Nil: "IndexToName i \<noteq> []"
  by (simp add: IndexToName_def IndexToName_loop_not_Nil)

text \<open>What is remembered of the other monitors when the one named \<open>n\<close> is left out.\<close>

definition without :: "string \<Rightarrow> MonInfo gomap \<times> MonInfo gomap \<times> int \<times> Schedule \<times> int gomap \<Rightarrow> MonInfo gomap \<times> MonInfo gomap \<times> int \<times> Schedule \<times> int gomap" where
  "without n mem = (case mem of (i, e, x, p, t) \<Rightarrow> (del n i, e, x, del n p, t))"

lemma failover_ip_quiet [quiet]: "along (same memory) (failover_ip env m)"
  by (rule quietI) (simp add: failover_ip_def split_beta quietD [OF service_ip_quiet] split: option.split sum.split)

lemma failover_ip_name: "failover_ip env m s = (Inr m', s') \<Longrightarrow> DaemonName m' = DaemonName m"
  by (auto simp: failover_ip_def split: if_splits option.splits prod.splits sum.splits)

lemma start_replacement_quiet [quiet]: "along (same memory) (start_replacement env m)"
  unfolding start_replacement_def by (intro quiet_rules quiet)

lemma launch_cases:
  assumes "launch_mon env m s = ((e, might), s')"
  shows "without (DaemonName m) (memory s') = without (DaemonName m) (memory s) \<and>
    (e = None \<longrightarrow> (\<exists>ip port. Internal s' = put (DaemonName m) (NewMonInfo (DaemonName m) ip port) (Internal s)))"
proof -
  let ?n = "DaemonName m" and ?same = "same (\<lambda>s. without (DaemonName m) (memory s))"
  obtain e1 s1 where a: "assignMons env [m] {} s = (e1, s1)" by force
  have "along (same (\<lambda>s. (\<lambda>(i, e, x, p, t). (i, e, x, del ?n p, t)) (memory s))) (assignMons env [m] {})"
    by (rule assignMons_along) (simp add: placing_def)
  then have m1: "Internal s1 = Internal s" "without ?n (memory s1) = without ?n (memory s)"
    using a by (auto simp: along_def same_def memory_def without_def dest: spec [of _ s])
  show ?thesis
  proof (cases e1)
    case (Some x)
    then show ?thesis using assms a m1 by (auto simp: launch_mon_def effects)
  next
    case None
    obtain r s2 where f: "failover_ip env m s1 = (r, s2)" by force
    have m2: "memory s2 = memory s1" using quietD [OF failover_ip_quiet, of env m s1] f by simp
    show ?thesis
    proof (cases r)
      case (Inl x)
      then show ?thesis using assms a f None m1 m2 by (auto simp: launch_mon_def effects)
    next
      case (Inr m')
      have n: "DaemonName m' = ?n" using failover_ip_name f Inr by blast
      have r: "start_replacement env m' (know_mon m' s2) = ((e, might), s')"
        using assms by (simp add: launch_mon_def effects a f None Inr)
      have "memory s' = memory (know_mon m' s2)" using quietD [OF start_replacement_quiet, of env m' "know_mon m' s2"] r by simp
      then show ?thesis using m1 m2 n by (auto simp: know_mon_def memory_def without_def)
    qed
  qed
qed

lemma memory_forget: "memory (forget_mon n s) = without n (memory s)"
  by (simp add: forget_mon_def memory_def without_def)

lemma remove_memory:
  assumes "n \<noteq> []" shows "memory (snd (removeMonWithOptionalQuorum env n q s)) = without n (memory s)"
proof -
  define clean where "clean = attempt (saveMonConfig env) ''failed to save mon config after failing over mon''
    (attempt (outside (peer_secret (cph env))) ''failed to update cluster rbd bootstrap peer token''
    (anyway (removeMonResources env n) (ret None)))"
  have c: "along (same memory) clean" unfolding clean_def by (intro quiet_rules quiet)
  have q: "along (same memory) (if q then removeMonitorFromQuorum env n else ret None)"
    unfolding removeMonitorFromQuorum_def by (intro quiet_rules quiet)
  have "removeMonWithOptionalQuorum env n q =
      anyway (if q then removeMonitorFromQuorum env n else ret None) (modify (forget_mon n) clean)"
    using assms unfolding removeMonWithOptionalQuorum_def clean_def by (rule if_not_P)
  then have "snd (removeMonWithOptionalQuorum env n q s) =
      snd (clean (forget_mon n (snd ((if q then removeMonitorFromQuorum env n else ret None) s))))"
    by (simp add: anyway_def andThen_def modify_def split_beta)
  then show ?thesis using quietD [OF q, of s] by (simp add: quietD [OF c] memory_forget)
qed

lemma revert_memory:
  assumes "DaemonName m \<noteq> []"
  shows "memory (snd (revert_failover env name m might s)) = without (DaemonName m) (memory s)"
  using remove_memory [OF assms, of env might]
  by (simp add: revert_failover_def anyway_def andThen_def ret_def reading_def split_beta quietD [OF updateReplica_quiet])

lemma newMonConfig_name: "DaemonName (newMonConfig c i zone) = IndexToName i"
  by (simp add: newMonConfig_def Let_def)

lemma removeMon_memory: "memory (snd (removeMon env n s)) = (if n = [] then memory s else without n (memory s))"
  using remove_memory [of n env True s] by (simp add: removeMon_def) (simp add: removeMonWithOptionalQuorum_def ret_def)

text \<open>A failover replaces the monitor or takes the new one back.\<close>

lemma failover_memory:
  assumes f: "failoverMon env name s = (e, s')" and n: "n = IndexToName (s64 (maxMonID s + 1))"
  shows "e \<noteq> None \<and> (memory s' = memory s \<or> memory s' = without n (memory s)) \<or>
    (\<exists>mem ip port p. memory s' = (if name = [] then mem else without name mem) \<and> del n p = del n (mapping s) \<and>
       mem = (put n (NewMonInfo n ip port) (Internal s), External s, s64 (maxMonID s + 1), p, monTimeoutList s))"
proof (cases "findAvailableZone (Spec env) (clusterInfoToMonConfigWithExclude (Internal s) (mapping s) name)")
  case (Inl x)
  then show ?thesis using f by (auto simp: failoverMon_def)
next
  case (Inr zone)
  define m where "m = newMonConfig (Spec env) (s64 (maxMonID s + 1)) zone"
  have nm: "DaemonName m = n" by (simp add: m_def newMonConfig_name n)
  define st where "st = (if stopMonDuringFailover env s name then updateMonDeploymentReplica env name False else ret None)"
  have "along (same memory) st" unfolding st_def by (intro quiet_rules quiet)
  then have m1: "memory (snd (st s)) = memory s" by (rule quietD)
  obtain e2 might s2 where l: "launch_mon env m (snd (st s)) = ((e2, might), s2)" by (metis prod.exhaust)
  from launch_cases [OF l] m1 have w: "without n (memory s2) = without n (memory s)"
    and i2: "e2 = None \<Longrightarrow> \<exists>ip port. Internal s2 = put n (NewMonInfo n ip port) (Internal s)"
    by (auto simp: nm memory_def)
  have r: "(e, s') = (case e2 of Some x \<Rightarrow> anyway (revert_failover env name m might) (ret (Some x)) s2
      | None \<Rightarrow> removeMon env name (s2\<lparr>maxMonID := s64 (maxMonID s2 + 1)\<rparr>))"
    using f l by (simp add: failoverMon_def Inr m_def [symmetric] st_def [symmetric] Let_def anyway_def andThen_def modify_def split_beta split: option.splits)
  show ?thesis
  proof (cases e2)
    case (Some x)
    have "DaemonName m \<noteq> []" by (simp add: nm n IndexToName_not_Nil)
    from revert_memory [OF this, of env name might s2] r Some show ?thesis
      by (simp add: anyway_def andThen_def ret_def split_beta w nm)
  next
    case None
    let ?t = "s2\<lparr>maxMonID := s64 (maxMonID s2 + 1)\<rparr>"
    from i2 [OF None] obtain ip port where i: "Internal s2 = put n (NewMonInfo n ip port) (Internal s)" by blast
    have "memory s' = (if name = [] then memory ?t else without name (memory ?t))"
      using r None removeMon_memory [of env name ?t] by (metis option.case(1) snd_conv)
    moreover have "maxMonID s2 = maxMonID s" "External s2 = External s" "monTimeoutList s2 = monTimeoutList s" "del n (mapping s2) = del n (mapping s)"
      using w by (simp_all add: without_def memory_def)
    then have "del n (mapping s2) = del n (mapping s)"
      "memory ?t = (put n (NewMonInfo n ip port) (Internal s), External s, s64 (maxMonID s + 1), mapping s2, monTimeoutList s)"
      using i by (simp_all add: memory_def)
    ultimately show ?thesis by blast
  qed
qed

lemma failover_cases:
  assumes f: "failoverMon env name s = (e, s')" and "name \<noteq> []"
    and n: "n = IndexToName (s64 (maxMonID s + 1))" "n \<notin> set (keys (Internal s))" "n \<notin> set (keys (mapping s))"
  shows "e \<noteq> None \<and> memory s' = memory s \<or>
    (\<exists>ip port p. memory s' = (del name (Internal s @ [(n, NewMonInfo n ip port)]), External s, s64 (maxMonID s + 1), del name p, monTimeoutList s)
       \<and> del n p = mapping s)"
proof -
  have w: "without n (memory s) = memory s" "del n (mapping s) = mapping s" using n by (simp_all add: without_def memory_def del_notin)
  from failover_memory [OF f n(1)] w consider "e \<noteq> None" "memory s' = memory s"
    | mem ip port p where "memory s' = without name mem" "del n p = mapping s"
      "mem = (put n (NewMonInfo n ip port) (Internal s), External s, s64 (maxMonID s + 1), p, monTimeoutList s)"
    using assms(2) by metis
  then show ?thesis by cases (use n(2) in \<open>auto simp: put_notin without_def\<close>)
qed

section \<open>Names that are accounted for\<close>

definition accounted :: "int \<Rightarrow> string \<Rightarrow> bool" where
  "accounted i k \<longleftrightarrow> (case fullNameToIndex k of Inl _ \<Rightarrow> True | Inr j \<Rightarrow> j \<le> i)"

text \<open>The highest identifier covers the monitors and the entries of the mapping.\<close>

definition mons_ok :: "'w mstate \<Rightarrow> bool" where
  "mons_ok s \<longleftrightarrow> known_mons (Internal s) (maxMonID s) \<and> list_all (accounted (maxMonID s)) (keys (mapping s)) \<and> -1 \<le> maxMonID s"

lemma known_mons_alt:
  "known_mons internal i \<longleftrightarrow> wf_map internal \<and> list_all (\<lambda>(k, m). k = MiName m \<and> k \<noteq> []) internal \<and> list_all (accounted i) (keys internal)"
  by (auto simp: known_mons_def accounted_def keys_def list_all_iff)

lemma accounted_mono: "accounted i k \<Longrightarrow> i \<le> j \<Longrightarrow> accounted j k"
  by (auto simp: accounted_def split: sum.splits)

lemma accounted_new: "index_ok j \<Longrightarrow> accounted i (IndexToName j) \<longleftrightarrow> j \<le> i"
  by (simp add: accounted_def fullNameToIndex_plain)

lemma list_accounted_mono: "list_all (accounted i) ks \<Longrightarrow> i \<le> j \<Longrightarrow> list_all (accounted j) ks"
  by (auto simp: list_all_iff intro: accounted_mono)

lemma next_fresh:
  assumes "mons_ok s" "maxMonID s + 1 < 2 ^ 63 - 1"
  defines "n \<equiv> IndexToName (s64 (maxMonID s + 1))"
  shows "s64 (maxMonID s + 1) = maxMonID s + 1" "n \<notin> set (keys (Internal s))" "n \<notin> set (keys (mapping s))" "accounted (maxMonID s + 1) n"
proof -
  show i: "s64 (maxMonID s + 1) = maxMonID s + 1" using assms(1,2) by (simp add: int64_ok_def mons_ok_def)
  have x: "index_ok (maxMonID s + 1)" using assms(1,2) by (simp add: index_ok_def mons_ok_def)
  then have "\<not> accounted (maxMonID s) n" and "accounted (maxMonID s + 1) n" by (simp_all add: n_def i accounted_new)
  then show "n \<notin> set (keys (Internal s))" "n \<notin> set (keys (mapping s))" "accounted (maxMonID s + 1) n"
    using assms(1) by (auto simp: mons_ok_def known_mons_alt list_all_iff)
qed

lemma keys_append [simp]: "keys (a @ b) = keys a @ keys b" by (simp add: keys_def)
lemma keys_single [simp]: "keys [(k, v)] = [k]" by (simp add: keys_def)
lemma keys_del: "keys (del k m) = filter (\<lambda>x. x \<noteq> k) (keys m)"
  by (induction m) (auto simp: del_def keys_def)

lemma added_ok:
  assumes "mons_ok s" "n \<notin> set (keys (Internal s))" "accounted (maxMonID s + 1) n" "n \<noteq> []" "MiName info = n"
    and t: "Internal t = Internal s @ [(n, info)]" "maxMonID t = maxMonID s + 1" "del n (mapping t) = mapping s"
  shows "mons_ok t"
proof -
  have "accounted (maxMonID s + 1) k" if "k \<in> set (keys (Internal s)) \<or> k \<in> set (keys (mapping s))" for k
    using that assms(1) accounted_mono [of "maxMonID s" k "maxMonID s + 1"] by (auto simp: mons_ok_def known_mons_alt list_all_iff)
  moreover have "set (keys (mapping t)) \<subseteq> insert n (set (keys (mapping s)))" using t(3) by (metis set_keys_del Diff_subset_conv insert_is_Un order_refl)
  ultimately have "list_all (accounted (maxMonID t)) (keys (mapping t))" "list_all (accounted (maxMonID t)) (keys (Internal t))"
    using assms(3) t by (auto simp: list_all_iff)
  moreover have "wf_map (Internal t)" using assms(1,2) by (auto simp: t mons_ok_def known_mons_def wf_map_def)
  moreover have "list_all (\<lambda>(k, m). k = MiName m \<and> k \<noteq> []) (Internal t)"
    using assms(1,4,5) by (auto simp: t mons_ok_def known_mons_alt)
  ultimately show ?thesis using assms(1) t(2) by (simp add: mons_ok_def known_mons_alt)
qed

lemma list_all_del: "list_all P m \<Longrightarrow> list_all P (del k m)"
  by (auto simp: del_def list_all_iff)

lemma list_all_keys_del: "list_all P (keys m) \<Longrightarrow> list_all P (keys (del k m))"
  by (simp add: list_all_iff)

lemma without_ok: "mons_ok s \<Longrightarrow> memory t = without n (memory s) \<Longrightarrow> mons_ok t"
  by (simp add: mons_ok_def known_mons_alt memory_def without_def list_all_del list_all_keys_del)

lemma memory_ok: "memory s = memory t \<Longrightarrow> mons_ok s \<longleftrightarrow> mons_ok t"
  by (simp add: mons_ok_def memory_def)

lemma failover_ok:
  assumes "mons_ok s" "maxMonID s + 1 < 2 ^ 63 - 1" and f: "failoverMon env name s = (e, s')"
  shows "mons_ok s'"
proof -
  note n = next_fresh [OF assms(1,2)]
  let ?n = "IndexToName (s64 (maxMonID s + 1))"
  have w: "without ?n (memory s) = memory s" "del ?n (mapping s) = mapping s" using n by (simp_all add: without_def memory_def del_notin)
  from failover_memory [OF f refl] w consider "memory s' = memory s"
    | mem ip port p where "memory s' = (if name = [] then mem else without name mem)" "del ?n p = mapping s"
      "mem = (put ?n (NewMonInfo ?n ip port) (Internal s), External s, s64 (maxMonID s + 1), p, monTimeoutList s)"
    by metis
  then show ?thesis
  proof cases
    case 1
    then show ?thesis using assms(1) by (simp add: memory_def mons_ok_def)
  next
    case 2
    define t where "t = s\<lparr>Internal := Internal s @ [(?n, NewMonInfo ?n ip port)], maxMonID := maxMonID s + 1, mapping := p\<rparr>"
    have t: "mons_ok t" using added_ok [OF assms(1) n(2,4) IndexToName_not_Nil, of "NewMonInfo ?n ip port" t] 2(2)
      by (simp add: t_def NewMonInfo_def)
    have "memory t = mem" using 2(3) n(1,2) by (simp add: t_def memory_def put_notin)
    then show ?thesis using 2(1) t without_ok [of t s' name] memory_ok [of t s'] by (cases "name = []") simp_all
  qed
qed

text \<open>C8. A failover either fails with an error and leaves the monitors, the mapping to nodes and the highest identifier in the
  memory of the operator as they were, or it replaces the one monitor by one with the next identifier, a name that no monitor and
  no entry of the mapping had, and leaves the entries of the other monitors as they were; in both cases the timers are
  unchanged and the names of the monitors stay accounted for. The note of which monitor is the arbiter is not among
  what a failed failover restores.\<close>
theorem failover_outcome:
  assumes "mons_ok s" "maxMonID s + 1 < 2 ^ 63 - 1" "name \<in> set (keys (Internal s))"
    and f: "failoverMon env name s = (e, s')"
  shows "mons_ok s' \<and> External s' = External s \<and> monTimeoutList s' = monTimeoutList s \<and>
    (e \<noteq> None \<and> Internal s' = Internal s \<and> mapping s' = mapping s \<and> maxMonID s' = maxMonID s \<or>
     maxMonID s' = maxMonID s + 1 \<and> IndexToName (maxMonID s') \<notin> set (keys (Internal s)) \<and>
     IndexToName (maxMonID s') \<notin> set (keys (mapping s)) \<and>
     (\<exists>p. mapping s' = del name p \<and> del (IndexToName (maxMonID s')) p = mapping s) \<and>
     (\<exists>ip port. Internal s' = del name (Internal s) @ [(IndexToName (maxMonID s'), NewMonInfo (IndexToName (maxMonID s')) ip port)]))"
proof -
  note n = next_fresh [OF assms(1,2)]
  let ?n = "IndexToName (s64 (maxMonID s + 1))"
  have ne: "name \<noteq> []" using assms(1,3) by (auto simp: mons_ok_def known_mons_def list_all_iff keys_def)
  have ne2: "name \<noteq> ?n" using assms(3) n(2) by blast
  from failover_cases [OF f ne refl n(2,3)] consider "e \<noteq> None" "memory s' = memory s"
    | ip port p where "memory s' = (del name (Internal s @ [(?n, NewMonInfo ?n ip port)]), External s, s64 (maxMonID s + 1), del name p, monTimeoutList s)"
      "del ?n p = mapping s" by blast
  then show ?thesis
  proof cases
    case 1
    then show ?thesis using assms(1) by (simp add: memory_def mons_ok_def)
  next
    case 2
    then have m: "Internal s' = del name (Internal s @ [(?n, NewMonInfo ?n ip port)])" "External s' = External s"
      "maxMonID s' = maxMonID s + 1" "mapping s' = del name p" "monTimeoutList s' = monTimeoutList s" by (simp_all add: memory_def n(1))
    have "mons_ok s'" by (rule failover_ok [OF assms(1,2) f])
    moreover have "Internal s' = del name (Internal s) @ [(?n, NewMonInfo ?n ip port)]"
      using ne2 by (simp add: m(1) del_def)
    moreover have "\<exists>p. mapping s' = del name p \<and> del ?n p = mapping s" using m(4) 2(2) by blast
    ultimately show ?thesis using m n by simp blast
  qed
qed

lemma ref_state_ok: "mons_ok ref_state" by code_simp

theorem failover_outcome_witness:
  "\<exists>ip port. Internal (snd (failoverMon ref_env ''b'' ref_state)) = del ''b'' (Internal ref_state) @ [(''d'', NewMonInfo ''d'' ip port)]"
proof -
  obtain e s' where f: "failoverMon ref_env ''b'' ref_state = (e, s')" by force
  have "fst (failoverMon ref_env ''b'' ref_state) = None" by code_simp
  then have "e = None" using f by simp
  moreover have "maxMonID ref_state + 1 < 2 ^ 63 - 1" "''b'' \<in> set (keys (Internal ref_state))" "IndexToName (maxMonID ref_state + 1) = ''d''"
    by code_simp+
  ultimately obtain ip port where "maxMonID s' = maxMonID ref_state + 1"
    "Internal s' = del ''b'' (Internal ref_state) @ [(IndexToName (maxMonID s'), NewMonInfo (IndexToName (maxMonID s')) ip port)]"
    using failover_outcome [OF ref_state_ok _ _ f] by blast
  then have "Internal s' = del ''b'' (Internal ref_state) @ [(''d'', NewMonInfo ''d'' ip port)]"
    using \<open>IndexToName (maxMonID ref_state + 1) = ''d''\<close> by simp
  then show ?thesis unfolding f snd_conv by blast
qed

section \<open>The health check\<close>

text \<open>The monitors with their names, the highest identifier and the mapping.\<close>

definition roster :: "'w mstate \<Rightarrow> (string \<times> string) list \<times> int \<times> Schedule" where
  "roster s = (map (\<lambda>(k, m). (k, MiName m)) (Internal s), maxMonID s, mapping s)"

lemma calm_of_quiet: "along (same memory) m \<Longrightarrow> along (same roster) m"
  using same_memory [of m "\<lambda>(i, e, x, p, t). (map (\<lambda>(k, m). (k, MiName m)) i, x, p)"]
  by (simp add: roster_def [abs_def] memory_def)

lemma roster_keys: "roster s = roster t \<Longrightarrow> keys (Internal s) = keys (Internal t)"
proof -
  assume "roster s = roster t"
  then have "map fst (map (\<lambda>(k, m). (k, MiName m)) (Internal s)) = map fst (map (\<lambda>(k, m). (k, MiName m)) (Internal t))"
    by (simp add: roster_def)
  then show ?thesis by (simp add: keys_def comp_def split_beta)
qed

lemma roster_ok: "roster s = roster t \<Longrightarrow> mons_ok s \<longleftrightarrow> mons_ok t"
proof -
  assume r: "roster s = roster t"
  have n: "list_all (\<lambda>(k, m). k = MiName m \<and> k \<noteq> []) i \<longleftrightarrow> list_all (\<lambda>(k, n). k = n \<and> k \<noteq> []) (map (\<lambda>(k, m). (k, MiName m)) i)" for i
    by (induction i) auto
  have "list_all (\<lambda>(k, m). k = MiName m \<and> k \<noteq> []) (Internal s) \<longleftrightarrow> list_all (\<lambda>(k, m). k = MiName m \<and> k \<noteq> []) (Internal t)"
    unfolding n using r by (simp add: roster_def)
  then show ?thesis using r roster_keys [OF r] by (simp add: mons_ok_def known_mons_alt wf_map_def roster_def)
qed

lemma track_calm: "along (same roster) (trackMonInOrOutOfQuorum env name b)"
proof -
  have w: "along (same roster) (write_out_of_quorum env ms)" for ms
    unfolding write_out_of_quorum_def by (intro calm_of_quiet quiet_rules quiet)
  have p: "map (\<lambda>(k, m). (k, MiName m)) (put name (m\<lparr>OutOfQuorum := b\<rparr>) i) = map (\<lambda>(k, m). (k, MiName m)) i"
    if "map_of i name = Some m" for i m b
    using that by (induction i) auto
  have "roster (snd (trackMonInOrOutOfQuorum env name b s)) = roster s" for s
    using w p by (auto simp: trackMonInOrOutOfQuorum_def along_def same_def set_out_def roster_def split_beta comp_def split: option.splits)
  then show ?thesis by (simp add: along_def same_def)
qed

text \<open>At most one monitor is lost and the names stay accounted for.\<close>

definition ready :: "int \<Rightarrow> 'w mstate \<Rightarrow> bool" where
  "ready c s \<longleftrightarrow> mons_ok s \<and> maxMonID s + max 1 c < 2 ^ 63 - 1"

definition loses_one :: "int \<Rightarrow> 'w mstate \<Rightarrow> 'w mstate \<Rightarrow> bool" where
  "loses_one c s t \<longleftrightarrow> (ready c s \<longrightarrow> mons_ok t) \<and> (\<exists>n. set (keys (Internal s)) \<subseteq> insert n (set (keys (Internal t))))"

lemma loses_calm: "loses_one c s t \<Longrightarrow> roster s' = roster s \<Longrightarrow> roster t' = roster t \<Longrightarrow> loses_one c s' t'"
  using roster_keys [of s' s] roster_keys [of t' t] roster_ok [of s' s] roster_ok [of t' t]
  by (simp add: loses_one_def ready_def roster_def)

definition ends :: "int \<Rightarrow> ('w, 'a) op \<Rightarrow> bool" where
  "ends c m \<longleftrightarrow> (\<forall>s. loses_one c s (snd (m s)))"

lemma loses_refl: "loses_one c s s"
  by (auto simp: loses_one_def ready_def)

lemma ends_calm: "along (same roster) m \<Longrightarrow> ends c m"
  using loses_calm [OF loses_refl] by (fastforce simp: ends_def along_def same_def)

lemma calm_ends: "along (same roster) m \<Longrightarrow> (\<And>x. ends c (k x)) \<Longrightarrow> ends c (andThen m k)"
  unfolding ends_def along_def same_def andThen_def split_beta
  by (metis loses_calm)

lemma ends_calm_end: "ends c m \<Longrightarrow> (\<And>x. along (same roster) (k x)) \<Longrightarrow> ends c (andThen m k)"
  unfolding ends_def along_def same_def andThen_def split_beta
  by (metis loses_calm)

lemma removeMon_ends: "ends c (removeMon env n)"
proof -
  have "loses_one c s (snd (removeMon env n s))" for s
  proof -
    define t where "t = snd (removeMon env n s)"
    have m: "memory t = (if n = [] then memory s else without n (memory s))" by (simp add: t_def removeMon_memory)
    then have "mons_ok s \<Longrightarrow> mons_ok t" using without_ok [of s t n] by (cases "n = []") (simp_all add: mons_ok_def memory_def)
    moreover have "set (keys (Internal s)) \<subseteq> insert n (set (keys (Internal t)))"
      using m by (auto simp: memory_def without_def split: if_splits)
    ultimately show ?thesis unfolding loses_one_def t_def ready_def by blast
  qed
  then show ?thesis by (simp add: ends_def)
qed

lemma failover_ends: "ends c (failoverMon env name)"
proof -
  have "loses_one c s (snd (failoverMon env name s))" for s
  proof -
    obtain e t where f: "failoverMon env name s = (e, t)" by force
    let ?n = "IndexToName (s64 (maxMonID s + 1))"
    have "ready c s \<Longrightarrow> maxMonID s + 1 < 2 ^ 63 - 1" by (simp add: ready_def max_def split: if_splits)
    then have "ready c s \<Longrightarrow> mons_ok t" using failover_ok [OF _ _ f] by (simp add: ready_def)
    moreover have "set (keys (Internal s)) \<subseteq> insert ?n (set (keys (Internal t))) \<or> set (keys (Internal s)) \<subseteq> insert name (set (keys (Internal t)))"
      using failover_memory [OF f refl] by (auto simp: memory_def without_def split: if_splits)
    ultimately show ?thesis unfolding loses_one_def f snd_conv by blast
  qed
  then show ?thesis by (simp add: ends_def)
qed

lemma failMon_ends: "ends c (failMon env n d name)"
  unfolding failMon_def anyway_def
  by (intro calm_ends track_calm) (simp add: removeMon_ends failover_ends ends_calm_end calm_of_quiet quiet quiet_rules)

section \<open>Starting monitors only adds monitors\<close>

definition growing :: "string list \<Rightarrow> 'w mstate \<Rightarrow> 'w mstate \<Rightarrow> bool" where
  "growing ns s t \<longleftrightarrow> maxMonID t = maxMonID s \<and> set (keys (Internal s)) \<subseteq> set (keys (Internal t)) \<and>
     (list_all (\<lambda>n. n \<noteq> [] \<and> accounted (maxMonID s) n) ns \<longrightarrow> mons_ok s \<longrightarrow> mons_ok t)"

interpretation growth: transitions "growing ns :: 'w mstate \<Rightarrow> 'w mstate \<Rightarrow> bool" for ns
  by unfold_locales (auto simp: growing_def)

lemma growing_quiet: "along (same memory) m \<Longrightarrow> along (growing ns) m"
proof -
  assume q: "along (same memory) m"
  have "growing ns s (snd (m s))" for s
    using quietD [OF q, of s] memory_ok [of "snd (m s)" s] by (simp add: growing_def memory_def)
  then show ?thesis by (simp add: along_def)
qed

lemma growing_know: "DaemonName m \<in> set ns \<Longrightarrow> growing ns s (know_mon m s)"
proof -
  assume n: "DaemonName m \<in> set ns"
  have "list_all (\<lambda>(k, m). k = MiName m \<and> k \<noteq> []) (put (DaemonName m) (NewMonInfo (DaemonName m) ip port) i)"
    if "list_all (\<lambda>(k, m). k = MiName m \<and> k \<noteq> []) i" "DaemonName m \<noteq> []" for ip port i
    using that by (induction i) (auto simp: NewMonInfo_def)
  then show ?thesis using n by (auto simp: growing_def know_mon_def mons_ok_def known_mons_alt list_all_iff [of "accounted _"] list_all_iff [of "\<lambda>n. n \<noteq> [] \<and> accounted _ n"])
qed

lemma assignMons_growing: "set (map DaemonName mons) \<subseteq> set ns \<Longrightarrow> along (growing ns) (assignMons env mons skip)"
proof -
  assume ns: "set (map DaemonName mons) \<subseteq> set ns"
  let ?g = "\<lambda>(i, e, x, p, t). (i, x, set (keys p) - set ns)"
  have "along (same (\<lambda>s. ?g (memory s))) (assignMons env mons skip)"
    using ns by (intro assignMons_along) (auto simp: placing_def)
  then have a: "Internal t = Internal s \<and> maxMonID t = maxMonID s \<and> set (keys (mapping t)) - set ns = set (keys (mapping s)) - set ns"
    if "t = snd (assignMons env mons skip s)" for s t
    using that by (auto simp: along_def same_def memory_def)
  have "growing ns s (snd (assignMons env mons skip s))" for s
    using a [OF refl, of s] by (auto simp: growing_def mons_ok_def list_all_iff)
  then show ?thesis by (simp add: along_def)
qed

lemma mon_ip_quiet [quiet]: "along (same memory) (mon_ip env m)"
  by (rule quietI) (simp add: mon_ip_def quietD [OF service_ip_quiet] split: option.split)

lemma initMonIPs_grow:
  "set (map DaemonName mons) \<subseteq> set ns \<Longrightarrow>
   growing ns s (snd (initMonIPs env mons s)) \<and> map DaemonName (snd (fst (initMonIPs env mons s))) = map DaemonName mons"
proof (induction mons arbitrary: s)
  case (Cons m mons)
  obtain r s1 where r: "mon_ip env m s = (r, s1)" by force
  have g1: "growing ns s s1" using growing_quiet [OF mon_ip_quiet, of ns env m] r by (metis alongD)
  show ?case
  proof (cases "ctx_err env (world s)")
    case None
    show ?thesis
    proof (cases r)
      case (Inr ip)
      let ?m = "m\<lparr>PublicIP := ip\<rparr>"
      have g2: "growing ns s1 (know_mon ?m s1)" using Cons.prems by (intro growing_know) simp
      have "growing ns s (snd (initMonIPs env mons (know_mon ?m s1)))"
        using Cons growth.trans [OF g1 growth.trans [OF g2]] by simp
      then show ?thesis using Cons None Inr r by (simp add: split_beta Let_def)
    qed (use None r g1 in simp)
  qed (simp add: growth.refl)
qed (simp add: growth.refl)

lemma start_quiet [quiet]: "along (same memory) (save_and_start env mons req skip)" "along (same memory) (set_configs env existing again)"
  unfolding save_and_start_def set_configs_def by (intro quiet_rules quiet)+

lemma ensure_grow:
  assumes "set (map DaemonName mons) \<subseteq> set ns"
  shows "growing ns s (snd (ensureMonsRunning env mons target req skip s)) \<and>
    map DaemonName (snd (fst (ensureMonsRunning env mons target req skip s))) = map DaemonName mons"
proof -
  define k where "k = expectedMonCount target s"
  obtain e started s1 where i: "initMonIPs env (take k mons) s = ((e, started), s1)" by (metis prod.exhaust)
  have "set (map DaemonName (take k mons)) \<subseteq> set ns" using assms set_take_subset [of k mons] by fastforce
  from initMonIPs_grow [OF this, of s env] i have g: "growing ns s s1" and n: "map DaemonName started = map DaemonName (take k mons)"
    by simp_all
  have n': "map DaemonName (started @ drop k mons) = map DaemonName mons"
    using n by (metis append_take_drop_id map_append)
  have r: "growing ns s (snd (save_and_start env started req skip s1))"
    using growing_quiet [OF start_quiet(1), of ns env started req skip] growth.trans [OF g] by (simp add: along_def)
  show ?thesis using g r n' i
    by (cases e) (simp_all add: ensureMonsRunning_def reading_def Let_def k_def [symmetric] andThen_def ret_def split_beta)
qed

lemma add_mons_growing:
  "set (map DaemonName mons) \<subseteq> set ns \<Longrightarrow> growing ns s (snd (add_mons k env existing target retry first skip mons s))"
proof (induction k arbitrary: s mons first)
  case (Suc k)
  obtain e mons' s1 where en: "ensureMonsRunning env mons target True skip s = ((e, mons'), s1)" by (metis prod.exhaust)
  have g: "growing ns s s1" and n': "map DaemonName mons' = map DaemonName mons"
    using ensure_grow [OF Suc.prems, of s env target True skip] en by simp_all
  then have n: "set (map DaemonName mons') \<subseteq> set ns" using Suc.prems by simp
  obtain x s2 where c: "set_configs env existing (retry \<and> first) s1 = (x, s2)" by force
  have g2: "growing ns s s2"
    using growing_quiet [OF start_quiet(2), of ns env existing "retry \<and> first"] growth.trans [OF g] c by (metis along_def snd_conv)
  have g3: "growing ns s (snd (add_mons k env existing target retry False skip mons' s2))"
    using Suc.IH [OF n] growth.trans [OF g2] by blast
  show ?case using g g2 g3 by (simp add: en c growth.refl split: option.split)
qed (simp add: growth.refl)

lemma bring_up_growing:
  assumes "set (map DaemonName mons) \<subseteq> set ns" shows "along (growing ns) (bring_up env existing target retry skip mons)"
proof -
  have "along (growing ns) (ensureMonsRunning env mons target False skip)" unfolding along_def using ensure_grow [OF assms] by blast
  moreover have "along (growing ns) (add_mons k env existing target retry True skip mons)" for k
    unfolding along_def using add_mons_growing [OF assms] by blast
  ultimately show ?thesis
    unfolding bring_up_def by (intro growth.along_rules growing_quiet [OF quiet_outside])
qed

lemma init_loop_mono:
  assumes "init_loop n c i mons = (r, i')" "-1 \<le> i" "i + int n < 2 ^ 63 - 1" shows "i \<le> i' \<and> i' \<le> i + int n"
  using assms
proof (induction n arbitrary: i mons)
  case (Suc n)
  have s: "s64 (i + 1) = i + 1" using Suc.prems by (simp add: int64_ok_def)
  show ?case
  proof (cases "findAvailableZone c mons")
    case (Inr zone)
    have "init_loop n c (i + 1) (mons @ [newMonConfig c (i + 1) zone]) = (r, i')" using Suc.prems(1) by (simp add: Let_def s Inr)
    from Suc.IH [OF this] Suc.prems show ?thesis by simp
  qed (use Suc.prems s in \<open>simp add: Let_def\<close>)
qed simp

lemma new_names_accounted:
  assumes "-1 \<le> i" "i + int n < 2 ^ 63 - 1"
  shows "list_all (\<lambda>k. k \<noteq> [] \<and> accounted (i + int n) k) (new_names i n)"
  using assms by (auto simp: list_all_iff new_names_def IndexToName_not_Nil accounted_new index_ok_def)

lemma initMonConfig_ok:
  assumes s: "mons_ok s" and b: "maxMonID s + max 1 target < 2 ^ 63 - 1"
    and i: "initMonConfig c (Internal s) (mapping s) (maxMonID s) target = (r, i)"
  shows "mons_ok (s\<lparr>maxMonID := i\<rparr>) \<and>
    (\<forall>existing mons. r = Inr (existing, mons) \<longrightarrow> list_all (\<lambda>n. n \<noteq> [] \<and> accounted i n) (map DaemonName mons))"
proof -
  define n where "n = nat (target - int (length (Internal s)))"
  have nb: "maxMonID s + int n < 2 ^ 63 - 1" using b by (simp add: n_def max_def split: if_splits)
  have lo: "-1 \<le> maxMonID s" using s by (simp add: mons_ok_def)
  obtain r' where l: "init_loop n c (maxMonID s) (clusterInfoToMonConfig (Internal s) (mapping s)) = (r', i)"
    and r': "r = map_sum id (\<lambda>mons. (int (length (Internal s)), mons)) r'"
    using i by (auto simp: initMonConfig_def n_def [symmetric] split: prod.splits sum.splits)
  have mono: "maxMonID s \<le> i" using init_loop_mono [OF l lo nb] by simp
  have ok: "mons_ok (s\<lparr>maxMonID := i\<rparr>)"
    using s mono list_accounted_mono [of "maxMonID s" _ i] by (auto simp: mons_ok_def known_mons_alt)
  have "list_all (\<lambda>n. n \<noteq> [] \<and> accounted i n) (map DaemonName mons)" if "r = Inr (existing, mons)" for existing mons
  proof -
    have "r' = Inr mons" using that r' by (cases r') auto
    from init_loop_names [OF l [unfolded this] lo nb] obtain new where
      *: "i = maxMonID s + int n" "mons = clusterInfoToMonConfig (Internal s) (mapping s) @ new" "map DaemonName new = new_names (maxMonID s) n" by blast
    have "map DaemonName (clusterInfoToMonConfig (Internal s) (mapping s)) = keys (Internal s)"
      using config_names s by (auto simp: mons_ok_def)
    moreover have "list_all (\<lambda>n. n \<noteq> [] \<and> accounted i n) (keys (Internal s))"
      using ok by (auto simp: mons_ok_def known_mons_alt list_all_iff keys_def)
    ultimately show ?thesis using new_names_accounted [OF lo nb] *(1,3) by (simp add: *(2))
  qed
  with ok show ?thesis by blast
qed

lemma startMons_ends: "ends c (startMons env c)"
proof -
  have "loses_one c s (snd (startMons env c s))" for s
  proof -
    obtain r i where i: "initMonConfig (Spec env) (Internal s) (mapping s) (maxMonID s) c = (r, i)" by force
    let ?s = "s\<lparr>maxMonID := i\<rparr>"
    show ?thesis
    proof (cases r)
      case (Inl e)
      then show ?thesis using initMonConfig_ok [OF _ _ i] by (auto simp: startMons_def i loses_one_def ready_def)
    next
      case (Inr em)
      obtain existing mons where em: "em = (existing, mons)" by force
      define ns where "ns = map DaemonName mons"
      define rest where "rest = attempt_val (outside (GetDaemonsToSkipReconcile env ''mon'' MonAppName)) ''failed to check for mons to skip reconcile''
        (\<lambda>skip. attempt (assignMons env mons skip) ''failed to assign pods to mons''
           (andThen (if existing > 0 then outside (default_configs (cph env)) else ret None)
              (\<lambda>e. andThen (bring_up env existing c (e \<noteq> None) skip mons) (\<lambda>e. if e \<noteq> None then ret e else finish_start env))))"
      have "along (growing ns) rest"
        unfolding rest_def
        by (intro growth.along_rules growing_quiet [OF quiet_outside] assignMons_growing bring_up_growing growing_quiet [OF finish_start_quiet])
          (simp_all add: ns_def)
      then have g: "growing ns ?s (snd (rest ?s))" by (simp add: along_def)
      have st: "startMons env c s = rest ?s" by (simp add: startMons_def i Inr em rest_def)
      have "ready c s \<Longrightarrow> mons_ok ?s \<and> list_all (\<lambda>n. n \<noteq> [] \<and> accounted i n) ns"
        using initMonConfig_ok [OF _ _ i] Inr em by (simp add: ready_def ns_def)
      then show ?thesis using g by (auto simp: st loses_one_def growing_def)
    qed
  qed
  then show ?thesis by (simp add: ends_def)
qed

section \<open>What a health check does to the monitors\<close>

lemma ends_if: "ends c a \<Longrightarrow> ends c b \<Longrightarrow> ends c (if p then a else b)" by simp
lemma ends_option: "ends c a \<Longrightarrow> (\<And>x. ends c (b x)) \<Longrightarrow> ends c (case v of None \<Rightarrow> a | Some x \<Rightarrow> b x)" by (cases v) auto
lemma ends_sum: "(\<And>x. ends c (a x)) \<Longrightarrow> (\<And>x. ends c (b x)) \<Longrightarrow> ends c (case v of Inl x \<Rightarrow> a x | Inr x \<Rightarrow> b x)" by (cases v) auto
lemma ends_prod: "(\<And>x y. ends c (a x y)) \<Longrightarrow> ends c (case v of (x, y) \<Rightarrow> a x y)" by (cases v) auto
lemma ends_list: "ends c a \<Longrightarrow> (\<And>x y. ends c (b x y)) \<Longrightarrow> ends c (case v of [] \<Rightarrow> a | x # y \<Rightarrow> b x y)" by (cases v) auto
lemma ends_ret: "ends c (ret x)" by (rule ends_calm) (rule unchanged.along_ret)

lemma ends_reading: "(\<And>s. ends c (k s)) \<Longrightarrow> ends c (reading k)"
  by (simp add: ends_def reading_def)

lemma ends_modify: "(\<And>s. roster (f s) = roster s) \<Longrightarrow> ends c k \<Longrightarrow> ends c (modify f k)"
  unfolding ends_def modify_def by (metis loses_calm)

lemma ends_anyway: "along (same roster) m \<Longrightarrow> ends c k \<Longrightarrow> ends c (anyway m k)"
  unfolding anyway_def by (rule calm_ends)

lemma ends_attempt_val: "along (same roster) m \<Longrightarrow> (\<And>x. ends c (k x)) \<Longrightarrow> ends c (attempt_val m msg k)"
  unfolding attempt_val_def by (intro calm_ends ends_sum ends_ret)

lemma failMon_then: "along (same roster) k \<Longrightarrow> ends c (anyway (failMon env n d name) k)"
  unfolding anyway_def by (intro ends_calm_end failMon_ends)

lemmas ends_rules = ends_if ends_option ends_sum ends_prod ends_list ends_ret ends_reading ends_attempt_val
lemmas calm_outside = calm_of_quiet [OF quiet_outside]

lemma failover_listed_ends: "ends c (failover_listed env d)"
  unfolding failover_listed_def
  by (intro ends_rules failMon_then unchanged.along_rules) (simp add: roster_def same_def)

lemma first_unexported_quiet [quiet]: "along (same memory) (first_unexported env ns)"
proof (rule quietI)
  show "memory (snd (first_unexported env ns s)) = memory s" for s
    by (induction ns arbitrary: s) (simp_all add: split_beta split: sum.split)
qed

lemma failover_unexported_ends: "ends c (failover_unexported env d allIn)"
  unfolding failover_unexported_def
  by (intro ends_rules calm_ends calm_of_quiet quiet failMon_then failover_listed_ends unchanged.along_ret)

lemma evict_ends: "ends c (evictMonIfMultipleOnSameNode env)"
  unfolding evictMonIfMultipleOnSameNode_def by (intro ends_rules calm_outside failover_ends)

lemma check_count_ends: "ends d (check_count env st d allIn)"
  unfolding check_count_def Let_def
  by (intro ends_rules ends_anyway calm_of_quiet [OF removeCanary_quiet] ends_modify startMons_ends removeMon_ends
      evict_ends failover_unexported_ends) (simp add: roster_def)

lemma after_mons_ends: "ends d (after_mons env st d notFound)"
  unfolding after_mons_def Let_def
  by (intro ends_rules calm_ends failMon_then unchanged.along_rules track_calm check_count_ends)

text \<open>While the loop over the monitor map goes on, the monitors stay as they are.\<close>

definition stays :: "int \<Rightarrow> ('w, verdict) op \<Rightarrow> bool" where
  "stays c m \<longleftrightarrow> (\<forall>s. loses_one c s (snd (m s)) \<and> (fst (m s) = GoOn \<longrightarrow> roster (snd (m s)) = roster s))"

lemma stays_Return: "ends c m \<Longrightarrow> (\<And>s. fst (m s) \<noteq> GoOn) \<Longrightarrow> stays c m"
  by (simp add: stays_def ends_def)

lemma stays_calm: "along (same roster) m \<Longrightarrow> stays c m"
  using ends_calm [of m c] by (simp add: stays_def ends_def along_def same_def)

lemma stays_then: "along (same roster) m \<Longrightarrow> (\<And>x. stays c (k x)) \<Longrightarrow> stays c (andThen m k)"
  unfolding stays_def along_def same_def andThen_def split_beta by (metis loses_calm)

lemma stays_reading: "(\<And>s. stays c (k s)) \<Longrightarrow> stays c (reading k)"
  by (simp add: stays_def reading_def)

lemma stays_modify: "(\<And>s. roster (f s) = roster s) \<Longrightarrow> stays c k \<Longrightarrow> stays c (modify f k)"
  unfolding stays_def modify_def by (metis loses_calm)

lemma stays_if: "stays c a \<Longrightarrow> stays c b \<Longrightarrow> stays c (if p then a else b)" by simp
lemma stays_option: "stays c a \<Longrightarrow> (\<And>x. stays c (b x)) \<Longrightarrow> stays c (case v of None \<Rightarrow> a | Some x \<Rightarrow> b x)" by (cases v) auto
lemma stays_prod: "(\<And>x y. stays c (a x y)) \<Longrightarrow> stays c (case v of (x, y) \<Rightarrow> a x y)" by (cases v) auto

lemmas stays_rules = stays_if stays_option stays_prod stays_reading

lemma failMon_true: "fst (failMon env n d name s)"
  by (simp add: failMon_def anyway_def andThen_def ret_def split_beta)

lemma fail_unhealthy_stays: "stays c (fail_unhealthy env st d name)"
proof (rule stays_Return)
  show "ends c (fail_unhealthy env st d name)"
    unfolding fail_unhealthy_def by (intro ends_calm_end failMon_ends unchanged.along_ret)
  show "fst (fail_unhealthy env st d name s) \<noteq> GoOn" for s
    using failMon_true [of env "int (length (Mons st))" d name s] by (simp add: fail_unhealthy_def andThen_def ret_def split_beta)
qed

lemma retry_calm: "along (same roster) (retry_unscheduled env name)"
  unfolding retry_unscheduled_def
  by (intro unchanged.along_andThen calm_outside unchanged.along_reading unchanged.along_if unchanged.along_modify unchanged.along_ret)
    (simp_all add: roster_def same_def)

lemma should_failover_quiet [quiet]: "along (same memory) (shouldFailoverMonImmediately env name)"
  by (rule quietI) (simp add: shouldFailoverMonImmediately_def Let_def split_beta)

lemma check_unhealthy_stays: "stays c (check_unhealthy env st d name)"
  unfolding check_unhealthy_def
  by (intro stays_rules stays_modify stays_then calm_of_quiet [OF should_failover_quiet] retry_calm fail_unhealthy_stays
      stays_calm [OF unchanged.along_ret]) (simp_all add: roster_def)

lemma check_mon_stays: "stays c (check_mon env st d known mon)"
proof -
  have "stays c (anyway (removeMon env n) (ret (Return None)))" for n
    unfolding anyway_def
    by (rule stays_Return) (intro ends_calm_end removeMon_ends unchanged.along_ret, simp add: andThen_def ret_def split_beta)
  then show ?thesis
    unfolding check_mon_def Let_def
    by (intro stays_rules stays_then track_calm stays_modify check_unhealthy_stays stays_calm [OF unchanged.along_ret])
      (simp_all add: roster_def)
qed

lemma check_mons_stays:
  "loses_one c s (snd (check_mons env st d mons nf s)) \<and>
   (fst (fst (check_mons env st d mons nf s)) = GoOn \<longrightarrow> roster (snd (check_mons env st d mons nf s)) = roster s)"
proof (induction mons arbitrary: nf s)
  case (Cons mon mons)
  obtain v s1 where v: "check_mon env st d (MeName mon \<in> set nf) mon s = (v, s1)" by force
  have "loses_one c s s1 \<and> (v = GoOn \<longrightarrow> roster s1 = roster s)"
    using check_mon_stays [of c env st d "MeName mon \<in> set nf" mon] v unfolding stays_def by (metis fst_conv snd_conv)
  then show ?case using Cons loses_calm [of c s1 _ s] by (cases v) (auto simp: v)
qed (simp add: loses_refl)

lemma check_status_ends: "ends (MonCount (Spec env)) (check_status env st)"
proof -
  let ?d = "MonCount (Spec env)"
  have "loses_one ?d s (snd (check_status env st s))" for s
  proof -
    obtain v nf s1 where c: "check_mons env st ?d (Mons st) (remdups (int_names s)) s = ((v, nf), s1)" by (metis prod.exhaust)
    have l: "loses_one ?d s s1" "v = GoOn \<Longrightarrow> roster s1 = roster s"
      using check_mons_stays [of ?d s env st ?d "Mons st" "remdups (int_names s)"] c by simp_all
    show ?thesis
    proof (cases v)
      case GoOn
      have "loses_one ?d s1 (snd (after_mons env st ?d nf s1))" using after_mons_ends [of ?d env st nf] by (simp add: ends_def)
      then show ?thesis using l(2) [OF GoOn] loses_calm [of ?d s1 _ s] by (simp add: check_status_def reading_def andThen_def c GoOn)
    qed (use l in \<open>simp add: check_status_def reading_def andThen_def c ret_def\<close>)
  qed
  then show ?thesis by (simp add: ends_def)
qed

lemma reconcileExternal_calm: "along (same roster) (reconcileExternalMons env st)"
proof -
  have "roster (snd (reconcileExternalMons env st s)) = roster s" for s
    using calm_of_quiet [OF saveMonConfig_quiet(2), of env]
    by (auto simp: reconcileExternalMons_def Let_def along_def same_def split_beta roster_def split: option.split)
  then show ?thesis by (simp add: along_def same_def)
qed

lemma checkHealth_ends:
  assumes "\<not> ExternalEnable (Spec env)" shows "ends (MonCount (Spec env)) (checkHealth env)"
proof -
  have "ends (MonCount (Spec env)) (check_managed env)"
    unfolding check_managed_def
    by (intro ends_rules calm_outside calm_ends calm_of_quiet [OF reconcileMonPDB_quiet] reconcileExternal_calm check_status_ends
      unchanged.along_option unchanged.along_ret)
  then have "ends (MonCount (Spec env)) (check_unskipped env)"
    unfolding check_unskipped_def using assms by (intro ends_attempt_val calm_outside) (simp add: ends_ret)
  then show ?thesis by (auto simp: ends_def checkHealth_def loses_refl split: option.split)
qed

text \<open>C9. A health check of a cluster that Rook manages loses at most one monitor: all monitors it started with but at most
  one are still there when it returns, whatever Kubernetes and Ceph answer, and the names of the
  monitors and of the mapping stay accounted for by the highest identifier.\<close>
theorem health_check_safe:
  assumes "\<not> ExternalEnable (Spec env)"
  shows "(\<exists>n. set (keys (Internal s)) \<subseteq> insert n (set (keys (Internal (snd (checkHealth env s)))))) \<and>
    (mons_ok s \<and> maxMonID s + max 1 (MonCount (Spec env)) < 2 ^ 63 - 1 \<longrightarrow> mons_ok (snd (checkHealth env s)))"
  using checkHealth_ends [OF assms] unfolding ends_def loses_one_def ready_def by blast

theorem health_check_safe_witness: "mons_ok (snd (checkHealth ref_env ref_state))"
proof -
  have "\<not> ExternalEnable (Spec ref_env)" "maxMonID ref_state + max 1 (MonCount (Spec ref_env)) < 2 ^ 63 - 1" by code_simp+
  then show ?thesis using health_check_safe [of ref_env ref_state] ref_state_ok by blast
qed

end
