(* ===== verification/MonQuorum.thy ===== *)
theory MonQuorum
  imports MonSafety
begin

text \<open>
  The quorum of the monitors: the disruption budget leaves a majority, waiting for quorum ends and tells what it saw, and a
  monitor that stays out of quorum is failed over.
\<close>

section \<open>The disruption budget\<close>

text \<open>What the operator relies on of the budget it applies: reading tells the value that is in force, and applying one
  puts it in force.\<close>

locale budget_api =
  fixes pget :: "('w, int res) eff" and papply :: "int \<Rightarrow> ('w, err option) eff" and budget :: "'w \<Rightarrow> int option"
  assumes pget_value: "pget w = (r, w') \<Longrightarrow> budget w' = budget w \<and> (\<forall>n. r = Inr n \<longrightarrow> budget w = Some n)"
    and papply_value: "papply n w = (None, w') \<Longrightarrow> budget w' = Some n"
begin

lemma reconciled:
  assumes "pdb_get (kub env) = pget" "pdb_apply (kub env) = papply" and "0 \<le> allowed_down (Spec env) st"
    and r: "reconcileMonPDB env s = ((Some st, None), s')"
  shows "2 < MonCount (Spec env) \<and> budget (world s') = Some (allowed_down (Spec env) st)"
proof -
  let ?b = "allowed_down (Spec env) st"
  have c: "SpecManagePodBudgets (Spec env)" "2 < MonCount (Spec env)" using r by (auto simp: reconcileMonPDB_def ret_def split: if_splits)
  obtain q w1 where q: "quorum_status (cph env) (world s) = (q, w1)" by force
  have "q = Inr st" using r c by (cases q) (auto simp: reconcileMonPDB_def effects outside_def zoom_def q Let_def split: prod.splits if_splits)
  obtain g w2 where g: "pget w1 = (g, w2)" by force
  obtain a w3 where a: "papply ?b w2 = (a, w3)" by force
  define cur where "cur = (case g of Inl e \<Rightarrow> if IsNotFound e then Inr (-1) else Inl (Wrap ''failed to get mon pdb'' e) | Inr n \<Rightarrow> Inr n)"
  have "((Some st, None), s') = (if cur = Inr ?b then ((Some st, None), s\<lparr>world := w2\<rparr>)
      else ((Some st, map_option (Wrap ''failed to reconcile mon pdb'') a), s\<lparr>world := w3\<rparr>))"
    using r c assms(1,2) q \<open>q = Inr st\<close> g a
    by (cases "cur = Inr ?b")
      (simp_all add: reconcileMonPDB_def getExistingMaxUnavailable_def createOrUpdateMonPDB_def effects outside_def zoom_def Let_def flip: cur_def)
  moreover have "budget w2 = Some ?b" if "cur = Inr ?b"
    using that assms(3) pget_value [OF g] by (auto simp: cur_def split: sum.splits if_splits)
  moreover have "budget w3 = Some ?b" if "a = None" using papply_value a that by blast
  ultimately show ?thesis using c by (auto split: if_splits)
qed

end

interpretation ref_budget: budget_api "pdb_get (kub ref_env)" "pdb_apply (kub ref_env)" rBudget
  by unfold_locales (auto simp: ref_env_def ref_kube_def split: option.splits)

lemma allowed_down_majority:
  assumes "int (length (Mons st)) < 2 ^ 31" "length (Quorum st) \<le> length (Mons st)"
  shows "0 \<le> allowed_down c st \<and> (allowed_down c st = 0 \<or>
    (int (length (Mons st)) < 2 * (int (length (Quorum st)) - allowed_down c st) \<longleftrightarrow>
     (if 5 \<le> MonCount c then 5 else 3) \<le> int (length (Mons st))))"
proof -
  define down where "down = int (length (Mons st)) - int (length (Quorum st))"
  define u where "u = getMaxUnavailableMonPodCount c"
  have b: "0 \<le> down" "down < 2 ^ 31" "1 \<le> u" "u \<le> 2" using assms by (auto simp: down_def u_def getMaxUnavailableMonPodCount_def)
  then have "s32 down = down" "s32 (u - down) = u - down" by simp_all
  then have "allowed_down c st = max (u - down) 0" by (simp add: allowed_down_def down_def u_def Let_def)
  then show ?thesis using assms by (auto simp: down_def u_def getMaxUnavailableMonPodCount_def max_def)
qed

text \<open>C11. The disruption budget of the monitors and the quorum: once it is reconciled, either no monitor may be evicted, or those
  that stay in quorum when as many as the budget allows are evicted are still a majority of the monitor map exactly when the
  map has at least three monitors, and at least five if the specification asks for five or more. So the quorum is safe when
  the map has as many monitors as the specification asks for, and not while there are fewer.\<close>
theorem budget_keeps_majority:
  assumes "budget_api (pdb_get (kub env)) (pdb_apply (kub env)) budget"
    and "reconcileMonPDB env s = ((Some st, None), s')"
    and "int (length (Mons st)) < 2 ^ 31" "length (Quorum st) \<le> length (Mons st)"
  shows "\<exists>b. budget (world s') = Some b \<and> 0 \<le> b \<and>
    (b = 0 \<or> (int (length (Mons st)) < 2 * (int (length (Quorum st)) - b) \<longleftrightarrow>
       (if 5 \<le> MonCount (Spec env) then 5 else 3) \<le> int (length (Mons st))))"
  using allowed_down_majority [OF assms(3,4), of "Spec env"] budget_api.reconciled [OF assms(1) refl refl _ assms(2)] by auto

definition ref_running :: "ref_world mstate" where
  "ref_running = ref_state\<lparr>world := ref_empty\<lparr>rDeps := \<lparr>objs = map (\<lambda>n. ((''rook-ceph'', resourceName n),
     \<lparr>Replicas = (if n = ''c'' then 0 else 1), AvailableReplicas = 1, DepLabels = [(''app'', MonAppName), (''mon'', n)], Selector = [], TemplateLabels = [(''app'', MonAppName), (''mon'', n)],
      DepHostNetwork = False, DepVolumes = [], DepPod = \<lparr>SpecAffinity = None, SpecTolerations = None, SpecSpread = None, NodeSelector = None\<rparr>, KeyAnnotation = []\<rparr>))
     [''a'', ''b'', ''c''], faults = []\<rparr>\<rparr>\<rparr>"

theorem budget_keeps_majority_witness:
  "\<exists>b. rBudget (world (snd (reconcileMonPDB ref_env ref_running))) = Some b \<and> 0 \<le> b \<and> (b = 0 \<or> 3 < 2 * (2 - b))"
proof -
  let ?r = "reconcileMonPDB ref_env ref_running" and ?st = "ref_status (world ref_running)"
  have "fst ?r = (Some ?st, None)" by code_simp
  then have r: "?r = ((Some ?st, None), snd ?r)" by (metis prod.collapse)
  have "MonCount (Spec ref_env) = 3" "length (Quorum ?st) \<le> length (Mons ?st)"
    and "int (length (Mons ?st)) = 3" "int (length (Quorum ?st)) = 2" by code_simp+
  then show ?thesis using budget_keeps_majority [OF ref_budget.budget_api_axioms r] by simp
qed

section \<open>Waiting for quorum\<close>

text \<open>The state before a pass, counted from 0: every pass but the first is preceded by a pause.\<close>

fun before_pass :: "'w menv \<Rightarrow> string list \<Rightarrow> int \<Rightarrow> bool \<Rightarrow> nat \<Rightarrow> 'w mstate \<Rightarrow> 'w mstate" where
  "before_pass env mons t req 0 s = s"
| "before_pass env mons t req (Suc k) s =
     (let s' = snd (quorum_pass env mons req (before_pass env mons t req k s)) in s'\<lparr>world := pause env t (world s')\<rparr>)"

lemma wait_from_pass:
  assumes ctx: "\<And>w. ctx_err env w = None" and "n \<le> retryMax"
    and "before_pass env mons t req (retryMax - n) s = (if n < retryMax then s1\<lparr>world := pause env t (world s1)\<rparr> else s1)"
  shows "fst (wait_passes n env mons t req s1) = None \<longleftrightarrow>
    (\<exists>k<n. fst (quorum_pass env mons req (before_pass env mons t req (retryMax - n + k) s)))"
  using assms(2,3)
proof (induction n arbitrary: s1)
  case 0
  then show ?case by (subst wait_passes.simps) (simp add: ctx)
next
  case (Suc n)
  let ?s0 = "before_pass env mons t req (retryMax - Suc n) s"
  obtain b s2 where p: "quorum_pass env mons req ?s0 = (b, s2)" by force
  have w: "wait_passes (Suc n) env mons t req s1 = (if b then (None, s2) else wait_passes n env mons t req s2)"
    by (subst wait_passes.simps) (simp add: ctx Suc.prems(2) [symmetric] p Let_def split: bool.split)
  have d: "retryMax - n = Suc (retryMax - Suc n)" and l: "n < retryMax" using Suc.prems(1) by simp_all
  have IH: "fst (wait_passes n env mons t req s2) = None \<longleftrightarrow>
      (\<exists>k<n. fst (quorum_pass env mons req (before_pass env mons t req (retryMax - n + k) s)))"
    using l by (intro Suc.IH) (simp_all add: d p Let_def)
  have ex: "(\<exists>k<Suc n. P (retryMax - Suc n + k)) \<longleftrightarrow> P (retryMax - Suc n) \<or> (\<exists>k<n. P (retryMax - n + k))" for P
    unfolding d by (simp add: Ex_less_Suc2)
  show ?case unfolding ex [of "\<lambda>j. fst (quorum_pass env mons req (before_pass env mons t req j s))"] w using IH p by simp
qed

text \<open>C13. Waiting for quorum ends: unless the operator is told to stop, it takes at most 60 passes over the pods and the status
  of the quorum, and it succeeds exactly when one of them finds what is asked for, the monitors running
  and in quorum.\<close>
theorem quorum_wait_ends:
  assumes "\<And>w. ctx_err env w = None"
  shows "fst (waitForQuorumWithMons env mons t req s) = None \<longleftrightarrow>
    (\<exists>k<60. fst (quorum_pass env mons req (before_pass env mons t req k s)))"
  using wait_from_pass [OF assms order_refl, where s = s and ?s1.0 = s]
  by (simp add: waitForQuorumWithMons_def retryMax_def)

theorem quorum_wait_ends_witness:
  "fst (waitForQuorumWithMons ref_env [''a'', ''b''] 5 True ref_running) = None"
proof -
  have c: "ctx_err ref_env w = None" for w by (simp add: ref_env_def)
  have "fst (quorum_pass ref_env [''a'', ''b''] True (before_pass ref_env [''a'', ''b''] 5 True 0 ref_running))" by code_simp
  then show ?thesis using quorum_wait_ends [OF c, of "[''a'', ''b'']" 5 True ref_running] by (metis zero_less_numeral)
qed

section \<open>A monitor that stays out of quorum\<close>

lemma fail_unhealthy_runs:
  "fail_unhealthy env st d name s = (Return None, snd (failMon env (int (length (Mons st))) d name s))"
  using failMon_true [of env "int (length (Mons st))" d name s] by (simp add: fail_unhealthy_def andThen_def ret_def split_beta)

lemma should_failover_world:
  "\<exists>w. snd (shouldFailoverMonImmediately env name s) = s\<lparr>world := w\<rparr> \<and>
     (w = world s \<or> (\<exists>sel. w = snd (count_nodes (kub env) sel (world s))))"
  by (auto simp: shouldFailoverMonImmediately_def outside_def zoom_def NodeWithHostnameExists_def andThen_def ret_def Let_def split_beta
      intro: exI [of _ "world s"])

lemma retry_cases:
  assumes "retry_unscheduled env name s = (again, s')"
  shows "if again then retriesBeforeNodeDrainFailover s > 0 \<and> retriesBeforeNodeDrainFailover s' = retriesBeforeNodeDrainFailover s - 1 \<and>
      monTimeoutList s' = del name (monTimeoutList s) else memory s' = memory s"
  using assms
  by (auto simp: retry_unscheduled_def effects outside_def zoom_def memory_def split: prod.splits if_splits)

text \<open>C12. A monitor that stays out of quorum is failed over. Once its timer runs, every health check that finds it out of quorum
  either fails it over, or finds that the time is not up yet and leaves the timer running, or, once because its
  pod is not scheduled, restarts the timer and uses up the retry; there is no fourth way.\<close>
theorem out_of_quorum_failed_over:
  assumes "MonOutTimeout env \<noteq> 0" and t: "map_of (monTimeoutList s) name = Some t"
    and clock: "\<And>sel w. now env w \<le> now env (snd (count_nodes (kub env) sel w))"
  shows "(\<exists>s1. memory s1 = memory s \<and> check_unhealthy env st d name s = (Return None, snd (failMon env (int (length (Mons st))) d name s1))) \<or>
    (fst (check_unhealthy env st d name s) = GoOn \<and> memory (snd (check_unhealthy env st d name s)) = memory s \<and>
     now env (world s) \<le> t + MonOutTimeout env) \<or>
    (fst (check_unhealthy env st d name s) = Return None \<and> retriesBeforeNodeDrainFailover s > 0 \<and>
     retriesBeforeNodeDrainFailover (snd (check_unhealthy env st d name s)) = retriesBeforeNodeDrainFailover s - 1 \<and>
     monTimeoutList (snd (check_unhealthy env st d name s)) = del name (monTimeoutList s))"
proof -
  obtain gone s1 where g: "shouldFailoverMonImmediately env name s = (gone, s1)" by force
  obtain w where s1: "s1 = s\<lparr>world := w\<rparr>" and w: "now env (world s) \<le> now env w"
    using should_failover_world [of env name s] clock g by auto
  have m1: "memory s1 = memory s" by (simp add: s1)
  obtain again s2 where r: "retry_unscheduled env name s1 = (again, s2)" by force
  have running: "name \<in> set (keys (monTimeoutList s))" using t by (simp add: keys_map_of)
  have c: "check_unhealthy env st d name s =
      (if gone then fail_unhealthy env st d name s1
       else if \<not> past_timeout env name s1 then (GoOn, s1)
       else if again then (Return None, s2) else fail_unhealthy env st d name s2)"
    using assms(1) running g r by (simp add: check_unhealthy_def effects)
  have "now env (world s) \<le> t + MonOutTimeout env" if "\<not> past_timeout env name s1"
    using that t w by (simp add: past_timeout_def s1)
  moreover have "if again then retriesBeforeNodeDrainFailover s > 0 \<and> retriesBeforeNodeDrainFailover s2 = retriesBeforeNodeDrainFailover s - 1 \<and>
      monTimeoutList s2 = del name (monTimeoutList s) else memory s2 = memory s"
    using retry_cases [OF r] by (cases again) (simp_all add: s1)
  ultimately show ?thesis unfolding c fail_unhealthy_runs using m1 by (auto split: if_splits)
qed

theorem out_of_quorum_failed_over_witness:
  "\<exists>s1. memory s1 = memory (ref_running\<lparr>monTimeoutList := [(''c'', -700)], retriesBeforeNodeDrainFailover := 0\<rparr>) \<and>
     check_unhealthy ref_env (ref_status (world ref_running)) 3 ''c'' (ref_running\<lparr>monTimeoutList := [(''c'', -700)], retriesBeforeNodeDrainFailover := 0\<rparr>) =
       (Return None, snd (failMon ref_env 3 3 ''c'' s1))"
proof -
  let ?s = "ref_running\<lparr>monTimeoutList := [(''c'', -700)], retriesBeforeNodeDrainFailover := 0\<rparr>" and ?st = "ref_status (world ref_running)"
  have "MonOutTimeout ref_env \<noteq> 0" "map_of (monTimeoutList ?s) ''c'' = Some (-700)"
    and "now ref_env w \<le> now ref_env (snd (count_nodes (kub ref_env) sel w))" for sel w
    by (simp_all add: ref_env_def ref_kube_def)
  note h = out_of_quorum_failed_over [OF this, of ?st 3]
  have "\<not> now ref_env (world ?s) \<le> -700 + MonOutTimeout ref_env" "\<not> retriesBeforeNodeDrainFailover ?s > 0"
    and l: "int (length (Mons ?st)) = 3" by code_simp+
  then show ?thesis using h unfolding l by blast
qed

end
