(* ===== verification/MonDeploy.thy ===== *)
theory MonDeploy
  imports MonWorld
begin

text \<open>
  Properties of the deployments of monitors: their selectors match their pods whatever labels the user adds, and
  where a deployment is left alone because its storage is taken to have changed.
\<close>

section \<open>Labels\<close>

text \<open>Labels that another set of labels extends.\<close>

definition within :: "string gomap \<Rightarrow> string gomap \<Rightarrow> bool" where
  "within a b \<longleftrightarrow> (\<forall>k\<in>set (keys a). map_of b k = map_of a k)"

lemma within_put: "k \<notin> set (keys a) \<Longrightarrow> within a b \<Longrightarrow> within a (put k v b)"
  by (auto simp: within_def)

lemma within_both: "within a b \<Longrightarrow> within (put k v a) (put k v b)"
  by (auto simp: within_def)

lemma within_refl: "within a a"
  by (simp add: within_def)

lemma daemon_selector:
  "within (CephDaemonAppLabels pns app ns ''mon'' i parent kind False) (CephDaemonAppLabels pns app ns ''mon'' i parent kind True)"
proof -
  have "within (AppLabels app ns) (AddRecommendedLabels pns (put ''ceph_daemon_type'' ''mon'' (AppLabels app ns)) n parent kind i)" for n
    unfolding AddRecommendedLabels_def by (intro within_put within_refl) (simp_all add: AppLabels_def keys_def)
  then show ?thesis unfolding CephDaemonAppLabels_def Let_def if_True if_False by (intro within_both)
qed

lemma selector_within: "within (getLabels env m canary False) (getLabels env m canary True)"
proof -
  define l where "l b = CephDaemonAppLabels (OperatorNs env)
    (if isFloatingMon (Spec env) (DaemonName m) then FloatingMonAppName else MonAppName) (Ns env) ''mon'' (DaemonName m) (ClusterName env)
    ''cephclusters.ceph.rook.io'' b" for b
  define sel where "sel b = (if canary then put ''mon_canary'' ''true'' (put ''mon_cluster'' (Ns env) (l b)) else put ''mon_cluster'' (Ns env) (l b))" for b
  have w: "within (sel False) (sel True)"
    using daemon_selector within_both unfolding sel_def l_def by presburger
  have k: "k \<notin> set (keys (sel False))" if "k \<in> {''pvc_size'', ''pvc_name'', ''zone'', ''mon_daemon''}" for k
    using that by (auto simp: sel_def l_def CephDaemonAppLabels_def AppLabels_def keys_def)
  have "getLabels env m canary False = sel False" unfolding getLabels_def Let_def sel_def l_def if_False by (rule refl)
  moreover have "getLabels env m canary True =
     (let l3 = (case monVolumeClaimTemplate (Spec env) (McZone m) of
                  None \<Rightarrow> sel True | Some sz \<Rightarrow> put ''pvc_size'' sz (put ''pvc_name'' (ResourceName m) (sel True)));
          l4 = (if McZone m \<noteq> [] then put ''zone'' (McZone m) l3 else l3)
      in if \<not> canary then put ''mon_daemon'' ''true'' l4 else l4)"
    unfolding getLabels_def Let_def sel_def l_def if_True by (rule refl)
  ultimately show ?thesis using w k by (simp add: Let_def within_put split: option.split)
qed

lemma deployed:
  assumes "makeDeployment env m canary s = (Inr d, s')"
  shows "Selector d = getLabels env m canary False"
    "TemplateLabels d = ApplyLabelsToObjectMeta (GetMonLabels (LabelsOf env)) (getLabels env m canary True)"
    "DepLabels d = addCephVersionLabel (CephVer env)
       (ApplyLabelsToObjectMeta (GetMonLabels (LabelsOf env)) (addRookVersionLabel (RookVersion env) (getLabels env m canary True)))"
  using assms by (cases "makeMonPod env m"; auto simp: makeDeployment_def split: option.splits)+

text \<open>C32. The selector of the deployment of a monitor matches the pods it creates, whatever labels the user gives to monitors or
  to all daemons: every label of the selector is on the pod template with the same value.\<close>
theorem selector_matches_template:
  assumes "makeDeployment env m canary s = (Inr d, s')"
  shows "map_of (Selector d) \<subseteq>\<^sub>m map_of (TemplateLabels d)"
  unfolding map_le_def
proof
  fix k assume "k \<in> dom (map_of (Selector d))"
  then obtain v where v: "map_of (getLabels env m canary False) k = Some v" by (auto simp: deployed [OF assms])
  then have "k \<in> set (keys (getLabels env m canary False))" by (simp add: keys_map_of)
  then have "map_of (getLabels env m canary True) k = Some v" using selector_within [of env m canary] v by (simp add: within_def)
  from put_new_keeps [OF this] v show "map_of (Selector d) k = map_of (TemplateLabels d) k"
    by (simp add: deployed [OF assms] ApplyLabelsToObjectMeta_def)
qed

definition ref_mon :: monConfig where
  "ref_mon = \<lparr>ResourceName = ''rook-ceph-mon-b'', DaemonName = ''b'', PublicIP = ''10.0.0.1'', Port = 6789, McZone = ''x'', McNode = [], UseHostNetwork = False\<rparr>"

definition ref_labelled :: "ref_world menv" where
  "ref_labelled = ref_env\<lparr>LabelsOf := [KeyAll \<mapsto> [(''app'', ''mine''), (''tier'', ''store'')]]\<rparr>"

theorem selector_matches_template_witness:
  "\<exists>d. fst (makeDeployment ref_labelled ref_mon False ref_state) = Inr d \<and> map_of (TemplateLabels d) ''tier'' = Some ''store'' \<and>
     map_of (Selector d) \<subseteq>\<^sub>m map_of (TemplateLabels d)"
proof -
  have "case fst (makeDeployment ref_labelled ref_mon False ref_state) of Inl _ \<Rightarrow> False | Inr d \<Rightarrow> map_of (TemplateLabels d) ''tier'' = Some ''store''"
    by code_simp
  then obtain d where d: "fst (makeDeployment ref_labelled ref_mon False ref_state) = Inr d" "map_of (TemplateLabels d) ''tier'' = Some ''store''"
    by (cases "fst (makeDeployment ref_labelled ref_mon False ref_state)") auto
  have "makeDeployment ref_labelled ref_mon False ref_state = (Inr d, snd (makeDeployment ref_labelled ref_mon False ref_state))"
    using d(1) by (metis prod.collapse)
  from selector_matches_template [OF this] d show ?thesis by blast
qed

section \<open>Storage\<close>

lemma claim_label:
  assumes "monVolumeClaimTemplate (Spec env) (McZone m) = Some sz" "makeDeployment env m canary s = (Inr d, s')"
  shows "map_of (DepLabels d) ''pvc_name'' = Some (ResourceName m)"
proof -
  have "map_of (getLabels env m canary True) ''pvc_name'' = Some (ResourceName m)"
    by (simp add: getLabels_def Let_def assms(1))
  then have "map_of (addRookVersionLabel (RookVersion env) (getLabels env m canary True)) ''pvc_name'' = Some (ResourceName m)"
    by (simp add: addRookVersionLabel_def)
  from put_new_keeps [OF this] show ?thesis
    by (simp add: deployed [OF assms(2)] ApplyLabelsToObjectMeta_def addCephVersionLabel_def)
qed

text \<open>C35. Where the claim template of a monitor comes from its zone and the cluster has none of its own, a deployment that the
  operator has created is never updated again: its storage is compared with the template of the cluster, so it is taken to
  have moved from a claim to the host, and the monitor is put on the list of those to fail over.\<close>
theorem zone_claim_never_settles:
  assumes "MonClaim (Spec env) = None" "monVolumeClaimTemplate (Spec env) (McZone m) = Some sz" "ResourceName m \<noteq> []"
    and "makeDeployment env m False s0 = (Inr created, s1)" and "DepLabels x = DepLabels created"
  shows "\<exists>d'. configureDefaultMonStorage env m d schedule (Some x) s = ((None, d'), s\<lparr>monsToFailover := put (DaemonName m) m (monsToFailover s)\<rparr>)"
proof -
  have "hasMonPathChanged x (MonClaim (Spec env))"
    using claim_label [OF assms(2,4)] assms(1,3,5) by (simp add: hasMonPathChanged_def mget_def)
  then show ?thesis by (auto simp: configureDefaultMonStorage_def Let_def effects)
qed

definition ref_zoned :: "ref_world menv" where
  "ref_zoned = ref_env\<lparr>Spec := ref_spec\<lparr>MonZones := [\<lparr>ZoneName = ''x'', Arbiter = False, ZoneClaim = Some ''10Gi''\<rparr>,
     \<lparr>ZoneName = ''y'', Arbiter = False, ZoneClaim = Some ''10Gi''\<rparr>, \<lparr>ZoneName = ''z'', Arbiter = False, ZoneClaim = Some ''10Gi''\<rparr>]\<rparr>\<rparr>"

theorem zone_claim_never_settles_witness:
  "\<exists>created d'. fst (makeDeployment ref_zoned ref_mon False ref_state) = Inr created \<and>
     configureDefaultMonStorage ref_zoned ref_mon created None (Some created) ref_state =
       ((None, d'), ref_state\<lparr>monsToFailover := put ''b'' ref_mon (monsToFailover ref_state)\<rparr>)"
proof -
  have "\<not> isl (fst (makeDeployment ref_zoned ref_mon False ref_state))" by code_simp
  then obtain c where c: "fst (makeDeployment ref_zoned ref_mon False ref_state) = Inr c"
    by (cases "fst (makeDeployment ref_zoned ref_mon False ref_state)") auto
  then have m: "makeDeployment ref_zoned ref_mon False ref_state = (Inr c, snd (makeDeployment ref_zoned ref_mon False ref_state))"
    by (metis prod.collapse)
  have "MonClaim (Spec ref_zoned) = None" "monVolumeClaimTemplate (Spec ref_zoned) (McZone ref_mon) = Some ''10Gi''" "ResourceName ref_mon \<noteq> []"
    "DaemonName ref_mon = ''b''" by code_simp+
  then show ?thesis using zone_claim_never_settles [OF _ _ _ m refl, of "''10Gi''" c None ref_state] c by auto
qed

end
