(* ===== verification/MonStored.thy ===== *)
theory MonStored
  imports MonSafety
begin

text \<open>
  What is stored agrees with what the operator remembers: after a failover that succeeds, a restarted operator loads
  the monitors the failover has left. Also where it does not: the list of the monitors out of quorum.
\<close>

lemma attempt_None: "attempt m msg k s = (None, s') \<Longrightarrow> \<exists>s1. m s = (None, s1) \<and> k s1 = (None, s')"
  by (auto simp: attempt_def andThen_def ret_def split: prod.splits option.splits)

section \<open>The config map and the rest of the world\<close>

text \<open>An operation outside that leaves the config maps alone.\<close>

definition leaves :: "('w \<Rightarrow> 'v) \<Rightarrow> ('w, 'a) eff \<Rightarrow> bool" where
  "leaves f m \<longleftrightarrow> (\<forall>w. f (snd (m w)) = f w)"

text \<open>The config maps of the operator behave as Kubernetes promises, and nothing else it calls while it saves its
  configuration or removes a monitor writes to them.\<close>

locale mon_world = mon_store "cms (kub env)" store for env :: "'w menv" and store :: "'w \<Rightarrow> key \<rightharpoonup> ConfigMap" +
  assumes slices_apart: "leaves store (kcreate (slices (kub env)) k x)" "leaves store (kupdate (slices (kub env)) k x)"
      "leaves store (kdelete (slices (kub env)) k)"
    and objects_apart: "leaves store (kdelete (svcs (kub env)) k)" "leaves store (kdelete (claims (kub env)) k)"
      "leaves store (kdelete (deps (kub env)) k)"
    and files_apart: "leaves store (write_files (cph env))" "leaves store (global_config (cph env))"
    and csi_apart: "leaves store (csi_connection (cph env))" "leaves store (csi_profile (cph env))"
    and peer_apart: "leaves store (peer_secret (cph env))"
begin

definition stored :: "'w mstate \<Rightarrow> key \<rightharpoonup> ConfigMap" where
  "stored s = store (world s)"

lemma stored_outside: "leaves store m \<Longrightarrow> along (same stored) (outside m)"
  by (simp add: along_def same_def stored_def leaves_def outside_def zoom_def split_beta)

lemmas apart = slices_apart objects_apart files_apart csi_apart peer_apart

lemma slices_stored: "along (same stored) (persistExpectedMonDaemonsAsEndpointSlice env)"
  unfolding persistExpectedMonDaemonsAsEndpointSlice_def createEndpointSliceForAddresses_def forget_def Let_def
  by (intro quiet_rules stored_outside apart)

text \<open>The config map holds what the operator remembers.\<close>

definition saved :: "'w mstate \<Rightarrow> bool" where
  "saved s \<longleftrightarrow> (\<exists>i csi. stored s (Ns env, EndpointConfigMapName) =
     Some \<lparr>Data = mon_config_data (Internal s) (External s) (mapping s) i csi\<rparr>)"

lemma saved_cong: "memory t = memory s \<Longrightarrow> stored t = stored s \<Longrightarrow> saved t \<longleftrightarrow> saved s"
  by (simp add: saved_def memory_def)

lemma persist_saves: "persist_map env s = (None, s') \<Longrightarrow> saved s'"
  using persist_cases
  by (fastforce simp: persist_map_def reading_def outside_def zoom_def saved_def stored_def split: prod.splits)

lemma then_saved:
  assumes "saved s" "along (same memory) m" "along (same stored) m" "m s = (x, s')" shows "saved s'"
  using assms saved_cong [of s' s] by (metis alongD same_def)

lemma save_saves: "saveMonConfig env s = (None, s') \<Longrightarrow> saved s'"
proof -
  assume s: "saveMonConfig env s = (None, s')"
  define rest where "rest = attempt (outside (global_config (cph env))) ''failed to update the global config''
     (attempt (outside (write_files (cph env))) ''failed to write connection config for new mons''
     (reading (\<lambda>s.
        if AllMonitors (Internal s) (External s) \<noteq> [] \<and> \<not> OpenShift env
        then attempt (outside (csi_connection (cph env))) ''failed to create/update cephConnection''
             (attempt (outside (csi_profile (cph env))) ''failed to create/update default client profile'' (ret None))
        else ret None)))"
  have r: "along (same memory) rest" "along (same stored) rest"
    unfolding rest_def by (intro quiet_rules quiet) (intro quiet_rules stored_outside apart)
  from attempt_None [OF s [unfolded saveMonConfig_def]] obtain s1 where
    p: "persistExpectedMonDaemons env s = (None, s1)" "rest s1 = (None, s')" unfolding rest_def by blast
  from attempt_None [OF p(1) [unfolded persistExpectedMonDaemons_def]] obtain s2 where
    m: "persist_map env s = (None, s2)"
    and e': "attempt (persistExpectedMonDaemonsAsEndpointSlice env) ''failed to persist expected mons in EndpointSlice'' (ret None) s2 = (None, s1)"
    by blast
  from attempt_None [OF e'] have e: "persistExpectedMonDaemonsAsEndpointSlice env s2 = (None, s1)" by (auto simp: ret_def)
  have "along (same memory) (persistExpectedMonDaemonsAsEndpointSlice env)"
    unfolding persistExpectedMonDaemonsAsEndpointSlice_def Let_def by (intro quiet_rules quiet)
  from then_saved [OF persist_saves [OF m] this slices_stored e] have "saved s1" .
  then show ?thesis by (rule then_saved [OF _ r p(2)])
qed

lemma removal_saves:
  assumes "removeMonWithOptionalQuorum env n q s = (None, s')" "n \<noteq> []" shows "saved s'"
proof -
  define clean where "clean = attempt (outside (peer_secret (cph env))) ''failed to update cluster rbd bootstrap peer token''
    (anyway (removeMonResources env n) (ret None))"
  have c: "along (same memory) clean" "along (same stored) clean"
    unfolding clean_def removeMonResources_def Let_def by (intro quiet_rules quiet) (intro quiet_rules stored_outside apart)
  obtain s1 where "attempt (saveMonConfig env) ''failed to save mon config after failing over mon'' clean s1 = (None, s')"
    using assms by (auto simp: removeMonWithOptionalQuorum_def clean_def anyway_def [of _ "modify _ _"] andThen_def modify_def split: prod.splits)
  from attempt_None [OF this] obtain s2 where "saveMonConfig env s1 = (None, s2)" "clean s2 = (None, s')" by blast
  then show ?thesis using then_saved [OF save_saves c] by blast
qed

lemma failover_saves:
  assumes "failoverMon env name s = (None, s')" "name \<noteq> []" shows "saved s'"
proof -
  obtain zone where z: "findAvailableZone (Spec env) (clusterInfoToMonConfigWithExclude (Internal s) (mapping s) name) = Inr zone"
    using assms(1) by (auto simp: failoverMon_def split: sum.splits)
  define m where "m = newMonConfig (Spec env) (s64 (maxMonID s + 1)) zone"
  define st where "st = (if stopMonDuringFailover env s name then updateMonDeploymentReplica env name False else ret None)"
  obtain e2 might s2 where l: "launch_mon env m (snd (st s)) = ((e2, might), s2)" by (metis prod.exhaust)
  have "(None, s') = (case e2 of Some x \<Rightarrow> anyway (revert_failover env name m might) (ret (Some x)) s2
      | None \<Rightarrow> removeMon env name (s2\<lparr>maxMonID := s64 (maxMonID s2 + 1)\<rparr>))"
    using assms(1) l by (simp add: failoverMon_def z m_def [symmetric] st_def [symmetric] Let_def anyway_def andThen_def modify_def split_beta split: option.splits)
  then have "removeMon env name (s2\<lparr>maxMonID := s64 (maxMonID s2 + 1)\<rparr>) = (None, s')"
    by (cases e2) (auto simp: anyway_def andThen_def ret_def split: prod.splits)
  then show ?thesis unfolding removeMon_def by (rule removal_saves [OF _ assms(2)])
qed

lemma failover_stored:
  assumes "failoverMon env name s = (None, s')" "name \<noteq> []"
  shows "\<exists>i csi. store (world s') (Ns env, EndpointConfigMapName) =
    Some \<lparr>Data = mon_config_data (Internal s') (External s') (mapping s') i csi\<rparr>"
  using failover_saves [OF assms] by (simp add: saved_def stored_def)

end

section \<open>Marking a monitor out of quorum\<close>

context mon_world
begin

lemma mark_ok:
  assumes "UpdateMonsOutOfQuorum (cms (kub env)) ns names w = (None, w')"
  shows "\<exists>cm. store w' (ns, EndpointConfigMapName) = Some cm \<and> Data cm OutOfQuorumKey = Some (join '','' names)"
  using assms
  by (cases rule: get_cases [of "(ns, EndpointConfigMapName)" w])
    (auto simp: UpdateMonsOutOfQuorum_def split: prod.splits option.splits dest!: update_ok)

lemma tracked:
  assumes "name \<noteq> []" "trackMonInOrOutOfQuorum env name False s = ((True, None), s')"
  shows "(\<exists>cm. store (world s') (Ns env, EndpointConfigMapName) = Some cm \<and> Data cm OutOfQuorumKey = Some name) \<and>
    map_of (Internal s') = map_of (set_out name True (Internal s))"
proof -
  let ?t = "s\<lparr>Internal := set_out name True (Internal s)\<rparr>"
  have w: "write_out_of_quorum env [name] ?t = ((True, None), s')"
    using assms by (auto simp: trackMonInOrOutOfQuorum_def split: option.splits if_splits)
  obtain e w1 where f: "write_files (cph env) (world ?t) = (e, w1)" by force
  obtain e2 w2 where u: "UpdateMonsOutOfQuorum (cms (kub env)) (Ns env) [name] w1 = (e2, w2)" by force
  have "e = None" "e2 = None" "s' = ?t\<lparr>world := w2\<rparr>"
    using w f u by (auto simp: write_out_of_quorum_def effects outside_def zoom_def split: option.splits)
  then show ?thesis using mark_ok [of "Ns env" "[name]" w1 w2] u by simp
qed

end

interpretation ref_stored: mon_world ref_env "\<lambda>w. server_store (rMaps w)"
proof -
  have "kube_api (lift_api rMaps (\<lambda>v w. w\<lparr>rMaps := v\<rparr>) server_api) (\<lambda>w. server_store (rMaps w))"
    by (rule lifted_api) (simp_all add: memory.kube_api_axioms)
  then have "mon_store (cms (kub ref_env)) (\<lambda>w. server_store (rMaps w))"
    by (intro mon_store.intro) (simp add: ref_env_def ref_kube_def)
  then show "mon_world ref_env (\<lambda>w. server_store (rMaps w))"
    by (rule mon_world.intro) (unfold_locales, simp_all add: leaves_def ref_env_def ref_kube_def ref_ceph_def lift_api_def zoom_def ret_def split_beta)
qed

section \<open>Properties\<close>

text \<open>C10. A failover survives a restart: when it succeeds, an operator that starts afterwards loads from the config map
  exactly the monitors and the mapping that the failover has left, with the new monitor and without the failed one, and
  with a highest identifier that accounts for them.\<close>
theorem failover_survives_restart:
  assumes "mon_world env store" and ok: "mons_ok s" "maxMonID s + 1 < 2 ^ 63 - 1" and name: "name \<in> set (keys (Internal s))"
    and f: "failoverMon env name s = (None, s')"
    and st: "storable (Internal s' @ External s')" "[] \<notin> set (keys (External s'))" "wf_map (mapping s')"
    and l: "loadMonConfig (cms (kub env)) (Ns env) (world s') = (Inr (ext, internal, loadedID, sched), w')"
  shows "internal = Internal s' \<and> sched = Some (sort_key fst (mapping s')) \<and> known_mons internal loadedID \<and>
    name \<notin> set (keys internal) \<and> IndexToName (maxMonID s + 1) \<in> set (keys internal)"
proof -
  note n = next_fresh [OF ok]
  have ne: "name \<noteq> []" "[] \<notin> set (keys (Internal s'))"
    using ok name failover_ok [OF ok f] by (auto simp: mons_ok_def known_mons_def list_all_iff keys_def)
  obtain i csi where c: "store (world s') (Ns env, EndpointConfigMapName) =
      Some \<lparr>Data = mon_config_data (Internal s') (External s') (mapping s') i csi\<rparr>"
    using mon_world.failover_stored [OF assms(1) f ne(1)] by blast
  have k: "kube_api (cms (kub env)) store" using assms(1) by (simp add: mon_world_def mon_store_def)
  have "internal = Internal s' \<and> sched = Some (sort_key fst (mapping s')) \<and> known_mons internal loadedID"
    using load_saved [OF k st(1) _ st(3) c l] st(2) ne(2) by simp
  moreover have "\<exists>info. Internal s' = del name (Internal s @ [(IndexToName (maxMonID s + 1), info)])"
    using failover_cases [OF f ne(1) refl n(2,3)] by (auto simp: memory_def n(1))
  moreover have "name \<noteq> IndexToName (maxMonID s + 1)" using name n(1,2) by auto
  ultimately show ?thesis by auto
qed

text \<open>C36. The stored list of monitors out of quorum is overwritten: marking a monitor out of quorum stores a list with
  that monitor alone, while the other monitors keep their own marks in memory, so a second monitor out of quorum
  displaces the first one from the list.\<close>
theorem out_of_quorum_overwritten:
  assumes "mon_world env store" "name \<noteq> []" "trackMonInOrOutOfQuorum env name False s = ((True, None), s')"
  shows "(\<exists>cm. store (world s') (Ns env, EndpointConfigMapName) = Some cm \<and> Data cm OutOfQuorumKey = Some name) \<and>
    (\<forall>k. k \<noteq> name \<longrightarrow> map_of (Internal s') k = map_of (Internal s) k)"
  using mon_world.tracked [OF assms] by (auto simp: set_out_def split: option.splits)

definition ref_marked :: "ref_world mstate" where
  "ref_marked = ref_state\<lparr>Internal := set_out ''b'' True (Internal ref_state),
     world := ref_empty\<lparr>rMaps := \<lparr>objs = [((''rook-ceph'', EndpointConfigMapName), \<lparr>Data = [OutOfQuorumKey \<mapsto> ''b'']\<rparr>)], faults = []\<rparr>\<rparr>\<rparr>"

theorem out_of_quorum_overwritten_witness:
  "(\<exists>cm. server_store (rMaps (world (snd (trackMonInOrOutOfQuorum ref_env ''c'' False ref_marked)))) (''rook-ceph'', EndpointConfigMapName) = Some cm \<and>
      Data cm OutOfQuorumKey = Some ''c'') \<and>
   map_of (Internal (snd (trackMonInOrOutOfQuorum ref_env ''c'' False ref_marked))) ''b'' =
     Some \<lparr>MiName = ''b'', Endpoint = ''10.0.0.1:6789'', OutOfQuorum = True\<rparr>"
proof -
  let ?t = "trackMonInOrOutOfQuorum ref_env ''c'' False ref_marked"
  have "fst ?t = (True, None)" by code_simp
  then have t: "?t = ((True, None), snd ?t)" by (metis prod.collapse)
  have b: "map_of (Internal ref_marked) ''b'' = Some \<lparr>MiName = ''b'', Endpoint = ''10.0.0.1:6789'', OutOfQuorum = True\<rparr>" by code_simp
  have n: "Ns ref_env = ''rook-ceph''" by (simp add: ref_env_def)
  have c: "''c'' \<noteq> []" "''b'' \<noteq> ''c''" by simp_all
  note h = out_of_quorum_overwritten [OF ref_stored.mon_world_axioms c(1) t, unfolded n]
  show ?thesis using conjunct1 [OF h] conjunct2 [OF h, rule_format, OF c(2), unfolded b] by (rule conjI)
qed

theorem failover_survives_restart_witness:
  "\<exists>ext internal loadedID sched w.
     loadMonConfig (cms (kub ref_env)) (Ns ref_env) (world (snd (failoverMon ref_env ''b'' ref_state))) = (Inr (ext, internal, loadedID, sched), w) \<and>
     known_mons internal loadedID \<and> ''b'' \<notin> set (keys internal) \<and> ''d'' \<in> set (keys internal)"
proof -
  define f where "f = failoverMon ref_env ''b'' ref_state"
  have "let r = failoverMon ref_env ''b'' ref_state; s' = snd r
     in fst r = None \<and> storable (Internal s' @ External s') \<and> External s' = [] \<and> wf_map (mapping s') \<and>
        \<not> isl (fst (loadMonConfig (cms (kub ref_env)) (Ns ref_env) (world s')))" by code_simp
  then have c: "fst f = None" "storable (Internal (snd f) @ External (snd f))" "External (snd f) = []" "wf_map (mapping (snd f))"
    "\<not> isl (fst (loadMonConfig (cms (kub ref_env)) (Ns ref_env) (world (snd f))))" unfolding Let_def f_def [symmetric] by blast+
  then have r: "failoverMon ref_env ''b'' ref_state = (None, snd f)" by (metis f_def prod.collapse)
  from c(5) obtain ext internal loadedID sched w where
    l: "loadMonConfig (cms (kub ref_env)) (Ns ref_env) (world (snd f)) = (Inr (ext, internal, loadedID, sched), w)"
    by (metis isl_def prod.collapse sum.exhaust_sel surj_pair)
  have "maxMonID ref_state + 1 < 2 ^ 63 - 1" "''b'' \<in> set (keys (Internal ref_state))" "IndexToName (maxMonID ref_state + 1) = ''d''"
    by code_simp+
  then show ?thesis
    using failover_survives_restart [OF ref_stored.mon_world_axioms ref_state_ok _ _ r c(2) _ c(4) l] c(3) l unfolding f_def keys_def by force
qed

end
