(* ===== verification/OsdClient.thy ===== *)
theory OsdClient
  imports Effects CephClient Version
begin

text \<open>
  The commands of Ceph that the operator runs on OSDs and the decisions it takes from their answers:
  \<^verbatim>\<open>pkg/daemon/ceph/client/osd.go\<close> and \<^verbatim>\<open>upgrade.go\<close>, and the retry loop of \<^verbatim>\<open>pkg/util/retry.go\<close>. The commands are
  parameters that act on an abstract world and give decoded answers; what the code makes of an answer is defined here.
  Lemmas: when the retry loop succeeds, when a daemon is stopped for an upgrade, and that the least version is the
  least.
\<close>

section \<open>Answers\<close>

record OsdTreeNode =
  TreeId :: int
  TreeName :: string
  TreeType :: string
  TreeStatus :: string
  TreeChildren :: "int list"

record OsdTree =
  Nodes :: "OsdTreeNode list option"
  Stray :: "OsdTreeNode list"

record OSDMetadataDev = OSDMetadata +
  Devices :: string

record CephDaemonsVersions =
  MonVersions :: "int gomap"
  OsdVersions :: "int gomap"

definition tree_nodes :: "OsdTree \<Rightarrow> OsdTreeNode list" where
  "tree_nodes t = (case Nodes t of None \<Rightarrow> [] | Some ns \<Rightarrow> ns)"

definition GetDestroyedIDs :: "OsdTree \<Rightarrow> int list" where
  "GetDestroyedIDs t = map TreeId (filter (\<lambda>n. TreeStatus n = ''destroyed'') (tree_nodes t))"

fun status_loop :: "int \<Rightarrow> OSDEntry list \<Rightarrow> (int \<times> int) res" where
  "status_loop i [] = Inl (Errorf ''not found osd in OSDDump'')"
| "status_loop i (d # ds) = (if i = OsdNum d then Inr (OsdUp d, OsdIn d) else status_loop i ds)"

definition StatusByID :: "OSDDump \<Rightarrow> int \<Rightarrow> (int \<times> int) res" where
  "StatusByID dump i = status_loop i (OSDs dump)"

definition Exists :: "OSDDump \<Rightarrow> int \<Rightarrow> bool" where
  "Exists dump i = list_ex (\<lambda>d. OsdNum d = i) (OSDs dump)"

section \<open>Commands\<close>

text \<open>An answer of \<^verbatim>\<open>osd ok-to-stop\<close> that cannot be decoded is \<open>None\<close>.\<close>

record 'w osd_ceph =
  osd_tree :: "('w, OsdTree res) eff"
  osd_dump :: "('w, OSDDump res) eff"
  osd_metadata :: "('w, OSDMetadataDev list res) eff"
  osd_ls :: "('w, int list res) eff"
  safe_to_destroy :: "int \<Rightarrow> ('w, int list res) eff"
  ok_to_stop :: "int \<Rightarrow> int \<Rightarrow> ('w, int list option res) eff"
  osd_out :: "int \<Rightarrow> ('w, err option) eff"
  osd_in :: "int \<Rightarrow> ('w, err option) eff"
  osd_down :: "int \<Rightarrow> ('w, err option) eff"
  osd_destroy :: "int \<Rightarrow> ('w, err option) eff"
  rm_device_class :: "int \<Rightarrow> ('w, err option) eff"
  set_device_class :: "string \<Rightarrow> int \<Rightarrow> ('w, err option) eff"
  require_osd_release :: "string \<Rightarrow> ('w, err option) eff"
  daemon_versions :: "('w, CephDaemonsVersions res) eff"
  daemon_ok_to_stop :: "string \<Rightarrow> string \<Rightarrow> ('w, err option) eff"

definition OsdSafeToDestroy :: "'w osd_ceph \<Rightarrow> int \<Rightarrow> ('w, bool res) eff" where
  "OsdSafeToDestroy c osdID =
     andThen (safe_to_destroy c osdID)
       (\<lambda>r. ret (case r of Inl e \<Rightarrow> Inl (Wrap ''failed to get safe-to-destroy status'' e)
          | Inr ids \<Rightarrow> Inr (ids \<noteq> [] \<and> hd ids = osdID)))"

definition OSDOut :: "'w osd_ceph \<Rightarrow> int \<Rightarrow> ('w, err option) eff" where
  "OSDOut c osdID = attempt (osd_out c osdID) ''failed to mark osd out'' (ret None)"

definition OSDIn :: "'w osd_ceph \<Rightarrow> int \<Rightarrow> ('w, err option) eff" where
  "OSDIn c osdID = attempt (osd_in c osdID) ''failed to mark osd in'' (ret None)"

definition OSDDown :: "'w osd_ceph \<Rightarrow> int \<Rightarrow> ('w, err option) eff" where
  "OSDDown c osdID = attempt (osd_down c osdID) ''failed to mark osd down'' (ret None)"

definition OSDDestroy :: "'w osd_ceph \<Rightarrow> int \<Rightarrow> ('w, err option) eff" where
  "OSDDestroy c osdID = attempt (osd_destroy c osdID) ''failed to destroy osd'' (ret None)"

text \<open>The old class is removed before the new one is set.\<close>

definition SetDeviceClass :: "'w osd_ceph \<Rightarrow> int \<Rightarrow> string \<Rightarrow> ('w, err option) eff" where
  "SetDeviceClass c osdID deviceClass =
     attempt (rm_device_class c osdID) ''failed to remove device class.''
       (attempt (set_device_class c deviceClass osdID) ''failed to set the device class.'' (ret None))"

text \<open>The OSDs that may be stopped, with the error: both are returned when the answer cannot be decoded.\<close>

definition OSDOkToStop :: "'w osd_ceph \<Rightarrow> int \<Rightarrow> int \<Rightarrow> ('w, int list \<times> err option) eff" where
  "OSDOkToStop c osdID maxReturned =
     andThen (ok_to_stop c osdID maxReturned)
       (\<lambda>r. ret (case r of Inl e \<Rightarrow> ([], Some (Wrap ''OSD is not ok to stop'' e))
          | Inr None \<Rightarrow> ([osdID], Some (Errorf ''failed to unmarshal osd ok-to-stop response''))
          | Inr (Some ids) \<Rightarrow> (ids, None)))"

definition OSDUpdateShouldCheckOkToStop :: "'w osd_ceph \<Rightarrow> ('w, bool) eff" where
  "OSDUpdateShouldCheckOkToStop c =
     andThen (osd_ls c) (\<lambda>r. ret (case r of Inl _ \<Rightarrow> True | Inr osds \<Rightarrow> \<not> length osds < 3))"

definition EnableReleaseOSDFunctionality :: "'w osd_ceph \<Rightarrow> string \<Rightarrow> ('w, err option) eff" where
  "EnableReleaseOSDFunctionality c release =
     attempt (require_osd_release c release) ''failed to disallow older osds'' (ret None)"

section \<open>Retrying\<close>

text \<open>An attempt is made as long as the context is not cancelled and tries are left.\<close>

fun retry_loop :: "('w \<Rightarrow> err option) \<Rightarrow> ('w \<Rightarrow> 'w) \<Rightarrow> ('w, err option) eff \<Rightarrow> nat \<Rightarrow> ('w, err option) eff" where
  "retry_loop ctx sleep f n s =
     (case ctx s of Some e \<Rightarrow> (Some e, s)
      | None \<Rightarrow> (case f s of (None, s') \<Rightarrow> (None, s')
          | (Some e, s') \<Rightarrow>
              (case n of 0 \<Rightarrow> (Some (Wrap ''max retries exceeded, last err'' e), s')
               | Suc k \<Rightarrow> retry_loop ctx sleep f k (sleep s'))))"

declare retry_loop.simps [simp del]

definition RetryWithContext ::
  "('w \<Rightarrow> err option) \<Rightarrow> (int \<Rightarrow> 'w \<Rightarrow> 'w) \<Rightarrow> int \<Rightarrow> int \<Rightarrow> ('w, err option) eff \<Rightarrow> ('w, err option) eff" where
  "RetryWithContext ctx sleep maxRetries delay f = retry_loop ctx (sleep delay) f (nat maxRetries)"

section \<open>Upgrades\<close>

definition errNoHostInCRUSH :: err where
  "errNoHostInCRUSH = Errorf ''no host in crush map yet?''"

fun error_is :: "err \<Rightarrow> err \<Rightarrow> bool" where
  "error_is (Wrap m e) target \<longleftrightarrow> Wrap m e = target \<or> error_is e target"
| "error_is e target \<longleftrightarrow> e = target"

definition buildHostListFromTree :: "OsdTree \<Rightarrow> OsdTreeNode list res" where
  "buildHostListFromTree t =
     (case Nodes t of None \<Rightarrow> Inl (Errorf ''osd tree not populated, missing nodes field'')
      | Some ns \<Rightarrow> Inr (filter (\<lambda>n. TreeType n = ''host'') ns))"

definition allOSDsSameHost :: "'w osd_ceph \<Rightarrow> ('w, bool res) eff" where
  "allOSDsSameHost c =
     andThen (osd_tree c) (\<lambda>t. case t of Inl e \<Rightarrow> ret (Inl (Wrap ''failed to get the osd tree'' e))
      | Inr tree \<Rightarrow> andThen (osd_ls c) (\<lambda>l. ret (case l of Inl e \<Rightarrow> Inl (Wrap ''failed to get the osd list'' e)
          | Inr osds \<Rightarrow> (case buildHostListFromTree tree of Inl e \<Rightarrow> Inl (Wrap ''failed to build osd tree'' e)
              | Inr hosts \<Rightarrow>
                  (case hosts of [] \<Rightarrow> Inl errNoHostInCRUSH
                   | [h] \<Rightarrow> Inr (int (length (TreeChildren h)) = int (length osds) - int (length (Stray tree)))
                   | _ \<Rightarrow> Inr False)))))"

text \<open>Whether the checks for stopping an OSD are skipped.\<close>

definition osdDoNothing :: "'w osd_ceph \<Rightarrow> ('w, bool) eff" where
  "osdDoNothing c =
     andThen (osd_ls c) (\<lambda>l. case l of Inl _ \<Rightarrow> ret False
      | Inr osds \<Rightarrow> if length osds < 3 then ret True
          else andThen (allOSDsSameHost c)
            (\<lambda>r. ret (case r of Inl e \<Rightarrow> error_is e errNoHostInCRUSH | Inr aio \<Rightarrow> aio)))"

definition daemonNoCheck :: "string list" where
  "daemonNoCheck = [''mgr'', ''rgw'', ''rbd-mirror'', ''nfs'', ''fs-mirror'']"

definition okToStopDaemon :: "'w osd_ceph \<Rightarrow> string \<Rightarrow> string \<Rightarrow> ('w, err option) eff" where
  "okToStopDaemon c daemonType daemonName =
     (if daemonType \<notin> set daemonNoCheck
      then attempt (daemon_ok_to_stop c daemonType daemonName) ''deployment cannot be stopped.'' (ret None)
      else ret None)"

definition getRetryConfig :: "int \<Rightarrow> string \<Rightarrow> int \<times> int" where
  "getRetryConfig osdUpgradeTimeout daemonType =
     (if daemonType = ''osd'' then (go_div osdUpgradeTimeout 10000000000, 10000000000)
      else if daemonType = ''mds'' then (10, 15000000000) else (10, 60000000000))"

definition few_mons :: "int gomap \<Rightarrow> bool" where
  "few_mons m = (case m of [(_, monCount)] \<Rightarrow> monCount < 3 | _ \<Rightarrow> False)"

definition OkToStop ::
  "'w osd_ceph \<Rightarrow> ('w \<Rightarrow> err option) \<Rightarrow> (int \<Rightarrow> 'w \<Rightarrow> 'w) \<Rightarrow> int \<Rightarrow> string \<Rightarrow> string \<Rightarrow> ('w, err option) eff" where
  "OkToStop c ctx sleep osdUpgradeTimeout daemonType daemonName =
     attempt_val (daemon_versions c) ''failed to get ceph daemons versions'' (\<lambda>versions.
       if daemonType = ''mon'' \<and> few_mons (MonVersions versions) then ret None
       else andThen (if daemonType = ''osd'' then osdDoNothing c else ret False) (\<lambda>nothing.
         if nothing then ret None
         else attempt (RetryWithContext ctx sleep (fst (getRetryConfig osdUpgradeTimeout daemonType))
                (snd (getRetryConfig osdUpgradeTimeout daemonType)) (okToStopDaemon c daemonType daemonName))
              ''failed to check if deployment was ok to stop'' (ret None)))"

definition daemonMapEntry :: "CephDaemonsVersions \<Rightarrow> string \<Rightarrow> int gomap res" where
  "daemonMapEntry versions daemonType =
     (if daemonType = ''mon'' then Inr (MonVersions versions)
      else if daemonType = ''osd'' then Inr (OsdVersions versions)
      else Inl (Errorf ''invalid daemonType''))"

fun least_loop :: "string list \<Rightarrow> CephVersion \<Rightarrow> CephVersion res" where
  "least_loop [] vv = Inr vv"
| "least_loop (v # vs) vv =
     (case ExtractCephVersion v of Inl e \<Rightarrow> Inl (Wrap ''failed to extract ceph version'' e)
      | Inr version \<Rightarrow> least_loop vs (if IsInferior version vv then version else vv))"

definition maxVersion :: CephVersion where
  "maxVersion = \<lparr>Major = 65535, Minor = 65535, Extra = 65535, Build = 65535, CommitID = []\<rparr>"

definition zeroVersion :: CephVersion where
  "zeroVersion = \<lparr>Major = 0, Minor = 0, Extra = 0, Build = 0, CommitID = []\<rparr>"

definition LeastUptodateDaemonVersion :: "'w osd_ceph \<Rightarrow> string \<Rightarrow> ('w, CephVersion res) eff" where
  "LeastUptodateDaemonVersion c daemonType =
     andThen (daemon_versions c) (\<lambda>r. ret (case r of Inl e \<Rightarrow> Inl (Wrap ''failed to get ceph daemons versions'' e)
      | Inr versions \<Rightarrow>
          (case daemonMapEntry versions daemonType of Inl e \<Rightarrow> Inl (Wrap ''failed to find daemon map entry'' e)
           | Inr m \<Rightarrow>
               if m = [] then Inr zeroVersion
               else (case least_loop (keys m) maxVersion of Inl e \<Rightarrow> Inl e
                  | Inr vv \<Rightarrow> if Major vv = 65535 then Inl (Errorf ''failed to determine least ceph version'') else Inr vv))))"

text \<open>For examples: a cluster that has nothing to show and accepts every command.\<close>

definition idle_ceph :: "'w osd_ceph" where
  "idle_ceph = \<lparr>osd_tree = ret (Inr \<lparr>Nodes = Some [], Stray = []\<rparr>), osd_dump = ret (Inr \<lparr>OSDs = [], CrushNodeFlags = (\<lambda>_. None)\<rparr>),
     osd_metadata = ret (Inr []), osd_ls = ret (Inr []), safe_to_destroy = (\<lambda>_. ret (Inr [])),
     ok_to_stop = (\<lambda>_ _. ret (Inr (Some []))), osd_out = (\<lambda>_. ret None), osd_in = (\<lambda>_. ret None),
     osd_down = (\<lambda>_. ret None), osd_destroy = (\<lambda>_. ret None),
     rm_device_class = (\<lambda>_. ret None), set_device_class = (\<lambda>_ _. ret None),
     require_osd_release = (\<lambda>_. ret None),
     daemon_versions = ret (Inr \<lparr>MonVersions = [], OsdVersions = []\<rparr>), daemon_ok_to_stop = (\<lambda>_ _. ret None)\<rparr>"

section \<open>Lemmas\<close>

text \<open>The world after \<open>k\<close> failed attempts, each followed by a pause.\<close>

definition retried :: "('w \<Rightarrow> 'w) \<Rightarrow> ('w, err option) eff \<Rightarrow> nat \<Rightarrow> 'w \<Rightarrow> 'w" where
  "retried sleep f k w = ((\<lambda>w. sleep (snd (f w))) ^^ k) w"

lemma retried_simps [simp]:
  "retried sleep f 0 w = w"
  "retried sleep f (Suc k) w = retried sleep f k (sleep (snd (f w)))"
  by (simp_all add: retried_def funpow_Suc_right del: funpow.simps)

lemma retry_loop_iff:
  "fst (retry_loop ctx sleep f n w) = None \<longleftrightarrow>
   (\<exists>k \<le> n. (\<forall>j < k. ctx (retried sleep f j w) = None \<and> fst (f (retried sleep f j w)) \<noteq> None) \<and>
      ctx (retried sleep f k w) = None \<and> fst (f (retried sleep f k w)) = None)"
proof (induction n arbitrary: w)
  case 0
  show ?case by (subst retry_loop.simps) (auto split: option.splits prod.splits)
next
  case (Suc n)
  obtain r w' where f: "f w = (r, w')" by fastforce
  consider e where "ctx w = Some e" | "ctx w = None" "r = None" | e where "ctx w = None" "r = Some e"
    by (cases "ctx w"; cases r) auto
  then show ?case
  proof cases
    case 3
    then have "retry_loop ctx sleep f (Suc n) w = retry_loop ctx sleep f n (sleep w')"
      by (subst retry_loop.simps) (simp add: f)
    with 3 show ?thesis using f by (simp add: Suc.IH Ex_less_Suc2 All_less_Suc2 flip: less_Suc_eq_le)
  qed (subst retry_loop.simps, auto simp: f Ex_less_Suc2 All_less_Suc2 simp flip: less_Suc_eq_le)+
qed

text \<open>C25. Whether a daemon may be stopped for an upgrade: the check succeeds exactly when the versions of the daemons can be read and
  the daemon is a monitor of a cluster that reports fewer than three, all of one version, or it is an OSD for which the checks are
  skipped (there are fewer than three OSDs, they are all on one host, or no host is in the CRUSH map), or the context is not
  cancelled and daemons of the type are not checked, or Ceph agrees in one of the attempts, of which there are at
  most one more than the retries, before the context is cancelled.\<close>
theorem ok_to_stop_decision:
  fixes c :: "'w osd_ceph" and sleep :: "int \<Rightarrow> 'w \<Rightarrow> 'w" and daemonType daemonName :: string and timeout :: int
  assumes versions: "daemon_versions c w = (r, w1)"
    and skipping: "(if daemonType = ''osd'' then osdDoNothing c else ret False) w1 = (skipped, w2)"
  defines "ask \<equiv> daemon_ok_to_stop c daemonType daemonName"
    and "rest \<equiv> sleep (snd (getRetryConfig timeout daemonType))"
    and "n \<equiv> nat (fst (getRetryConfig timeout daemonType))"
  shows "fst (OkToStop c ctx sleep timeout daemonType daemonName w) = None \<longleftrightarrow>
    (\<exists>v. r = Inr v \<and> (daemonType = ''mon'' \<and> few_mons (MonVersions v) \<or> skipped \<or>
      (if daemonType \<in> set daemonNoCheck then ctx w2 = None
       else \<exists>k \<le> n. (\<forall>j < k. ctx (retried rest ask j w2) = None \<and> fst (ask (retried rest ask j w2)) \<noteq> None) \<and>
         ctx (retried rest ask k w2) = None \<and> fst (ask (retried rest ask k w2)) = None)))"
proof -
  define g where "g = okToStopDaemon c daemonType daemonName"
  have g: "g s = (map_option (Wrap ''deployment cannot be stopped.'') (fst (ask s)), snd (ask s))" if "daemonType \<notin> set daemonNoCheck" for s
    using that by (auto simp: g_def ask_def okToStopDaemon_def effects split: option.splits prod.splits)
  have r: "retried rest g j s = retried rest ask j s" if "daemonType \<notin> set daemonNoCheck" for j s
    by (induction j arbitrary: s) (simp_all add: g that)
  have unasked: "fst (retry_loop ctx rest g n w2) = None \<longleftrightarrow> ctx w2 = None" if "daemonType \<in> set daemonNoCheck"
    using that by (subst retry_loop.simps) (simp add: g_def okToStopDaemon_def ret_def split: option.split)
  have "fst (OkToStop c ctx sleep timeout daemonType daemonName w) = None \<longleftrightarrow>
      (\<exists>v. r = Inr v \<and> (daemonType = ''mon'' \<and> few_mons (MonVersions v) \<or> skipped \<or> fst (retry_loop ctx rest g n w2) = None))"
    using versions skipping
    by (cases r; cases "retry_loop ctx rest g n w2")
       (auto simp: OkToStop_def effects RetryWithContext_def rest_def g_def n_def split: option.splits)
  moreover have "fst (retry_loop ctx rest g n w2) = None \<longleftrightarrow>
      (\<exists>k \<le> n. (\<forall>j < k. ctx (retried rest ask j w2) = None \<and> fst (ask (retried rest ask j w2)) \<noteq> None) \<and>
         ctx (retried rest ask k w2) = None \<and> fst (ask (retried rest ask k w2)) = None)" if "daemonType \<notin> set daemonNoCheck"
    by (simp add: retry_loop_iff r [OF that] g [OF that])
  ultimately show ?thesis using unasked by (cases "daemonType \<in> set daemonNoCheck") simp_all
qed

lemma least_loop_min:
  assumes "least_loop vs vv = Inr r"
  shows "version_key r \<le> version_key vv \<and> (r = vv \<or> (\<exists>v \<in> set vs. ExtractCephVersion v = Inr r)) \<and>
    (\<forall>v \<in> set vs. \<exists>x. ExtractCephVersion v = Inr x \<and> version_key r \<le> version_key x)"
  using assms
proof (induction vs arbitrary: vv)
  case (Cons v vs)
  then obtain x where x: "ExtractCephVersion v = Inr x"
    and l: "least_loop vs (if IsInferior x vv then x else vv) = Inr r" by (auto split: sum.splits)
  from Cons.IH [OF l] show ?case by (auto simp: x IsInferior_key split: if_splits)
qed simp

lemma retried_wait: "retried (\<lambda>t. t + 60) f j t = t + 60 * int j" if "\<And>t. snd (f t) = t"
  by (induction j arbitrary: t) (simp_all add: that)

text \<open>A metadata server that may be stopped at the third attempt, on a world that is the clock in seconds.\<close>

theorem ok_to_stop_decision_witness:
  "fst (OkToStop (idle_ceph\<lparr>daemon_ok_to_stop := (\<lambda>_ _ t. (if t < 100 then Some (Errorf ''busy'') else None, t))\<rparr>)
     (\<lambda>_. None) (\<lambda>_ t. t + 60) 0 ''mds'' ''a'' (0 :: int)) = None"
proof -
  let ?c = "idle_ceph\<lparr>daemon_ok_to_stop := (\<lambda>_ _ t. (if t < 100 then Some (Errorf ''busy'') else None, t))\<rparr> :: int osd_ceph"
  note d = ok_to_stop_decision [where c = ?c and w = 0 and r = "Inr \<lparr>MonVersions = [], OsdVersions = []\<rparr>" and ?w1.0 = 0 and skipped = False
    and daemonType = "''mds''" and ?w2.0 = 0 and timeout = 0 and sleep = "\<lambda>_ t. t + 60" and daemonName = "''a''"
    and ctx = "\<lambda>_. None"]
  show ?thesis
    by (subst d) (simp_all add: idle_ceph_def ret_def daemonNoCheck_def getRetryConfig_def retried_wait exI [of _ 2])
qed

text \<open>The version reported for a type of daemon is one that some daemon of the type runs, and no daemon runs an older
  one, whatever the order in which the versions are visited.\<close>
theorem least_version:
  assumes "LeastUptodateDaemonVersion c daemonType w = (Inr vv, w')"
    and "daemon_versions c w = (Inr versions, w1)" and "daemonMapEntry versions daemonType = Inr m" and "m \<noteq> []"
  shows "(\<exists>v \<in> set (keys m). ExtractCephVersion v = Inr vv) \<and>
    (\<forall>v \<in> set (keys m). \<exists>x. ExtractCephVersion v = Inr x \<and> \<not> IsInferior x vv)"
proof -
  have l: "least_loop (keys m) maxVersion = Inr vv" and "Major vv \<noteq> 65535"
    using assms by (auto simp: LeastUptodateDaemonVersion_def effects split: sum.splits if_splits)
  then have "vv \<noteq> maxVersion" by (auto simp: maxVersion_def)
  with least_loop_min [OF l] show ?thesis by (fastforce simp: IsInferior_key not_less)
qed

theorem least_version_witness:
  "fst (LeastUptodateDaemonVersion
     (idle_ceph\<lparr>daemon_versions := ret (Inr \<lparr>MonVersions = [], OsdVersions = [(''ceph version 19.2.1 squid'', 2), (''ceph version 18.2.5 reef'', 1)]\<rparr>)\<rparr>)
     ''osd'' ()) = Inr (mk_version 18 2 5 0) \<and>
   \<not> IsInferior (mk_version 19 2 1 0) (mk_version 18 2 5 0)"
proof -
  let ?m = "[(''ceph version 19.2.1 squid'', 2), (''ceph version 18.2.5 reef'', 1)] :: int gomap"
  let ?c = "idle_ceph\<lparr>daemon_versions := ret (Inr \<lparr>MonVersions = [], OsdVersions = ?m\<rparr>)\<rparr> :: unit osd_ceph"
  have l: "LeastUptodateDaemonVersion ?c ''osd'' () = (Inr (mk_version 18 2 5 0), ())" by code_simp
  have e: "ExtractCephVersion ''ceph version 19.2.1 squid'' = Inr (mk_version 19 2 1 0)" by code_simp
  have "daemon_versions ?c () = (Inr \<lparr>MonVersions = [], OsdVersions = ?m\<rparr>, ())"
    "daemonMapEntry \<lparr>MonVersions = [], OsdVersions = ?m\<rparr> ''osd'' = Inr ?m" "?m \<noteq> []"
    by (simp_all add: ret_def daemonMapEntry_def)
  from least_version [OF l this] have "\<not> IsInferior (mk_version 19 2 1 0) (mk_version 18 2 5 0)"
    by (auto simp: keys_def e)
  with l show ?thesis by simp
qed

end
