(* ===== verification/OsdInfo.thy ===== *)
theory OsdInfo
  imports OsdClient Cephx Json Topology Placement Labels Kube
begin

text \<open>
  What the operator knows of an OSD and how it reads it back from the deployment of the OSD: the structs of
  \<^verbatim>\<open>pkg/operator/ceph/cluster/osd/osd.go\<close> and its functions from \<^verbatim>\<open>GetOSDID\<close> to \<^verbatim>\<open>resolveDeviceClass\<close>, the storage specification of
  \<^verbatim>\<open>pkg/apis/ceph.rook.io/v1/storage.go\<close> and the configuration of \<^verbatim>\<open>osd/config/config.go\<close>. Deployments, pods and nodes are those of
  Kubernetes, with the parts the operator looks at. Resource requirements, volumes and probes are left out.
\<close>

section \<open>Objects of Kubernetes\<close>

text \<open>The value of a variable, or where it is taken from.\<close>

datatype EnvValue = Value string | ValueFrom string

fun env_value :: "EnvValue \<Rightarrow> string" where
  "env_value (Value s) = s"
| "env_value (ValueFrom _) = []"

record Container =
  ContainerName :: string
  Command :: "string list"
  Args :: "string list"
  Env :: "(string \<times> EnvValue) list"

record OsdDeployment =
  DepName :: string
  DLabels :: "string gomap"
  DAnnotations :: "string gomap"
  DSelector :: "string gomap"
  DReplicas :: "int option"
  TemplateLabels :: "string gomap"
  TemplateAnnotations :: "string gomap"
  Containers :: "Container list"
  InitContainers :: "Container list"
  DPod :: PodSpec
  CreationTimestamp :: int

record OsdPod =
  PodPhase :: string
  PodNodeName :: string

definition dlabel :: "OsdDeployment \<Rightarrow> string \<Rightarrow> string" where
  "dlabel d k = mget (map_of (DLabels d)) k"

definition dannotation :: "OsdDeployment \<Rightarrow> string \<Rightarrow> string" where
  "dannotation d k = mget (map_of (DAnnotations d)) k"

definition has_annotation :: "OsdDeployment \<Rightarrow> string \<Rightarrow> bool" where
  "has_annotation d k \<longleftrightarrow> map_of (DAnnotations d) k \<noteq> None"

section \<open>OSDs and the storage specification\<close>

record OSDInfo =
  ID :: int
  Cluster :: string
  UUID :: string
  DevicePartUUID :: string
  DeviceClass :: string
  BlockPath :: string
  MetadataPath :: string
  WalPath :: string
  SkipLVRelease :: bool
  Location :: string
  LVBackedPV :: bool
  CVMode :: string
  Store :: string
  TopologyAffinity :: string
  Encrypted :: bool
  ExportService :: bool
  NodeName :: string
  PVCName :: string
  DeviceType :: string
  OsdCephx :: CephxStatus

definition emptyCephxStatus :: CephxStatus where
  "emptyCephxStatus = \<lparr>KeyGeneration = 0, KeyCephVersion = [], KeyType = []\<rparr>"

definition emptyOSDInfo :: OSDInfo where
  "emptyOSDInfo = \<lparr>ID = 0, Cluster = [], UUID = [], DevicePartUUID = [], DeviceClass = [], BlockPath = [], MetadataPath = [], WalPath = [],
     SkipLVRelease = False, Location = [],
     LVBackedPV = False, CVMode = [], Store = [], TopologyAffinity = [], Encrypted = False, ExportService = False,
     NodeName = [], PVCName = [], DeviceType = [], OsdCephx = emptyCephxStatus\<rparr>"

record Device =
  DevName :: string
  FullPath :: string
  DevConfig :: "string gomap"

record Selection =
  UseAllDevices :: "bool option"
  DeviceFilter :: string
  DevicePathFilter :: string
  SelDevices :: "Device list"

record StorageNode =
  NName :: string
  NConfig :: "string gomap option"
  NSelection :: Selection

record StoreConfig =
  WalSizeMB :: int
  DatabaseSizeMB :: int
  OSDsPerDevice :: int
  EncryptedDevice :: bool
  CfgMetadataDevice :: string
  CfgDeviceClass :: string
  InitialWeight :: string
  PrimaryAffinity :: string

definition NewStoreConfig :: StoreConfig where
  "NewStoreConfig = \<lparr>WalSizeMB = 0, DatabaseSizeMB = 0, OSDsPerDevice = 1, EncryptedDevice = False,
     CfgMetadataDevice = [], CfgDeviceClass = [], InitialWeight = [], PrimaryAffinity = []\<rparr>"

definition convertToIntIgnoreErr :: "string \<Rightarrow> int" where
  "convertToIntIgnoreErr raw = (case Atoi raw of None \<Rightarrow> 0 | Some i \<Rightarrow> i)"

definition store_option :: "string \<times> string \<Rightarrow> StoreConfig \<Rightarrow> StoreConfig" where
  "store_option kv c = (case kv of (k, v) \<Rightarrow>
     if k = ''walSizeMB'' then c\<lparr>WalSizeMB := convertToIntIgnoreErr v\<rparr>
     else if k = ''databaseSizeMB'' then c\<lparr>DatabaseSizeMB := convertToIntIgnoreErr v\<rparr>
     else if k = ''osdsPerDevice'' then (if convertToIntIgnoreErr v > 0 then c\<lparr>OSDsPerDevice := convertToIntIgnoreErr v\<rparr> else c)
     else if k = ''encryptedDevice'' then c\<lparr>EncryptedDevice := (v = ''true'')\<rparr>
     else if k = ''metadataDevice'' then c\<lparr>CfgMetadataDevice := v\<rparr>
     else if k = ''deviceClass'' then c\<lparr>CfgDeviceClass := v\<rparr>
     else if k = ''initialWeight'' then c\<lparr>InitialWeight := v\<rparr>
     else if k = ''primaryAffinity'' then c\<lparr>PrimaryAffinity := v\<rparr>
     else c)"

definition ToStoreConfig :: "string gomap \<Rightarrow> StoreConfig" where
  "ToStoreConfig config = fold store_option config NewStoreConfig"

definition MetadataDevice :: "string gomap \<Rightarrow> string" where
  "MetadataDevice config = mget (map_of config) ''metadataDevice''"

section \<open>Nodes of the storage specification\<close>

definition resolveString :: "string \<Rightarrow> string \<Rightarrow> string \<Rightarrow> string" where
  "resolveString setting parent defaultVal =
     (if setting = [] then (if parent \<noteq> [] then parent else defaultVal) else setting)"

definition resolveNodeSelection :: "Selection \<Rightarrow> Selection \<Rightarrow> Selection" where
  "resolveNodeSelection s n =
     \<lparr>UseAllDevices = (case UseAllDevices n of None \<Rightarrow> (case UseAllDevices s of None \<Rightarrow> Some False | b \<Rightarrow> b) | b \<Rightarrow> b),
      DeviceFilter = resolveString (DeviceFilter n) (DeviceFilter s) [],
      DevicePathFilter = resolveString (DevicePathFilter n) (DevicePathFilter s) [],
      SelDevices = (if SelDevices n = [] then SelDevices s else SelDevices n)\<rparr>"

definition resolveNodeConfig :: "string gomap \<Rightarrow> string gomap \<Rightarrow> string gomap" where
  "resolveNodeConfig scope config =
     fold (\<lambda>(k, v) m. if map_of m k = None then put k v m else m) scope config"

record StorageScopeSpec =
  StNodes :: "StorageNode list"
  StUseAllNodes :: bool
  StConfig :: "string gomap"
  StSelection :: Selection

definition NodeExists :: "StorageScopeSpec \<Rightarrow> string \<Rightarrow> bool" where
  "NodeExists s nodeName = list_ex (\<lambda>n. NName n = nodeName) (StNodes s)"

text \<open>The node is resolved in place: the specification is changed too.\<close>

definition resolve_node :: "StorageScopeSpec \<Rightarrow> StorageNode \<Rightarrow> StorageNode" where
  "resolve_node s n =
     n\<lparr>NSelection := resolveNodeSelection (StSelection s) (NSelection n),
       NConfig := Some (resolveNodeConfig (StConfig s) (case NConfig n of None \<Rightarrow> [] | Some c \<Rightarrow> c))\<rparr>"

fun update_first :: "('a \<Rightarrow> bool) \<Rightarrow> ('a \<Rightarrow> 'a) \<Rightarrow> 'a list \<Rightarrow> 'a list" where
  "update_first P f [] = []"
| "update_first P f (x # xs) = (if P x then f x # xs else x # update_first P f xs)"

definition ResolveNode :: "StorageScopeSpec \<Rightarrow> string \<Rightarrow> StorageNode option \<times> StorageScopeSpec" where
  "ResolveNode s nodeName =
     (map_option (resolve_node s) (find (\<lambda>n. NName n = nodeName) (StNodes s)),
      s\<lparr>StNodes := update_first (\<lambda>n. NName n = nodeName) (resolve_node s) (StNodes s)\<rparr>)"

section \<open>Environment\<close>

text \<open>The interfaces of Kubernetes and the commands of Ceph act on the world outside, which has a clock.\<close>

record JobStatus =
  Active :: int
  Succeeded :: int
  JobFailed :: bool
  JobNode :: string

record 'w osd_kube =
  deps :: "(OsdDeployment, 'w) kube"
  deps_with :: "string \<Rightarrow> ('w, OsdDeployment list res) eff"
  pods_with :: "string \<Rightarrow> ('w, OsdPod list res) eff"
  node_named :: "string \<Rightarrow> ('w, KNode res) eff"
  nodes_with :: "string \<Rightarrow> ('w, KNode list res) eff"
  jobs :: "(JobStatus, 'w) kube"

record 'w osd_env =
  ONs :: string
  OLabelEnv :: string
  CrushRoot :: string
  kub :: "'w osd_kube"
  cph :: "'w osd_ceph"
  now :: "'w \<Rightarrow> int"
  pause :: "int \<Rightarrow> 'w \<Rightarrow> 'w"

section \<open>The status of a key in an annotation\<close>

text \<open>An unsigned number of 32 bits is read from a JSON number without sign, fraction and exponent.\<close>

definition decode_uint32 :: "json \<Rightarrow> 32 word \<times> bool \<Rightarrow> 32 word \<times> bool" where
  "decode_uint32 v acc =
     (case v of JNum s \<Rightarrow> (case parse_digits s of
            Some n \<Rightarrow> if n < 2 ^ 32 then (word_of_int n, snd acc) else (fst acc, False)
          | None \<Rightarrow> (fst acc, False))
      | JNull \<Rightarrow> acc | _ \<Rightarrow> (fst acc, False))"

definition uint32_field :: "string \<Rightarrow> (string \<times> json) list \<Rightarrow> 32 word \<times> bool" where
  "uint32_field name ms = fold (\<lambda>(k, v) acc. if same_name k name then decode_uint32 v acc else acc) ms (0, True)"

definition marshal_cephx :: "CephxStatus \<Rightarrow> string" where
  "marshal_cephx st = print (JObj
     ((if KeyGeneration st = 0 then [] else [(''keyGeneration'', JNum (Itoa (uint (KeyGeneration st))))]) @
      omit_empty ''keyCephVersion'' (KeyCephVersion st) @ omit_empty ''keyType'' (KeyType st)))"

definition unmarshal_cephx :: "string \<Rightarrow> CephxStatus res" where
  "unmarshal_cephx s =
     (case parse s of
        Some (JObj ms) \<Rightarrow>
          (case (uint32_field ''keyGeneration'' ms, str_field ''keyCephVersion'' ms, str_field ''keyType'' ms) of
             ((g, True), (v, True), (t, True)) \<Rightarrow> Inr \<lparr>KeyGeneration = g, KeyCephVersion = v, KeyType = t\<rparr>
           | _ \<Rightarrow> Inl (Errorf ''json: cannot unmarshal''))
      | Some JNull \<Rightarrow> Inr emptyCephxStatus
      | _ \<Rightarrow> Inl (Errorf ''json: cannot unmarshal''))"

section \<open>Reading an OSD from its deployment\<close>

definition OsdIdLabelKey :: string where "OsdIdLabelKey = ''ceph-osd-id''"
definition OSDOverPVCLabelKey :: string where "OSDOverPVCLabelKey = ''ceph.rook.io/pvc''"
definition cephxStatusAnnotationKey :: string where "cephxStatusAnnotationKey = ''cephx-status''"
definition locationPrefix :: string where "locationPrefix = ''--crush-location=''"

definition deploymentName :: "int \<Rightarrow> string" where
  "deploymentName osdID = ''rook-ceph-osd-'' @ Itoa osdID"

definition GetDeploymentOSDID :: "OsdDeployment \<Rightarrow> int res" where
  "GetDeploymentOSDID d =
     (case Atoi (dlabel d OsdIdLabelKey) of
        None \<Rightarrow> Inl (Errorf ''failed to parse label ceph-osd-id'') | Some i \<Rightarrow> Inr i)"

definition findOSDContainer :: "Container list \<Rightarrow> Container res" where
  "findOSDContainer cs =
     (case find (\<lambda>c. ContainerName c = ''osd'') cs of
        None \<Rightarrow> Inl (Errorf ''OSD container not found in deployment'') | Some c \<Rightarrow> Inr c)"

definition ParseBool :: "string \<Rightarrow> bool option" where
  "ParseBool s =
     (if s \<in> set [''1'', ''t'', ''T'', ''TRUE'', ''true'', ''True''] then Some True
      else if s \<in> set [''0'', ''f'', ''F'', ''FALSE'', ''false'', ''False''] then Some False else None)"

text \<open>The annotations of the pods of an OSD: the status of its key, and those of the user, which replace none that is there.\<close>

definition ApplyToObjectMeta :: "string gomap \<Rightarrow> string gomap \<Rightarrow> string gomap" where
  "ApplyToObjectMeta a t = put_new a t"

definition template_annotations :: "string gomap \<Rightarrow> CephxStatus \<Rightarrow> string gomap" where
  "template_annotations user st = ApplyToObjectMeta user [(cephxStatusAnnotationKey, marshal_cephx st)]"

text \<open>A later variable wins over an earlier one.\<close>

definition osd_env_step :: "string \<times> EnvValue \<Rightarrow> OSDInfo \<times> bool \<Rightarrow> (OSDInfo \<times> bool) res" where
  "osd_env_step nv st = (case (nv, st) of ((n, v), (osd, isPVC)) \<Rightarrow>
     let x = env_value v in
      if n = ''ROOK_NODE_NAME'' then Inr (osd\<lparr>NodeName := x\<rparr>, isPVC)
      else if n = ''ROOK_OSD_UUID'' then Inr (osd\<lparr>UUID := x\<rparr>, isPVC)
      else if n = ''ROOK_PVC_BACKED_OSD'' then Inr (osd, True)
      else if n = ''ROOK_BLOCK_PATH'' \<or> n = ''ROOK_LV_PATH'' then Inr (osd\<lparr>BlockPath := x\<rparr>, isPVC)
      else if n = ''ROOK_CV_MODE'' then Inr (osd\<lparr>CVMode := x\<rparr>, isPVC)
      else if n = ''ROOK_TOPOLOGY_AFFINITY'' then Inr (osd\<lparr>TopologyAffinity := x\<rparr>, isPVC)
      else if n = ''ROOK_LV_BACKED_PV'' then
        (case ParseBool x of None \<Rightarrow> Inl (Errorf ''failed to parse ROOK_LV_BACKED_PV'')
         | Some b \<Rightarrow> Inr (osd\<lparr>LVBackedPV := b\<rparr>, isPVC))
      else if n = ''ROOK_METADATA_DEVICE'' then Inr (osd\<lparr>MetadataPath := x\<rparr>, isPVC)
      else if n = ''ROOK_WAL_DEVICE'' then Inr (osd\<lparr>WalPath := x\<rparr>, isPVC)
      else if n = ''ROOK_OSD_DEVICE_CLASS'' then Inr (osd\<lparr>DeviceClass := x\<rparr>, isPVC)
      else Inr (osd, isPVC))"

fun osd_env_loop :: "(string \<times> EnvValue) list \<Rightarrow> OSDInfo \<times> bool \<Rightarrow> (OSDInfo \<times> bool) res" where
  "osd_env_loop [] st = Inr st"
| "osd_env_loop (v # vs) st = (case osd_env_step v st of Inl e \<Rightarrow> Inl e | Inr st' \<Rightarrow> osd_env_loop vs st')"

text \<open>\<^verbatim>\<open>strings.TrimSpace\<close> for the white space of ASCII.\<close>

definition is_space :: "char \<Rightarrow> bool" where
  "is_space c \<longleftrightarrow> of_char c \<in> {9, 10, 11, 12, 13, 32 :: nat}"

definition TrimSpace :: "string \<Rightarrow> string" where
  "TrimSpace s = rev (dropWhile is_space (rev (dropWhile is_space s)))"

text \<open>The lines of a script up to the first that assigns the variable. The scanner gives up on a line that does not fit into
  its buffer of 64 KiB. A carriage return at the end of a line is white space.\<close>

fun scan_device :: "string list \<Rightarrow> string option res" where
  "scan_device [] = Inr None"
| "scan_device (l # ls) =
     (if length l \<ge> 65536 then Inl (Errorf ''failed to scan through activate init script'')
      else if has_prefix ''DEVICE='' (TrimSpace l) then Inr (Some (trim_prefix ''DEVICE='' (TrimSpace l)))
      else scan_device ls)"

definition device_of_script :: "string \<Rightarrow> string option res" where
  "device_of_script script = scan_device (split_on (CHR 0x0A) script)"

fun getBlockPathFromActivateInitContainer :: "Container list \<Rightarrow> string res" where
  "getBlockPathFromActivateInitContainer [] = Inl (Errorf ''failed to find activate init container'')"
| "getBlockPathFromActivateInitContainer (c # cs) =
     (if ContainerName c \<noteq> ''activate'' then getBlockPathFromActivateInitContainer cs
      else if length (Command c) \<noteq> 3 then Inl (Errorf ''activate init container has fewer command arguments than expected'')
      else (case device_of_script (Command c ! 2) of Inl e \<Rightarrow> Inl e
            | Inr (Some device) \<Rightarrow> Inr device
            | Inr None \<Rightarrow> getBlockPathFromActivateInitContainer cs))"

definition getOSDLocationFromArgs :: "string list \<Rightarrow> string \<times> bool" where
  "getOSDLocationFromArgs args =
     (case find (has_prefix locationPrefix) args of
        None \<Rightarrow> ([], False) | Some a \<Rightarrow> (drop (length locationPrefix) a, True))"

definition osdIsOnPVC :: "OsdDeployment \<Rightarrow> bool" where
  "osdIsOnPVC d \<longleftrightarrow> map_of (DLabels d) OSDOverPVCLabelKey \<noteq> None"

definition getNodeOrPVCName :: "string \<Rightarrow> OsdDeployment \<Rightarrow> string res" where
  "getNodeOrPVCName labelEnv d =
     (case map_of (DLabels d) OSDOverPVCLabelKey of Some v \<Rightarrow> Inr v
      | None \<Rightarrow> (let sel = (case NodeSelector (DPod d) of None \<Rightarrow> [] | Some m \<Rightarrow> m) in
          case map_of sel (LabelHostname labelEnv) of Some v \<Rightarrow> Inr v
          | None \<Rightarrow> (case sel of [(_, v)] \<Rightarrow> Inr v | _ \<Rightarrow> Inl (Errorf ''failed to find node/PVC name for OSD deployment''))))"

section \<open>Locations\<close>

text \<open>A node by its name or by its hostname label.\<close>

definition getOSDNode :: "'w osd_env \<Rightarrow> string \<Rightarrow> ('w, KNode res) eff" where
  "getOSDNode env nodeName =
     andThen (node_named (kub env) nodeName) (\<lambda>r. case r of Inr n \<Rightarrow> ret (Inr n)
      | Inl e \<Rightarrow>
          if IsNotFound e
          then andThen (nodes_with (kub env) (LabelHostname (OLabelEnv env) @ ''='' @ nodeName)) (\<lambda>l. ret (case l of
                 Inl e' \<Rightarrow> Inl (Wrap ''could not find node by hostname label'' e')
               | Inr [n] \<Rightarrow> Inr n
               | Inr _ \<Rightarrow> Inl (Errorf ''could not find node by hostname label'')))
          else ret (Inl (Wrap ''could not find node by name'' e)))"

definition UpdateCrushMapValue :: "string list \<Rightarrow> string \<Rightarrow> string \<Rightarrow> string list" where
  "UpdateCrushMapValue pairs key val =
     (if list_ex (\<lambda>p. key = hd (split_on (CHR ''='') p)) pairs
      then map (\<lambda>p. if key = hd (split_on (CHR ''='') p) then key @ ''='' @ val else p) pairs
      else pairs @ [key @ ''='' @ val])"

text \<open>The levels of a topology in alphabetical order.\<close>

definition topology_keys :: "string \<Rightarrow> topology \<Rightarrow> string list" where
  "topology_keys labelEnv t =
     filter (\<lambda>k. t k \<noteq> None)
       (sort (remdups (map (kubernetesTopologyLabelToCRUSHLabel labelEnv) (allKubernetesTopologyLabelsOrdered labelEnv))))"

definition updateLocationWithNodeLabels :: "string \<Rightarrow> string list \<Rightarrow> labels \<Rightarrow> string list \<times> string" where
  "updateLocationWithNodeLabels labelEnv location nodeLabels =
     (case ExtractOSDTopologyFromLabels labelEnv nodeLabels of (topology, affinity) \<Rightarrow>
       (fold (\<lambda>k loc. if k \<noteq> ''host'' then UpdateCrushMapValue loc k (mget topology k) else loc)
          (topology_keys labelEnv topology) location, affinity))"

definition GetLocationWithNode :: "'w osd_env \<Rightarrow> string \<Rightarrow> string \<Rightarrow> ('w, (string \<times> string) res) eff" where
  "GetLocationWithNode env nodeName crushHostname =
     andThen (getOSDNode env nodeName) (\<lambda>r. ret (case r of
        Inl e \<Rightarrow> Inl (Wrap ''could not get the node for topology labels'' e)
      | Inr node \<Rightarrow>
          (case (if crushHostname = [] then GetNodeHostNameLabel (OLabelEnv env) node else Inr crushHostname) of
             Inl e \<Rightarrow> Inl (Wrap ''failed to get the host name label for node'' e)
           | Inr h \<Rightarrow>
               (case updateLocationWithNodeLabels (OLabelEnv env)
                       [''root='' @ CrushRoot env, ''host='' @ NormalizeCrushName h] (KLabels node) of
                  (locArgs, affinity) \<Rightarrow> Inr (join '' '' locArgs, affinity)))))"

definition GetNodeHostName :: "'w osd_env \<Rightarrow> string \<Rightarrow> ('w, string res) eff" where
  "GetNodeHostName env nodeName =
     andThen (node_named (kub env) nodeName)
       (\<lambda>r. ret (case r of Inl e \<Rightarrow> Inl e | Inr node \<Rightarrow> GetNodeHostNameLabel (OLabelEnv env) node))"

definition osd_selector :: "OsdDeployment \<Rightarrow> string" where
  "osd_selector d = OsdIdLabelKey @ ''='' @ dlabel d OsdIdLabelKey"

definition getLocationFromPod :: "'w osd_env \<Rightarrow> OsdDeployment \<Rightarrow> ('w, (string \<times> string) res) eff" where
  "getLocationFromPod env d =
     andThen (pods_with (kub env) (osd_selector d)) (\<lambda>r. case r of
        Inl e \<Rightarrow> ret (Inl e)
      | Inr [] \<Rightarrow> ret (Inr ([], []))
      | Inr (p # _) \<Rightarrow>
          andThen (GetNodeHostName env (PodNodeName p)) (\<lambda>h. case h of
             Inl e \<Rightarrow> ret (Inl e)
           | Inr hostName \<Rightarrow>
               GetLocationWithNode env (PodNodeName p)
                 (if dlabel d ''portable'' = ''true''
                  then (case map_of (DLabels d) OSDOverPVCLabelKey of Some pvcName \<Rightarrow> pvcName | None \<Rightarrow> hostName)
                  else hostName)))"

definition getTopologyFromNode :: "'w osd_env \<Rightarrow> OsdDeployment \<Rightarrow> ('w, string res) eff" where
  "getTopologyFromNode env d =
     (if dlabel d ''portable'' \<noteq> ''true'' then ret (Inr [])
      else andThen (pods_with (kub env) (osd_selector d)) (\<lambda>r. case r of
        Inl e \<Rightarrow> ret (Inl (Wrap ''failed to get osd pod'' e))
      | Inr [] \<Rightarrow> ret (Inl (Errorf ''an osd pod does not exist''))
      | Inr (p # _) \<Rightarrow>
          if PodNodeName p = [] then ret (Inl (Errorf ''osd is not assigned to a node, cannot detect topology affinity''))
          else andThen (getOSDNode env (PodNodeName p)) (\<lambda>n. ret (case n of
             Inl e \<Rightarrow> Inl (Wrap ''failed to get the node for topology affinity'' e)
           | Inr node \<Rightarrow> Inr (snd (ExtractOSDTopologyFromLabels (OLabelEnv env) (KLabels node)))))))"

section \<open>The information about an OSD\<close>

text \<open>What follows the loop over the variables, in the order of the code: the block path of old deployments, the mode,
  the topology affinity and the location of OSDs that do not carry them, the labels and the status of the key.\<close>

definition legacy_block_path :: "OsdDeployment \<Rightarrow> OSDInfo \<times> bool \<Rightarrow> OSDInfo res" where
  "legacy_block_path d st = (case st of (osd, isPVC) \<Rightarrow>
     if \<not> isPVC \<and> BlockPath osd = []
     then (case getBlockPathFromActivateInitContainer (InitContainers d) of
             Inl e \<Rightarrow> Inl (Wrap ''failed to extract legacy OSD block path from deployment'' e)
           | Inr p \<Rightarrow> Inr (osd\<lparr>BlockPath := p\<rparr>))
     else Inr osd)"

definition osd_from_env :: "OsdDeployment \<Rightarrow> Container \<Rightarrow> (OSDInfo \<times> bool) res" where
  "osd_from_env d c =
     (case GetDeploymentOSDID d of Inl e \<Rightarrow> Inl e
      | Inr osdID \<Rightarrow>
          (case osd_env_loop (Env c) (emptyOSDInfo\<lparr>ID := osdID\<rparr>, False) of Inl e \<Rightarrow> Inl e
           | Inr (osd, isPVC) \<Rightarrow>
               (case legacy_block_path d (osd, isPVC) of Inl e \<Rightarrow> Inl e
                | Inr osd' \<Rightarrow> Inr (if CVMode osd' = [] then osd'\<lparr>CVMode := ''lvm''\<rparr> else osd', isPVC))))"

definition detect_topology :: "'w osd_env \<Rightarrow> OsdDeployment \<Rightarrow> bool \<Rightarrow> OSDInfo \<Rightarrow> ('w, OSDInfo) eff" where
  "detect_topology env d isPVC osd =
     (if isPVC \<and> TopologyAffinity osd = []
      then andThen (getTopologyFromNode env d)
             (\<lambda>r. ret (osd\<lparr>TopologyAffinity := (case r of Inl _ \<Rightarrow> [] | Inr a \<Rightarrow> a)\<rparr>))
      else ret osd)"

definition detect_location :: "'w osd_env \<Rightarrow> OsdDeployment \<Rightarrow> Container \<Rightarrow> OSDInfo \<Rightarrow> ('w, OSDInfo) eff" where
  "detect_location env d c osd =
     (case getOSDLocationFromArgs (Args c) of
        (loc, True) \<Rightarrow> ret (osd\<lparr>Location := loc\<rparr>)
      | (loc, False) \<Rightarrow>
          andThen (getLocationFromPod env d)
            (\<lambda>r. ret (osd\<lparr>Location := (case r of Inl _ \<Rightarrow> [] | Inr (l, _) \<Rightarrow> l)\<rparr>)))"

definition osd_from_labels :: "OsdDeployment \<Rightarrow> bool \<Rightarrow> OSDInfo \<Rightarrow> OSDInfo" where
  "osd_from_labels d isPVC osd =
     osd\<lparr>Store := dlabel d ''osd-store'', DeviceType := dlabel d ''device-type'',
         Encrypted := (dlabel d ''encrypted'' = ''true'' \<or> contains_sub (BlockPath osd) ''-dmcrypt''),
         PVCName := (if isPVC then dlabel d OSDOverPVCLabelKey else PVCName osd)\<rparr>"

definition cephx_of_template :: "OsdDeployment \<Rightarrow> CephxStatus res" where
  "cephx_of_template d =
     (case map_of (TemplateAnnotations d) cephxStatusAnnotationKey of
        None \<Rightarrow> Inr emptyCephxStatus
      | Some raw \<Rightarrow> (case unmarshal_cephx raw of
            Inl e \<Rightarrow> Inl (Wrap ''failed to unmarshal cephx status for deployment'' e) | Inr st \<Rightarrow> Inr st))"

definition getOSDInfo :: "'w osd_env \<Rightarrow> OsdDeployment \<Rightarrow> ('w, OSDInfo res) eff" where
  "getOSDInfo env d =
     (case findOSDContainer (Containers d) of
        Inl e \<Rightarrow> ret (Inl (Wrap ''failed to find OSD container in deployment'' e))
      | Inr c \<Rightarrow>
          (case osd_from_env d c of Inl e \<Rightarrow> ret (Inl e)
           | Inr (osd, isPVC) \<Rightarrow>
               andThen (detect_topology env d isPVC osd) (\<lambda>osd1.
               andThen (detect_location env d c osd1) (\<lambda>osd2.
                 ret (if UUID osd2 = [] \<or> BlockPath osd2 = [] then Inl (Errorf ''failed to get required osdInfo.'')
                      else (case cephx_of_template d of Inl e \<Rightarrow> Inl e
                            | Inr st \<Rightarrow> Inr ((osd_from_labels d isPVC osd2)\<lparr>OsdCephx := st\<rparr>)))))))"

section \<open>Device classes\<close>

definition perDeviceClassForOSD :: "OSDInfo \<Rightarrow> Device list \<Rightarrow> string" where
  "perDeviceClassForOSD osd devices =
     (if BlockPath osd = [] then []
      else let short = trim_prefix ''/dev/'' (BlockPath osd) in
        (case find (\<lambda>dev. mget (map_of (DevConfig dev)) ''deviceClass'' \<noteq> [] \<and>
                (DevName dev \<noteq> [] \<and> trim_prefix ''/dev/'' (DevName dev) = short \<or>
                 FullPath dev \<noteq> [] \<and> FullPath dev = BlockPath osd)) devices of
           None \<Rightarrow> [] | Some dev \<Rightarrow> mget (map_of (DevConfig dev)) ''deviceClass''))"

definition resolveDeviceClass :: "'w osd_env \<Rightarrow> string \<Rightarrow> string \<Rightarrow> ('w, string res) eff" where
  "resolveDeviceClass env crDeviceClass nodeName =
     andThen (getOSDNode env nodeName) (\<lambda>r. ret (case r of
        Inl e \<Rightarrow> Inl (Wrap ''failed to get node to read device class label'' e)
      | Inr node \<Rightarrow>
          (let labelClass = mget (KLabels node) ''osd.rook.io/device-class'' in
           if crDeviceClass \<noteq> [] \<and> labelClass \<noteq> [] then Inl (Errorf ''node has both CR device class and node label set'')
           else if crDeviceClass \<noteq> [] then Inr crDeviceClass
           else Inr labelClass)))"

section \<open>The status of a key survives its annotation\<close>

lemma hd_digits: "0 < n \<Longrightarrow> hd (digits n) \<noteq> CHR ''0''"
proof (induction n rule: digits.induct)
  case (1 n)
  show ?case
  proof (cases "n < 10")
    case True
    with 1(2) have "n = 1 \<or> n = 2 \<or> n = 3 \<or> n = 4 \<or> n = 5 \<or> n = 6 \<or> n = 7 \<or> n = 8 \<or> n = 9" by presburger
    then show ?thesis by (auto simp: digits.simps [of n] digit_char_def)
  next
    case False
    with 1 have "hd (digits (n div 10)) \<noteq> CHR ''0''" by simp
    with False show ?thesis by (subst digits.simps) (simp add: hd_append)
  qed
qed

lemma digits_number: "0 < n \<Longrightarrow> is_number (digits n) \<and> list_all num_char (digits n)"
proof -
  assume n: "0 < n"
  have d: "\<forall>c \<in> set (digits n). is_digit c" using n digits_all [of n] by (simp add: list_all_iff)
  then have t: "takeWhile is_digit (digits n) = digits n" "dropWhile is_digit (digits n) = []"
    by (simp_all add: takeWhile_eq_all_conv)
  have "hd (digits n) \<noteq> CHR ''-''" using d digits_nonempty [of n] by (metis hd_in_set not_digits(1))
  then show ?thesis using d hd_digits [OF n] digits_nonempty [of n]
    by (auto simp: t is_number_def is_frac_exp_def is_exp_def num_char_def list_all_iff Let_def)
qed

lemma unmarshal_marshal_cephx: "unmarshal_cephx (marshal_cephx st) = Inr st"
proof -
  define ms where "ms = (if KeyGeneration st = 0 then [] else [(''keyGeneration'', JNum (Itoa (uint (KeyGeneration st))))]) @
      omit_empty ''keyCephVersion'' (KeyCephVersion st) @ omit_empty ''keyType'' (KeyType st)"
  have u: "0 < uint (KeyGeneration st)" if "KeyGeneration st \<noteq> 0"
    using that uint_0_iff [of "KeyGeneration st"] uint_ge_0 [of "KeyGeneration st"] by linarith
  have names: "same_name ''keyGeneration'' ''keyGeneration''" "\<not> same_name ''keyGeneration'' ''keyCephVersion''"
    "\<not> same_name ''keyGeneration'' ''keyType''" "same_name ''keyCephVersion'' ''keyCephVersion''"
    "\<not> same_name ''keyCephVersion'' ''keyGeneration''" "\<not> same_name ''keyCephVersion'' ''keyType''"
    "same_name ''keyType'' ''keyType''" "\<not> same_name ''keyType'' ''keyGeneration''" "\<not> same_name ''keyType'' ''keyCephVersion''"
    by (simp_all add: same_name_def lower_char_def)
  have "wf_json (JObj ms)"
    using u digits_number by (simp add: ms_def Itoa_nonneg omit_empty_def)
  then have p: "parse (marshal_cephx st) = Some (JObj ms)"
    unfolding marshal_cephx_def ms_def [symmetric] by (rule parse_print)
  have "uint32_field ''keyGeneration'' ms = (KeyGeneration st, True)"
    using u uint_lt2p [of "KeyGeneration st"]
    by (simp add: ms_def uint32_field_def omit_empty_def names decode_uint32_def Itoa_nonneg parse_digits_digits)
  moreover have "str_field ''keyCephVersion'' ms = (KeyCephVersion st, True)" "str_field ''keyType'' ms = (KeyType st, True)"
    by (simp_all add: ms_def str_field_def omit_empty_def names decode_string_def)
  ultimately show ?thesis by (simp add: unmarshal_cephx_def p)
qed

text \<open>The strings are ASCII, so that Go's encoder writes every byte of them as it is or escaped.\<close>

definition is_ascii :: "string \<Rightarrow> bool" where
  "is_ascii s = list_all (\<lambda>c. of_char c < (128 :: nat)) s"

text \<open>C33. The status of a key that is written to the annotations of the pods of an OSD, next to whatever annotations the user
  asks for, is the status that is read back from the deployment.\<close>
theorem cephx_annotation_roundtrip:
  assumes "TemplateAnnotations d = template_annotations user st" and "is_ascii (KeyCephVersion st)" "is_ascii (KeyType st)"
  shows "cephx_of_template d = Inr st"
proof -
  have "map_of (TemplateAnnotations d) cephxStatusAnnotationKey = Some (marshal_cephx st)"
    using assms(1) by (simp add: template_annotations_def ApplyToObjectMeta_def put_new_keeps)
  then show ?thesis by (simp add: cephx_of_template_def unmarshal_marshal_cephx)
qed

text \<open>A user who tries to give the annotation themselves.\<close>

theorem cephx_annotation_roundtrip_witness:
  "cephx_of_template (undefined\<lparr>TemplateAnnotations := template_annotations [(''cephx-status'', ''{}''), (''team'', ''storage'')]
     \<lparr>KeyGeneration = 3, KeyCephVersion = ''20.2.0-0'', KeyType = ''aes256k''\<rparr>\<rparr>) =
   Inr \<lparr>KeyGeneration = 3, KeyCephVersion = ''20.2.0-0'', KeyType = ''aes256k''\<rparr>"
  by (rule cephx_annotation_roundtrip) (simp_all add: is_ascii_def)

section \<open>Settings of a node\<close>

text \<open>The settings of a node win over those of the cluster.\<close>

lemma node_config_wins: "map_of (resolveNodeConfig scope config) = map_of scope ++ map_of config"
proof (induction scope arbitrary: config)
  case (Cons kv scope)
  obtain k v where kv: "kv = (k, v)" by fastforce
  have "resolveNodeConfig (kv # scope) config = resolveNodeConfig scope (if map_of config k = None then put k v config else config)"
    by (simp add: resolveNodeConfig_def kv)
  then show ?case using Cons.IH by (auto simp: kv map_add_def fun_eq_iff split: option.splits)
qed (simp add: resolveNodeConfig_def)

lemma node_config_settled: "dom (map_of scope) \<subseteq> dom (map_of config) \<Longrightarrow> resolveNodeConfig scope config = config"
  by (induction scope arbitrary: config) (auto simp: resolveNodeConfig_def)

lemma resolve_node_twice: "resolve_node s (resolve_node s n) = resolve_node s n"
proof -
  have "resolveNodeConfig (StConfig s) (resolveNodeConfig (StConfig s) c) = resolveNodeConfig (StConfig s) c" for c
    by (rule node_config_settled) (auto simp: node_config_wins)
  then show ?thesis
    by (auto simp: resolve_node_def resolveNodeSelection_def resolveString_def split: option.splits)
qed

text \<open>A node that has been resolved in place is not changed by resolving it again, and is the node that is returned.\<close>
theorem resolving_settles:
  "ResolveNode (snd (ResolveNode s nodeName)) nodeName = ResolveNode s nodeName"
proof -
  define r where "r = resolve_node s"
  have r: "resolve_node (s\<lparr>StNodes := ns\<rparr>) = r" for ns
    by (rule ext) (simp add: r_def resolve_node_def)
  have n: "NName (r n) = NName n" "r (r n) = r n" for n by (simp_all add: r_def resolve_node_twice) (simp add: resolve_node_def)
  have "map_option r (find (\<lambda>n. NName n = nodeName) (update_first (\<lambda>n. NName n = nodeName) r ns)) =
      map_option r (find (\<lambda>n. NName n = nodeName) ns)"
    "update_first (\<lambda>n. NName n = nodeName) r (update_first (\<lambda>n. NName n = nodeName) r ns) = update_first (\<lambda>n. NName n = nodeName) r ns" for ns
    by (induction ns) (simp_all add: n)
  then show ?thesis by (simp add: ResolveNode_def r flip: r_def)
qed

end
