(* ===== verification/OsdReplace.thy ===== *)
theory OsdReplace
  imports OsdInfo Names
begin

text \<open>
  Replacing an OSD, and the health check of the OSDs: \<^verbatim>\<open>replace.go\<close>, \<^verbatim>\<open>replace_destroy.go\<close>, \<^verbatim>\<open>replace_job.go\<close> and \<^verbatim>\<open>health.go\<close> of
  \<^verbatim>\<open>pkg/operator/ceph/cluster/osd\<close>, with the jobs of \<^verbatim>\<open>pkg/operator/k8sutil/job.go\<close>. A user asks for the replacement by an annotation on the
  deployment; a reconcile validates the request and marks the deployment; the health check then drains, stops and
  destroys the OSD over many ticks, reading its progress off the deployment and off Ceph, and annotates the deployment
  when the disk may be swapped. The operations act on the world outside, the operator keeps no state between them
  but the last release it has required.
\<close>

section \<open>Markers\<close>

definition SkipReconcileLabelKey :: string where "SkipReconcileLabelKey = ''ceph.rook.io/do-not-reconcile''"
definition ReplaceOSDAnnotationKey :: string where "ReplaceOSDAnnotationKey = ''osd.rook.io/replace''"
definition ReplaceInProgressOSDAnnotationKey :: string where
  "ReplaceInProgressOSDAnnotationKey = ''osd.rook.io/replace-in-progress''"
definition ReadyForSwapOSDAnnotationKey :: string where "ReadyForSwapOSDAnnotationKey = ''osd.rook.io/replace-ready-for-swap''"

definition AddLabelToDeployment :: "string \<Rightarrow> string \<Rightarrow> OsdDeployment \<Rightarrow> OsdDeployment" where
  "AddLabelToDeployment k v d = d\<lparr>DLabels := put k v (DLabels d)\<rparr>"

definition AddAnnotationToDeployment :: "string \<Rightarrow> string \<Rightarrow> OsdDeployment \<Rightarrow> OsdDeployment" where
  "AddAnnotationToDeployment k v d = d\<lparr>DAnnotations := put k v (DAnnotations d)\<rparr>"

definition isWaitingForDiskSwap :: "OsdDeployment \<Rightarrow> bool" where
  "isWaitingForDiskSwap d \<longleftrightarrow> has_annotation d ReadyForSwapOSDAnnotationKey"

definition in_progress :: "OsdDeployment \<Rightarrow> bool" where
  "in_progress d \<longleftrightarrow> dannotation d ReplaceInProgressOSDAnnotationKey = ''true''"

section \<open>Deployments\<close>

definition getOSDDeployments :: "'w osd_env \<Rightarrow> ('w, OsdDeployment list res) eff" where
  "getOSDDeployments env =
     andThen (deps_with (kub env) ''app=rook-ceph-osd'')
       (\<lambda>r. ret (case r of Inl e \<Rightarrow> Inl (Wrap ''failed to query existing OSD deployments'' e) | Inr ds \<Rightarrow> Inr ds))"

definition update_dep :: "'w osd_env \<Rightarrow> OsdDeployment \<Rightarrow> ('w, err option) eff" where
  "update_dep env d = kupdate (deps (kub env)) (ONs env, DepName d) d"

definition DeleteOsdDeployment :: "'w osd_env \<Rightarrow> string \<Rightarrow> ('w, err option) eff" where
  "DeleteOsdDeployment env name =
     deleteResourceAndWait (kdelete (deps (kub env)) (ONs env, name))
       (\<lambda>w. case kget (deps (kub env)) (ONs env, name) w of (Inl e, w') \<Rightarrow> (Some e, w') | (Inr _, w') \<Rightarrow> (None, w'))"

definition osdPodsRunning :: "'w osd_env \<Rightarrow> string \<Rightarrow> ('w, int res) eff" where
  "osdPodsRunning env label =
     andThen (pods_with (kub env) label) (\<lambda>r. ret (case r of Inl e \<Rightarrow> Inl e
        | Inr pods \<Rightarrow> Inr (int (length (filter (\<lambda>p. PodPhase p = ''Running'') pods)))))"

section \<open>Validation of a request\<close>

definition isMissingFromOSDDump :: "OsdDeployment \<Rightarrow> OSDDump \<Rightarrow> bool" where
  "isMissingFromOSDDump d dump =
     (case GetDeploymentOSDID d of Inl _ \<Rightarrow> False
      | Inr osdID \<Rightarrow> if OSDs dump = [] then False else \<not> Exists dump osdID)"

definition validateSingleOSDPerDevice :: "int \<Rightarrow> OSDMetadataDev list \<Rightarrow> err option" where
  "validateSingleOSDPerDevice osdID ms =
     (case find (\<lambda>m. OsdId m = osdID) ms of None \<Rightarrow> None
      | Some target \<Rightarrow>
          if Devices target = [] \<or> HostName target = [] then None
          else if list_ex (\<lambda>other. OsdId other \<noteq> osdID \<and> HostName other = HostName target \<and> Devices other = Devices target) ms
          then Some (Errorf ''OSDs report the same physical device(s)'') else None)"

definition validateReplaceOSD :: "OsdDeployment \<Rightarrow> string \<Rightarrow> OsdTree \<Rightarrow> OSDMetadataDev list \<Rightarrow> err option" where
  "validateReplaceOSD d replaceValue tree ms =
     (case GetDeploymentOSDID d of Inl e \<Rightarrow> Some (Wrap ''failed to read label'' e)
      | Inr osdID \<Rightarrow>
          if replaceValue \<noteq> ''yes-really-replace-osd-'' @ Itoa osdID
          then Some (Errorf ''annotation value does not match the OSD id of the deployment'')
          else if osdIsOnPVC d then Some (Errorf ''OSD is PVC-backed; replacement supports host-based OSDs only'')
          else if \<not> list_ex (\<lambda>n. TreeType n = ''osd'' \<and> TreeId n = osdID) (tree_nodes tree)
          then Some (Errorf ''OSD does not exist in the osd tree'')
          else validateSingleOSDPerDevice osdID ms)"

text \<open>The queries of Ceph are made once, when they are first needed.\<close>

record replace_queries =
  q_tree :: "(OsdTree \<times> OSDMetadataDev list) option"
  q_dump :: "OSDDump option"

definition need_dump :: "'w osd_env \<Rightarrow> replace_queries \<Rightarrow> ('w, OSDDump option) eff" where
  "need_dump env q =
     (case q_dump q of Some dump \<Rightarrow> ret (Some dump)
      | None \<Rightarrow> andThen (osd_dump (cph env)) (\<lambda>r. ret (case r of Inl _ \<Rightarrow> None | Inr dump \<Rightarrow> Some dump)))"

definition need_tree :: "'w osd_env \<Rightarrow> replace_queries \<Rightarrow> ('w, (OsdTree \<times> OSDMetadataDev list) option) eff" where
  "need_tree env q =
     (case q_tree q of Some t \<Rightarrow> ret (Some t)
      | None \<Rightarrow> andThen (osd_tree (cph env)) (\<lambda>r. case r of Inl _ \<Rightarrow> ret None
          | Inr tree \<Rightarrow> andThen (osd_metadata (cph env)) (\<lambda>m. ret (case m of Inl _ \<Rightarrow> None | Inr ms \<Rightarrow> Some (tree, ms)))))"

definition swap_cleanup :: "'w osd_env \<Rightarrow> replace_queries \<Rightarrow> OsdDeployment \<Rightarrow> ('w, replace_queries) eff" where
  "swap_cleanup env q d =
     andThen (need_dump env q) (\<lambda>r. case r of None \<Rightarrow> ret q
      | Some dump \<Rightarrow>
          anyway (if isMissingFromOSDDump d dump then DeleteOsdDeployment env (DepName d) else ret None)
            (ret (q\<lparr>q_dump := Some dump\<rparr>)))"

definition mark_replacement :: "OsdDeployment \<Rightarrow> OsdDeployment" where
  "mark_replacement d =
     AddAnnotationToDeployment ReplaceInProgressOSDAnnotationKey ''true'' (AddLabelToDeployment SkipReconcileLabelKey ''true'' d)"

definition replacement_request :: "'w osd_env \<Rightarrow> replace_queries \<Rightarrow> OsdDeployment \<Rightarrow> ('w, replace_queries) eff" where
  "replacement_request env q d =
     (case map_of (DAnnotations d) ReplaceOSDAnnotationKey of None \<Rightarrow> ret q
      | Some replaceValue \<Rightarrow>
          andThen (need_tree env q) (\<lambda>r. case r of None \<Rightarrow> ret q
           | Some (tree, ms) \<Rightarrow>
               anyway (if validateReplaceOSD d replaceValue tree ms \<noteq> None then ret None
                       else update_dep env (mark_replacement d))
                 (ret (q\<lparr>q_tree := Some (tree, ms)\<rparr>))))"

fun replacements_loop :: "'w osd_env \<Rightarrow> OsdDeployment list \<Rightarrow> replace_queries \<Rightarrow> ('w, unit) eff" where
  "replacements_loop env [] q = ret ()"
| "replacements_loop env (d # ds) q =
     andThen (if isWaitingForDiskSwap d then swap_cleanup env q d
              else if in_progress d then ret q
              else replacement_request env q d)
       (\<lambda>q'. replacements_loop env ds q')"

definition processOSDReplacements :: "'w osd_env \<Rightarrow> ('w, err option) eff" where
  "processOSDReplacements env =
     attempt_val (getOSDDeployments env) ''failed to list OSD deployments to check for replacement requests''
       (\<lambda>ds. andThen (replacements_loop env ds \<lparr>q_tree = None, q_dump = None\<rparr>) (\<lambda>_. ret None))"

definition replacementReadyForSwap :: "'w osd_env \<Rightarrow> int \<Rightarrow> ('w, bool res) eff" where
  "replacementReadyForSwap env osdID =
     andThen (kget (deps (kub env)) (ONs env, deploymentName osdID)) (\<lambda>r. ret (case r of
        Inl e \<Rightarrow> if IsNotFound e then Inr False else Inl (Wrap ''failed to get OSD deployment'' e)
      | Inr d \<Rightarrow> Inr (has_annotation d ReadyForSwapOSDAnnotationKey)))"

section \<open>Jobs that close encrypted devices\<close>

datatype cryptCloseJobStatus = cryptCloseJobNotFound | cryptCloseJobRunning | cryptCloseJobSucceeded | cryptCloseJobFailed

definition cryptCloseJobName :: "int \<Rightarrow> string" where
  "cryptCloseJobName osdID = ''rook-ceph-osd-crypt-close-'' @ Itoa osdID"

definition cryptCloseJobStatusForOSD :: "'w osd_env \<Rightarrow> int \<Rightarrow> ('w, cryptCloseJobStatus res) eff" where
  "cryptCloseJobStatusForOSD env osdID =
     andThen (kget (jobs (kub env)) (ONs env, cryptCloseJobName osdID)) (\<lambda>r. ret (case r of
        Inl e \<Rightarrow> if IsNotFound e then Inr cryptCloseJobNotFound else Inl (Wrap ''failed to get crypto-close job'' e)
      | Inr job \<Rightarrow> Inr (if Succeeded job > 0 then cryptCloseJobSucceeded
                        else if JobFailed job then cryptCloseJobFailed else cryptCloseJobRunning)))"

text \<open>At most 30 queries, three seconds apart; a job that is still there after them is only logged.\<close>

fun wait_job_gone :: "'w osd_env \<Rightarrow> nat \<Rightarrow> string \<Rightarrow> ('w, err option) eff" where
  "wait_job_gone env 0 name w = (None, w)"
| "wait_job_gone env (Suc n) name w =
     (case kget (jobs (kub env)) (ONs env, name) w of
        (Inl e, w') \<Rightarrow> if IsNotFound e then (None, w') else wait_job_gone env n name (pause env 3000000000 w')
      | (Inr _, w') \<Rightarrow> wait_job_gone env n name (pause env 3000000000 w'))"

definition DeleteBatchJob :: "'w osd_env \<Rightarrow> string \<Rightarrow> bool \<Rightarrow> ('w, err option) eff" where
  "DeleteBatchJob env name wait =
     andThen (kdelete (jobs (kub env)) (ONs env, name)) (\<lambda>r. case r of
        Some e \<Rightarrow> ret (if IsNotFound e then None else Some (Errorf ''failed to remove previous provisioning job for node''))
      | None \<Rightarrow> if \<not> wait then ret None else wait_job_gone env 30 name)"

definition new_job :: "string \<Rightarrow> JobStatus" where
  "new_job nodeName = \<lparr>Active = 0, Succeeded = 0, JobFailed = False, JobNode = nodeName\<rparr>"

definition RunReplaceableJob :: "'w osd_env \<Rightarrow> string \<Rightarrow> JobStatus \<Rightarrow> bool \<Rightarrow> ('w, err option) eff" where
  "RunReplaceableJob env name job deleteIfFound =
     andThen (kget (jobs (kub env)) (ONs env, name)) (\<lambda>r. case r of
        Inl _ \<Rightarrow> kcreate (jobs (kub env)) (ONs env, name) job
      | Inr existing \<Rightarrow>
          if Active existing > 0 \<and> \<not> deleteIfFound then ret None
          else andThen (DeleteBatchJob env name True) (\<lambda>e. case e of
                 Some _ \<Rightarrow> ret (Some (Errorf ''failed to remove job''))
               | None \<Rightarrow> kcreate (jobs (kub env)) (ONs env, name) job))"

definition startCryptCloseJob :: "'w osd_env \<Rightarrow> int \<Rightarrow> string \<Rightarrow> ('w, err option) eff" where
  "startCryptCloseJob env osdID nodeName =
     attempt (RunReplaceableJob env (cryptCloseJobName osdID) (new_job nodeName) True) ''failed to run crypto-close job'' (ret None)"

definition deleteCryptCloseJob :: "'w osd_env \<Rightarrow> int \<Rightarrow> ('w, err option) eff" where
  "deleteCryptCloseJob env osdID = DeleteBatchJob env (cryptCloseJobName osdID) False"

section \<open>Draining and destroying\<close>

definition isOSDDestroyedInTree :: "OsdTree \<Rightarrow> int \<Rightarrow> bool" where
  "isOSDDestroyedInTree tree osdID =
     (case find (\<lambda>n. TreeType n = ''osd'' \<and> TreeId n = osdID) (tree_nodes tree) of
        None \<Rightarrow> False | Some n \<Rightarrow> TreeStatus n = ''destroyed'')"

definition isOSDPodGone :: "'w osd_env \<Rightarrow> int \<Rightarrow> ('w, bool res) eff" where
  "isOSDPodGone env osdID =
     andThen (osdPodsRunning env (OsdIdLabelKey @ ''='' @ Itoa osdID)) (\<lambda>r. ret (case r of
        Inl e \<Rightarrow> Inl (Wrap ''failed to check for running pods'' e) | Inr running \<Rightarrow> Inr (\<not> running > 0)))"

definition scaleDownOSDDeployment :: "'w osd_env \<Rightarrow> OsdDeployment \<Rightarrow> ('w, err option) eff" where
  "scaleDownOSDDeployment env d =
     (if DReplicas d = Some 0 then ret None
      else attempt (update_dep env (d\<lparr>DReplicas := Some 0\<rparr>)) ''failed to scale osd deployment to zero'' (ret None))"

definition annotateReadyForSwap :: "'w osd_env \<Rightarrow> OsdDeployment \<Rightarrow> ('w, err option) eff" where
  "annotateReadyForSwap env d =
     (if has_annotation d ReadyForSwapOSDAnnotationKey then ret None
      else attempt (update_dep env (AddAnnotationToDeployment ReadyForSwapOSDAnnotationKey ''true'' d))
             ''failed to annotate osd deployment as ready for swap'' (ret None))"

definition isReplaceOSDEncrypted :: "'w osd_env \<Rightarrow> OsdDeployment \<Rightarrow> ('w, bool res) eff" where
  "isReplaceOSDEncrypted env d =
     (if dlabel d ''encrypted'' = ''true'' then ret (Inr True)
      else andThen (getOSDInfo env d) (\<lambda>r. ret (case r of
             Inl e \<Rightarrow> Inl (Wrap ''failed to read OSD info to determine encryption'' e) | Inr osd \<Rightarrow> Inr (Encrypted osd))))"

definition replaceOSDNodeName :: "'w osd_env \<Rightarrow> OsdDeployment \<Rightarrow> ('w, string res) eff" where
  "replaceOSDNodeName env d =
     andThen (getOSDInfo env d) (\<lambda>r. ret (case r of
        Inl e \<Rightarrow> Inl (Wrap ''failed to read OSD info to resolve its node'' e)
      | Inr osd \<Rightarrow> if TrimSpace (NodeName osd) = [] then Inl (Errorf ''could not resolve the node name'') else Inr (NodeName osd)))"

text \<open>Whether the job has succeeded; a job that is missing or has failed is started.\<close>

definition runCryptCloseJobForOSD :: "'w osd_env \<Rightarrow> OsdDeployment \<Rightarrow> int \<Rightarrow> ('w, bool res) eff" where
  "runCryptCloseJobForOSD env d osdID =
     andThen (cryptCloseJobStatusForOSD env osdID) (\<lambda>r. case r of Inl e \<Rightarrow> ret (Inl e)
      | Inr cryptCloseJobSucceeded \<Rightarrow> ret (Inr True)
      | Inr cryptCloseJobRunning \<Rightarrow> ret (Inr False)
      | Inr _ \<Rightarrow>
          andThen (replaceOSDNodeName env d) (\<lambda>n. case n of Inl e \<Rightarrow> ret (Inl e)
           | Inr nodeName \<Rightarrow> andThen (startCryptCloseJob env osdID nodeName)
               (\<lambda>e. ret (case e of Some x \<Rightarrow> Inl x | None \<Rightarrow> Inr False))))"

definition unmark_replacement :: "OsdDeployment \<Rightarrow> OsdDeployment" where
  "unmark_replacement d =
     d\<lparr>DReplicas := Some 1, DAnnotations := del ReplaceInProgressOSDAnnotationKey (DAnnotations d),
       DLabels := del SkipReconcileLabelKey (DLabels d)\<rparr>"

definition cancelReplaceOSD :: "'w osd_env \<Rightarrow> OsdDeployment \<Rightarrow> int \<Rightarrow> ('w, err option) eff" where
  "cancelReplaceOSD env d osdID =
     attempt (OSDIn (cph env) osdID) ''failed to mark osd back in on cancellation''
    (attempt (deleteCryptCloseJob env osdID) ''failed to delete crypto-close job on cancellation''
    (attempt_val (cryptCloseJobStatusForOSD env osdID) ''failed to check the crypto-close job on cancellation'' (\<lambda>status.
       if status \<noteq> cryptCloseJobNotFound then ret None
       else attempt (update_dep env (unmark_replacement d)) ''failed to clear the replacement markers'' (ret None))))"

text \<open>The last check and the destruction: an error of the check, or its refusal, leaves the OSD to the next tick.\<close>

definition destroy_if_safe :: "'w osd_env \<Rightarrow> int \<Rightarrow> ('w, err option) eff" where
  "destroy_if_safe env osdID =
     andThen (OsdSafeToDestroy (cph env) osdID) (\<lambda>r. case r of
        Inl _ \<Rightarrow> ret None
      | Inr safe \<Rightarrow> if \<not> safe then ret None
          else andThen (OSDDown (cph env) osdID) (\<lambda>e. case e of Some x \<Rightarrow> ret (Some x)
                 | None \<Rightarrow> OSDDestroy (cph env) osdID))"

definition close_and_destroy :: "'w osd_env \<Rightarrow> OsdDeployment \<Rightarrow> int \<Rightarrow> ('w, err option) eff" where
  "close_and_destroy env d osdID =
     andThen (isReplaceOSDEncrypted env d) (\<lambda>r. case r of Inl e \<Rightarrow> ret (Some e)
      | Inr isEncrypted \<Rightarrow>
          if \<not> isEncrypted then destroy_if_safe env osdID
          else andThen (runCryptCloseJobForOSD env d osdID) (\<lambda>j. case j of Inl e \<Rightarrow> ret (Some e)
             | Inr closed \<Rightarrow> if \<not> closed then ret None
                 else attempt (deleteCryptCloseJob env osdID) ''failed to delete crypto-close job'' (destroy_if_safe env osdID)))"

definition destroy_downscaled :: "'w osd_env \<Rightarrow> OsdDeployment \<Rightarrow> int \<Rightarrow> ('w, err option) eff" where
  "destroy_downscaled env d osdID =
     andThen (isOSDPodGone env osdID) (\<lambda>r. case r of Inl e \<Rightarrow> ret (Some e)
      | Inr gone \<Rightarrow> if \<not> gone then ret None else close_and_destroy env d osdID)"

definition drain_osd :: "'w osd_env \<Rightarrow> OsdDeployment \<Rightarrow> int \<Rightarrow> OSDDump \<Rightarrow> ('w, err option) eff" where
  "drain_osd env d osdID dump =
     (let isOSDIn = (case StatusByID dump osdID of Inl _ \<Rightarrow> True | Inr (_, i) \<Rightarrow> i = 1) in
      if isOSDIn then OSDOut (cph env) osdID
      else andThen (OsdSafeToDestroy (cph env) osdID) (\<lambda>r. case r of
             Inl _ \<Rightarrow> ret None
           | Inr safe \<Rightarrow> if \<not> safe then ret None else scaleDownOSDDeployment env d))"

definition processOSDReplacementDestroy ::
  "'w osd_env \<Rightarrow> OsdDeployment \<Rightarrow> int \<Rightarrow> OsdTree \<Rightarrow> OSDDump \<Rightarrow> ('w, err option) eff" where
  "processOSDReplacementDestroy env d osdID tree dump =
     (let requested = has_annotation d ReplaceOSDAnnotationKey; destroyed = isOSDDestroyedInTree tree osdID in
      if \<not> requested \<and> \<not> destroyed then cancelReplaceOSD env d osdID
      else if destroyed then annotateReadyForSwap env d
      else if DReplicas d = Some 0 then destroy_downscaled env d osdID
      else drain_osd env d osdID dump)"

text \<open>The deployments under replacement by their identifiers, and those with work left.\<close>

definition replacing :: "OsdDeployment list \<Rightarrow> (int \<times> OsdDeployment) list" where
  "replacing ds =
     concat (map (\<lambda>d. if \<not> in_progress d then []
        else (case GetDeploymentOSDID d of Inl _ \<Rightarrow> [] | Inr osdID \<Rightarrow> [(osdID, d)])) ds)"

fun destroy_loop :: "'w osd_env \<Rightarrow> OsdTree \<Rightarrow> OSDDump \<Rightarrow> (int \<times> OsdDeployment) list \<Rightarrow> ('w, unit) eff" where
  "destroy_loop env tree dump [] = ret ()"
| "destroy_loop env tree dump ((osdID, d) # rest) =
     anyway (processOSDReplacementDestroy env d osdID tree dump) (destroy_loop env tree dump rest)"

definition processOSDsDestroyForReplacement :: "'w osd_env \<Rightarrow> ('w, int list \<times> err option) eff" where
  "processOSDsDestroyForReplacement env =
     andThen (getOSDDeployments env) (\<lambda>r. case r of
        Inl e \<Rightarrow> ret ([], Some (Wrap ''failed to list OSD deployments for replacement processing'' e))
      | Inr ds \<Rightarrow>
          (let owned = map fst (replacing ds);
               toProcess = filter (\<lambda>(_, d). \<not> has_annotation d ReadyForSwapOSDAnnotationKey) (replacing ds) in
           if toProcess = [] then ret (owned, None)
           else andThen (osd_tree (cph env)) (\<lambda>t. case t of Inl _ \<Rightarrow> ret (owned, None)
              | Inr tree \<Rightarrow> andThen (osd_dump (cph env)) (\<lambda>u. case u of Inl _ \<Rightarrow> ret (owned, None)
                  | Inr dump \<Rightarrow> anyway (destroy_loop env tree dump toProcess) (ret (owned, None))))))"

section \<open>The health check\<close>

text \<open>An OSD that is down and out loses its deployment once Ceph says it is safe to destroy and an hour has passed. The
  error of the list is not the error of Kubernetes, so it is never taken for a missing object.\<close>

definition graceTime :: int where "graceTime = 60 * 60 * 1000000000"

definition removeOSDDeploymentIfSafeToDestroy :: "'w osd_env \<Rightarrow> int \<Rightarrow> ('w, err option) eff" where
  "removeOSDDeploymentIfSafeToDestroy env outOSDid =
     andThen (deps_with (kub env) (OsdIdLabelKey @ ''='' @ Itoa outOSDid)) (\<lambda>r. case r of
        Inl _ \<Rightarrow> ret (Some (Errorf ''failed to get osd deployment of osd id''))
      | Inr [] \<Rightarrow> ret None
      | Inr (d # _) \<Rightarrow>
          attempt_val (OsdSafeToDestroy (cph env) outOSDid) ''failed to get osd deployment of osd id'' (\<lambda>safe.
            if safe
            then reading (\<lambda>w. if CreationTimestamp d + graceTime < now env w
                   then attempt (DeleteOsdDeployment env (DepName d)) ''failed to delete osd deployment'' (ret None)
                   else ret None)
            else ret None))"

fun dump_loop :: "'w osd_env \<Rightarrow> bool \<Rightarrow> int list \<Rightarrow> OSDDump \<Rightarrow> OSDEntry list \<Rightarrow> ('w, err option) eff" where
  "dump_loop env removeOSDs owned dump [] = ret None"
| "dump_loop env removeOSDs owned dump (o' # os) =
     (if OsdNum o' \<in> set owned then dump_loop env removeOSDs owned dump os
      else (case StatusByID dump (OsdNum o') of Inl e \<Rightarrow> ret (Some e)
        | Inr (status, isIn) \<Rightarrow>
            if status \<noteq> 1 \<and> isIn \<noteq> 1 \<and> removeOSDs
            then anyway (removeOSDDeploymentIfSafeToDestroy env (OsdNum o')) (dump_loop env removeOSDs owned dump os)
            else dump_loop env removeOSDs owned dump os))"

definition checkOSDDump :: "'w osd_env \<Rightarrow> bool \<Rightarrow> int list \<Rightarrow> ('w, err option) eff" where
  "checkOSDDump env removeOSDs owned =
     attempt_val (osd_dump (cph env)) ''failed to get osd dump'' (\<lambda>dump. dump_loop env removeOSDs owned dump (OSDs dump))"

text \<open>The last release that was required goes in and out.\<close>

definition checkRequireOSDRelease :: "'w osd_env \<Rightarrow> string \<Rightarrow> ('w, string) eff" where
  "checkRequireOSDRelease env lastRelease =
     andThen (daemon_versions (cph env)) (\<lambda>r. case r of Inl _ \<Rightarrow> ret lastRelease
      | Inr versions \<Rightarrow> (case OsdVersions versions of
          [(v, _)] \<Rightarrow>
            (case ExtractCephVersion v of Inl _ \<Rightarrow> ret lastRelease
             | Inr osdVersion \<Rightarrow>
                 if ReleaseName osdVersion = lastRelease then ret lastRelease
                 else andThen (EnableReleaseOSDFunctionality (cph env) (ReleaseName osdVersion))
                        (\<lambda>e. ret (case e of Some _ \<Rightarrow> lastRelease | None \<Rightarrow> ReleaseName osdVersion)))
        | _ \<Rightarrow> ret lastRelease))"

definition checkOSDHealth :: "'w osd_env \<Rightarrow> bool \<Rightarrow> string \<Rightarrow> ('w, string) eff" where
  "checkOSDHealth env removeOSDs lastRelease =
     andThen (processOSDsDestroyForReplacement env) (\<lambda>(owned, _).
       anyway (checkOSDDump env removeOSDs owned) (checkRequireOSDRelease env lastRelease))"

end
