(* ===== verification/OsdWorld.thy ===== *)
theory OsdWorld
  imports OsdReplace KubeParts
begin

text \<open>
  A reference environment for the OSDs, on which their operations run: deployments and jobs are kept by the reference server of
  \<open>Kube\<close>, a deployment has a running pod while it is scaled up, and Ceph keeps which OSDs are up, in and destroyed, which
  hold data that is stored nowhere else, and which were destroyed while they ran or held such data. Ceph moves the data of an
  OSD that is marked out at once when \<open>wQuick\<close> is set, and otherwise when something else says so. The list of all deployments
  fails while \<open>wBlind\<close> is set.
\<close>

record osd_world =
  wDeps :: "OsdDeployment server"
  wJobs :: "JobStatus server"
  wUp :: "int list"
  wIn :: "int list"
  wDestroyed :: "int list"
  wData :: "int list"
  wLost :: "int list"
  wQuick :: bool
  wBlind :: bool
  wClock :: int

text \<open>The deployments that are stored under their own names.\<close>

definition world_deps :: "osd_world \<Rightarrow> OsdDeployment list" where
  "world_deps w = filter (\<lambda>d. map_of (objs (wDeps w)) (''rook-ceph'', DepName d) = Some d) (remdups (map snd (objs (wDeps w))))"

definition world_pods :: "string \<Rightarrow> osd_world \<Rightarrow> OsdPod list" where
  "world_pods sel w =
     map (\<lambda>d. \<lparr>PodPhase = ''Running'', PodNodeName = ''node-'' @ DepName d\<rparr>)
       (filter (\<lambda>d. selects sel (TemplateLabels d) \<and> DReplicas d \<noteq> Some 0) (world_deps w))"

text \<open>The OSDs Ceph knows are those that have a deployment.\<close>

definition world_osds :: "osd_world \<Rightarrow> int list" where
  "world_osds w = concat (map (\<lambda>d. case GetDeploymentOSDID d of Inl _ \<Rightarrow> [] | Inr i \<Rightarrow> [i]) (world_deps w))"

definition world_tree :: "osd_world \<Rightarrow> OsdTree" where
  "world_tree w = \<lparr>Nodes = Some (map (\<lambda>i. \<lparr>TreeId = i, TreeName = ''osd.'' @ Itoa i, TreeType = ''osd'',
     TreeStatus = (if i \<in> set (wDestroyed w) then ''destroyed'' else if i \<in> set (wUp w) then ''up'' else ''down''),
     TreeChildren = []\<rparr>) (remdups (wDestroyed w @ world_osds w))), Stray = []\<rparr>"

definition world_dump :: "osd_world \<Rightarrow> OSDDump" where
  "world_dump w = \<lparr>OSDs = map (\<lambda>i. \<lparr>OsdNum = i, OsdUp = (if i \<in> set (wUp w) then 1 else 0),
     OsdIn = (if i \<in> set (wIn w) then 1 else 0)\<rparr>) (world_osds w), CrushNodeFlags = (\<lambda>_. None)\<rparr>"

definition world_lost :: "osd_world \<Rightarrow> int set" where
  "world_lost w = set (wLost w)"

definition world_drained :: "osd_world \<Rightarrow> int set" where
  "world_drained w = - set (wData w)"

definition world_stopped :: "osd_world \<Rightarrow> int set" where
  "world_stopped w = {i. \<forall>p \<in> set (world_pods (OsdIdLabelKey @ ''='' @ Itoa i) w). PodPhase p \<noteq> ''Running''}"

definition world_ceph :: "osd_world osd_ceph" where
  "world_ceph = idle_ceph\<lparr>osd_tree := \<lambda>w. (Inr (world_tree w), w), osd_dump := \<lambda>w. (Inr (world_dump w), w),
     osd_metadata := ret (Inr []),
     safe_to_destroy := \<lambda>i w. (if i \<in> set (wData w) then Inl (Errorf ''EBUSY'') else Inr [i], w),
     osd_out := \<lambda>i w. (None, w\<lparr>wIn := filter (\<lambda>j. j \<noteq> i) (wIn w),
       wData := (if wQuick w then filter (\<lambda>j. j \<noteq> i) (wData w) else wData w)\<rparr>),
     osd_in := \<lambda>i w. (None, w\<lparr>wIn := i # filter (\<lambda>j. j \<noteq> i) (wIn w)\<rparr>),
     osd_down := \<lambda>i w. (None, w\<lparr>wUp := filter (\<lambda>j. j \<noteq> i) (wUp w)\<rparr>),
     osd_destroy := \<lambda>i w. (None, w\<lparr>wDestroyed := i # wDestroyed w,
       wLost := (if i \<in> set (wData w) \<or> world_pods (OsdIdLabelKey @ ''='' @ Itoa i) w \<noteq> [] then [i] else []) @ wLost w\<rparr>)\<rparr>"

definition world_kube :: "osd_world osd_kube" where
  "world_kube = \<lparr>deps = lift_api wDeps (\<lambda>v w. w\<lparr>wDeps := v\<rparr>) server_api,
     deps_with = \<lambda>sel w. (if wBlind w \<and> sel = ''app=rook-ceph-osd'' then Inl (Errorf ''the server was unable to return a response'')
       else Inr (filter (\<lambda>d. selects sel (DLabels d)) (world_deps w)), w),
     pods_with = \<lambda>sel w. (Inr (world_pods sel w), w),
     node_named = \<lambda>n. ret (Inr \<lparr>KName = n, KLabels = [''kubernetes.io/hostname'' \<mapsto> n], Unschedulable = False, Taints = [], Conditions = []\<rparr>),
     nodes_with = \<lambda>sel. ret (Inr []), jobs = lift_api wJobs (\<lambda>v w. w\<lparr>wJobs := v\<rparr>) server_api\<rparr>"

definition world_env :: "osd_world osd_env" where
  "world_env = \<lparr>ONs = ''rook-ceph'', OLabelEnv = [], CrushRoot = ''default'',
     kub = world_kube, cph = world_ceph, now = wClock, pause = \<lambda>n w. w\<lparr>wClock := wClock w + n\<rparr>\<rparr>"

text \<open>The deployment of an OSD on a disk of a node, and a cluster of three OSDs.\<close>

definition world_dep :: "int \<Rightarrow> string gomap \<Rightarrow> OsdDeployment" where
  "world_dep i annotations = \<lparr>DepName = deploymentName i,
     DLabels = [(''app'', ''rook-ceph-osd''), (OsdIdLabelKey, Itoa i), (''osd-store'', ''bluestore'')],
     DAnnotations = annotations, DSelector = [(OsdIdLabelKey, Itoa i)], DReplicas = Some 1,
     TemplateLabels = [(''app'', ''rook-ceph-osd''), (OsdIdLabelKey, Itoa i)], TemplateAnnotations = [],
     Containers = [\<lparr>ContainerName = ''osd'', Command = [], Args = [''--crush-location=root=default host=node-a''],
       Env = [(''ROOK_NODE_NAME'', Value ''node-a''), (''ROOK_OSD_UUID'', Value ''uuid''), (''ROOK_BLOCK_PATH'', Value ''/dev/sdb''),
              (''ROOK_CV_MODE'', Value ''raw'')]\<rparr>],
     InitContainers = [], DPod = \<lparr>SpecAffinity = None, SpecTolerations = None, SpecSpread = None, NodeSelector = None\<rparr>,
     CreationTimestamp = 0\<rparr>"

definition world_of :: "bool \<Rightarrow> OsdDeployment list \<Rightarrow> osd_world" where
  "world_of quick ds = \<lparr>wDeps = \<lparr>objs = map (\<lambda>d. ((''rook-ceph'', DepName d), d)) ds, faults = []\<rparr>, wJobs = \<lparr>objs = [], faults = []\<rparr>,
     wUp = [0..2], wIn = [0..2], wDestroyed = [], wData = [0..2], wLost = [], wQuick = quick, wBlind = False, wClock = 0\<rparr>"

end
