(* ===== verification/OsdSafety.thy ===== *)
theory OsdSafety
  imports OsdWorld
begin

text \<open>
  No data is lost to the replacement of OSDs. The interface \<open>osd_cluster\<close> says what the code relies on of Ceph and Kubernetes:
  an OSD that \<^verbatim>\<open>ceph osd safe-to-destroy\<close> lists holds nothing that is not stored elsewhere, an OSD without running pods
  is stopped, and only the destruction of an OSD that still runs or still holds data loses any.
\<close>

section \<open>What is relied on\<close>

text \<open>A call that loses nothing and starts no OSD.\<close>

definition calm :: "('w \<Rightarrow> int set) \<Rightarrow> ('w \<Rightarrow> int set) \<Rightarrow> 'w \<Rightarrow> 'w \<Rightarrow> bool" where
  "calm lost stopped w w' \<longleftrightarrow> lost w' = lost w \<and> stopped w \<subseteq> stopped w'"

interpretation calm: transitions "calm lost stopped" for lost stopped :: "'w \<Rightarrow> int set"
  by unfold_locales (auto simp: calm_def)

lemma calm_same: "along (calm lost stopped) m \<Longrightarrow> along (same lost) m"
  by (auto simp: along_def calm_def same_def)

lemma along_list: "along R a \<Longrightarrow> (\<And>x xs. along R (b x xs)) \<Longrightarrow> along R (case v of [] \<Rightarrow> a | x # xs \<Rightarrow> b x xs)"
  by (cases v) auto

lemma along_bool: "along R a \<Longrightarrow> along R b \<Longrightarrow> along R (case v of True \<Rightarrow> a | False \<Rightarrow> b)"
  by (cases v) auto

lemma along_cong: "along R m \<Longrightarrow> (\<And>w. snd (m' w) = snd (m w)) \<Longrightarrow> along R m'"
  by (simp add: along_def)

context transitions
begin

lemma along_wait_deleted:
  assumes get: "along R get"
  shows "along R (wait_deleted n get)"
proof -
  have "R w (snd (wait_deleted n get w))" for w
  proof (induction n arbitrary: w)
    case (Suc n)
    obtain r w' where g: "get w = (r, w')" by fastforce
    have "R w w'" using alongD [OF get g] .
    then show ?case using g trans [OF \<open>R w w'\<close> Suc.IH [of w']] by (cases r) auto
  qed (simp add: refl)
  then show ?thesis by (simp add: along_def)
qed

lemma along_get_dep:
  assumes get: "along R (kget (deps (kub env)) k)"
  shows "along R (\<lambda>w. case kget (deps (kub env)) k w of (Inl e, w') \<Rightarrow> (Some e, w') | (Inr _, w') \<Rightarrow> (None, w'))"
proof -
  have "along R (andThen (kget (deps (kub env)) k) (\<lambda>r. ret (case r of Inl e \<Rightarrow> Some e | Inr _ \<Rightarrow> None)))"
    by (intro along_rules get)
  then show ?thesis by (rule along_cong) (auto simp: andThen_def ret_def split: prod.splits sum.splits)
qed

lemma along_delete_dep:
  assumes rm: "along R (kdelete (deps (kub env)) (ONs env, name))" and get: "along R (kget (deps (kub env)) (ONs env, name))"
  shows "along R (DeleteOsdDeployment env name)"
proof -
  have "R w (snd (kdelete (deps (kub env)) (ONs env, name) w))" for w using rm by (simp add: along_def)
  moreover have "along R (wait_deleted 45 (\<lambda>w. case kget (deps (kub env)) (ONs env, name) w of
      (Inl e, w') \<Rightarrow> (Some e, w') | (Inr _, w') \<Rightarrow> (None, w')))" by (intro along_wait_deleted along_get_dep get)
  ultimately show ?thesis
    unfolding along_def DeleteOsdDeployment_def deleteResourceAndWait_def
    by (auto simp: split_beta split: option.split intro: trans)
qed

lemma along_dump_loop:
  assumes "\<And>j. j \<notin> set owned \<Longrightarrow> rm \<Longrightarrow> along R (removeOSDDeploymentIfSafeToDestroy env j)"
  shows "along R (dump_loop env rm owned dump os)"
proof (induction os)
  case (Cons x os)
  have "along R (anyway (removeOSDDeploymentIfSafeToDestroy env (OsdNum x)) (dump_loop env rm owned dump os))"
    if "OsdNum x \<notin> set owned" rm using that assms Cons by (blast intro: along_anyway)
  with Cons show ?case by (auto intro!: along_ret split: sum.split)
qed (simp add: along_ret)

end

text \<open>A call that loses nothing when it begins with the OSD stopped.\<close>

definition harmless :: "('w \<Rightarrow> int set) \<Rightarrow> ('w \<Rightarrow> int set) \<Rightarrow> int \<Rightarrow> 'w \<Rightarrow> 'w \<Rightarrow> bool" where
  "harmless lost stopped i w w' \<longleftrightarrow> (i \<in> stopped w \<longrightarrow> lost w' = lost w)"

lemma harmless_ret: "along (harmless lost stopped i) (ret x)"
  by (simp add: along_def harmless_def ret_def)

lemma harmless_andThen:
  assumes "along (calm lost stopped) m" "\<And>x. along (harmless lost stopped i) (k x)"
  shows "along (harmless lost stopped i) (andThen m k)"
  using assms by (fastforce simp: along_def calm_def harmless_def andThen_def split: prod.splits)

lemma harmless_attempt:
  "along (calm lost stopped) m \<Longrightarrow> along (harmless lost stopped i) k \<Longrightarrow> along (harmless lost stopped i) (attempt m msg k)"
  unfolding attempt_def by (rule harmless_andThen) (auto simp: harmless_ret split: option.splits)

lemmas harmless_rules = harmless_ret harmless_andThen harmless_attempt

text \<open>The calls that read, run jobs and wait stay within a preorder on worlds, and so do the parts of the code that make no
  others.\<close>

locale osd_calls = transitions R
  for R :: "'w \<Rightarrow> 'w \<Rightarrow> bool" +
  fixes env :: "'w osd_env"
  assumes deps_list: "along R (deps_with (kub env) sel)"
    and deps_get: "along R (kget (deps (kub env)) k)"
    and pods_list: "along R (pods_with (kub env) sel)"
    and node_get: "along R (node_named (kub env) n)"
    and nodes_list: "along R (nodes_with (kub env) sel)"
    and job_get: "along R (kget (jobs (kub env)) k)"
    and job_create: "along R (kcreate (jobs (kub env)) k j)"
    and job_delete: "along R (kdelete (jobs (kub env)) k)"
    and waiting: "R w (pause env t w)"
    and tree: "along R (osd_tree (cph env))"
    and dump: "along R (osd_dump (cph env))"
    and metadata: "along R (osd_metadata (cph env))"
    and versions: "along R (daemon_versions (cph env))"
    and asking: "along R (safe_to_destroy (cph env) i)"
    and downing: "along R (osd_down (cph env) i)"
begin

lemmas calls = deps_list deps_get pods_list node_get nodes_list job_get job_create job_delete tree dump metadata versions asking downing

lemma wait_gone_along: "along R (wait_job_gone env n name)"
proof -
  have "R w (snd (wait_job_gone env n name w))" for w
  proof (induction n arbitrary: w)
    case (Suc n)
    obtain r w' where g: "kget (jobs (kub env)) (ONs env, name) w = (r, w')" by fastforce
    have "R w w'" "R w' (pause env 3000000000 w')"
      using alongD [OF job_get g] waiting by blast+
    then have "R w (snd (wait_job_gone env n name (pause env 3000000000 w')))"
      using Suc.IH by (meson trans)
    then show ?case using \<open>R w w'\<close> g by (auto split: sum.splits)
  qed (simp add: refl)
  then show ?thesis by (simp add: along_def)
qed

lemma jobs_along:
  "along R (deleteCryptCloseJob env i)" "along R (startCryptCloseJob env i node)"
  "along R (cryptCloseJobStatusForOSD env i)"
  unfolding deleteCryptCloseJob_def startCryptCloseJob_def RunReplaceableJob_def DeleteBatchJob_def cryptCloseJobStatusForOSD_def
  by (intro along_rules calls wait_gone_along)+

lemma node_along:
  "along R (getOSDNode env n)" "along R (GetNodeHostName env n)"
  "along R (GetLocationWithNode env n h)"
  unfolding getOSDNode_def GetNodeHostName_def GetLocationWithNode_def by (intro along_rules calls)+

lemma info_along: "along R (getOSDInfo env d)"
  unfolding getOSDInfo_def detect_topology_def detect_location_def getLocationFromPod_def getTopologyFromNode_def
  by (intro along_rules along_list along_bool calls node_along)

lemma crypt_along:
  "along R (isReplaceOSDEncrypted env d)" "along R (replaceOSDNodeName env d)"
  "along R (runCryptCloseJobForOSD env d i)"
proof -
  show *: "along R (isReplaceOSDEncrypted env d)" "along R (replaceOSDNodeName env d)"
    unfolding isReplaceOSDEncrypted_def replaceOSDNodeName_def by (intro along_rules info_along)+
  have "along R (case s of cryptCloseJobSucceeded \<Rightarrow> ret (Inr True) | cryptCloseJobRunning \<Rightarrow> ret (Inr False)
      | _ \<Rightarrow> andThen (replaceOSDNodeName env d) (\<lambda>n. case n of Inl e \<Rightarrow> ret (Inl e)
           | Inr nodeName \<Rightarrow> andThen (startCryptCloseJob env i nodeName)
               (\<lambda>e. ret (case e of Some x \<Rightarrow> Inl x | None \<Rightarrow> Inr False))))" for s
    by (cases s; simp only: cryptCloseJobStatus.case; intro along_rules * jobs_along)
  then show "along R (runCryptCloseJobForOSD env d i)"
    unfolding runCryptCloseJobForOSD_def by (intro along_rules jobs_along)
qed

lemma release_along:
  assumes "\<And>v. along R (require_osd_release (cph env) v)"
  shows "along R (checkRequireOSDRelease env release)"
  unfolding checkRequireOSDRelease_def EnableReleaseOSDFunctionality_def by (intro along_rules along_list calls assms)

lemma dump_along:
  assumes "\<And>k. along R (kdelete (deps (kub env)) k)"
  shows "along R (checkOSDDump env rm owned)"
proof -
  have "along R (removeOSDDeploymentIfSafeToDestroy env j)" for j
    unfolding removeOSDDeploymentIfSafeToDestroy_def OsdSafeToDestroy_def
    by (intro along_rules along_list calls along_delete_dep assms)
  then show ?thesis unfolding checkOSDDump_def by (intro along_rules calls along_dump_loop)
qed

end

locale osd_cluster = osd_calls "calm lost stopped" env
  for env :: "'w osd_env" and lost stopped :: "'w \<Rightarrow> int set" +
  fixes drained :: "'w \<Rightarrow> int set"
  assumes dep_update: "along (same lost) (kupdate (deps (kub env)) k d)"
    and dep_delete: "along (same lost) (kdelete (deps (kub env)) k)"
    and marking_out: "along (same lost) (osd_out (cph env) i)"
    and marking_in: "along (same lost) (osd_in (cph env) i)"
    and release: "along (same lost) (require_osd_release (cph env) v)"
    and safe: "safe_to_destroy (cph env) i w = (Inr ids, w') \<Longrightarrow> set ids \<subseteq> drained w'"
    and down_drained: "drained w \<subseteq> drained (snd (osd_down (cph env) i w))"
    and pods_gone: "pods_with (kub env) (OsdIdLabelKey @ ''='' @ Itoa i) w = (Inr ps, w') \<Longrightarrow>
      \<forall>p \<in> set ps. PodPhase p \<noteq> ''Running'' \<Longrightarrow> i \<in> stopped w'"
    and destroying: "i \<in> stopped w \<Longrightarrow> i \<in> drained w \<Longrightarrow> lost (snd (osd_destroy (cph env) i w)) = lost w"
begin

lemmas losing_none = calls [THEN calm_same] dep_update dep_delete marking_out marking_in release

text \<open>Between the check that the pods are gone and the destruction no call starts an OSD, and the check that the OSD is
  drained comes last.\<close>

lemma destroy_harmless: "along (harmless lost stopped i) (destroy_if_safe env i)"
proof -
  have "lost (snd (destroy_if_safe env i w)) = lost w" if "i \<in> stopped w" for w
  proof -
    obtain r w1 where s: "safe_to_destroy (cph env) i w = (r, w1)" by fastforce
    obtain e w2 where d: "osd_down (cph env) i w1 = (e, w2)" by fastforce
    obtain e' w3 where k: "osd_destroy (cph env) i w2 = (e', w3)" by fastforce
    have c: "calm lost stopped w w1" "calm lost stopped w1 w2" using alongD [OF asking s] alongD [OF downing d] by auto
    have "lost w3 = lost w2" if "r = Inr (i # ids)" for ids
    proof -
      have "i \<in> drained w1" using safe s that by fastforce
      then have "i \<in> drained w2" using down_drained [of w1 i] d by auto
      moreover have "i \<in> stopped w2" using c \<open>i \<in> stopped w\<close> by (auto simp: calm_def)
      ultimately show ?thesis using destroying [of i w2] k by simp
    qed
    with s d k c show ?thesis
      by (cases r; cases e; cases e')
        (auto simp: destroy_if_safe_def OsdSafeToDestroy_def OSDDown_def OSDDestroy_def effects calm_def neq_Nil_conv)
  qed
  then show ?thesis by (simp add: along_def harmless_def)
qed

lemma close_harmless: "along (harmless lost stopped i) (close_and_destroy env d i)"
proof -
  have "along (harmless lost stopped i) (case j of Inl e \<Rightarrow> ret (Some e) | Inr closed \<Rightarrow> if \<not> closed then ret None
        else attempt (deleteCryptCloseJob env i) ''failed to delete crypto-close job'' (destroy_if_safe env i))" for j
    by (cases j) (auto intro!: harmless_rules jobs_along destroy_harmless)
  then have "along (harmless lost stopped i) (if \<not> enc then destroy_if_safe env i
      else andThen (runCryptCloseJobForOSD env d i) (\<lambda>j. case j of Inl e \<Rightarrow> ret (Some e)
             | Inr closed \<Rightarrow> if \<not> closed then ret None
                 else attempt (deleteCryptCloseJob env i) ''failed to delete crypto-close job'' (destroy_if_safe env i)))" for enc
    by (simp add: destroy_harmless harmless_andThen crypt_along)
  then show ?thesis
    unfolding close_and_destroy_def by (intro harmless_andThen crypt_along) (auto simp: harmless_ret split: sum.split)
qed

lemma downscaled_loses_none: "along (same lost) (destroy_downscaled env d i)"
proof -
  have "lost (snd (destroy_downscaled env d i w)) = lost w" for w
  proof -
    obtain r w1 where p: "pods_with (kub env) (OsdIdLabelKey @ ''='' @ Itoa i) w = (r, w1)" by fastforce
    have l: "lost w1 = lost w" using alongD [OF pods_list p] by (simp add: calm_def)
    have "lost (snd (close_and_destroy env d i w1)) = lost w1"
      if "r = Inr ps" "filter (\<lambda>p. PodPhase p = ''Running'') ps = []" for ps
      using close_harmless [of i d] pods_gone [of i w ps w1] p that by (auto simp: along_def harmless_def filter_empty_conv)
    with p l show ?thesis
      by (cases r) (auto simp: destroy_downscaled_def isOSDPodGone_def osdPodsRunning_def effects)
  qed
  then show ?thesis by (simp add: along_def same_def)
qed

lemma cancel_loses_none: "along (same lost) (cancelReplaceOSD env d i)"
  unfolding cancelReplaceOSD_def OSDIn_def update_dep_def
  by (intro unchanged.along_rules losing_none jobs_along [THEN calm_same])

lemma replacement_loses_none: "along (same lost) (processOSDReplacementDestroy env d i tree dump)"
  unfolding processOSDReplacementDestroy_def Let_def annotateReadyForSwap_def update_dep_def drain_osd_def OSDOut_def OsdSafeToDestroy_def
    scaleDownOSDDeployment_def
  by (intro unchanged.along_rules losing_none downscaled_loses_none cancel_loses_none)

lemma destroy_loop_loses_none: "along (same lost) (destroy_loop env tree dump ds)"
  by (induction ds) (auto intro!: unchanged.along_rules replacement_loses_none)

lemma delete_loses_none: "along (same lost) (DeleteOsdDeployment env name)"
  by (intro unchanged.along_delete_dep losing_none)

lemma dump_loop_loses_none: "along (same lost) (dump_loop env rm owned dump os)"
  by (rule unchanged.along_dump_loop, unfold removeOSDDeploymentIfSafeToDestroy_def OsdSafeToDestroy_def,
      intro unchanged.along_rules along_list losing_none delete_loses_none)

lemma check_loses_none: "along (same lost) (checkOSDHealth env rm release)"
proof -
  have "along (same lost) (processOSDsDestroyForReplacement env)"
    unfolding processOSDsDestroyForReplacement_def getOSDDeployments_def Let_def
    by (intro unchanged.along_rules losing_none destroy_loop_loses_none)
  moreover have "along (same lost) (checkRequireOSDRelease env release)"
    unfolding checkRequireOSDRelease_def EnableReleaseOSDFunctionality_def
    by (intro unchanged.along_rules along_list losing_none)
  ultimately show ?thesis
    unfolding checkOSDHealth_def checkOSDDump_def by (intro unchanged.along_rules losing_none dump_loop_loses_none)
qed

lemma requests_lose_none: "along (same lost) (processOSDReplacements env)"
proof -
  have "along (same lost) (swap_cleanup env q d)" "along (same lost) (replacement_request env q d)" for q d
    unfolding swap_cleanup_def replacement_request_def need_dump_def need_tree_def update_dep_def
    by (intro unchanged.along_rules losing_none delete_loses_none)+
  then have "along (same lost) (replacements_loop env ds q)" for ds q
    by (induction ds arbitrary: q) (auto intro!: unchanged.along_rules)
  then show ?thesis
    unfolding processOSDReplacements_def getOSDDeployments_def by (intro unchanged.along_rules losing_none)
qed

end

section \<open>The reference environment keeps the contract\<close>

lemmas world_calls = world_env_def world_kube_def world_ceph_def idle_ceph_def lift_api_def

lemma calm_unchanged: "(\<And>w. snd (m w) = w) \<Longrightarrow> along (calm lost stopped) m"
  by (simp add: along_def calm_def)

lemma calm_worldI:
  "wLost w' = wLost w \<Longrightarrow> objs (wDeps w') = objs (wDeps w) \<Longrightarrow> calm world_lost world_stopped w w'"
  by (simp add: calm_def world_lost_def world_stopped_def world_pods_def world_deps_def)

interpretation world_calls: osd_calls "calm world_lost world_stopped" world_env
proof
  fix k :: key and j :: JobStatus
  show "along (calm world_lost world_stopped) (kget (deps (kub world_env)) k)"
    by (auto simp: along_def world_calls zoom_def server_api_def split: prod.splits intro!: calm_worldI dest: server_get_cases)
  show "along (calm world_lost world_stopped) (kget (jobs (kub world_env)) k)"
    "along (calm world_lost world_stopped) (kcreate (jobs (kub world_env)) k j)"
    "along (calm world_lost world_stopped) (kdelete (jobs (kub world_env)) k)"
    by (auto simp: along_def world_calls zoom_def split: prod.splits intro!: calm_worldI)
qed (auto intro!: calm_unchanged calm_worldI simp: world_calls ret_def along_def)

interpretation world: osd_cluster world_env world_lost world_stopped world_drained
proof
  fix k :: key and d :: OsdDeployment and i :: int and w w' :: osd_world and ids ps
  show "along (same world_lost) (kupdate (deps (kub world_env)) k d)" "along (same world_lost) (kdelete (deps (kub world_env)) k)"
    by (auto simp: along_def same_def world_calls zoom_def world_lost_def split: prod.splits)
  show "i \<in> world_stopped w \<Longrightarrow> i \<in> world_drained w \<Longrightarrow>
      world_lost (snd (osd_destroy (cph world_env) i w)) = world_lost w"
    by (auto simp: world_calls world_lost_def world_drained_def world_stopped_def world_pods_def)
  show "pods_with (kub world_env) (OsdIdLabelKey @ ''='' @ Itoa i) w = (Inr ps, w') \<Longrightarrow>
      \<forall>p \<in> set ps. PodPhase p \<noteq> ''Running'' \<Longrightarrow> i \<in> world_stopped w'"
    by (auto simp: world_calls world_stopped_def)
qed (auto simp: world_calls ret_def along_def same_def world_lost_def world_drained_def split: if_splits)

section \<open>Runs\<close>

text \<open>Health checks and the reconciles that accept requests, in any order, between which the users, the kubelets and Ceph
  change the world.\<close>

datatype 'w osd_event = HealthTick bool | Requests | Elsewhere "'w \<Rightarrow> 'w"

fun happen :: "'w osd_env \<Rightarrow> 'w osd_event \<Rightarrow> string \<times> 'w \<Rightarrow> string \<times> 'w" where
  "happen env (HealthTick rm) (release, w) = checkOSDHealth env rm release w"
| "happen env Requests (release, w) = (release, snd (processOSDReplacements env w))"
| "happen env (Elsewhere f) (release, w) = (release, f w)"

text \<open>C3. No run of health checks and reconciles destroys an OSD that is running or that holds data stored nowhere else, whatever
  happens to the cluster between the calls and however the calls to Ceph and Kubernetes fail: Ceph answers that the OSD is
  safe to destroy after its pods are gone, and nothing the code does in between starts it again.\<close>
theorem no_osd_lost:
  fixes env :: "'w osd_env"
  assumes cluster: "osd_cluster env lost stopped drained"
    and others: "\<And>f w. Elsewhere f \<in> set events \<Longrightarrow> lost (f w) = lost w"
  shows "lost (snd (fold (happen env) events (release, w))) = lost w"
  using others
proof (induction events arbitrary: release w)
  case (Cons e es)
  obtain release' w' where s: "happen env e (release, w) = (release', w')" by fastforce
  have "lost w' = lost w"
  proof (cases e)
    case (HealthTick rm)
    then show ?thesis using alongD [OF osd_cluster.check_loses_none [OF cluster]] s by (fastforce simp: same_def)
  next
    case Requests
    then show ?thesis using osd_cluster.requests_lose_none [OF cluster] s by (auto simp: along_def same_def)
  next
    case (Elsewhere f)
    then show ?thesis using Cons.prems s by auto
  qed
  then show ?case using Cons s by simp
qed simp

text \<open>Three OSDs, of which the first is to be replaced: it is marked out, and once Ceph has moved its data it is stopped, destroyed
  and offered for the swap.\<close>

definition replaced_events :: "osd_world osd_event list" where
  "replaced_events = [Requests, HealthTick False, HealthTick False, Elsewhere (\<lambda>w. w\<lparr>wData := filter (\<lambda>i. i \<in> set (wIn w)) (wData w)\<rparr>),
     HealthTick False, HealthTick False, HealthTick False]"

definition replaced_world :: osd_world where
  "replaced_world = world_of False [world_dep 0 [(ReplaceOSDAnnotationKey, ''yes-really-replace-osd-0'')], world_dep 1 [], world_dep 2 []]"

theorem no_osd_lost_witness:
  "world_lost (snd (fold (happen world_env) replaced_events ([], replaced_world))) = {} \<and>
   wDestroyed (snd (fold (happen world_env) replaced_events ([], replaced_world))) = [0]"
proof -
  have "wDestroyed (snd (fold (happen world_env) replaced_events ([], replaced_world))) = [0]" by code_simp
  moreover have "world_lost (snd (fold (happen world_env) replaced_events ([], replaced_world))) = world_lost replaced_world"
    by (rule no_osd_lost [OF world.osd_cluster_axioms]) (auto simp: replaced_events_def world_lost_def)
  ultimately show ?thesis by (simp add: world_lost_def replaced_world_def world_of_def)
qed

end
