(* ===== verification/OsdPhases.thy ===== *)
theory OsdPhases
  imports OsdSafety
begin

text \<open>
  The replacement of an OSD as a state machine. The operator remembers nothing of it: the phase is read off the deployment and off
  Ceph at every tick. The interface \<open>osd_progress\<close> says what the calls show and change of them; every tick of the health check
  then takes each replacement at most one phase forward and none backward, and in a cluster that does as it is told
  four ticks are enough. That holds for the whole tick, which also removes the deployments of OSDs that are down and out, as
  long as the list is answered by which it finds those under replacement; when it is not, the deployment may be removed.
\<close>

section \<open>Phases\<close>

datatype phase = Serving | Draining | Stopped | Destroyed | Swappable

definition phase_of :: "bool \<Rightarrow> bool \<Rightarrow> OsdDeployment \<Rightarrow> phase" where
  "phase_of isOut isDestroyed d =
     (if has_annotation d ReadyForSwapOSDAnnotationKey then Swappable else if isDestroyed then Destroyed
      else if DReplicas d = Some 0 then Stopped else if isOut then Draining else Serving)"

inductive advance :: "phase \<Rightarrow> phase \<Rightarrow> bool" where
  stay: "advance p p"
| drain: "advance Serving Draining"
| halt: "advance Draining Stopped"
| destroy: "advance Stopped Destroyed"
| offer: "advance Destroyed Swappable"

fun next_phase :: "phase \<Rightarrow> phase" where
  "next_phase Serving = Draining"
| "next_phase Draining = Stopped"
| "next_phase Stopped = Destroyed"
| "next_phase Destroyed = Swappable"
| "next_phase Swappable = Swappable"

text \<open>A replacement that has been requested and accepted.\<close>

definition accepted :: "OsdDeployment \<Rightarrow> bool" where
  "accepted d \<longleftrightarrow> in_progress d \<and> has_annotation d ReplaceOSDAnnotationKey"

text \<open>What a tick makes of the deployment.\<close>

definition ticked :: "OsdDeployment \<Rightarrow> OsdDeployment set" where
  "ticked d = {d, d\<lparr>DReplicas := Some 0\<rparr>, AddAnnotationToDeployment ReadyForSwapOSDAnnotationKey ''true'' d}"

lemma ticked_accepted: "accepted d \<Longrightarrow> d' \<in> ticked d \<Longrightarrow> accepted d' \<and> DepName d' = DepName d \<and> DLabels d' = DLabels d"
  by (auto simp: ticked_def accepted_def in_progress_def dannotation_def has_annotation_def AddAnnotationToDeployment_def mget_def
      ReadyForSwapOSDAnnotationKey_def ReplaceInProgressOSDAnnotationKey_def ReplaceOSDAnnotationKey_def)

section \<open>What is relied on\<close>

definition observed :: "('w \<Rightarrow> key \<rightharpoonup> OsdDeployment) \<Rightarrow> ('w \<Rightarrow> int set) \<Rightarrow> ('w \<Rightarrow> int set) \<Rightarrow> 'w \<Rightarrow> (key \<rightharpoonup> OsdDeployment) \<times> int set \<times> int set" where
  "observed store outs destroyed w = (store w, outs w, destroyed w)"

text \<open>The footprint of an operation for one OSD: other deployments and other OSDs are left alone.\<close>

definition footprint ::
  "('w \<Rightarrow> key \<rightharpoonup> OsdDeployment) \<Rightarrow> ('w \<Rightarrow> int set) \<Rightarrow> ('w \<Rightarrow> int set) \<Rightarrow> key \<Rightarrow> int \<Rightarrow> 'w \<Rightarrow> 'w \<Rightarrow> bool" where
  "footprint store outs destroyed k i w w' \<longleftrightarrow> (\<forall>k'. k' \<noteq> k \<longrightarrow> store w' k' = store w k') \<and>
     outs w' - {i} = outs w - {i} \<and> destroyed w' - {i} = destroyed w - {i}"

interpretation footprint: transitions "footprint store outs destroyed k i" for store :: "'w \<Rightarrow> key \<rightharpoonup> OsdDeployment"
    and outs destroyed :: "'w \<Rightarrow> int set" and k :: key and i :: int
  by unfold_locales (auto simp: footprint_def)

lemma alongI: "(\<And>s x s'. m s = (x, s') \<Longrightarrow> R s s') \<Longrightarrow> along R m"
  unfolding along_def by (metis prod.collapse)

lemma observed_footprint:
  "along (same (observed store outs destroyed)) m \<Longrightarrow> along (footprint store outs destroyed k i) m"
  by (auto simp: along_def same_def observed_def footprint_def)

text \<open>At most the one OSD is destroyed, and nothing else happens.\<close>

definition destroys ::
  "('w \<Rightarrow> key \<rightharpoonup> OsdDeployment) \<Rightarrow> ('w \<Rightarrow> int set) \<Rightarrow> ('w \<Rightarrow> int set) \<Rightarrow> int \<Rightarrow> 'w \<Rightarrow> 'w \<Rightarrow> bool" where
  "destroys store outs destroyed i w w' \<longleftrightarrow> store w' = store w \<and> outs w' = outs w \<and>
     (destroyed w' = destroyed w \<or> destroyed w' = insert i (destroyed w))"

interpretation destroys: transitions "destroys store outs destroyed i" for store :: "'w \<Rightarrow> key \<rightharpoonup> OsdDeployment"
    and outs destroyed :: "'w \<Rightarrow> int set" and i :: int
  by unfold_locales (auto simp: destroys_def)

lemma observed_destroys: "along (same (observed store outs destroyed)) m \<Longrightarrow> along (destroys store outs destroyed i) m"
  by (auto simp: along_def same_def observed_def destroys_def)

text \<open>At most the one deployment is removed, and nothing else happens.\<close>

definition removes ::
  "('w \<Rightarrow> key \<rightharpoonup> OsdDeployment) \<Rightarrow> ('w \<Rightarrow> int set) \<Rightarrow> ('w \<Rightarrow> int set) \<Rightarrow> key \<Rightarrow> 'w \<Rightarrow> 'w \<Rightarrow> bool" where
  "removes store outs destroyed k w w' \<longleftrightarrow> (store w' = store w \<or> store w' = (store w)(k := None)) \<and>
     outs w' = outs w \<and> destroyed w' = destroyed w"

interpretation removes: transitions "removes store outs destroyed k" for store :: "'w \<Rightarrow> key \<rightharpoonup> OsdDeployment"
    and outs destroyed :: "'w \<Rightarrow> int set" and k :: key
  by unfold_locales (auto simp: removes_def)

lemma observed_removes: "along (same (observed store outs destroyed)) m \<Longrightarrow> along (removes store outs destroyed k) m"
  by (auto simp: along_def same_def observed_def removes_def)

text \<open>The answers of Ceph, perhaps from before other OSDs were dealt with, are right about this one.\<close>

definition agrees :: "('w \<Rightarrow> int set) \<Rightarrow> ('w \<Rightarrow> int set) \<Rightarrow> int \<Rightarrow> OsdTree \<Rightarrow> OSDDump \<Rightarrow> 'w \<Rightarrow> bool" where
  "agrees outs destroyed i tree dump w \<longleftrightarrow> (isOSDDestroyedInTree tree i \<longleftrightarrow> i \<in> destroyed w) \<and>
     (\<forall>up isIn. StatusByID dump i = Inr (up, isIn) \<longrightarrow> (isIn = 1 \<longleftrightarrow> i \<notin> outs w))"

text \<open>What is to be seen of one OSD.\<close>

definition seen :: "('w \<Rightarrow> key \<rightharpoonup> OsdDeployment) \<Rightarrow> ('w \<Rightarrow> int set) \<Rightarrow> ('w \<Rightarrow> int set) \<Rightarrow> key \<Rightarrow> int \<Rightarrow> 'w \<Rightarrow> OsdDeployment option \<times> bool \<times> bool" where
  "seen store outs destroyed k i w = (store w k, i \<in> outs w, i \<in> destroyed w)"

lemma footprint_seen:
  assumes "footprint store outs destroyed k' j w w'" "k' \<noteq> k" "j \<noteq> i"
  shows "seen store outs destroyed k i w' = seen store outs destroyed k i w"
proof -
  from assms(1) have "outs w' - {j} = outs w - {j}" "destroyed w' - {j} = destroyed w - {j}"
    and st: "\<forall>k'' \<noteq> k'. store w' k'' = store w k''" by (simp_all add: footprint_def)
  then have "i \<in> outs w' \<longleftrightarrow> i \<in> outs w" "i \<in> destroyed w' \<longleftrightarrow> i \<in> destroyed w" using assms(3) by blast+
  moreover have "store w' k = store w k" using st assms(2) by metis
  ultimately show ?thesis by (simp add: seen_def)
qed

text \<open>Deployments are removed at most, and not this one.\<close>

definition spares ::
  "('w \<Rightarrow> key \<rightharpoonup> OsdDeployment) \<Rightarrow> ('w \<Rightarrow> int set) \<Rightarrow> ('w \<Rightarrow> int set) \<Rightarrow> key \<Rightarrow> int \<Rightarrow> OsdDeployment \<Rightarrow> 'w \<Rightarrow> 'w \<Rightarrow> bool" where
  "spares store outs destroyed k i d w w' \<longleftrightarrow> store w' \<subseteq>\<^sub>m store w \<and>
     (store w k = Some d \<longrightarrow> seen store outs destroyed k i w' = seen store outs destroyed k i w)"

interpretation spares: transitions "spares store outs destroyed k i d" for store :: "'w \<Rightarrow> key \<rightharpoonup> OsdDeployment"
    and outs destroyed :: "'w \<Rightarrow> int set" and k :: key and i :: int and d :: OsdDeployment
  by unfold_locales (auto simp: spares_def seen_def intro: map_le_trans)

lemma observed_spares: "along (same (observed store outs destroyed)) m \<Longrightarrow> along (spares store outs destroyed k i d) m"
  by (auto simp: along_def same_def observed_def spares_def seen_def)

lemma removes_spares:
  assumes "removes store outs destroyed k' w w'" and "store w k = Some d \<Longrightarrow> k' \<noteq> k"
  shows "spares store outs destroyed k i d w w'"
  using assms by (auto simp: removes_def spares_def seen_def map_le_def split: if_splits)

text \<open>Deployments are removed at most.\<close>

definition shrinks :: "('w \<Rightarrow> key \<rightharpoonup> OsdDeployment) \<Rightarrow> 'w \<Rightarrow> 'w \<Rightarrow> bool" where
  "shrinks store w w' \<longleftrightarrow> store w' \<subseteq>\<^sub>m store w"

interpretation shrinks: transitions "shrinks store" for store :: "'w \<Rightarrow> key \<rightharpoonup> OsdDeployment"
  by unfold_locales (auto simp: shrinks_def intro: map_le_trans)

lemma observed_shrinks: "along (same (observed store outs destroyed)) m \<Longrightarrow> along (shrinks store) m"
  by (auto simp: along_def same_def observed_def shrinks_def)

lemma removes_shrinks: "along (removes store outs destroyed k) m \<Longrightarrow> along (shrinks store) m"
  unfolding along_def removes_def shrinks_def by (metis map_le_refl map_le_imp_upd_le upd_None_map_le)

lemma map_le_None: "m \<subseteq>\<^sub>m m' \<Longrightarrow> m' k = None \<Longrightarrow> m k = None"
  by (metis domIff map_le_def)

lemma dump_loop_up:
  "(\<And>y. y \<in> set pre \<Longrightarrow> \<exists>n. StatusByID dump (OsdNum y) = Inr (1, n)) \<Longrightarrow>
   dump_loop env rm owned dump (pre @ os) = dump_loop env rm owned dump os"
proof (induction pre)
  case (Cons y pre)
  then obtain n where "StatusByID dump (OsdNum y) = Inr (1, n)" by force
  with Cons show ?case by simp
qed simp

lemma Atoi_ItoaD: "Atoi (Itoa j) = Some i \<Longrightarrow> j = i"
proof (cases "j < 0")
  case True
  then show "Atoi (Itoa j) = Some i \<Longrightarrow> j = i" by (simp add: Atoi_def Itoa_def split_sign_def split: if_splits)
next
  case False
  then show "Atoi (Itoa j) = Some i \<Longrightarrow> j = i" by (simp add: Atoi_def Itoa_def split_sign_digits digits_all split: if_splits)
qed

lemma replacing_iff: "(i, d) \<in> set (replacing ds) \<longleftrightarrow> d \<in> set ds \<and> in_progress d \<and> GetDeploymentOSDID d = Inr i"
  by (auto simp: replacing_def split: sum.splits if_splits)

lemma replacing_once: "distinct ds \<Longrightarrow> distinct (replacing ds)"
proof (induction ds)
  case (Cons d ds)
  then show ?case using replacing_iff [of _ d ds] by (auto simp: replacing_def split: sum.splits)
qed (simp add: replacing_def)

lemma destroy_loop_append:
  "destroy_loop env tree dump (xs @ ys) w = destroy_loop env tree dump ys (snd (destroy_loop env tree dump xs w))"
  by (induction xs arbitrary: w) (auto simp: effects split: prod.splits)

locale osd_progress = kube_api "deps (kub env)" store + osd_calls "same (observed store outs destroyed)" env
  for env :: "'w osd_env" and store :: "'w \<Rightarrow> key \<rightharpoonup> OsdDeployment" and outs destroyed :: "'w \<Rightarrow> int set" +
  assumes listed: "deps_with (kub env) sel w = (Inr ds, w') \<Longrightarrow> d \<in> set ds \<Longrightarrow> store w (ONs env, DepName d) = Some d"
    and listed_once: "deps_with (kub env) sel w = (Inr ds, w') \<Longrightarrow> distinct (map DepName ds)"
    and listed_all: "deps_with (kub env) ''app=rook-ceph-osd'' w = (Inr ds, w') \<Longrightarrow> store w (ONs env, DepName d) = Some d \<Longrightarrow>
      dlabel d ''app'' = ''rook-ceph-osd'' \<Longrightarrow> d \<in> set ds"
    and listed_by_id: "deps_with (kub env) (OsdIdLabelKey @ ''='' @ Itoa j) w = (Inr ds, w') \<Longrightarrow> d \<in> set ds \<Longrightarrow> dlabel d OsdIdLabelKey = Itoa j"
    and updating: "along (same (\<lambda>w. (outs w, destroyed w))) (kupdate (deps (kub env)) k d)"
    and deleting: "along (same (\<lambda>w. (outs w, destroyed w))) (kdelete (deps (kub env)) k)"
    and releasing: "along (same (observed store outs destroyed)) (require_osd_release (cph env) v)"
    and marking_out: "osd_out (cph env) i w = (e, w') \<Longrightarrow> store w' = store w \<and> destroyed w' = destroyed w \<and>
      (outs w' = insert i (outs w) \<or> e \<noteq> None \<and> outs w' = outs w)"
    and marking_in: "osd_in (cph env) i w = (e, w') \<Longrightarrow> store w' = store w \<and> destroyed w' = destroyed w \<and>
      (outs w' = outs w - {i} \<or> e \<noteq> None \<and> outs w' = outs w)"
    and destroying: "osd_destroy (cph env) i w = (e, w') \<Longrightarrow> store w' = store w \<and> outs w' = outs w \<and>
      (destroyed w' = insert i (destroyed w) \<or> e \<noteq> None \<and> destroyed w' = destroyed w)"
    and tree_shows: "osd_tree (cph env) w = (Inr t, w') \<Longrightarrow> isOSDDestroyedInTree t i \<longleftrightarrow> i \<in> destroyed w"
    and dump_shows: "osd_dump (cph env) w = (Inr u, w') \<Longrightarrow> StatusByID u i = Inr (up, isIn) \<Longrightarrow> isIn = 1 \<longleftrightarrow> i \<notin> outs w"
begin

lemma update_cases:
  assumes u: "update_dep env d w = (e, w')"
  shows "outs w' = outs w" "destroyed w' = destroyed w"
    "store w' = (store w)((ONs env, DepName d) \<mapsto> d) \<or> e \<noteq> None \<and> store w' = store w"
proof -
  have u: "kupdate (deps (kub env)) (ONs env, DepName d) d w = (e, w')" using u by (simp add: update_dep_def)
  show "outs w' = outs w" "destroyed w' = destroyed w" using alongD [OF updating u] by (simp_all add: same_def)
  show "store w' = (store w)((ONs env, DepName d) \<mapsto> d) \<or> e \<noteq> None \<and> store w' = store w"
    using update_ok update_err u by (cases e) blast+
qed

lemma update_foot: "along (footprint store outs destroyed (ONs env, DepName d) i) (update_dep env d)"
proof (rule alongI)
  fix w e w' assume "update_dep env d w = (e, w')"
  from update_cases [OF this] show "footprint store outs destroyed (ONs env, DepName d) i w w'" by (auto simp: footprint_def)
qed

lemma ceph_foot:
  "along (footprint store outs destroyed k i) (osd_out (cph env) i)" "along (footprint store outs destroyed k i) (osd_in (cph env) i)" "along (footprint store outs destroyed k i) (osd_destroy (cph env) i)"
proof -
  show "along (footprint store outs destroyed k i) (osd_out (cph env) i)"
    by (rule alongI, drule marking_out) (auto simp: footprint_def)
  show "along (footprint store outs destroyed k i) (osd_in (cph env) i)"
    by (rule alongI, drule marking_in) (auto simp: footprint_def)
  show "along (footprint store outs destroyed k i) (osd_destroy (cph env) i)"
    by (rule alongI, drule destroying) (auto simp: footprint_def)
qed

lemmas quiet_foot = calls [THEN observed_footprint] jobs_along [THEN observed_footprint] crypt_along [THEN observed_footprint]

lemma replacement_foot: "along (footprint store outs destroyed (ONs env, DepName d) i) (processOSDReplacementDestroy env d i tree dump)"
proof -
  have u: "along (footprint store outs destroyed (ONs env, DepName d) i) (update_dep env e)" if "DepName e = DepName d" for e
    using update_foot [of e i] that by simp
  show ?thesis
    unfolding processOSDReplacementDestroy_def Let_def cancelReplaceOSD_def annotateReadyForSwap_def drain_osd_def destroy_downscaled_def
      isOSDPodGone_def osdPodsRunning_def close_and_destroy_def destroy_if_safe_def OSDIn_def OSDOut_def OSDDown_def OSDDestroy_def
      OsdSafeToDestroy_def scaleDownOSDDeployment_def
    by (intro footprint.along_rules quiet_foot ceph_foot u) (simp_all add: unmark_replacement_def AddAnnotationToDeployment_def)
qed

lemma downscaled_destroys: "along (destroys store outs destroyed i) (destroy_downscaled env d i)"
proof -
  have "along (destroys store outs destroyed i) (osd_destroy (cph env) i)"
    by (rule alongI, drule destroying) (auto simp: destroys_def)
  then show ?thesis
    unfolding destroy_downscaled_def isOSDPodGone_def osdPodsRunning_def close_and_destroy_def destroy_if_safe_def OSDDown_def OSDDestroy_def
      OsdSafeToDestroy_def
    by (intro destroys.along_rules calls [THEN observed_destroys] jobs_along [THEN observed_destroys] crypt_along [THEN observed_destroys])
qed

lemma drain_advances:
  assumes k: "k = (ONs env, DepName d)" and st: "store w k = Some d" and ag: "agrees outs destroyed i tree dump w"
    and n: "\<not> has_annotation d ReadyForSwapOSDAnnotationKey" "i \<notin> destroyed w" "DReplicas d \<noteq> Some 0"
    and r: "drain_osd env d i dump w = (e, w')"
  shows "\<exists>d' \<in> ticked d. store w' k = Some d' \<and> advance (phase_of (i \<in> outs w) (i \<in> destroyed w) d) (phase_of (i \<in> outs w') (i \<in> destroyed w') d')"
proof (cases "case StatusByID dump i of Inl _ \<Rightarrow> True | Inr (_, x) \<Rightarrow> x = 1")
  case True
  obtain e' where "osd_out (cph env) i w = (e', w')"
    using r True by (auto simp: drain_osd_def OSDOut_def effects split: prod.splits option.splits)
  from marking_out [OF this] show ?thesis using st n
    by (auto simp: ticked_def phase_of_def intro: advance.intros)
next
  case notin: False
  then have o: "i \<in> outs w" using ag by (auto simp: agrees_def split: sum.splits)
  obtain x w1 where a: "OsdSafeToDestroy (cph env) i w = (x, w1)" by fastforce
  have "along (same (observed store outs destroyed)) (OsdSafeToDestroy (cph env) i)"
    unfolding OsdSafeToDestroy_def by (intro along_rules calls)
  from alongD [OF this a] have v: "store w1 = store w" "outs w1 = outs w" "destroyed w1 = destroyed w"
    by (auto simp: same_def observed_def)
  show ?thesis
  proof (cases "x = Inr True")
    case True
    obtain e' where "update_dep env (d\<lparr>DReplicas := Some 0\<rparr>) w1 = (e', w')"
      using r notin a True n by (auto simp: drain_osd_def scaleDownOSDDeployment_def effects split: prod.splits option.splits)
    from update_cases [OF this] show ?thesis using st n o v k
      by (auto simp: ticked_def phase_of_def has_annotation_def intro: advance.intros)
  next
    case False
    then have "w' = w1" using r a notin
      by (cases x) (auto simp: drain_osd_def effects)
    then show ?thesis using st v by (auto simp: ticked_def intro: advance.intros)
  qed
qed

lemma replacement_advances:
  assumes k: "k = (ONs env, DepName d)" and st: "store w k = Some d" and ac: "accepted d"
    and nr: "\<not> has_annotation d ReadyForSwapOSDAnnotationKey" and ag: "agrees outs destroyed i tree dump w"
    and r: "processOSDReplacementDestroy env d i tree dump w = (e, w')"
  shows "\<exists>d' \<in> ticked d. store w' k = Some d' \<and> advance (phase_of (i \<in> outs w) (i \<in> destroyed w) d) (phase_of (i \<in> outs w') (i \<in> destroyed w') d')"
proof -
  have q: "has_annotation d ReplaceOSDAnnotationKey" using ac by (simp add: accepted_def)
  consider "i \<in> destroyed w" | "i \<notin> destroyed w" "DReplicas d = Some 0" | "i \<notin> destroyed w" "DReplicas d \<noteq> Some 0" by blast
  then show ?thesis
  proof cases
    case 1
    then obtain e' where "update_dep env (AddAnnotationToDeployment ReadyForSwapOSDAnnotationKey ''true'' d) w = (e', w')"
      using r q ag by (auto simp: processOSDReplacementDestroy_def agrees_def annotateReadyForSwap_def nr effects split: prod.splits option.splits)
    from update_cases [OF this] show ?thesis using st k 1 nr
      by (auto simp: ticked_def phase_of_def has_annotation_def AddAnnotationToDeployment_def intro: advance.intros)
  next
    case 2
    then have "destroy_downscaled env d i w = (e, w')"
      using r q ag by (auto simp: processOSDReplacementDestroy_def agrees_def)
    from alongD [OF downscaled_destroys this] show ?thesis using st 2 nr
      by (auto simp: destroys_def ticked_def phase_of_def intro: advance.intros)
  next
    case 3
    then have "drain_osd env d i dump w = (e, w')"
      using r q ag by (auto simp: processOSDReplacementDestroy_def agrees_def)
    then show ?thesis using drain_advances [OF k st ag nr] 3 by blast
  qed
qed

lemma loop_others:
  assumes "\<And>j e. (j, e) \<in> set xs \<Longrightarrow> j \<noteq> i \<and> DepName e \<noteq> n"
  shows "along (same (seen store outs destroyed (ONs env, n) i)) (destroy_loop env tree dump xs)"
  using assms
proof (induction xs)
  case (Cons x xs)
  obtain j e where x: "x = (j, e)" by fastforce
  with Cons.prems have n: "j \<noteq> i" "(ONs env, DepName e) \<noteq> (ONs env, n)" by auto
  have "along (same (seen store outs destroyed (ONs env, n) i)) (processOSDReplacementDestroy env e j tree dump)"
    by (rule alongI, unfold same_def)
      (rule footprint_seen [OF alongD [OF replacement_foot [of e j tree dump]] n(2,1)])
  with Cons x show ?case by (auto intro!: unchanged.along_anyway)
qed (simp add: unchanged.along_ret)

lemma loop_advances:
  assumes k: "k = (ONs env, DepName d)" and st: "store w k = Some d" and ac: "accepted d"
    and nr: "\<not> has_annotation d ReadyForSwapOSDAnnotationKey" and ag: "agrees outs destroyed i tree dump w"
    and xs: "(i, d) \<in> set xs" "distinct xs" and others: "\<And>j e. (j, e) \<in> set xs \<Longrightarrow> (j, e) \<noteq> (i, d) \<Longrightarrow> j \<noteq> i \<and> DepName e \<noteq> DepName d"
    and r: "destroy_loop env tree dump xs w = (x, w')"
  shows "\<exists>d' \<in> ticked d. store w' k = Some d' \<and>
    advance (phase_of (i \<in> outs w) (i \<in> destroyed w) d) (phase_of (i \<in> outs w') (i \<in> destroyed w') d')"
proof -
  obtain pre post where split: "xs = pre @ (i, d) # post" using xs(1) by (auto simp: in_set_conv_decomp)
  define w1 where "w1 = snd (destroy_loop env tree dump pre w)"
  define w2 where "w2 = snd (processOSDReplacementDestroy env d i tree dump w1)"
  have w': "w' = snd (destroy_loop env tree dump post w2)"
    using r by (simp add: split destroy_loop_append w1_def w2_def effects split: prod.splits)
  have "along (same (seen store outs destroyed k i)) (destroy_loop env tree dump pre)"
    "along (same (seen store outs destroyed k i)) (destroy_loop env tree dump post)"
    unfolding k using others xs(2) by (auto simp: split intro!: loop_others)
  then have s: "seen store outs destroyed k i w1 = seen store outs destroyed k i w"
    "seen store outs destroyed k i w' = seen store outs destroyed k i w2"
    by (auto simp: along_def same_def w1_def w')
  have "store w1 k = Some d" "agrees outs destroyed i tree dump w1" using s st ag by (auto simp: seen_def agrees_def)
  from replacement_advances [OF k this(1) ac nr this(2)] s show ?thesis
    unfolding w2_def seen_def by (metis prod.collapse prod.inject)
qed

lemma tick_advances:
  assumes k: "k = (ONs env, DepName d)" and st: "store w k = Some d" and ac: "accepted d" and osd: "GetDeploymentOSDID d = Inr i"
    and single: "\<And>e. store w (ONs env, DepName e) = Some e \<Longrightarrow> in_progress e \<Longrightarrow> GetDeploymentOSDID e = Inr i \<Longrightarrow> e = d"
    and r: "processOSDsDestroyForReplacement env w = (x, w')"
  shows "\<exists>d' \<in> ticked d. store w' k = Some d' \<and>
    advance (phase_of (i \<in> outs w) (i \<in> destroyed w) d) (phase_of (i \<in> outs w') (i \<in> destroyed w') d')"
proof -
  let ?work = "\<lambda>ds. filter (\<lambda>(_, d). \<not> has_annotation d ReadyForSwapOSDAnnotationKey) (replacing ds)"
  obtain l w1 where l: "deps_with (kub env) ''app=rook-ceph-osd'' w = (l, w1)" by fastforce
  obtain t w2 where t: "osd_tree (cph env) w1 = (t, w2)" by fastforce
  obtain u w3 where u: "osd_dump (cph env) w2 = (u, w3)" by fastforce
  have v: "observed store outs destroyed w1 = observed store outs destroyed w" "observed store outs destroyed w2 = observed store outs destroyed w"
    "observed store outs destroyed w3 = observed store outs destroyed w"
    using alongD [OF deps_list l] alongD [OF tree t] alongD [OF dump u] by (auto simp: same_def)
  consider "w' \<in> {w1, w2, w3}" | ds tr du where "l = Inr ds" "t = Inr tr" "u = Inr du"
      "w' = snd (destroy_loop env tr du (?work ds) w3)"
    using r l t u by (auto simp: processOSDsDestroyForReplacement_def getOSDDeployments_def effects Let_def split: sum.splits if_splits prod.splits)
  then show ?thesis
  proof cases
    case 1
    then have "observed store outs destroyed w' = observed store outs destroyed w" using v by auto
    then show ?thesis using st by (auto simp: observed_def ticked_def intro: advance.intros)
  next
    case (2 ds tr du)
    have stored: "store w (ONs env, DepName e) = Some e" if "e \<in> set ds" for e using listed l 2(1) that by blast
    have alone: "j \<noteq> i \<and> DepName e \<noteq> DepName d" if "(j, e) \<in> set (?work ds)" "(j, e) \<noteq> (i, d)" for j e
    proof -
      from that(1) have e: "e \<in> set ds" "in_progress e" "GetDeploymentOSDID e = Inr j" by (simp_all add: replacing_iff)
      have "DepName e = DepName d \<Longrightarrow> e = d" using stored [OF e(1)] st k by simp
      moreover have "j = i \<Longrightarrow> e = d" using single [OF stored [OF e(1)] e(2)] e(3) by simp
      moreover have "e \<noteq> d" using that(2) e(3) osd by auto
      ultimately show ?thesis by blast
    qed
    have once: "distinct (?work ds)" using listed_once l 2(1) by (simp add: replacing_once distinct_map)
    have st3: "store w3 k = Some d" and ag: "agrees outs destroyed i tr du w3"
      using v st tree_shows [OF t [unfolded 2(2)]] dump_shows [OF u [unfolded 2(3)]] by (simp_all add: observed_def agrees_def)
    show ?thesis
    proof (cases "(i, d) \<in> set (?work ds)")
      case True
      then have "\<not> has_annotation d ReadyForSwapOSDAnnotationKey" by simp
      from loop_advances [OF k st3 ac this ag True once alone] 2(4) v(3) show ?thesis
        unfolding observed_def by (metis prod.collapse prod.inject)
    next
      case False
      then have "along (same (seen store outs destroyed k i)) (destroy_loop env tr du (?work ds))"
        unfolding k by (intro loop_others) (use alone in blast)
      then have "seen store outs destroyed k i w' = seen store outs destroyed k i w"
        using 2(4) v(3) by (simp add: along_def same_def seen_def observed_def)
      then show ?thesis using st by (auto simp: seen_def ticked_def intro: advance.intros)
    qed
  qed
qed

text \<open>The rest of the health check, which removes the deployments of OSDs that are down and out.\<close>

lemma removal_removes:
  "along (removes store outs destroyed (ONs env, n)) (attempt_val (OsdSafeToDestroy (cph env) j) msg (\<lambda>safe.
     if safe then reading (\<lambda>w. if t < now env w
       then attempt (DeleteOsdDeployment env n) msg' (ret None) else ret None) else ret None))"
proof -
  have "along (removes store outs destroyed (ONs env, n)) (kdelete (deps (kub env)) (ONs env, n))"
  proof (rule alongI)
    fix w e w' assume d: "kdelete (deps (kub env)) (ONs env, n) w = (e, w')"
    then have "store w' = store w \<or> store w' = (store w)((ONs env, n) := None)" using delete_ok delete_err by (cases e) blast+
    then show "removes store outs destroyed (ONs env, n) w w'" using alongD [OF deleting d] by (simp add: same_def removes_def)
  qed
  then show ?thesis
    unfolding OsdSafeToDestroy_def
    by (intro removes.along_rules removes.along_delete_dep calls [THEN observed_removes])
qed

lemma removal_spares:
  assumes osd: "GetDeploymentOSDID d = Inr i" and j: "j \<noteq> i"
  shows "along (spares store outs destroyed (ONs env, DepName d) i d) (removeOSDDeploymentIfSafeToDestroy env j)"
proof (rule alongI)
  fix w e w' assume r: "removeOSDDeploymentIfSafeToDestroy env j w = (e, w')"
  obtain l w1 where l: "deps_with (kub env) (OsdIdLabelKey @ ''='' @ Itoa j) w = (l, w1)" by fastforce
  have s1: "spares store outs destroyed (ONs env, DepName d) i d w w1" and o1: "observed store outs destroyed w1 = observed store outs destroyed w"
    using alongD [OF deps_list [THEN observed_spares] l] alongD [OF deps_list l] by (auto simp: same_def)
  show "spares store outs destroyed (ONs env, DepName d) i d w w'"
  proof (cases "\<exists>x xs. l = Inr (x # xs)")
    case True
    then obtain x xs where x: "l = Inr (x # xs)" by blast
    have other: "(ONs env, DepName x) \<noteq> (ONs env, DepName d)" if "store w1 (ONs env, DepName d) = Some d"
    proof
      assume "(ONs env, DepName x) = (ONs env, DepName d)"
      then have "x = d" using that listed [OF l [unfolded x], of x] o1 by (simp add: observed_def)
      then have "dlabel d OsdIdLabelKey = Itoa j" using listed_by_id [OF l [unfolded x], of x] by simp
      then show False using osd j Atoi_ItoaD [of j i] by (simp add: GetDeploymentOSDID_def split: option.splits)
    qed
    have "removes store outs destroyed (ONs env, DepName x) w1 w'"
      using r l x alongD [OF removal_removes] by (simp add: removeOSDDeploymentIfSafeToDestroy_def effects)
    from spares.trans [OF s1 removes_spares [OF this other]] show ?thesis .
  next
    case False
    then have "w' = w1" using r l
      by (auto simp: removeOSDDeploymentIfSafeToDestroy_def effects split: sum.splits list.splits)
    then show ?thesis using s1 by simp
  qed
qed

lemma upkeep_spares:
  assumes osd: "GetDeploymentOSDID d = Inr i" and owned: "rm \<Longrightarrow> i \<in> set owned"
  shows "along (spares store outs destroyed (ONs env, DepName d) i d) (anyway (checkOSDDump env rm owned) (checkRequireOSDRelease env release))"
proof -
  have "along (spares store outs destroyed (ONs env, DepName d) i d) (dump_loop env rm owned u os)" for u os
    by (rule spares.along_dump_loop, rule removal_spares [OF osd]) (use owned in auto)
  then have "along (spares store outs destroyed (ONs env, DepName d) i d) (checkOSDDump env rm owned)"
    unfolding checkOSDDump_def by (intro spares.along_rules calls [THEN observed_spares])
  moreover have "along (spares store outs destroyed (ONs env, DepName d) i d) (checkRequireOSDRelease env release)"
    by (rule observed_spares, rule release_along, rule releasing)
  ultimately show ?thesis by (rule spares.along_anyway)
qed

text \<open>The identifier is excluded from the removal when the list of the deployments is answered.\<close>

lemma owned_listed:
  assumes "store w (ONs env, DepName d) = Some d" "in_progress d" "GetDeploymentOSDID d = Inr i" "dlabel d ''app'' = ''rook-ceph-osd''"
    and l: "deps_with (kub env) ''app=rook-ceph-osd'' w = (Inr ds, w1)"
    and r: "processOSDsDestroyForReplacement env w = ((owned, e), w')"
  shows "i \<in> set owned"
proof -
  have "(i, d) \<in> set (replacing ds)" using listed_all [OF l] assms(1-4) by (simp add: replacing_iff)
  moreover have "owned = map fst (replacing ds)" using r l
    by (auto simp: processOSDsDestroyForReplacement_def getOSDDeployments_def effects Let_def split: sum.splits if_splits prod.splits)
  ultimately show ?thesis by force
qed

lemma health_advances:
  assumes st: "store w (ONs env, DepName d) = Some d" and ac: "accepted d" and osd: "GetDeploymentOSDID d = Inr i"
    and app: "dlabel d ''app'' = ''rook-ceph-osd''"
    and single: "\<And>e. store w (ONs env, DepName e) = Some e \<Longrightarrow> in_progress e \<Longrightarrow> GetDeploymentOSDID e = Inr i \<Longrightarrow> e = d"
    and answered: "rm \<Longrightarrow> \<exists>ds. fst (deps_with (kub env) ''app=rook-ceph-osd'' w) = Inr ds"
    and r: "checkOSDHealth env rm release w = (x, w')"
  shows "\<exists>d' \<in> ticked d. store w' (ONs env, DepName d) = Some d' \<and>
    advance (phase_of (i \<in> outs w) (i \<in> destroyed w) d) (phase_of (i \<in> outs w') (i \<in> destroyed w') d')"
proof -
  obtain owned e w1 where t: "processOSDsDestroyForReplacement env w = ((owned, e), w1)" by (metis prod.collapse)
  obtain d' where d': "d' \<in> ticked d" "store w1 (ONs env, DepName d) = Some d'"
    "advance (phase_of (i \<in> outs w) (i \<in> destroyed w) d) (phase_of (i \<in> outs w1) (i \<in> destroyed w1) d')"
    using tick_advances [OF HOL.refl st ac osd single t] by blast
  have n: "DepName d' = DepName d" "GetDeploymentOSDID d' = Inr i"
    using ticked_accepted [OF ac d'(1)] osd by (simp_all add: GetDeploymentOSDID_def dlabel_def)
  have "i \<in> set owned" if on: rm
  proof -
    obtain ds w2 where "deps_with (kub env) ''app=rook-ceph-osd'' w = (Inr ds, w2)" using answered [OF on] by (metis prod.collapse)
    then show ?thesis using owned_listed [OF st _ osd app _ t] ac by (simp add: accepted_def)
  qed
  moreover have "anyway (checkOSDDump env rm owned) (checkRequireOSDRelease env release) w1 = (x, w')"
    using r t by (simp add: checkOSDHealth_def andThen_def)
  ultimately have "spares store outs destroyed (ONs env, DepName d') i d' w1 w'" by (rule alongD [OF upkeep_spares [OF n(2)]])
  then show ?thesis using d' n by (auto simp: spares_def seen_def)
qed

text \<open>When the list is not answered, no OSD is excluded.\<close>

lemma removal_shrinks: "along (shrinks store) (removeOSDDeploymentIfSafeToDestroy env j)"
  unfolding removeOSDDeploymentIfSafeToDestroy_def
  by (intro shrinks.along_rules along_list removes_shrinks [OF removal_removes] observed_shrinks [OF deps_list])

lemma removed_if_safe:
  assumes l: "deps_with (kub env) (OsdIdLabelKey @ ''='' @ Itoa i) w = (Inr (d # ds), w1)"
    and s: "safe_to_destroy (cph env) i w1 = (Inr [i], w2)" and late: "CreationTimestamp d + graceTime < now env w2"
    and k: "kdelete (deps (kub env)) (ONs env, DepName d) w2 = (None, w3)"
    and r: "removeOSDDeploymentIfSafeToDestroy env i w = (e, w')"
  shows "store w' (ONs env, DepName d) = None"
proof -
  let ?get = "\<lambda>w. case kget (deps (kub env)) (ONs env, DepName d) w of (Inl e, w') \<Rightarrow> (Some e, w') | (Inr _, w') \<Rightarrow> (None, w')"
  have "w' = snd (wait_deleted 45 ?get w3)"
    using l s late k r
    by (auto simp: removeOSDDeploymentIfSafeToDestroy_def OsdSafeToDestroy_def DeleteOsdDeployment_def deleteResourceAndWait_def effects
        split: prod.splits option.splits)
  moreover have "along (shrinks store) (wait_deleted 45 ?get)"
    by (intro shrinks.along_wait_deleted shrinks.along_get_dep observed_shrinks [OF deps_get])
  ultimately have "store w' \<subseteq>\<^sub>m store w3" by (simp add: along_def shrinks_def)
  then show ?thesis using delete_ok [OF k] by (simp add: map_le_None)
qed

lemma unlisted_removed:
  assumes l: "deps_with (kub env) ''app=rook-ceph-osd'' w = (Inl e, w1)" and u: "osd_dump (cph env) w1 = (Inr dump, w2)"
    and os: "OSDs dump = pre @ x # post" "OsdNum x = i" and up: "\<And>y. y \<in> set pre \<Longrightarrow> \<exists>n. StatusByID dump (OsdNum y) = Inr (1, n)"
    and status: "StatusByID dump i = Inr (0, 0)"
    and rest: "deps_with (kub env) (OsdIdLabelKey @ ''='' @ Itoa i) w2 = (Inr (d # ds), w3)" "safe_to_destroy (cph env) i w3 = (Inr [i], w4)"
      "CreationTimestamp d + graceTime < now env w4" "kdelete (deps (kub env)) (ONs env, DepName d) w4 = (None, w5)"
  shows "store (snd (checkOSDHealth env True release w)) (ONs env, DepName d) = None"
proof -
  obtain e' w6 where r: "removeOSDDeploymentIfSafeToDestroy env i w2 = (e', w6)" by fastforce
  let ?rest = "andThen (dump_loop env True [] dump post) (\<lambda>_. checkRequireOSDRelease env release)"
  have "dump_loop env True [] dump (OSDs dump) w2 = dump_loop env True [] dump post w6"
    using os status r dump_loop_up [of pre dump env True "[]" "x # post"] up by (simp add: effects)
  then have "snd (checkOSDHealth env True release w) = snd (?rest w6)"
    using l u by (simp add: checkOSDHealth_def processOSDsDestroyForReplacement_def getOSDDeployments_def checkOSDDump_def effects)
  moreover have "along (shrinks store) ?rest"
    by (intro shrinks.along_rules shrinks.along_dump_loop removal_shrinks observed_shrinks [OF release_along] releasing)
  ultimately have "store (snd (checkOSDHealth env True release w)) \<subseteq>\<^sub>m store w6" by (simp add: along_def shrinks_def)
  then show ?thesis using removed_if_safe [OF rest r] by (rule map_le_None)
qed

end

section \<open>A cluster that does as it is told\<close>

definition keeping :: "('w \<Rightarrow> bool) \<Rightarrow> 'w \<Rightarrow> 'w \<Rightarrow> bool" where
  "keeping good w w' \<longleftrightarrow> (good w \<longrightarrow> good w')"

interpretation keeping: transitions "keeping good" for good :: "'w \<Rightarrow> bool"
  by unfold_locales (auto simp: keeping_def)

text \<open>The one replacement that is under way.\<close>

definition under_way ::
  "'w osd_env \<Rightarrow> ('w \<Rightarrow> key \<rightharpoonup> OsdDeployment) \<Rightarrow> ('w \<Rightarrow> int set) \<Rightarrow> ('w \<Rightarrow> int set) \<Rightarrow> 'w \<Rightarrow> OsdDeployment \<Rightarrow> int \<Rightarrow> bool" where
  "under_way env store outs destroyed w d i \<longleftrightarrow> store w (ONs env, DepName d) = Some d \<and> accepted d \<and> GetDeploymentOSDID d = Inr i \<and>
     dlabel d ''app'' = ''rook-ceph-osd'' \<and> (DReplicas d = Some 0 \<longrightarrow> i \<in> outs w) \<and>
     (has_annotation d ReadyForSwapOSDAnnotationKey \<longrightarrow> i \<in> destroyed w) \<and>
     (\<forall>e. store w (ONs env, DepName e) = Some e \<longrightarrow> in_progress e \<longrightarrow> e = d)"

lemma only_element:
  assumes "\<And>x. x \<in> set xs \<Longrightarrow> x = a" "a \<in> set xs" "distinct xs"
  shows "xs = [a]"
proof -
  have "set xs = {a}" using assms(1,2) by blast
  moreover from this have "length xs = 1" using distinct_card [OF assms(3)] by simp
  ultimately show ?thesis by (cases xs) simp_all
qed

lemma still_under_way:
  assumes way: "under_way env store outs destroyed w d i" and d': "d' \<in> ticked d" "store w' (ONs env, DepName d) = Some d'"
    and z: "DReplicas d' = Some 0 \<longrightarrow> i \<in> outs w'" and y: "has_annotation d' ReadyForSwapOSDAnnotationKey \<longrightarrow> i \<in> destroyed w'" and rest: "\<forall>k. k \<noteq> (ONs env, DepName d) \<longrightarrow> store w' k = store w k"
  shows "under_way env store outs destroyed w' d' i"
proof -
  have same: "accepted d'" "DepName d' = DepName d" "DLabels d' = DLabels d"
    using ticked_accepted [OF _ d'(1)] way by (auto simp: under_way_def)
  have "e = d'" if "store w' (ONs env, DepName e) = Some e" "in_progress e" for e
  proof (cases "DepName e = DepName d")
    case False
    then have "store w (ONs env, DepName e) = Some e" using rest that(1) by auto
    then show ?thesis using way that(2) False by (auto simp: under_way_def)
  qed (use that d' in simp)
  then show ?thesis using way same d' z y by (auto simp: under_way_def GetDeploymentOSDID_def dlabel_def)
qed

lemma spared_under_way:
  assumes way: "under_way env store outs destroyed w d i" and s: "spares store outs destroyed (ONs env, DepName d) i d w w'"
  shows "under_way env store outs destroyed w' d i"
proof -
  have seen: "store w' (ONs env, DepName d) = Some d" "i \<in> outs w' \<longleftrightarrow> i \<in> outs w" "i \<in> destroyed w' \<longleftrightarrow> i \<in> destroyed w"
    using way s by (auto simp: under_way_def spares_def seen_def)
  have "store w k = Some e" if "store w' k = Some e" for k e
    using s that unfolding spares_def map_le_def by (metis domI)
  then show ?thesis using way seen unfolding under_way_def by blast
qed

lemma encryption_ticked: "d' \<in> ticked d \<Longrightarrow> isReplaceOSDEncrypted env d' = isReplaceOSDEncrypted env d"
  unfolding ticked_def AddAnnotationToDeployment_def isReplaceOSDEncrypted_def getOSDInfo_def osd_from_env_def GetDeploymentOSDID_def
    legacy_block_path_def detect_topology_def getTopologyFromNode_def detect_location_def getLocationFromPod_def osd_selector_def
    osd_from_labels_def cephx_of_template_def dlabel_def
  by (elim insertE emptyE; simp cong del: if_weak_cong sum.case_cong_weak option.case_cong_weak prod.case_cong_weak list.case_cong_weak)

locale willing_cluster = osd_progress env store outs destroyed + willing: osd_calls "keeping good" env
  for env :: "'w osd_env" and store :: "'w \<Rightarrow> key \<rightharpoonup> OsdDeployment" and outs destroyed :: "'w \<Rightarrow> int set" and good :: "'w \<Rightarrow> bool" +
  assumes lists: "good w \<Longrightarrow> \<exists>ds. fst (deps_with (kub env) ''app=rook-ceph-osd'' w) = Inr ds"
    and has_tree: "good w \<Longrightarrow> \<exists>t. fst (osd_tree (cph env) w) = Inr t"
    and has_dump: "good w \<Longrightarrow> \<exists>u. fst (osd_dump (cph env) w) = Inr u \<and>
      (\<forall>d i. store w (ONs env, DepName d) = Some d \<longrightarrow> GetDeploymentOSDID d = Inr i \<longrightarrow> (\<exists>s. StatusByID u i = Inr s))"
    and updates: "good w \<Longrightarrow> store w (ONs env, DepName d) = Some d \<Longrightarrow>
      DepName d' = DepName d \<Longrightarrow> DLabels d' = DLabels d \<Longrightarrow> TemplateLabels d' = TemplateLabels d \<Longrightarrow>
      fst (update_dep env d' w) = None \<and> good (snd (update_dep env d' w))"
    and marks_out: "good w \<Longrightarrow> fst (osd_out (cph env) i w) = None \<and> good (snd (osd_out (cph env) i w))"
    and deletes: "along (keeping good) (kdelete (deps (kub env)) k)"
    and releases: "along (keeping good) (require_osd_release (cph env) v)"
    and downs: "good w \<Longrightarrow> fst (osd_down (cph env) i w) = None"
    and destroys: "good w \<Longrightarrow> fst (osd_destroy (cph env) i w) = None \<and> good (snd (osd_destroy (cph env) i w))"
    and drains: "good w \<Longrightarrow> i \<in> outs w \<Longrightarrow> fst (safe_to_destroy (cph env) i w) = Inr [i]"
    and halts: "good w \<Longrightarrow> store w (ONs env, DepName d) = Some d \<Longrightarrow> GetDeploymentOSDID d = Inr i \<Longrightarrow> DReplicas d = Some 0 \<Longrightarrow>
      \<exists>ps. fst (pods_with (kub env) (OsdIdLabelKey @ ''='' @ Itoa i) w) = Inr ps \<and> (\<forall>p \<in> set ps. PodPhase p \<noteq> ''Running'')"
begin

text \<open>The steps of one OSD.\<close>

lemma asks:
  assumes "good w" "i \<in> outs w"
  shows "\<exists>w1. OsdSafeToDestroy (cph env) i w = (Inr True, w1) \<and> good w1 \<and>
    observed store outs destroyed w1 = observed store outs destroyed w"
proof -
  obtain r w1 where s: "safe_to_destroy (cph env) i w = (r, w1)" by fastforce
  with drains [OF assms] have "r = Inr [i]" by simp
  with s alongD [OF asking s] alongD [OF willing.asking s] assms(1) show ?thesis
    by (auto simp: OsdSafeToDestroy_def effects same_def keeping_def)
qed

lemma destroyed_if_safe:
  assumes "good w" "i \<in> outs w" and r: "destroy_if_safe env i w = (e, w')"
  shows "good w' \<and> i \<in> destroyed w'"
proof -
  obtain w1 where s: "OsdSafeToDestroy (cph env) i w = (Inr True, w1)" and "good w1" using asks assms by blast
  obtain x w2 where d: "osd_down (cph env) i w1 = (x, w2)" by fastforce
  then have "x = None" "good w2" using downs [OF \<open>good w1\<close>, of i] alongD [OF willing.downing d] \<open>good w1\<close> by (auto simp: keeping_def)
  obtain y w3 where k: "osd_destroy (cph env) i w2 = (y, w3)" by fastforce
  then have "y = None" "good w3" using destroys [OF \<open>good w2\<close>, of i] by auto
  then show ?thesis using destroying [OF k] r s d k \<open>x = None\<close>
    by (auto simp: destroy_if_safe_def OSDDown_def OSDDestroy_def effects)
qed

lemma halted_destroyed:
  assumes g: "good w" and st: "store w (ONs env, DepName d) = Some d" and osd: "GetDeploymentOSDID d = Inr i"
    and z: "DReplicas d = Some 0" and o: "i \<in> outs w" and plain: "\<And>w. fst (isReplaceOSDEncrypted env d w) = Inr False"
    and r: "destroy_downscaled env d i w = (e, w')"
  shows "good w' \<and> i \<in> destroyed w'"
proof -
  obtain p w1 where p: "isOSDPodGone env i w = (p, w1)" by fastforce
  obtain c w2 where c: "isReplaceOSDEncrypted env d w1 = (c, w2)" by fastforce
  have "along (same (observed store outs destroyed)) (isOSDPodGone env i)" "along (keeping good) (isOSDPodGone env i)"
    unfolding isOSDPodGone_def osdPodsRunning_def by (intro along_rules calls willing.along_rules willing.calls)+
  from this [THEN alongD, OF p] have "observed store outs destroyed w1 = observed store outs destroyed w" "good w1"
    using g by (simp_all add: same_def keeping_def)
  with alongD [OF crypt_along(1) c] alongD [OF willing.crypt_along(1) c] o have w2: "good w2" "i \<in> outs w2"
    by (simp_all add: same_def keeping_def observed_def)
  obtain ps where ps: "fst (pods_with (kub env) (OsdIdLabelKey @ ''='' @ Itoa i) w) = Inr ps" "\<forall>p \<in> set ps. PodPhase p \<noteq> ''Running''"
    using halts [OF g st osd z] by blast
  from ps(2) have "filter (\<lambda>p. PodPhase p = ''Running'') ps = []" by (simp add: filter_empty_conv)
  with ps(1) have "p = Inr True" using p
    by (cases "pods_with (kub env) (OsdIdLabelKey @ ''='' @ Itoa i) w") (auto simp: isOSDPodGone_def osdPodsRunning_def effects)
  moreover have "c = Inr False" using plain [of w1] c by simp
  ultimately have "destroy_if_safe env i w2 = (e, w')"
    using r p c by (simp add: destroy_downscaled_def close_and_destroy_def effects)
  then show ?thesis by (rule destroyed_if_safe [OF w2])
qed

text \<open>The phase after a tick.\<close>

lemma drained_halted:
  assumes g: "good w" and st: "store w (ONs env, DepName d) = Some d" and ag: "agrees outs destroyed i tree dump w"
    and seen: "StatusByID dump i = Inr s" and z: "DReplicas d \<noteq> Some 0" and r: "drain_osd env d i dump w = (e, w')"
  shows "good w' \<and> i \<in> outs w' \<and> destroyed w' = destroyed w \<and>
    store w' (ONs env, DepName d) = Some (if i \<in> outs w then d\<lparr>DReplicas := Some 0\<rparr> else d)"
proof (cases "i \<in> outs w")
  case True
  obtain w1 where s: "OsdSafeToDestroy (cph env) i w = (Inr True, w1)" "good w1" "observed store outs destroyed w1 = observed store outs destroyed w"
    using asks g True by blast
  then have st1: "store w1 (ONs env, DepName d) = Some d" using st by (simp add: observed_def)
  obtain x w2 where u: "update_dep env (d\<lparr>DReplicas := Some 0\<rparr>) w1 = (x, w2)" by fastforce
  then have x: "x = None" "good w2" using updates [OF s(2) st1, of "d\<lparr>DReplicas := Some 0\<rparr>"] by auto
  from ag True seen have "\<not> (case StatusByID dump i of Inl _ \<Rightarrow> True | Inr (_, x) \<Rightarrow> x = 1)"
    by (auto simp: agrees_def)
  then have "w' = w2" using r s(1) u z x by (auto simp: drain_osd_def scaleDownOSDDeployment_def effects)
  then show ?thesis using x True update_cases [OF u] s(3) by (simp add: observed_def)
next
  case False
  obtain x w1 where u: "osd_out (cph env) i w = (x, w1)" by fastforce
  from ag False seen have "case StatusByID dump i of Inl _ \<Rightarrow> True | Inr (_, x) \<Rightarrow> x = 1"
    by (cases s) (auto simp: agrees_def)
  then have "w' = w1" using r u by (auto simp: drain_osd_def OSDOut_def effects split: option.splits)
  then show ?thesis using marks_out [OF g, of i] marking_out [OF u] u False st by auto
qed

lemma replacement_moves:
  assumes g: "good w" and st: "store w (ONs env, DepName d) = Some d" and ac: "accepted d" and osd: "GetDeploymentOSDID d = Inr i"
    and nr: "\<not> has_annotation d ReadyForSwapOSDAnnotationKey" and ag: "agrees outs destroyed i tree dump w" and seen: "StatusByID dump i = Inr s"
    and z: "DReplicas d = Some 0 \<Longrightarrow> i \<in> outs w" and plain: "\<And>w. fst (isReplaceOSDEncrypted env d w) = Inr False"
    and r: "processOSDReplacementDestroy env d i tree dump w = (e, w')"
  shows "good w' \<and> (\<exists>d' \<in> ticked d. store w' (ONs env, DepName d) = Some d' \<and> (DReplicas d' = Some 0 \<longrightarrow> i \<in> outs w') \<and>
    (has_annotation d' ReadyForSwapOSDAnnotationKey \<longrightarrow> i \<in> destroyed w') \<and>
    phase_of (i \<in> outs w') (i \<in> destroyed w') d' = next_phase (phase_of (i \<in> outs w) (i \<in> destroyed w) d))"
proof -
  have q: "has_annotation d ReplaceOSDAnnotationKey" using ac by (simp add: accepted_def)
  consider "i \<in> destroyed w" | "i \<notin> destroyed w" "DReplicas d = Some 0" | "i \<notin> destroyed w" "DReplicas d \<noteq> Some 0" by blast
  then show ?thesis
  proof cases
    case 1
    let ?d = "AddAnnotationToDeployment ReadyForSwapOSDAnnotationKey ''true'' d"
    obtain e' where u: "update_dep env ?d w = (e', w')"
      using 1 r q ag by (auto simp: processOSDReplacementDestroy_def agrees_def annotateReadyForSwap_def nr effects split: prod.splits option.splits)
    then have "e' = None" "good w'" using updates [OF g st, of ?d] by (auto simp: AddAnnotationToDeployment_def)
    with update_cases [OF u] 1 z nr show ?thesis
      by (auto simp: ticked_def phase_of_def has_annotation_def AddAnnotationToDeployment_def)
  next
    case 2
    then have "destroy_downscaled env d i w = (e, w')"
      using r q ag by (auto simp: processOSDReplacementDestroy_def agrees_def)
    with halted_destroyed [OF g st osd 2(2) z [OF 2(2)] plain this] alongD [OF downscaled_destroys this] show ?thesis
      using st 2 z nr by (auto simp: destroys_def ticked_def phase_of_def)
  next
    case 3
    then have *: "drain_osd env d i dump w = (e, w')"
      using r q ag by (auto simp: processOSDReplacementDestroy_def agrees_def)
    from drained_halted [OF g st ag seen 3(2) *] show ?thesis
      using 3 nr by (auto simp: ticked_def phase_of_def has_annotation_def)
  qed
qed

lemma tick_moves:
  assumes g: "good w" and way: "under_way env store outs destroyed w d i" and plain: "\<And>w. fst (isReplaceOSDEncrypted env d w) = Inr False"
    and r: "processOSDsDestroyForReplacement env w = (x, w')"
  shows "good w' \<and> (\<exists>d' \<in> ticked d. under_way env store outs destroyed w' d' i \<and>
    phase_of (i \<in> outs w') (i \<in> destroyed w') d' = next_phase (phase_of (i \<in> outs w) (i \<in> destroyed w) d))"
proof -
  from way have st: "store w (ONs env, DepName d) = Some d" and ac: "accepted d" and osd: "GetDeploymentOSDID d = Inr i"
    and app: "dlabel d ''app'' = ''rook-ceph-osd''" and z: "DReplicas d = Some 0 \<Longrightarrow> i \<in> outs w"
    and alone: "\<And>e. store w (ONs env, DepName e) = Some e \<Longrightarrow> in_progress e \<Longrightarrow> e = d"
    by (auto simp: under_way_def)
  obtain ds w1 where l: "deps_with (kub env) ''app=rook-ceph-osd'' w = (Inr ds, w1)" and d: "d \<in> set ds"
    using lists [OF g] listed_all st app by (metis prod.collapse)
  have g1: "good w1" and o1: "observed store outs destroyed w1 = observed store outs destroyed w"
    using alongD [OF deps_list l] alongD [OF willing.deps_list l] g by (auto simp: same_def keeping_def)
  have stored: "store w (ONs env, DepName e) = Some e" if "e \<in> set ds" for e using listed l that by blast
  have "p = (i, d)" if "p \<in> set (replacing ds)" for p
  proof -
    obtain j e where p: "p = (j, e)" by fastforce
    with that have e: "e \<in> set ds" "in_progress e" "GetDeploymentOSDID e = Inr j" by (simp_all add: replacing_iff)
    from alone [OF stored [OF e(1)] e(2)] show ?thesis using e(3) osd p by simp
  qed
  moreover have "(i, d) \<in> set (replacing ds)" using d ac osd by (simp add: replacing_iff accepted_def)
  moreover have "distinct (replacing ds)" using listed_once [OF l] by (simp add: replacing_once distinct_map)
  ultimately have rep: "replacing ds = [(i, d)]" by (rule only_element)
  show ?thesis
  proof (cases "has_annotation d ReadyForSwapOSDAnnotationKey")
    case True
    then have "w' = w1" using r l rep by (simp add: processOSDsDestroyForReplacement_def getOSDDeployments_def effects)
    then show ?thesis using g1 o1 way True by (auto simp: observed_def under_way_def phase_of_def ticked_def)
  next
    case False
    obtain t w2 where t: "osd_tree (cph env) w1 = (Inr t, w2)" using has_tree [OF g1] by (metis prod.collapse)
    have g2: "good w2" and o2: "observed store outs destroyed w2 = observed store outs destroyed w"
      using alongD [OF tree t] alongD [OF willing.tree t] g1 o1 by (auto simp: same_def keeping_def)
    have st2: "store w2 (ONs env, DepName d) = Some d" using o2 st by (simp add: observed_def)
    obtain u w3 s where u: "osd_dump (cph env) w2 = (Inr u, w3)" and s: "StatusByID u i = Inr s"
      using has_dump [OF g2] st2 osd by (metis prod.collapse)
    have g3: "good w3" and o3: "observed store outs destroyed w3 = observed store outs destroyed w"
      using alongD [OF dump u] alongD [OF willing.dump u] g2 o2 by (auto simp: same_def keeping_def)
    have ag: "agrees outs destroyed i t u w3" and v: "store w3 = store w" "outs w3 = outs w" "destroyed w3 = destroyed w"
      using o1 o2 o3 tree_shows [OF t] dump_shows [OF u] by (simp_all add: observed_def agrees_def)
    obtain e where p: "processOSDReplacementDestroy env d i t u w3 = (e, w')"
      using r l rep t u False by (auto simp: processOSDsDestroyForReplacement_def getOSDDeployments_def effects Let_def split: prod.splits)
    have st3: "store w3 (ONs env, DepName d) = Some d" using st v by simp
    obtain d' where d': "good w'" "d' \<in> ticked d" "store w' (ONs env, DepName d) = Some d'" "DReplicas d' = Some 0 \<longrightarrow> i \<in> outs w'"
      "has_annotation d' ReadyForSwapOSDAnnotationKey \<longrightarrow> i \<in> destroyed w'"
      "phase_of (i \<in> outs w') (i \<in> destroyed w') d' = next_phase (phase_of (i \<in> outs w) (i \<in> destroyed w) d)"
      using replacement_moves [OF g3 st3 ac osd False ag s _ plain p] z v by auto
    have "under_way env store outs destroyed w' d' i"
      using still_under_way [OF way d'(2,3,4,5)] alongD [OF replacement_foot p] v by (simp add: footprint_def)
    then show ?thesis using d' by blast
  qed
qed

lemma health_moves:
  assumes g: "good w" and way: "under_way env store outs destroyed w d i" and plain: "\<And>w. fst (isReplaceOSDEncrypted env d w) = Inr False"
    and r: "checkOSDHealth env rm release w = (x, w')"
  shows "good w' \<and> (\<exists>d' \<in> ticked d. under_way env store outs destroyed w' d' i \<and>
    phase_of (i \<in> outs w') (i \<in> destroyed w') d' = next_phase (phase_of (i \<in> outs w) (i \<in> destroyed w) d))"
proof -
  obtain owned e w1 where t: "processOSDsDestroyForReplacement env w = ((owned, e), w1)" by (metis prod.collapse)
  obtain d' where d': "good w1" "d' \<in> ticked d" "under_way env store outs destroyed w1 d' i"
    "phase_of (i \<in> outs w1) (i \<in> destroyed w1) d' = next_phase (phase_of (i \<in> outs w) (i \<in> destroyed w) d)"
    using tick_moves [OF g way plain t] by blast
  obtain ds w2 where l: "deps_with (kub env) ''app=rook-ceph-osd'' w = (Inr ds, w2)" using lists [OF g] by (metis prod.collapse)
  have "i \<in> set owned" by (rule owned_listed [OF _ _ _ _ l t]) (use way in \<open>auto simp: under_way_def accepted_def\<close>)
  moreover have u: "anyway (checkOSDDump env rm owned) (checkRequireOSDRelease env release) w1 = (x, w')"
    using r t by (simp add: checkOSDHealth_def andThen_def)
  moreover have "GetDeploymentOSDID d' = Inr i" using d'(3) by (simp add: under_way_def)
  ultimately have s: "spares store outs destroyed (ONs env, DepName d') i d' w1 w'" by (blast intro: alongD [OF upkeep_spares])
  then have "under_way env store outs destroyed w' d' i" by (rule spared_under_way [OF d'(3)])
  moreover have "good w'"
    using alongD [OF keeping.along_anyway [OF willing.dump_along [OF deletes] willing.release_along [OF releases]] u] d'(1)
    by (simp add: keeping_def)
  moreover have "phase_of (i \<in> outs w') (i \<in> destroyed w') d' = phase_of (i \<in> outs w1) (i \<in> destroyed w1) d'"
    using s d'(3) by (auto simp: spares_def seen_def under_way_def)
  ultimately show ?thesis using d'(2,4) by auto
qed

lemma ticks_move:
  assumes "good w" "under_way env store outs destroyed w d i" "\<And>w. fst (isReplaceOSDEncrypted env d w) = Inr False"
    and "fold (happen env) (map HealthTick rms) (release, w) = (release', w')"
  shows "\<exists>d'. under_way env store outs destroyed w' d' i \<and> DepName d' = DepName d \<and>
    phase_of (i \<in> outs w') (i \<in> destroyed w') d' = (next_phase ^^ length rms) (phase_of (i \<in> outs w) (i \<in> destroyed w) d)"
  using assms
proof (induction rms arbitrary: release w d)
  case (Cons rm rms)
  obtain release1 w1 where r: "checkOSDHealth env rm release w = (release1, w1)" by fastforce
  from health_moves [OF Cons.prems(1-3) r] obtain d1 where d1: "good w1" "d1 \<in> ticked d" "under_way env store outs destroyed w1 d1 i"
    "phase_of (i \<in> outs w1) (i \<in> destroyed w1) d1 = next_phase (phase_of (i \<in> outs w) (i \<in> destroyed w) d)" by blast
  have "DepName d1 = DepName d" using d1(2) by (auto simp: ticked_def AddAnnotationToDeployment_def)
  moreover have "\<And>w. fst (isReplaceOSDEncrypted env d1 w) = Inr False" using Cons.prems(3) encryption_ticked [OF d1(2), of env] by simp
  moreover have "fold (happen env) (map HealthTick rms) (release1, w1) = (release', w')" using Cons.prems(4) r by simp
  ultimately show ?case using Cons.IH [OF d1(1,3)] d1(4) by (simp add: funpow_swap1)
qed auto

end

section \<open>The reference environment keeps the contracts\<close>

definition world_store :: "osd_world \<Rightarrow> key \<rightharpoonup> OsdDeployment" where
  "world_store w = server_store (wDeps w)"

definition world_outs :: "osd_world \<Rightarrow> int set" where
  "world_outs w = - set (wIn w)"

definition world_destroyed :: "osd_world \<Rightarrow> int set" where
  "world_destroyed w = set (wDestroyed w)"

lemmas world_views = world_store_def world_outs_def world_destroyed_def

lemma map_of_snd: "map_of xs k = Some v \<Longrightarrow> v \<in> snd ` set xs"
  by (drule map_of_SomeD) (erule rev_image_eqI, simp)

lemma world_deps_iff: "d \<in> set (world_deps w) \<longleftrightarrow> world_store w (''rook-ceph'', DepName d) = Some d"
  using map_of_snd [of "objs (wDeps w)" "(''rook-ceph'', DepName d)" d]
  unfolding world_deps_def world_store_def server_store_def set_filter set_remdups set_map mem_Collect_eq by argo

interpretation world_kube: kube_api "deps (kub world_env)" world_store
proof -
  have "kube_api (lift_api wDeps (\<lambda>v w. w\<lparr>wDeps := v\<rparr>) server_api) (\<lambda>w. server_store (wDeps w))"
    by (rule lifted_api [OF memory.kube_api_axioms]) simp
  then show "kube_api (deps (kub world_env)) world_store"
    by (simp add: world_env_def world_kube_def world_store_def [abs_def])
qed

lemma along_same_unchanged: "(\<And>w. snd (m w) = w) \<Longrightarrow> along (same f) m"
  by (simp add: along_def same_def)

interpretation world_seen: osd_calls "same (observed world_store world_outs world_destroyed)" world_env
proof
  fix k :: key and j :: JobStatus
  show "along (same (observed world_store world_outs world_destroyed)) (kget (deps (kub world_env)) k)"
    by (auto simp: along_def same_def observed_def world_views world_calls zoom_def server_api_def server_store_def
        split: prod.splits dest: server_get_cases)
  show "along (same (observed world_store world_outs world_destroyed)) (kget (jobs (kub world_env)) k)"
    "along (same (observed world_store world_outs world_destroyed)) (kcreate (jobs (kub world_env)) k j)"
    "along (same (observed world_store world_outs world_destroyed)) (kdelete (jobs (kub world_env)) k)"
    by (auto simp: along_def same_def observed_def world_views world_calls zoom_def split: prod.splits)
qed (auto intro!: along_same_unchanged simp: world_calls ret_def along_def same_def observed_def world_views)

lemma world_deps_names: "distinct (map DepName (world_deps w))"
  by (auto simp: distinct_map inj_on_def world_deps_iff) (auto simp: world_deps_def)

lemma status_world:
  "StatusByID (world_dump w) i = Inr (up, isIn) \<Longrightarrow> isIn = 1 \<longleftrightarrow> i \<notin> world_outs w"
proof -
  have "status_loop i (map (\<lambda>i. \<lparr>OsdNum = i, OsdUp = f i, OsdIn = (if i \<in> set (wIn w) then 1 else 0)\<rparr>) xs) = Inr (up, isIn) \<Longrightarrow>
      isIn = 1 \<longleftrightarrow> i \<in> set (wIn w)" for xs and f :: "int \<Rightarrow> int"
    by (induction xs) (auto split: if_splits)
  then show "StatusByID (world_dump w) i = Inr (up, isIn) \<Longrightarrow> isIn = 1 \<longleftrightarrow> i \<notin> world_outs w"
    by (auto simp: StatusByID_def world_dump_def world_outs_def)
qed

lemma tree_world: "isOSDDestroyedInTree (world_tree w) i \<longleftrightarrow> i \<in> world_destroyed w"
proof -
  have "(case find (\<lambda>n. TreeType n = ''osd'' \<and> TreeId n = i) (map (\<lambda>i. \<lparr>TreeId = i, TreeName = f i, TreeType = ''osd'',
      TreeStatus = (if i \<in> S then ''destroyed'' else if i \<in> U then ''up'' else ''down''), TreeChildren = []\<rparr>) xs) of
      None \<Rightarrow> False | Some n \<Rightarrow> TreeStatus n = ''destroyed'') \<longleftrightarrow> i \<in> S \<and> i \<in> set xs" for xs :: "int list" and f :: "int \<Rightarrow> string" and S U
    by (induction xs) auto
  then show ?thesis by (simp add: isOSDDestroyedInTree_def tree_nodes_def world_tree_def world_destroyed_def) blast
qed

lemma selects_app: "dlabel d ''app'' = ''rook-ceph-osd'' \<Longrightarrow> selects ''app=rook-ceph-osd'' (DLabels d)"
proof -
  have p: "ParseStringToLabels ''app=rook-ceph-osd'' = [(''app'', ''rook-ceph-osd'')]" by code_simp
  show "dlabel d ''app'' = ''rook-ceph-osd'' \<Longrightarrow> ?thesis" unfolding selects_def p by (auto simp: dlabel_def mget_def split: option.splits)
qed

lemma selects_id:
  assumes "selects (OsdIdLabelKey @ ''='' @ Itoa j) (DLabels d)"
  shows "dlabel d OsdIdLabelKey = Itoa j"
proof -
  have n: "CHR '','' \<notin> set (OsdIdLabelKey @ ''='' @ Itoa j)" "CHR ''='' \<notin> set OsdIdLabelKey" "CHR ''='' \<notin> set (Itoa j)"
    using Itoa_notin [of "CHR '',''" j] Itoa_notin [of "CHR ''=''" j] by (simp_all add: OsdIdLabelKey_def)
  have "split_on CHR ''='' (OsdIdLabelKey @ ''='' @ Itoa j) = [OsdIdLabelKey, Itoa j]"
    using split_on_app [OF n(2), of "Itoa j"] split_on_notin [OF n(3)] by simp
  then have "ParseStringToLabels (OsdIdLabelKey @ ''='' @ Itoa j) = [(OsdIdLabelKey, Itoa j)]"
    using split_on_notin [OF n(1)] by (simp add: ParseStringToLabels_def parse_label_def put_notin keys_def)
  moreover have "Itoa j \<noteq> []" by (simp add: Itoa_def)
  ultimately show ?thesis using assms by (auto simp: selects_def dlabel_def mget_def split: option.splits)
qed

interpretation world_progress: osd_progress world_env world_store world_outs world_destroyed
proof
  fix sel w w' ds d t u k up isIn v and i j :: int and e :: "err option"
  show "deps_with (kub world_env) ''app=rook-ceph-osd'' w = (Inr ds, w') \<Longrightarrow> world_store w (ONs world_env, DepName d) = Some d \<Longrightarrow>
      dlabel d ''app'' = ''rook-ceph-osd'' \<Longrightarrow> d \<in> set ds"
    using selects_app [of d] by (auto simp: world_calls world_deps_iff split: if_splits)
  show "deps_with (kub world_env) (OsdIdLabelKey @ ''='' @ Itoa j) w = (Inr ds, w') \<Longrightarrow> d \<in> set ds \<Longrightarrow> dlabel d OsdIdLabelKey = Itoa j"
    using selects_id [of j d] by (auto simp: world_calls split: if_splits)
  show "along (same (\<lambda>w. (world_outs w, world_destroyed w))) (kdelete (deps (kub world_env)) k)"
    by (auto simp: along_def same_def world_calls zoom_def world_views split: prod.splits)
  show "along (same (observed world_store world_outs world_destroyed)) (require_osd_release (cph world_env) v)"
    by (auto simp: along_def same_def observed_def world_calls ret_def)
  show "deps_with (kub world_env) sel w = (Inr ds, w') \<Longrightarrow> d \<in> set ds \<Longrightarrow> world_store w (ONs world_env, DepName d) = Some d"
    by (auto simp: world_calls world_deps_iff split: if_splits)
  show "deps_with (kub world_env) sel w = (Inr ds, w') \<Longrightarrow> distinct (map DepName ds)"
    using world_deps_names [of w] by (auto simp: world_calls distinct_map intro: inj_on_subset split: if_splits)
  show "along (same (\<lambda>w. (world_outs w, world_destroyed w))) (kupdate (deps (kub world_env)) k d)"
    by (auto simp: along_def same_def world_calls zoom_def world_views split: prod.splits)
  show "osd_tree (cph world_env) w = (Inr t, w') \<Longrightarrow> isOSDDestroyedInTree t i \<longleftrightarrow> i \<in> world_destroyed w"
    using tree_world by (auto simp: world_calls)
  show "osd_dump (cph world_env) w = (Inr u, w') \<Longrightarrow> StatusByID u i = Inr (up, isIn) \<Longrightarrow> isIn = 1 \<longleftrightarrow> i \<notin> world_outs w"
    using status_world by (auto simp: world_calls)
qed (auto simp: world_calls world_views)

text \<open>The reference environment does as it is told while the servers have no faults left, all lists are answered, Ceph moves data at once, and the pods of
  an OSD belong to one deployment.\<close>

definition world_good :: "osd_world \<Rightarrow> bool" where
  "world_good w \<longleftrightarrow> faults (wDeps w) = [] \<and> faults (wJobs w) = [] \<and> wQuick w \<and> \<not> wBlind w \<and> set (wData w) \<subseteq> set (wIn w) \<and>
     (\<forall>d \<in> set (world_deps w). \<forall>e \<in> set (world_deps w). \<forall>i. GetDeploymentOSDID d = Inr i \<longrightarrow>
        selects (OsdIdLabelKey @ ''='' @ Itoa i) (TemplateLabels e) \<longrightarrow> e = d)"

lemma faultless:
  assumes "faults s = []"
  shows "snd (server_get k s) = s" "faults (snd (server_create k x s)) = []" "faults (snd (server_delete k s)) = []"
    "faults (snd (server_update k x s)) = []" "server_store s k \<noteq> None \<Longrightarrow> fst (server_update k x s) = None"
    "server_store s k \<noteq> None \<Longrightarrow> server_store (snd (server_update k x s)) = (server_store s)(k \<mapsto> x)"
  using assms
  by (auto simp: server_get_def server_create_def server_delete_def server_update_def commit_def next_fault_def server_store_def)

interpretation world_willing: osd_calls "keeping world_good" world_env
proof
  fix k :: key and j :: JobStatus
  show "along (keeping world_good) (kget (deps (kub world_env)) k)"
    by (auto simp: along_def keeping_def world_calls zoom_def server_api_def world_good_def faultless split_beta)
  show "along (keeping world_good) (kget (jobs (kub world_env)) k)" "along (keeping world_good) (kcreate (jobs (kub world_env)) k j)"
    "along (keeping world_good) (kdelete (jobs (kub world_env)) k)"
    by (auto simp: along_def keeping_def world_calls zoom_def server_api_def world_good_def faultless split_beta world_deps_def)
qed (auto simp: world_calls ret_def along_def keeping_def world_good_def world_deps_def)

lemma world_update:
  assumes good: "world_good w" and st: "world_store w (ONs world_env, DepName d) = Some d"
    and d': "DepName d' = DepName d" "DLabels d' = DLabels d" "TemplateLabels d' = TemplateLabels d"
  shows "fst (update_dep world_env d' w) = None" "world_good (snd (update_dep world_env d' w))"
proof -
  let ?k = "(''rook-ceph'', DepName d)" and ?s = "wDeps w"
  have k: "(ONs world_env, DepName d') = ?k" by (simp add: world_env_def d')
  have u: "update_dep world_env d' w = (fst (server_update ?k d' ?s), w\<lparr>wDeps := snd (server_update ?k d' ?s)\<rparr>)"
    unfolding update_dep_def k by (simp add: world_calls zoom_def server_api_def split_beta)
  have f: "faults ?s = []" "server_store ?s ?k \<noteq> None" using good st by (auto simp: world_good_def world_store_def world_env_def)
  show "fst (update_dep world_env d' w) = None" using faultless(5) [OF f] u by simp
  let ?w = "w\<lparr>wDeps := snd (server_update ?k d' ?s)\<rparr>"
  have store: "world_store ?w = (world_store w)(?k \<mapsto> d')" using faultless(6) [OF f] by (simp add: world_store_def)
  define old where "old e = (if DepName e = DepName d then d else e)" for e
  have old: "old e \<in> set (world_deps w)" "DLabels (old e) = DLabels e" "TemplateLabels (old e) = TemplateLabels e" "DepName (old e) = DepName e"
    if "e \<in> set (world_deps ?w)" for e
    using that st d' by (auto simp: world_deps_iff store old_def world_env_def split: if_splits)
  have names: "x = y" if "x \<in> set (world_deps ?w)" "y \<in> set (world_deps ?w)" "DepName x = DepName y" for x y
    using that by (simp add: world_deps_iff)
  have "e = x" if "x \<in> set (world_deps ?w)" "e \<in> set (world_deps ?w)" "GetDeploymentOSDID x = Inr i"
      "selects (OsdIdLabelKey @ ''='' @ Itoa i) (TemplateLabels e)" for x e i
  proof -
    have "GetDeploymentOSDID (old x) = Inr i" using that(3) old(2) [OF that(1)] by (simp add: GetDeploymentOSDID_def dlabel_def)
    then have "old e = old x" using good that(4) old(1,3) [OF that(2)] old(1) [OF that(1)] unfolding world_good_def by metis
    then show ?thesis using names that(1,2) old(4) by metis
  qed
  then have "world_good ?w" using good faultless(4) [OF f(1)] unfolding world_good_def by simp
  then show "world_good (snd (update_dep world_env d' w))" using u by simp
qed

lemma world_delete: "along (keeping world_good) (kdelete (deps (kub world_env)) k)"
proof (rule alongI)
  fix w e w' assume r: "kdelete (deps (kub world_env)) k w = (e, w')"
  have w': "w' = w\<lparr>wDeps := snd (server_delete k (wDeps w))\<rparr>"
    using r by (auto simp: world_calls zoom_def server_api_def split: prod.splits)
  have "world_store w' = world_store w \<or> world_store w' = (world_store w)(k := None)"
    using world_kube.delete_ok world_kube.delete_err r by (cases e) blast+
  then have sub: "set (world_deps w') \<subseteq> set (world_deps w)" by (auto simp: world_deps_iff split: if_splits)
  show "keeping world_good w w'"
    unfolding keeping_def
  proof
    assume good: "world_good w"
    then have "faults (wDeps w') = []" by (simp add: w' world_good_def faultless)
    then show "world_good w'" using good sub unfolding world_good_def by (simp add: w') blast
  qed
qed

interpretation world_does: willing_cluster world_env world_store world_outs world_destroyed world_good
proof
  fix k v
  show "along (keeping world_good) (kdelete (deps (kub world_env)) k)" by (rule world_delete)
  show "along (keeping world_good) (require_osd_release (cph world_env) v)" by (auto simp: along_def keeping_def world_calls ret_def)
next
  fix w :: osd_world and d d' :: OsdDeployment and i :: int
  assume good: "world_good w"
  show "\<exists>ds. fst (deps_with (kub world_env) ''app=rook-ceph-osd'' w) = Inr ds" using good by (simp add: world_calls world_good_def)
  show "\<exists>t. fst (osd_tree (cph world_env) w) = Inr t" by (simp add: world_calls)
  have known: "i \<in> set (world_osds w)" if "d \<in> set (world_deps w)" "GetDeploymentOSDID d = Inr i" for d i
    using that by (force simp: world_osds_def)
  have "\<exists>s. status_loop i (map f xs) = Inr s" if "\<And>j. OsdNum (f j) = j" "i \<in> set xs" for f xs i
    using that by (induction xs) auto
  then have "\<exists>s. StatusByID (world_dump w) i = Inr s" if "i \<in> set (world_osds w)" for i
    using that by (simp add: StatusByID_def world_dump_def)
  then show "\<exists>u. fst (osd_dump (cph world_env) w) = Inr u \<and>
      (\<forall>d i. world_store w (ONs world_env, DepName d) = Some d \<longrightarrow> GetDeploymentOSDID d = Inr i \<longrightarrow> (\<exists>s. StatusByID u i = Inr s))"
    using known by (simp add: world_calls world_deps_iff)
  show "world_store w (ONs world_env, DepName d) = Some d \<Longrightarrow> DepName d' = DepName d \<Longrightarrow> DLabels d' = DLabels d \<Longrightarrow>
      TemplateLabels d' = TemplateLabels d \<Longrightarrow> fst (update_dep world_env d' w) = None \<and> world_good (snd (update_dep world_env d' w))"
    using world_update [OF good] by blast
  show "fst (osd_out (cph world_env) i w) = None \<and> world_good (snd (osd_out (cph world_env) i w))"
    "fst (osd_destroy (cph world_env) i w) = None \<and> world_good (snd (osd_destroy (cph world_env) i w))"
    "fst (osd_down (cph world_env) i w) = None"
    using good by (auto simp: world_calls world_good_def world_deps_def)
  show "i \<in> world_outs w \<Longrightarrow> fst (safe_to_destroy (cph world_env) i w) = Inr [i]"
    using good by (auto simp: world_calls world_good_def world_outs_def)
  show "world_store w (ONs world_env, DepName d) = Some d \<Longrightarrow> GetDeploymentOSDID d = Inr i \<Longrightarrow> DReplicas d = Some 0 \<Longrightarrow>
      \<exists>ps. fst (pods_with (kub world_env) (OsdIdLabelKey @ ''='' @ Itoa i) w) = Inr ps \<and> (\<forall>p \<in> set ps. PodPhase p \<noteq> ''Running'')"
    using good unfolding world_good_def by (fastforce simp: world_calls world_pods_def world_deps_iff)
qed

section \<open>The theorems\<close>

text \<open>C6. A tick of the health check takes every accepted replacement at most one phase forward - from serving over draining and
  stopped to destroyed and swappable - and none backward, and the deployment stays, whichever calls to Ceph and Kubernetes fail
  after the first, whether or not their effects took place, and however many other replacements and removals the tick deals
  with. The first call, the list of the deployments, has to be answered when the removal of OSDs that are out is switched on.\<close>
theorem replacement_phases:
  fixes env :: "'w osd_env" and release :: string
  assumes progress: "osd_progress env store outs destroyed"
    and "store w (ONs env, DepName d) = Some d" "accepted d" "GetDeploymentOSDID d = Inr i" "dlabel d ''app'' = ''rook-ceph-osd''"
    and "\<And>e. store w (ONs env, DepName e) = Some e \<Longrightarrow> in_progress e \<Longrightarrow> GetDeploymentOSDID e = Inr i \<Longrightarrow> e = d"
    and "rm \<Longrightarrow> \<exists>ds. fst (deps_with (kub env) ''app=rook-ceph-osd'' w) = Inr ds"
  defines "w' \<equiv> snd (checkOSDHealth env rm release w)"
  shows "\<exists>d'. store w' (ONs env, DepName d) = Some d' \<and> accepted d' \<and>
    advance (phase_of (i \<in> outs w) (i \<in> destroyed w) d) (phase_of (i \<in> outs w') (i \<in> destroyed w') d')"
proof -
  obtain x where "checkOSDHealth env rm release w = (x, w')" unfolding w'_def by (metis prod.collapse)
  from osd_progress.health_advances [OF progress assms(2-7) this]
  obtain d' where "d' \<in> ticked d" "store w' (ONs env, DepName d) = Some d'"
    "advance (phase_of (i \<in> outs w) (i \<in> destroyed w) d) (phase_of (i \<in> outs w') (i \<in> destroyed w') d')" by blast
  then show ?thesis using ticked_accepted [OF assms(3)] by blast
qed

text \<open>C7. In a cluster that carries out what it is told, an OSD without encryption whose replacement is the one under way is destroyed
  and its deployment carries the annotation \<^verbatim>\<open>osd.rook.io/replace-ready-for-swap\<close> after four ticks of the health check, and after
  any number of further ones, with the removal of OSDs switched on or off.\<close>
theorem replacement_completes:
  fixes env :: "'w osd_env" and release :: string
  assumes cluster: "willing_cluster env store outs destroyed good" and "good w" and "under_way env store outs destroyed w d i"
    and "\<And>w. fst (isReplaceOSDEncrypted env d w) = Inr False" and "4 \<le> length rms"
  defines "w' \<equiv> snd (fold (happen env) (map HealthTick rms) (release, w))"
  shows "i \<in> destroyed w' \<and> (\<exists>d'. store w' (ONs env, DepName d) = Some d' \<and> has_annotation d' ''osd.rook.io/replace-ready-for-swap'')"
proof -
  obtain release' where "fold (happen env) (map HealthTick rms) (release, w) = (release', w')" unfolding w'_def by (metis prod.collapse)
  from willing_cluster.ticks_move [OF cluster assms(2-4) this]
  obtain d' where d': "under_way env store outs destroyed w' d' i" "DepName d' = DepName d"
    "phase_of (i \<in> outs w') (i \<in> destroyed w') d' = (next_phase ^^ length rms) (phase_of (i \<in> outs w) (i \<in> destroyed w) d)" by blast
  have "(next_phase ^^ (4 + n)) p = Swappable" for p n
    by (induction n) (cases p; simp add: numeral_eq_Suc)+
  with d'(3) have "has_annotation d' ReadyForSwapOSDAnnotationKey"
    using le_Suc_ex [OF assms(5)] by (auto simp: phase_of_def split: if_splits)
  with d'(1,2) show ?thesis by (auto simp: under_way_def ReadyForSwapOSDAnnotationKey_def)
qed


text \<open>Two OSDs, of which the first is being replaced.\<close>

definition way_dep :: OsdDeployment where
  "way_dep = world_dep 0 [(ReplaceOSDAnnotationKey, ''yes-really-replace-osd-0''), (ReplaceInProgressOSDAnnotationKey, ''true'')]"

definition way_world :: osd_world where
  "way_world = world_of True [way_dep, world_dep 1 []]"

lemma way_deps: "set (world_deps way_world) = {way_dep, world_dep 1 []}"
  by code_simp

lemma way_accepted: "accepted way_dep" "GetDeploymentOSDID way_dep = Inr 0" "dlabel way_dep ''app'' = ''rook-ceph-osd''"
    "\<not> in_progress (world_dep 1 [])" "DReplicas way_dep = Some 1" "world_store way_world (ONs world_env, DepName way_dep) = Some way_dep"
  by code_simp+

lemma way_alone:
  assumes "world_store way_world (ONs world_env, DepName e) = Some e" "in_progress e"
  shows "e = way_dep"
proof -
  have "e \<in> set (world_deps way_world)" using assms(1) by (simp add: world_deps_iff world_env_def)
  then show ?thesis using way_deps assms(2) way_accepted(4) by auto
qed

theorem replacement_phases_witness:
  "\<exists>d'. world_store (snd (checkOSDHealth world_env True [] way_world)) (ONs world_env, DepName way_dep) = Some d' \<and> accepted d' \<and>
    advance (phase_of (0 \<in> world_outs way_world) (0 \<in> world_destroyed way_world) way_dep)
      (phase_of (0 \<in> world_outs (snd (checkOSDHealth world_env True [] way_world)))
        (0 \<in> world_destroyed (snd (checkOSDHealth world_env True [] way_world))) d')"
proof (rule replacement_phases [OF world_progress.osd_progress_axioms way_accepted(6,1,2,3)])
  show "\<exists>ds. fst (deps_with (kub world_env) ''app=rook-ceph-osd'' way_world) = Inr ds"
    by (simp add: world_calls way_world_def world_of_def)
qed (use way_alone in blast)

theorem replacement_completes_witness:
  "0 \<in> world_destroyed (snd (fold (happen world_env) (map HealthTick [True, False, True, False]) ([], way_world))) \<and>
   (\<exists>d'. world_store (snd (fold (happen world_env) (map HealthTick [True, False, True, False]) ([], way_world)))
      (ONs world_env, DepName way_dep) = Some d' \<and> has_annotation d' ''osd.rook.io/replace-ready-for-swap'')"
proof (rule replacement_completes [OF world_does.willing_cluster_axioms])
  have "faults (wDeps way_world) = []" "faults (wJobs way_world) = []" "wQuick way_world" "\<not> wBlind way_world" "set (wData way_world) \<subseteq> set (wIn way_world)"
    "GetDeploymentOSDID (world_dep 1 []) = Inr 1" "\<not> selects (OsdIdLabelKey @ ''='' @ Itoa 0) (TemplateLabels (world_dep 1 []))"
    "\<not> selects (OsdIdLabelKey @ ''='' @ Itoa 1) (TemplateLabels way_dep)"
    by code_simp+
  then show "world_good way_world" using way_accepted(2) unfolding world_good_def way_deps by auto
  have "\<not> has_annotation way_dep ReadyForSwapOSDAnnotationKey" by code_simp
  then show "under_way world_env world_store world_outs world_destroyed way_world way_dep 0"
    using way_accepted way_alone by (simp add: under_way_def)
  show "fst (isReplaceOSDEncrypted world_env way_dep w) = Inr False" for w
    by code_simp
qed simp




end
