(* ===== verification/Spec2Isabelle.thy ===== *)
theory Spec2Isabelle
  imports DrainState PeerMap MonQuorum MonDeploy MonStored OsdPhases
begin

text \<open>
  A verification library for the Rook operator, which runs Ceph clusters on Kubernetes.

  \<^bold>\<open>The program.\<close> The operator reconciles custom resources: it reads the objects of Kubernetes and the answers of Ceph's
  commands, decides, and writes objects and runs commands. Modelled are four controllers and what they share: the
  disruption controller, which decides what may be drained; the monitor cluster, which keeps Ceph's monitors in quorum;
  the replacement and the health check of OSDs, the daemons that hold the data; and the configuration of the CSI driver.
  The first relies on the markers that the third puts on deployments, the second stores what the fourth reads, and all of them
  name, label and place their objects by the same helpers.

  \<^bold>\<open>How it is modelled.\<close> Pure functions are HOL functions. Operations with effects take a state and return a value with the new
  state; the state is the struct of the controller together with the world outside. Errors are values: \<open>err\<close> has the
  three ways in which the code makes them, and \<^verbatim>\<open>IsNotFound\<close> sees through a wrapped error and not through one that was formatted
  with \<^verbatim>\<open>%v\<close>. Go maps whose order is visible are association lists. Numbers are integers with the bounds of \<^verbatim>\<open>int64\<close> and \<^verbatim>\<open>int32\<close>
  written out where they matter, key generations are 32-bit words. What is not in the repository - the API server, the
  commands of Ceph, regular expressions, the clock - is a parameter, a field of an environment record, and a locale names what
  is relied on. Every locale is interpreted on an executable reference environment on which the witnesses run.

  \<^bold>\<open>Shared theories.\<close>
  \<^item> \<^verbatim>\<open>Prelude\<close>: errors, strings, \<^verbatim>\<open>strconv\<close>, maps, bounded integers; the locales \<open>codec\<close> for encoder and decoder pairs and
    \<open>machine\<close> for state machines with an invariant.
  \<^item> \<^verbatim>\<open>Effects\<close>: Go's idioms for errors as combinators, and the locale \<open>transitions\<close> for what operations leave alone.
  \<^item> \<^verbatim>\<open>Json\<close> and \<^verbatim>\<open>NetIP\<close>: what the code uses of \<^verbatim>\<open>encoding/json\<close> and \<^verbatim>\<open>net\<close>; a printed value is read back.
  \<^item> \<^verbatim>\<open>Kube\<close> and \<^verbatim>\<open>KubeParts\<close>: the interface of Kubernetes, its contract \<open>kube_api\<close>, in which a failed write may have been
    carried out, and the reference server, which fails by a schedule.
  \<^item> \<^verbatim>\<open>Version\<close>: \<^verbatim>\<open>pkg/operator/ceph/version/version.go\<close>. \<^verbatim>\<open>Names\<close>: \<^verbatim>\<open>pkg/operator/k8sutil/name.go\<close> and \<^verbatim>\<open>k8sutil.go\<close>; names of monitors are a
    bijective numeration. \<^verbatim>\<open>Placement\<close> and \<^verbatim>\<open>Labels\<close>: \<^verbatim>\<open>placement.go\<close>, \<^verbatim>\<open>labels.go\<close>, \<^verbatim>\<open>annotations.go\<close> of \<^verbatim>\<open>pkg/apis/ceph.rook.io/v1\<close> and the
    helpers of \<^verbatim>\<open>k8sutil\<close>; a pod with the affinity merged from two single terms is admitted where both admit it.
  \<^item> \<^verbatim>\<open>Topology\<close>: \<^verbatim>\<open>osd/topology/topology.go\<close>; the check of node labels accepts exactly the labels that give every node a location of
    distinct names above the host. \<^verbatim>\<open>CephClient\<close>: answers of Ceph, \<^verbatim>\<open>pkg/daemon/ceph/client/status.go\<close> and \<^verbatim>\<open>osd.go\<close>.

  \<^bold>\<open>Keys\<close> (\<^verbatim>\<open>Cephx\<close>: \<^verbatim>\<open>config/keyring/cephx.go\<close>). When a key is rotated, that a recorded rotation is not repeated, that the recorded
  status stays well formed along every sequence of reconciles, and that generations grow.

  \<^bold>\<open>Disruption budgets\<close> (\<^verbatim>\<open>Disruption\<close>, \<^verbatim>\<open>DisruptionProps\<close>, \<^verbatim>\<open>DrainState\<close>: \<^verbatim>\<open>osd.go\<close>, \<^verbatim>\<open>pools.go\<close>, \<^verbatim>\<open>static_pdb.go\<close>, \<^verbatim>\<open>reconcile.go\<close> of
  \<^verbatim>\<open>disruption/clusterdisruption\<close>). One reconcile is \<^verbatim>\<open>reconcile\<close>, with its budgets and its config map behind two clients. After a
  reconcile the budgets, the recorded drain and the flag \<^verbatim>\<open>noout\<close> agree; at no moment may pods of two failure domains be evicted, by what the budgets
  select and allow (\<open>guarded\<close>); the draining domain and the failure domain of the pools are the right ones. The locale \<open>disruption\<close> is the
  contract of the environment, \<open>noout_flags\<close> that of the flags, for the names that Ceph takes for buckets.

  \<^bold>\<open>Monitors\<close> (\<^verbatim>\<open>MonInfo\<close>, \<^verbatim>\<open>MonSpec\<close>, \<^verbatim>\<open>MonStore\<close>, \<^verbatim>\<open>MonCluster\<close>, \<^verbatim>\<open>MonStart\<close>, \<^verbatim>\<open>MonHealth\<close>: \<^verbatim>\<open>pkg/operator/ceph/cluster/mon\<close> and
  \<^verbatim>\<open>controller/cluster_info.go\<close>). \<open>mstate\<close> is the struct \<^verbatim>\<open>Cluster\<close>; \<open>startMons\<close>, \<open>failoverMon\<close> and \<open>checkHealth\<close> are its operations.
  \<^verbatim>\<open>MonSafety\<close>: a failover replaces one monitor by a fresh one or leaves the monitors, the mapping and the highest identifier as they were, and
  a health check loses at most one monitor. \<^verbatim>\<open>MonQuorum\<close>: when the budget leaves a majority, waiting for quorum ends, a monitor that stays out of quorum is failed
  over. \<^verbatim>\<open>MonStored\<close>: a restarted operator loads the monitors a failover has left. \<^verbatim>\<open>MonStore\<close>: what is stored is read back and an
  identifier once committed is not forgotten. \<^verbatim>\<open>MonSpec\<close>: zones are respected and new monitors are fresh. \<^verbatim>\<open>MonDeploy\<close>: selectors match
  pods. \<^verbatim>\<open>MonWorld\<close> is the reference environment.

  \<^bold>\<open>OSDs\<close> (\<^verbatim>\<open>OsdClient\<close>, \<^verbatim>\<open>OsdInfo\<close>, \<^verbatim>\<open>OsdReplace\<close>: \<^verbatim>\<open>pkg/daemon/ceph/client/osd.go\<close> and \<^verbatim>\<open>upgrade.go\<close>, \<^verbatim>\<open>osd.go\<close>, \<^verbatim>\<open>replace.go\<close>, \<^verbatim>\<open>replace_destroy.go\<close>,
  \<^verbatim>\<open>replace_job.go\<close>, \<^verbatim>\<open>health.go\<close> of \<^verbatim>\<open>pkg/operator/ceph/cluster/osd\<close>). The operator remembers nothing of a replacement: its phase is read
  off the deployment and off Ceph. \<^verbatim>\<open>OsdSafety\<close>: no run of health checks and reconciles destroys an OSD that runs or holds data stored
  nowhere else (locales \<open>osd_calls\<close> and \<open>osd_cluster\<close>). \<^verbatim>\<open>OsdPhases\<close>: a tick of the health check moves each replacement at most
  one phase forward (\<open>osd_progress\<close>), unless its first call fails and OSDs that are out are to be removed, and four ticks are enough in a
  cluster that does as it is told (\<open>willing_cluster\<close>). \<^verbatim>\<open>OsdInfo\<close>: the status of a key is read back from the annotations of the pods
  (\<^verbatim>\<open>spec.go\<close>). \<^verbatim>\<open>OsdClient\<close>: when a daemon may be stopped for an upgrade. \<^verbatim>\<open>OsdWorld\<close> is the reference environment.

  \<^bold>\<open>CSI\<close> (\<^verbatim>\<open>CsiConfig\<close>, \<^verbatim>\<open>PeerMap\<close>: \<^verbatim>\<open>csi/cluster_config.go\<close>, \<^verbatim>\<open>ceph_connection.go\<close>, \<^verbatim>\<open>peermap/config.go\<close>). What an update does to the entries, and
  that the mapping of peers is stored.

  \<^bold>\<open>Bounds.\<close> The loops that may wait are bounded in the code and recurse on the same number here: 60 passes for quorum, 30 tries for a canary,
  45 polls after a deletion, 30 polls for a job, and the retries of the check before an upgrade. No fuel is added to any of them.

  \<^bold>\<open>Where the code falls short.\<close> Some theorems show behaviour that is not meant: a claim template per zone makes the storage of a monitor
  look changed on every reconcile, marking a monitor out of quorum forgets the others, the watch does not see the failover of a monitor
  without a node, a second peer of a pool is dropped, switching the draining domain is not guarded against a failed call, and a failed
  list of the deployments lets the health check remove an OSD that is being replaced. The budget of the monitors is made for the number
  that is specified, also while there are fewer. A failed failover leaves the new monitor noted as the arbiter.

  \<^bold>\<open>Not modelled.\<close> Goroutines, watches and intervals: the operations are called one at a time, and other writers act between them. The
  contents of pod templates beyond what is read back. Creating and updating OSDs, device sets and migration, whose steps are mostly
  pod templates and runs of \<^verbatim>\<open>ceph-volume\<close>. The controllers of object stores, file systems, pools and gateways, the manager, key
  management and the daemons on the nodes, which drive tools whose answers decide nearly every step. Generated code. Log messages.
\<close>

end
